(* ===== verification/Taskforge_Prelude.thy ===== *)
theory Taskforge_Prelude
  imports Main "HOL-Library.Word" "HOL-Library.Sublist"
begin

text \<open>
  The prelude of the development: how C++ results, exceptions and sequencing are written in HOL,
  the conversions the worker performs on machine integers and C strings, the decimal printing of
  \<^verbatim>\<open>std::format\<close>, and the facts about them that every component uses.

  \<^item> \<^verbatim>\<open>std::expected<T, std::string>\<close> is the sum \<open>'a expected\<close>, \<open>Inl\<close> the error text.
  \<^item> A C++ exception that leaves a function is \<open>Throw\<close>; a normal return is \<open>Return\<close>.
  \<^item> A stateful function is a computation \<open>'w \<Rightarrow> 'a outcome \<times> 'w\<close>; \<open>bindE\<close> runs two in
    sequence and passes an exception on, with the state reached when it was thrown.
\<close>

named_theorems run_simps "symbolic execution of computations"

section \<open>Results, exceptions and sequencing\<close>

datatype exn = Out_of_range string | Not_kind string | Filesystem_error string | Null_pointer string | Future_error

datatype 'a outcome = Return 'a | Throw exn

type_synonym 'a expected = "string + 'a"

type_synonym ('w, 'a) comp = "'w \<Rightarrow> 'a outcome \<times> 'w"

definition ret :: "'a \<Rightarrow> ('w, 'a) comp" where
  "ret a w = (Return a, w)"

definition bindE :: "('w, 'a) comp \<Rightarrow> ('a \<Rightarrow> ('w, 'b) comp) \<Rightarrow> ('w, 'b) comp" where
  "bindE m f w = (case m w of (Return a, w') \<Rightarrow> f a w' | (Throw e, w') \<Rightarrow> (Throw e, w'))"

definition of_outcome :: "'a outcome \<Rightarrow> ('w, 'a) comp" where
  "of_outcome r w = (r, w)"

definition modify :: "('w \<Rightarrow> 'w) \<Rightarrow> ('w, unit) comp" where
  "modify f w = (Return (), f w)"

definition gets :: "('w \<Rightarrow> 'a) \<Rightarrow> ('w, 'a) comp" where
  "gets f w = (Return (f w), w)"

text \<open>Scope exit: the destructor \<open>d\<close> runs after \<open>m\<close>, on a return and on an exception alike.\<close>

definition finallyE :: "('w, 'a) comp \<Rightarrow> ('w \<Rightarrow> 'w) \<Rightarrow> ('w, 'a) comp" where
  "finallyE m d w = (case m w of (r, w') \<Rightarrow> (r, d w'))"

lemma ret_run [run_simps]: "ret a w = (Return a, w)"
  by (simp add: ret_def)

lemma modify_run [run_simps]: "modify f w = (Return (), f w)"
  by (simp add: modify_def)

lemma gets_run [run_simps]: "gets f w = (Return (f w), w)"
  by (simp add: gets_def)

lemma of_outcome_run [run_simps]:
  "of_outcome (Return a) w = (Return a, w)"
  "of_outcome (Throw e) w = (Throw e, w)"
  by (simp_all add: of_outcome_def)

lemma bindE_run [run_simps]:
  "m w = (Return a, w') \<Longrightarrow> bindE m f w = f a w'"
  "m w = (Throw e, w') \<Longrightarrow> bindE m f w = (Throw e, w')"
  by (simp_all add: bindE_def)

lemma bindE_ret_left [run_simps]: "bindE (ret a) f = f a"
  by (rule ext) (simp add: bindE_def ret_def)

lemma bindE_of_outcome [run_simps]: "bindE (of_outcome (Return a)) f = f a"
  by (rule ext) (simp add: bindE_def of_outcome_def)

lemma bindE_assoc: "bindE (bindE m f) g = bindE m (\<lambda>a. bindE (f a) g)"
  by (rule ext) (simp add: bindE_def split: prod.split outcome.split)

text \<open>When a chain of checks succeeds.\<close>

named_theorems expected_ok "success of a chain of checks"

lemma expected_ok_option [expected_ok]:
  "(case x of None \<Rightarrow> Inl e | Some v \<Rightarrow> f v) = Inr u \<longleftrightarrow> (\<exists>v. x = Some v \<and> f v = Inr u)"
  by (cases x) simp_all

lemma expected_ok_if [expected_ok]: "(if b then Inl e else r) = Inr u \<longleftrightarrow> \<not> b \<and> r = Inr u"
  by simp

lemma expected_ok_sum [expected_ok]:
  "(case r of Inl e \<Rightarrow> Inl e | Inr (_ :: unit) \<Rightarrow> s) = Inr u \<longleftrightarrow> r = Inr () \<and> s = Inr u"
  by (cases r) simp_all

section \<open>C strings and machine integers\<close>

text \<open>\<^verbatim>\<open>c_str()\<close> assigned to a \<^verbatim>\<open>std::string\<close>: the text up to the first NUL byte.\<close>

definition c_str :: "string \<Rightarrow> string" where
  "c_str s = takeWhile (\<lambda>c. c \<noteq> CHR 0x00) s"

lemma c_str_id: "CHR 0x00 \<notin> set s \<Longrightarrow> c_str s = s"
  unfolding c_str_def by (induction s) auto

lemma c_str_no_nul [simp]: "CHR 0x00 \<notin> set (c_str s)"
  unfolding c_str_def by (auto dest: set_takeWhileD)

lemma c_str_idem [simp]: "c_str (c_str s) = c_str s"
  by (rule c_str_id) simp

text \<open>
  \<^verbatim>\<open>(int)x\<close> of a 64-bit value keeps the low 32 bits, read as two's complement.
\<close>

definition cast_int :: "int \<Rightarrow> int" where
  "cast_int i = signed_take_bit 31 i"

abbreviation int_max :: int where "int_max \<equiv> 2147483647"
abbreviation int_min :: int where "int_min \<equiv> - 2147483648"

lemma cast_int_range: "int_min \<le> cast_int i" "cast_int i \<le> int_max"
proof -
  have "- (2 ^ 31) \<le> signed_take_bit 31 i" and "signed_take_bit 31 i < 2 ^ 31"
    by (rule signed_take_bit_int_greater_eq_minus_exp, rule signed_take_bit_int_less_exp)
  then show "int_min \<le> cast_int i" "cast_int i \<le> int_max"
    by (simp_all add: cast_int_def)
qed

lemma cast_int_id: "int_min \<le> i \<Longrightarrow> i \<le> int_max \<Longrightarrow> cast_int i = i"
  unfolding cast_int_def by (rule signed_take_bit_int_eq_self) simp_all

lemma cast_int_idem [simp]: "cast_int (cast_int i) = cast_int i"
  by (rule cast_int_id) (rule cast_int_range)+

lemma cast_int_overflow: "cast_int (int_max + 1) = int_min"
  by (simp add: cast_int_def signed_take_bit_int_eq_self_iff signed_take_bit_eq_take_bit_minus take_bit_eq_mod)

section \<open>Decimal printing\<close>

definition digit_char :: "nat \<Rightarrow> char" where
  "digit_char d = char_of (48 + d)"

fun show_nat :: "nat \<Rightarrow> string" where
  "show_nat n = (if n < 10 then [digit_char n] else show_nat (n div 10) @ [digit_char (n mod 10)])"

declare show_nat.simps [simp del]

definition show_int :: "int \<Rightarrow> string" where
  "show_int i = (if i < 0 then ''-'' @ show_nat (nat (- i)) else show_nat (nat i))"

definition is_digit :: "char \<Rightarrow> bool" where
  "is_digit c \<longleftrightarrow> 48 \<le> (of_char c :: nat) \<and> of_char c \<le> (57 :: nat)"

definition read_nat :: "string \<Rightarrow> nat" where
  "read_nat s = foldl (\<lambda>n c. 10 * n + (of_char c - 48)) 0 s"

lemma is_digit_digit_char [simp]: "d < 10 \<Longrightarrow> is_digit (digit_char d)"
  by (simp add: is_digit_def digit_char_def)

lemma of_char_digit_char [simp]: "d < 10 \<Longrightarrow> of_char (digit_char d) = 48 + d"
  by (simp add: digit_char_def)

lemma show_nat_digits: "c \<in> set (show_nat n) \<Longrightarrow> is_digit c"
proof (induction n rule: show_nat.induct)
  case (1 n)
  then show ?case by (cases "n < 10") (auto simp: show_nat.simps [of n])
qed

lemma show_nat_nonempty [simp]: "show_nat n \<noteq> []"
  by (subst show_nat.simps) simp

lemma read_show_nat [simp]: "read_nat (show_nat n) = n"
proof (induction n rule: show_nat.induct)
  case (1 n)
  show ?case
  proof (cases "n < 10")
    case True
    then show ?thesis by (simp add: show_nat.simps [of n] read_nat_def)
  next
    case False
    then have "read_nat (show_nat n) = 10 * read_nat (show_nat (n div 10)) + n mod 10"
      by (simp add: show_nat.simps [of n] read_nat_def)
    with 1 False show ?thesis by simp
  qed
qed

lemma show_nat_inj: "show_nat m = show_nat n \<Longrightarrow> m = n"
  by (metis read_show_nat)

lemma minus_not_digit [simp]: "\<not> is_digit (CHR ''-'')"
  by (simp add: is_digit_def)

lemma show_nat_hd_digit: "is_digit (hd (show_nat n))"
  by (rule show_nat_digits [of _ n]) simp

lemma show_int_inj: "show_int i = show_int j \<Longrightarrow> i = j"
proof -
  assume eq: "show_int i = show_int j"
  have "\<And>m s. show_nat m \<noteq> CHR ''-'' # s"
    using show_nat_hd_digit by (metis list.sel(1) minus_not_digit)
  with eq have "i < 0 \<longleftrightarrow> j < 0"
    unfolding show_int_def by (metis append_Cons append_Nil)
  with eq show ?thesis
    unfolding show_int_def by (auto dest: show_nat_inj split: if_splits)
qed

end
