(* ===== verification/Utf8_Text.thy ===== *)
theory Utf8_Text
  imports Taskforge_Prelude
begin

text \<open>
  Well-formed UTF-8 (RFC 3629) on byte strings. \<^verbatim>\<open>boost::json::parse\<close> rejects a text that is not
  UTF-8, so whether a document the worker writes can be read back depends on the strings in it.
  The main fact is \<open>utf8_valid_resync\<close>: a suffix of well-formed text, cut anywhere, is well formed
  again once its leading continuation bytes are dropped.
\<close>

abbreviation byte :: "char \<Rightarrow> nat" where "byte c \<equiv> of_char c"

definition is_cont :: "char \<Rightarrow> bool" where
  "is_cont c \<longleftrightarrow> 0x80 \<le> byte c \<and> byte c < 0xC0"

text \<open>How many continuation bytes follow a lead byte; \<open>None\<close> for a byte that cannot lead.\<close>

definition utf8_trail :: "char \<Rightarrow> nat option" where
  "utf8_trail c =
     (let n = byte c in
      if n < 0x80 then Some 0
      else if 0xC2 \<le> n \<and> n \<le> 0xDF then Some 1
      else if 0xE0 \<le> n \<and> n \<le> 0xEF then Some 2
      else if 0xF0 \<le> n \<and> n \<le> 0xF4 then Some 3
      else None)"

text \<open>The second byte excludes overlong forms, surrogates and code points past U+10FFFF.\<close>

definition utf8_second :: "char \<Rightarrow> char \<Rightarrow> bool" where
  "utf8_second a b =
     (if byte a = 0xE0 then 0xA0 \<le> byte b
      else if byte a = 0xED then byte b \<le> 0x9F
      else if byte a = 0xF0 then 0x90 \<le> byte b
      else if byte a = 0xF4 then byte b \<le> 0x8F
      else True)"

fun utf8_valid :: "string \<Rightarrow> bool" where
  "utf8_valid [] = True"
| "utf8_valid (a # s) =
     (case utf8_trail a of
        None \<Rightarrow> False
      | Some k \<Rightarrow> k \<le> length s \<and> list_all is_cont (take k s) \<and>
                  (0 < k \<longrightarrow> utf8_second a (hd s)) \<and> utf8_valid (drop k s))"

definition ascii :: "string \<Rightarrow> bool" where
  "ascii s \<longleftrightarrow> list_all (\<lambda>c. byte c < 0x80) s"

lemma trail_not_cont: "utf8_trail a = Some k \<Longrightarrow> \<not> is_cont a"
  by (auto simp: utf8_trail_def is_cont_def Let_def split: if_splits)

lemma trail_ascii: "byte a < 0x80 \<Longrightarrow> utf8_trail a = Some 0"
  by (simp add: utf8_trail_def)

lemma utf8_valid_append: "utf8_valid s \<Longrightarrow> utf8_valid t \<Longrightarrow> utf8_valid (s @ t)"
proof (induction s rule: utf8_valid.induct)
  case (2 a s)
  then obtain k where k: "utf8_trail a = Some k" "k \<le> length s" "list_all is_cont (take k s)"
    "0 < k \<longrightarrow> utf8_second a (hd s)" "utf8_valid (drop k s)"
    by (auto split: option.splits)
  with "2.IH" [OF k(1,5)] "2.prems"(2) have "utf8_valid (drop k s @ t)" by simp
  moreover have "0 < k \<longrightarrow> hd (s @ t) = hd s" using k(2) by (cases s) auto
  ultimately show ?case using k by simp
qed simp

lemma utf8_valid_ascii: "ascii s \<Longrightarrow> utf8_valid s"
  by (induction s) (simp_all add: ascii_def trail_ascii)

lemma utf8_valid_tail: "utf8_valid (a # s) \<Longrightarrow> utf8_trail a = Some k \<Longrightarrow> utf8_valid (drop k s)"
  by simp

lemma utf8_valid_resync: "utf8_valid s \<Longrightarrow> utf8_valid (dropWhile is_cont (drop n s))"
proof (induction s arbitrary: n rule: utf8_valid.induct)
  case (2 a s)
  then obtain k where k: "utf8_trail a = Some k" "k \<le> length s" "list_all is_cont (take k s)"
    "utf8_valid (drop k s)"
    by (auto split: option.splits)
  note IH = "2.IH" [OF k(1) k(4)]
  show ?case
  proof (cases n)
    case 0
    with trail_not_cont [OF k(1)] "2.prems" show ?thesis by simp
  next
    case (Suc m)
    show ?thesis
    proof (cases "k \<le> m")
      case True
      then have "drop m s = drop (m - k) (drop k s)" by simp
      with IH [of "m - k"] Suc show ?thesis by simp
    next
      case False
      then have "drop m s = drop m (take k s) @ drop k s"
        using k(2) drop_append [of m "take k s" "drop k s"] by simp
      moreover have "list_all is_cont (drop m (take k s))"
        using k(3) by (auto simp: list_all_iff dest: in_set_dropD)
      ultimately have "dropWhile is_cont (drop m s) = dropWhile is_cont (drop k s)"
        by (simp add: dropWhile_append2 list_all_iff)
      with IH [of 0] Suc show ?thesis by simp
    qed
  qed
qed simp

lemma utf8_valid_starts: "utf8_valid s \<Longrightarrow> dropWhile is_cont s = s"
  by (cases s) (auto dest: trail_not_cont split: option.splits)

text \<open>Wherever well-formed text is cut, at most three continuation bytes follow the cut.\<close>

lemma utf8_cont_run: "utf8_valid s \<Longrightarrow> length (takeWhile is_cont (drop n s)) \<le> 3"
proof (induction s arbitrary: n rule: utf8_valid.induct)
  case (2 a s)
  then obtain k where k: "utf8_trail a = Some k" "k \<le> length s" "list_all is_cont (take k s)"
    "utf8_valid (drop k s)"
    by (auto split: option.splits)
  have "k \<le> 3" using k(1) by (auto simp: utf8_trail_def Let_def split: if_splits)
  show ?case
  proof (cases n)
    case 0
    with trail_not_cont [OF k(1)] show ?thesis by simp
  next
    case (Suc m)
    show ?thesis
    proof (cases "k \<le> m")
      case True
      then have "drop m s = drop (m - k) (drop k s)" by simp
      with "2.IH" [OF k(1,4), of "m - k"] Suc show ?thesis by simp
    next
      case False
      have "takeWhile is_cont (drop k s) = []"
        using utf8_valid_starts [OF k(4)] takeWhile_dropWhile_id [of is_cont "drop k s"] by simp
      moreover have "drop m s = drop m (take k s) @ drop k s"
        using False k(2) drop_append [of m "take k s" "drop k s"] by simp
      moreover have "list_all is_cont (drop m (take k s))"
        using k(3) by (auto simp: list_all_iff dest: in_set_dropD)
      ultimately have "takeWhile is_cont (drop m s) = drop m (take k s)"
        by (simp add: takeWhile_append2 list_all_iff)
      with Suc \<open>k \<le> 3\<close> k(2) show ?thesis by simp
    qed
  qed
qed simp

text \<open>Cutting at the first NUL keeps the text well formed: NUL is never a continuation byte.\<close>

lemma utf8_valid_c_str: "utf8_valid s \<Longrightarrow> utf8_valid (c_str s)"
proof (induction s rule: utf8_valid.induct)
  case (2 a s)
  then obtain k where k: "utf8_trail a = Some k" "k \<le> length s" "list_all is_cont (take k s)"
    "0 < k \<longrightarrow> utf8_second a (hd s)" "utf8_valid (drop k s)"
    by (auto split: option.splits)
  show ?case
  proof (cases "a = CHR 0x00")
    case False
    have nn: "\<forall>c \<in> set (take k s). c \<noteq> CHR 0x00"
      using k(3) by (auto simp: list_all_iff is_cont_def)
    have "takeWhile (\<lambda>c. c \<noteq> CHR 0x00) (take k s @ drop k s) =
        take k s @ takeWhile (\<lambda>c. c \<noteq> CHR 0x00) (drop k s)"
      by (rule takeWhile_append2) (use nn in blast)
    then have eq: "c_str s = take k s @ c_str (drop k s)"
      by (simp add: c_str_def)
    then have "c_str (a # s) = a # take k s @ c_str (drop k s)"
      using False by (simp add: c_str_def)
    moreover have "0 < k \<longrightarrow> hd (take k s @ c_str (drop k s)) = hd s"
      using k(2) by (cases s; cases k) auto
    ultimately show ?thesis using k "2.IH" [OF k(1,5)] by simp
  qed (simp add: c_str_def)
qed (simp add: c_str_def)

lemma ascii_append [simp]: "ascii (s @ t) \<longleftrightarrow> ascii s \<and> ascii t"
  by (simp add: ascii_def)

lemma ascii_Nil [simp]: "ascii []"
  by (simp add: ascii_def)

lemma ascii_Cons [simp]: "ascii (c # s) \<longleftrightarrow> byte c < 0x80 \<and> ascii s"
  by (simp add: ascii_def)

lemma ascii_show_nat [simp]: "ascii (show_nat n)"
  unfolding ascii_def list_all_iff by (auto simp: is_digit_def dest!: show_nat_digits)

lemma ascii_show_int [simp]: "ascii (show_int i)"
  by (simp add: show_int_def)

text \<open>Evaluation on literals: an ASCII byte is skipped.\<close>

lemma utf8_valid_ascii_Cons [simp]: "byte a < 0x80 \<Longrightarrow> utf8_valid (a # s) \<longleftrightarrow> utf8_valid s"
  by (simp add: trail_ascii)

declare utf8_valid.simps(2) [simp del]

end
