(* ===== verification/Json_Values.thy ===== *)
theory Json_Values
  imports Utf8_Text
begin

text \<open>
  The JSON values the worker handles. A value has the kinds of \<^verbatim>\<open>boost::json::value\<close>; an object is
  the list of its members in order. The member operations are those the worker calls, with their
  documented effect: \<^verbatim>\<open>contains\<close>, the throwing \<^verbatim>\<open>at\<close>, \<^verbatim>\<open>operator[]\<close> followed by an assignment
  (in place, or at the end), and \<^verbatim>\<open>erase\<close> (the last member takes the erased place).

  Parsing and serializing are code of Boost.JSON, outside the repository: they are parameters of
  every definition that uses them, and the locale \<open>json_codec\<close> names what the worker relies on.
\<close>

section \<open>Values\<close>

datatype json =
    JNull
  | JBool bool
  | JInt64 int
  | JUInt64 int
  | JDouble "64 word"
  | JString string
  | JArray "json list"
  | JObject "(string \<times> json) list"

type_synonym jobject = "(string \<times> json) list"

fun is_string :: "json \<Rightarrow> bool" where
  "is_string (JString _) = True" | "is_string _ = False"

fun is_object :: "json \<Rightarrow> bool" where
  "is_object (JObject _) = True" | "is_object _ = False"

fun is_array :: "json \<Rightarrow> bool" where
  "is_array (JArray _) = True" | "is_array _ = False"

fun is_int64 :: "json \<Rightarrow> bool" where
  "is_int64 (JInt64 _) = True" | "is_int64 _ = False"

fun is_null :: "json \<Rightarrow> bool" where
  "is_null JNull = True" | "is_null _ = False"

text \<open>The throwing accessors.\<close>

fun as_string :: "json \<Rightarrow> string outcome" where
  "as_string (JString s) = Return s" | "as_string _ = Throw (Not_kind ''string'')"

fun as_object :: "json \<Rightarrow> jobject outcome" where
  "as_object (JObject members) = Return members" | "as_object _ = Throw (Not_kind ''object'')"

fun as_array :: "json \<Rightarrow> json list outcome" where
  "as_array (JArray vs) = Return vs" | "as_array _ = Throw (Not_kind ''array'')"

fun as_int64 :: "json \<Rightarrow> int outcome" where
  "as_int64 (JInt64 i) = Return i" | "as_int64 _ = Throw (Not_kind ''int64'')"

section \<open>Objects\<close>

definition obj_find :: "jobject \<Rightarrow> string \<Rightarrow> json option" where
  "obj_find members k = map_of members k"

definition obj_contains :: "jobject \<Rightarrow> string \<Rightarrow> bool" where
  "obj_contains members k \<longleftrightarrow> obj_find members k \<noteq> None"

definition obj_at :: "jobject \<Rightarrow> string \<Rightarrow> json outcome" where
  "obj_at members k = (case obj_find members k of None \<Rightarrow> Throw (Out_of_range k) | Some v \<Rightarrow> Return v)"

fun obj_set :: "string \<Rightarrow> json \<Rightarrow> jobject \<Rightarrow> jobject" where
  "obj_set k v [] = [(k, v)]"
| "obj_set k v ((k', v') # members) =
     (if k' = k then (k, v) # members else (k', v') # obj_set k v members)"

definition obj_erase :: "string \<Rightarrow> jobject \<Rightarrow> jobject" where
  "obj_erase k members =
     (if \<not> obj_contains members k then members
      else if fst (last members) = k then butlast members
      else map (\<lambda>p. if fst p = k then last members else p) (butlast members))"

abbreviation obj_keys :: "jobject \<Rightarrow> string list" where
  "obj_keys members \<equiv> map fst members"

definition obj_inv :: "jobject \<Rightarrow> bool" where
  "obj_inv members \<longleftrightarrow> distinct (obj_keys members)"

lemma obj_find_Nil [simp]: "obj_find [] k = None"
  by (simp add: obj_find_def)

lemma obj_find_set: "obj_find (obj_set k v members) = (obj_find members)(k \<mapsto> v)"
proof
  fix j
  show "obj_find (obj_set k v members) j = ((obj_find members)(k \<mapsto> v)) j"
    by (induction k v members rule: obj_set.induct) (auto simp: obj_find_def)
qed

lemma obj_keys_set: "set (obj_keys (obj_set k v members)) = insert k (set (obj_keys members))"
  by (induction k v members rule: obj_set.induct) auto

lemma obj_inv_Nil [simp]: "obj_inv []"
  by (simp add: obj_inv_def)

lemma obj_inv_set: "obj_inv members \<Longrightarrow> obj_inv (obj_set k v members)"
  unfolding obj_inv_def
proof (induction k v members rule: obj_set.induct)
  case (2 k v k' v' members)
  have keys: "fst ` set (obj_set k v members) = insert k (fst ` set members)"
    using obj_keys_set [of k v members] by simp
  from 2 keys show ?case by auto
qed simp

text \<open>Erasing swaps the last member into the hole; the remaining members are exactly the others.\<close>

lemma obj_erase_split:
  assumes "obj_inv (ps @ (k, u) # qs @ [(l, v)])"
  shows "obj_erase k (ps @ (k, u) # qs @ [(l, v)]) = ps @ (l, v) # qs"
proof -
  have "k \<noteq> l" and out: "\<forall>p \<in> set ps \<union> set qs. fst p \<noteq> k"
    using assms by (auto simp: obj_inv_def)
  have id: "map (\<lambda>p. if fst p = k then (l, v) else p) xs = xs" if "set xs \<subseteq> set ps \<union> set qs" for xs
    using that out by (intro map_idI) auto
  have "obj_contains (ps @ (k, u) # qs @ [(l, v)]) k"
    by (auto simp: obj_contains_def obj_find_def map_add_def split: option.split)
  moreover have "last (ps @ (k, u) # qs @ [(l, v)]) = (l, v)"
    by (simp add: last_append)
  ultimately show ?thesis
    using \<open>k \<noteq> l\<close> id [of ps] id [of qs] by (simp add: obj_erase_def butlast_append cong: if_cong)
qed

lemma obj_erase_absent: "k \<notin> set (obj_keys members) \<Longrightarrow> obj_erase k members = members"
  by (simp add: obj_erase_def obj_contains_def obj_find_def map_of_eq_None_iff)

lemma obj_erase_cases:
  assumes "obj_inv members"
  obtains (absent) "k \<notin> set (obj_keys members)" "obj_erase k members = members"
  | (last) ps v where "members = ps @ [(k, v)]" "obj_erase k members = ps"
  | (swap) ps u qs l v where "members = ps @ (k, u) # qs @ [(l, v)]"
      "obj_erase k members = ps @ (l, v) # qs"
proof (cases "k \<in> set (obj_keys members)")
  case False
  then show ?thesis by (rule absent) (rule obj_erase_absent [OF False])
next
  case True
  then obtain ps u rs where m: "members = ps @ (k, u) # rs"
    by (metis (no_types, lifting) imageE list.set_map prod.collapse split_list)
  show ?thesis
  proof (cases rs rule: rev_cases)
    case Nil
    have "obj_contains members k"
      by (auto simp: m obj_contains_def obj_find_def map_add_def split: option.split)
    with Nil m show ?thesis by (intro last [of ps u]) (simp_all add: obj_erase_def)
  next
    case (snoc qs lv)
    then obtain l v where "members = ps @ (k, u) # qs @ [(l, v)]" using m by (cases lv) simp
    with assms show ?thesis by (intro swap [of ps u qs l v]) (simp_all add: obj_erase_split)
  qed
qed

lemma obj_inv_erase:
  assumes "obj_inv members"
  shows "obj_inv (obj_erase k members)"
  by (rule obj_erase_cases [OF assms, of k]) (use assms in \<open>auto simp: obj_inv_def\<close>)

lemma set_obj_erase:
  assumes "obj_inv members"
  shows "set (obj_erase k members) = {p \<in> set members. fst p \<noteq> k}"
  by (rule obj_erase_cases [OF assms, of k]) (use assms in \<open>auto simp: obj_inv_def\<close>)

lemma obj_find_erase:
  assumes "obj_inv members"
  shows "obj_find (obj_erase k members) = (obj_find members)(k := None)"
proof
  fix j
  have d: "distinct (map fst members)" "distinct (map fst (obj_erase k members))"
    using assms obj_inv_erase [OF assms] by (simp_all add: obj_inv_def)
  have "obj_find (obj_erase k members) j = Some v \<longleftrightarrow> ((obj_find members)(k := None)) j = Some v" for v
    using d by (auto simp: obj_find_def set_obj_erase [OF assms])
  then show "obj_find (obj_erase k members) j = ((obj_find members)(k := None)) j"
    by (metis not_Some_eq)
qed

declare obj_set.simps [simp del] obj_find_set [simp]

section \<open>Members of one kind\<close>

text \<open>A member that is present and of the wanted kind.\<close>

definition get_string :: "jobject \<Rightarrow> string \<Rightarrow> string option" where
  "get_string members k = (case obj_find members k of Some (JString s) \<Rightarrow> Some s | _ \<Rightarrow> None)"

definition get_object :: "jobject \<Rightarrow> string \<Rightarrow> jobject option" where
  "get_object members k = (case obj_find members k of Some (JObject ms) \<Rightarrow> Some ms | _ \<Rightarrow> None)"

definition get_array :: "jobject \<Rightarrow> string \<Rightarrow> json list option" where
  "get_array members k = (case obj_find members k of Some (JArray vs) \<Rightarrow> Some vs | _ \<Rightarrow> None)"

lemma get_string_Some: "get_string ms k = Some s \<longleftrightarrow> obj_find ms k = Some (JString s)"
  by (auto simp: get_string_def split: option.splits json.splits)

lemma get_string_None: "get_string ms k = None \<longleftrightarrow> (\<nexists>s. obj_find ms k = Some (JString s))"
  by (metis get_string_Some not_Some_eq)

lemma get_object_Some: "get_object ms k = Some t \<longleftrightarrow> obj_find ms k = Some (JObject t)"
  by (auto simp: get_object_def split: option.splits json.splits)

lemma get_array_Some: "get_array ms k = Some vs \<longleftrightarrow> obj_find ms k = Some (JArray vs)"
  by (auto simp: get_array_def split: option.splits json.splits)

section \<open>The member interface\<close>

text \<open>
  What a client of an object relies on: stored values are found, erased keys are not, and the
  invariant is kept. The loop that merges an update object into a document is verified once,
  against this interface.
\<close>

locale member_map =
  fixes find :: "'m \<Rightarrow> 'k \<Rightarrow> 'v option"
    and store :: "'k \<Rightarrow> 'v \<Rightarrow> 'm \<Rightarrow> 'm"
    and erase :: "'k \<Rightarrow> 'm \<Rightarrow> 'm"
    and inv :: "'m \<Rightarrow> bool"
  assumes find_store: "inv m \<Longrightarrow> find (store k v m) = (find m)(k \<mapsto> v)"
    and find_erase: "inv m \<Longrightarrow> find (erase k m) = (find m)(k := None)"
    and inv_store: "inv m \<Longrightarrow> inv (store k v m)"
    and inv_erase: "inv m \<Longrightarrow> inv (erase k m)"
begin

lemmas specs = find_store find_erase inv_store inv_erase

lemma inv_merge:
  "inv m \<Longrightarrow> inv (fold (\<lambda>(k, v) d. if drop_it v then erase k d else store k v d) us m)"
  by (induction us arbitrary: m) (auto simp: specs)

lemma find_merge:
  assumes "inv m" and "distinct (map fst us)"
  shows "find (fold (\<lambda>(k, v) d. if drop_it v then erase k d else store k v d) us m) j =
    (case map_of us j of
       None \<Rightarrow> find m j
     | Some v \<Rightarrow> if drop_it v then None else Some v)"
  using assms
proof (induction us arbitrary: m)
  case (Cons u us)
  obtain k v where u: "u = (k, v)" by (cases u)
  have inv': "inv (if drop_it v then erase k m else store k v m)"
    using Cons.prems by (simp add: specs)
  have "k \<notin> fst ` set us" and "distinct (map fst us)"
    using Cons.prems u by auto
  then have "map_of us k = None" by (simp add: map_of_eq_None_iff)
  with Cons.IH [OF inv' \<open>distinct (map fst us)\<close>] Cons.prems u show ?case
    by (auto simp: specs split: option.split)
qed simp

end

interpretation members: member_map obj_find obj_set obj_erase obj_inv
  by unfold_locales (simp_all add: obj_find_set obj_find_erase obj_inv_set obj_inv_erase)

section \<open>Well-formed values\<close>

text \<open>
  What \<^verbatim>\<open>boost::json::parse\<close> can return: member names are distinct, every string is UTF-8, a
  number is \<^verbatim>\<open>int64\<close> when it fits, nesting is at most 32 deep (the parser's default limit).
\<close>

primrec json_ok :: "json \<Rightarrow> bool" where
  "json_ok JNull = True"
| "json_ok (JBool b) = True"
| "json_ok (JInt64 i) = (- (2 ^ 63) \<le> i \<and> i < 2 ^ 63)"
| "json_ok (JUInt64 i) = (2 ^ 63 \<le> i \<and> i < 2 ^ 64)"
| "json_ok (JDouble d) = True"
| "json_ok (JString s) = utf8_valid s"
| "json_ok (JArray vs) = list_all id (map json_ok vs)"
| "json_ok (JObject members) =
     (distinct (map fst members) \<and> list_all (\<lambda>(k, good). utf8_valid k \<and> good) (map (map_prod id json_ok) members))"

primrec json_depth :: "json \<Rightarrow> nat" where
  "json_depth JNull = 0"
| "json_depth (JBool b) = 0"
| "json_depth (JInt64 i) = 0"
| "json_depth (JUInt64 i) = 0"
| "json_depth (JDouble d) = 0"
| "json_depth (JString s) = 0"
| "json_depth (JArray vs) = Suc (fold max (map json_depth vs) 0)"
| "json_depth (JObject members) = Suc (fold max (map snd (map (map_prod id json_depth) members)) 0)"

definition json_doc_ok :: "json \<Rightarrow> bool" where
  "json_doc_ok v \<longleftrightarrow> json_ok v \<and> json_depth v \<le> 32"

text \<open>Everything but the payload of floating-point numbers, whose text form is not exact.\<close>

primrec forget_doubles :: "json \<Rightarrow> json" where
  "forget_doubles JNull = JNull"
| "forget_doubles (JBool b) = JBool b"
| "forget_doubles (JInt64 i) = JInt64 i"
| "forget_doubles (JUInt64 i) = JUInt64 i"
| "forget_doubles (JDouble d) = JDouble 0"
| "forget_doubles (JString s) = JString s"
| "forget_doubles (JArray vs) = JArray (map forget_doubles vs)"
| "forget_doubles (JObject members) = JObject (map (map_prod id forget_doubles) members)"

lemma json_ok_array: "json_ok (JArray vs) \<longleftrightarrow> (\<forall>v \<in> set vs. json_ok v)"
  by (simp add: list_all_iff)

lemma json_ok_object:
  "json_ok (JObject members) \<longleftrightarrow>
     obj_inv members \<and> (\<forall>(k, v) \<in> set members. utf8_valid k \<and> json_ok v)"
  by (auto simp: list_all_iff obj_inv_def)

lemma fold_max_le: "fold max ns m \<le> (b :: nat) \<longleftrightarrow> m \<le> b \<and> (\<forall>n \<in> set ns. n \<le> b)"
  by (induction ns arbitrary: m) auto

lemma json_depth_array: "json_depth (JArray vs) \<le> Suc b \<longleftrightarrow> (\<forall>v \<in> set vs. json_depth v \<le> b)"
  by (simp add: fold_max_le)

lemma json_depth_object:
  "json_depth (JObject members) \<le> Suc b \<longleftrightarrow> (\<forall>(k, v) \<in> set members. json_depth v \<le> b)"
  by (auto simp: fold_max_le)

lemma json_depth_object_pos: "\<not> json_depth (JObject members) \<le> 0"
  by simp

text \<open>Inside documents: a member value that is well formed and at most 31 deep.\<close>

definition member_ok :: "json \<Rightarrow> bool" where
  "member_ok v \<longleftrightarrow> json_ok v \<and> json_depth v \<le> 31"

lemma json_doc_ok_object:
  "json_doc_ok (JObject members) \<longleftrightarrow>
     obj_inv members \<and> (\<forall>(k, v) \<in> set members. utf8_valid k \<and> member_ok v)"
  using json_depth_object [of members 31]
  by (auto simp: json_doc_ok_def member_ok_def json_ok_object simp del: json_ok.simps json_depth.simps)

lemma json_doc_ok_set:
  assumes "json_doc_ok (JObject members)" and "utf8_valid k" and "member_ok v"
  shows "json_doc_ok (JObject (obj_set k v members))"
proof -
  have "set (obj_set k v members) \<subseteq> insert (k, v) (set members)"
    by (induction k v members rule: obj_set.induct) (auto simp: obj_set.simps)
  with assms show ?thesis
    unfolding json_doc_ok_object by (blast intro: obj_inv_set)
qed

lemma json_doc_ok_erase:
  assumes "json_doc_ok (JObject members)"
  shows "json_doc_ok (JObject (obj_erase k members))"
  using assms set_obj_erase [of members k]
  unfolding json_doc_ok_object by (auto intro: obj_inv_erase)

lemma json_doc_ok_find:
  "json_doc_ok (JObject members) \<Longrightarrow> obj_find members k = Some v \<Longrightarrow> member_ok v"
  by (auto simp: json_doc_ok_object obj_find_def dest!: map_of_SomeD)

lemma json_doc_ok_empty [simp]: "json_doc_ok (JObject [])"
  by (simp add: json_doc_ok_object)

lemma member_ok_scalar [simp]:
  "member_ok (JString s) \<longleftrightarrow> utf8_valid s"
  "member_ok JNull" "member_ok (JBool b)"
  "member_ok (JInt64 i) \<longleftrightarrow> - (2 ^ 63) \<le> i \<and> i < 2 ^ 63"
  by (simp_all add: member_ok_def)

lemma forget_doubles_eq [simp]:
  "forget_doubles v = JString s \<longleftrightarrow> v = JString s"
  "JString s = forget_doubles v \<longleftrightarrow> v = JString s"
  "forget_doubles v = JInt64 i \<longleftrightarrow> v = JInt64 i"
  "JInt64 i = forget_doubles v \<longleftrightarrow> v = JInt64 i"
  by (cases v; auto)+

lemma forget_doubles_find:
  "obj_find (map (map_prod id forget_doubles) members) k = map_option forget_doubles (obj_find members k)"
  by (induction members) (auto simp: obj_find_def)

lemma forget_doubles_same:
  assumes "map_option forget_doubles a = map_option forget_doubles b"
  shows "a = Some (JString s) \<longleftrightarrow> b = Some (JString s)"
    and "a = Some (JInt64 i) \<longleftrightarrow> b = Some (JInt64 i)"
proof -
  have "map_option forget_doubles c = Some (JString s) \<longleftrightarrow> c = Some (JString s)"
    "map_option forget_doubles c = Some (JInt64 i) \<longleftrightarrow> c = Some (JInt64 i)" for c
    by (cases c; simp)+
  with assms show "a = Some (JString s) \<longleftrightarrow> b = Some (JString s)"
    "a = Some (JInt64 i) \<longleftrightarrow> b = Some (JInt64 i)" by metis+
qed

text \<open>Values without floating-point numbers are determined by what is left.\<close>

primrec no_doubles :: "json \<Rightarrow> bool" where
  "no_doubles JNull = True"
| "no_doubles (JBool b) = True"
| "no_doubles (JInt64 i) = True"
| "no_doubles (JUInt64 i) = True"
| "no_doubles (JDouble d) = False"
| "no_doubles (JString s) = True"
| "no_doubles (JArray vs) = list_all id (map no_doubles vs)"
| "no_doubles (JObject members) = list_all snd (map (map_prod id no_doubles) members)"

lemma forget_doubles_exact: "no_doubles v \<Longrightarrow> forget_doubles v' = forget_doubles v \<Longrightarrow> v' = v"
proof (induction v arbitrary: v')
  case (JArray vs)
  from JArray.prems(2) obtain vs' where v': "v' = JArray vs'" "map forget_doubles vs' = map forget_doubles vs" by (cases v') auto
  have "vs' = vs"
  proof (rule nth_equalityI)
    show len: "length vs' = length vs" using map_eq_imp_length_eq [OF v'(2)] .
    fix i assume i: "i < length vs'"
    then have "forget_doubles (vs' ! i) = forget_doubles (vs ! i)" using v'(2) len by (metis nth_map)
    with i len JArray show "vs' ! i = vs ! i" by (auto simp: list_all_iff)
  qed
  with v'(1) show ?case by simp
next
  case (JObject ms)
  from JObject.prems(2) obtain ms' where v': "v' = JObject ms'"
    "map (map_prod id forget_doubles) ms' = map (map_prod id forget_doubles) ms" by (cases v') auto
  have "ms' = ms"
  proof (rule nth_equalityI)
    show len: "length ms' = length ms" using map_eq_imp_length_eq [OF v'(2)] .
    fix i assume i: "i < length ms'"
    obtain k x where x: "ms ! i = (k, x)" by fastforce
    obtain k' x' where x': "ms' ! i = (k', x')" by fastforce
    have "map_prod id forget_doubles (ms' ! i) = map_prod id forget_doubles (ms ! i)" using v'(2) len i by (metis nth_map)
    then have eq: "k' = k" "forget_doubles x' = forget_doubles x" by (simp_all add: x x')
    have mem: "(k, x) \<in> set ms" using i len x by (metis nth_mem)
    then have "no_doubles x" using JObject.prems(1) by (auto simp: list_all_iff)
    from JObject.IH [OF mem _ this eq(2)] have "x' = x" by simp
    with eq(1) x x' show "ms' ! i = ms ! i" by simp
  qed
  with v'(1) show ?case by simp
qed (case_tac v'; simp)+

section \<open>The text codec\<close>

text \<open>
  Documented behaviour of \<^verbatim>\<open>boost::json::parse\<close> and \<^verbatim>\<open>boost::json::serialize\<close>: a parsed value is
  well formed and its text is UTF-8; the text of a well-formed value parses to the same value, up to the payload of
  floating-point numbers; control characters are escaped, so the text contains no NUL.
\<close>

locale json_codec =
  fixes parse :: "string \<Rightarrow> json expected"
    and serialize :: "json \<Rightarrow> string"
  assumes parse_ok: "parse s = Inr v \<Longrightarrow> json_doc_ok v"
    and parse_serialize:
      "json_doc_ok v \<Longrightarrow> \<exists>v'. parse (serialize v) = Inr v' \<and> forget_doubles v' = forget_doubles v"
    and parse_utf8: "parse s = Inr v \<Longrightarrow> utf8_valid s"
    and serialize_no_nul: "CHR 0x00 \<notin> set (serialize v)"
begin

lemma c_str_serialize [simp]: "c_str (serialize v) = serialize v"
  by (rule c_str_id) (rule serialize_no_nul)

text \<open>A document read back has the same string and integer members.\<close>

lemma reparse_object:
  assumes "json_doc_ok (JObject members)"
  obtains members' where "parse (serialize (JObject members)) = Inr (JObject members')"
    and "json_doc_ok (JObject members')"
    and "\<And>k. map_option forget_doubles (obj_find members' k) =
               map_option forget_doubles (obj_find members k)"
proof -
  from parse_serialize [OF assms] obtain v where
    v: "parse (serialize (JObject members)) = Inr v"
      "forget_doubles v = forget_doubles (JObject members)" by blast
  then obtain members' where m: "v = JObject members'"
    by (cases v) auto
  with v(2) have "map (map_prod id forget_doubles) members' = map (map_prod id forget_doubles) members"
    by simp
  then have "\<And>k. map_option forget_doubles (obj_find members' k) =
      map_option forget_doubles (obj_find members k)"
    by (metis forget_doubles_find)
  with that [of members'] v(1) m parse_ok show thesis by blast
qed

end

section \<open>The codec as part of the toolkit\<close>

text \<open>
  The functions outside the repository that need no state of their own. The services of the
  worker extend this record, so every definition takes \<open>'a toolkit_scheme\<close>.
\<close>

record toolkit =
  json_parse :: "string \<Rightarrow> json expected"
  json_serialize :: "json \<Rightarrow> string"

locale json_toolkit = json_codec "json_parse tk" "json_serialize tk"
  for tk :: "'a toolkit_scheme"

end
