(* ===== verification/Std_Files.thy ===== *)
theory Std_Files
  imports Utf8_Text
begin

text \<open>
  The part of \<^verbatim>\<open>std::filesystem\<close>, \<^verbatim>\<open>std::ifstream\<close> and \<^verbatim>\<open>std::ofstream\<close> the worker uses, on an
  explicit file system: the list of its entries in the order a directory iterator meets them, the
  temporary directory, and the paths on which the operating system refuses access (the branches
  that set an \<^verbatim>\<open>error_code\<close> or throw). A path is its text; trailing separators are ignored when an
  entry is looked up, as POSIX does. Symbolic links and the resolution of \<open>.\<close> and \<open>..\<close> are
  outside the model.
\<close>

section \<open>Paths\<close>

definition path_append :: "string \<Rightarrow> string \<Rightarrow> string" where
  "path_append p q =
     (if q \<noteq> [] \<and> hd q = CHR ''/'' then q
      else if p = [] \<or> last p = CHR ''/'' then p @ q
      else p @ ''/'' @ q)"

definition path_filename :: "string \<Rightarrow> string" where
  "path_filename p = rev (takeWhile (\<lambda>c. c \<noteq> CHR ''/'') (rev p))"

definition path_parent :: "string \<Rightarrow> string" where
  "path_parent p = rev (tl (dropWhile (\<lambda>c. c \<noteq> CHR ''/'') (rev p)))"

definition path_extension :: "string \<Rightarrow> string" where
  "path_extension p =
     (let n = path_filename p; suffix = takeWhile (\<lambda>c. c \<noteq> CHR ''.'') (rev n)
      in if n = ''.'' \<or> n = ''..'' \<or> length n \<le> Suc (length suffix) then ''''
         else ''.'' @ rev suffix)"

definition path_is_absolute :: "string \<Rightarrow> bool" where
  "path_is_absolute p \<longleftrightarrow> p \<noteq> [] \<and> hd p = CHR ''/''"

definition strip_slash :: "string \<Rightarrow> string" where
  "strip_slash p = rev (dropWhile (\<lambda>c. c = CHR ''/'') (rev p))"

text \<open>A single path component: not empty and without a separator.\<close>

definition path_component :: "string \<Rightarrow> bool" where
  "path_component n \<longleftrightarrow> n \<noteq> [] \<and> CHR ''/'' \<notin> set n"

lemma strip_slash_snoc [simp]:
  "c \<noteq> CHR ''/'' \<Longrightarrow> strip_slash (p @ [c]) = p @ [c]"
  "strip_slash (p @ ''/'') = strip_slash p"
  by (simp_all add: strip_slash_def)

lemma strip_slash_component:
  assumes "path_component n"
  shows "strip_slash (p @ n) = p @ n"
proof -
  obtain n' c where n: "n = n' @ [c]" using assms by (cases n rule: rev_cases) (auto simp: path_component_def)
  then have "c \<noteq> CHR ''/''" using assms by (auto simp: path_component_def)
  then show ?thesis using strip_slash_snoc(1) [of c "p @ n'"] n by simp
qed

lemma path_append_component:
  "path_component n \<Longrightarrow>
   path_append p n = (if p = [] \<or> last p = CHR ''/'' then p @ n else p @ ''/'' @ n)"
  by (cases n) (auto simp: path_append_def path_component_def)

lemma strip_slash_path_append:
  "path_component n \<Longrightarrow> strip_slash (path_append p n) = path_append p n"
  using strip_slash_component [of n] strip_slash_component [of n "p @ ''/''"]
  by (simp add: path_append_component)

lemma takeWhile_rev_component:
  "CHR ''/'' \<notin> set n \<Longrightarrow> takeWhile (\<lambda>c. c \<noteq> CHR ''/'') (rev n @ CHR ''/'' # r) = rev n"
  by (subst takeWhile_append2) auto

lemma path_filename_append:
  assumes "path_component n"
  shows "path_filename (path_append p n) = n"
proof (cases "p = []")
  case True
  have "takeWhile (\<lambda>c. c \<noteq> CHR ''/'') (rev n) = rev n"
    using assms by (auto simp: path_component_def takeWhile_eq_all_conv)
  then have "path_filename n = n" unfolding path_filename_def by (metis rev_rev_ident)
  with True assms show ?thesis by (simp add: path_append_component)
next
  case False
  then obtain p' c where p: "p = p' @ [c]" by (cases p rule: rev_cases) auto
  have "CHR ''/'' \<notin> set n" using assms by (simp add: path_component_def)
  with p assms takeWhile_rev_component show ?thesis
    by (auto simp: path_append_component path_filename_def)
qed

lemma path_append_nonempty: "q \<noteq> [] \<Longrightarrow> path_append p q \<noteq> []"
  by (auto simp: path_append_def)

lemma path_append_component_nonempty: "path_component n \<Longrightarrow> path_append p n \<noteq> []"
  by (simp add: path_append_nonempty path_component_def)

lemma path_append_inj:
  "path_component m \<Longrightarrow> path_component n \<Longrightarrow> path_append p m = path_append p n \<longleftrightarrow> m = n"
  by (auto simp: path_append_component split: if_splits)

lemma path_extension_json:
  assumes "path_component n"
  shows "path_extension (path_append p (n @ ''.json'')) = ''.json''"
proof -
  have "path_component (n @ ''.json'')" using assms by (simp add: path_component_def)
  then have "path_filename (path_append p (n @ ''.json'')) = n @ ''.json''"
    by (rule path_filename_append)
  moreover have "0 < length n" using assms by (simp add: path_component_def)
  ultimately show ?thesis by (simp add: path_extension_def Let_def)
qed

section \<open>The file system\<close>

datatype node = Regular string | Directory | Special

record filesys =
  nodes :: "(string \<times> node) list"
  tmp_dir :: "string option"
  denied :: "string \<Rightarrow> bool"

definition fs_status :: "string \<Rightarrow> filesys \<Rightarrow> node option" where
  "fs_status p f =
     (if p = [] then None
      else if strip_slash p = [] then Some Directory
      else map_of (nodes f) (strip_slash p))"

text \<open>\<^verbatim>\<open>exists(p)\<close>, which throws, and the \<^verbatim>\<open>error_code\<close> forms, which do not.\<close>

definition fs_exists :: "string \<Rightarrow> (filesys, bool) comp" where
  "fs_exists p f =
     (if denied f p then (Throw (Filesystem_error p), f) else (Return (fs_status p f \<noteq> None), f))"

definition fs_exists_ec :: "string \<Rightarrow> filesys \<Rightarrow> bool" where
  "fs_exists_ec p f \<longleftrightarrow> \<not> denied f p \<and> fs_status p f \<noteq> None"

definition fs_is_regular_ec :: "string \<Rightarrow> filesys \<Rightarrow> bool" where
  "fs_is_regular_ec p f \<longleftrightarrow> \<not> denied f p \<and> (\<exists>s. fs_status p f = Some (Regular s))"

lemma fs_is_regular_ec_code [code]:
  "fs_is_regular_ec p f \<longleftrightarrow>
     \<not> denied f p \<and> (case fs_status p f of Some (Regular s) \<Rightarrow> True | _ \<Rightarrow> False)"
  by (auto simp: fs_is_regular_ec_def split: option.splits node.splits)

text \<open>Opening for input and reading to the end.\<close>

definition read_file :: "string \<Rightarrow> filesys \<Rightarrow> string option" where
  "read_file p f =
     (if denied f p then None else case fs_status p f of Some (Regular s) \<Rightarrow> Some s | _ \<Rightarrow> None)"

text \<open>Opening for output with truncation succeeds on a regular file, or on a new name in a directory.\<close>

definition can_write :: "string \<Rightarrow> filesys \<Rightarrow> bool" where
  "can_write p f \<longleftrightarrow> \<not> denied f p \<and>
     (case fs_status p f of
        Some (Regular s) \<Rightarrow> True
      | Some _ \<Rightarrow> False
      | None \<Rightarrow> p \<noteq> [] \<and> (CHR ''/'' \<notin> set p \<or> path_parent p = [] \<or> fs_status (path_parent p) f = Some Directory))"

fun put_node :: "string \<Rightarrow> node \<Rightarrow> (string \<times> node) list \<Rightarrow> (string \<times> node) list" where
  "put_node p n [] = [(p, n)]"
| "put_node p n ((q, m) # ns) = (if q = p then (p, n) # ns else (q, m) # put_node p n ns)"

definition write_file :: "string \<Rightarrow> string \<Rightarrow> filesys \<Rightarrow> filesys" where
  "write_file p s f = f\<lparr>nodes := put_node (strip_slash p) (Regular s) (nodes f)\<rparr>"

text \<open>The directories on the way to a path, outermost first, and \<^verbatim>\<open>create_directories\<close>.\<close>

definition path_ancestors :: "string \<Rightarrow> string list" where
  "path_ancestors p =
     filter (\<lambda>q. strip_slash q \<noteq> []) ([take n p. n \<leftarrow> [0..<length p], p ! n = CHR ''/''] @ [p])"

fun make_dirs :: "string list \<Rightarrow> filesys \<Rightarrow> bool \<times> filesys" where
  "make_dirs [] f = (True, f)"
| "make_dirs (d # ds) f =
     (case fs_status d f of
        Some Directory \<Rightarrow> make_dirs ds f
      | Some _ \<Rightarrow> (False, f)
      | None \<Rightarrow> if denied f d then (False, f)
                else make_dirs ds (f\<lparr>nodes := nodes f @ [(strip_slash d, Directory)]\<rparr>))"

definition create_directories :: "string \<Rightarrow> filesys \<Rightarrow> bool \<times> filesys" where
  "create_directories p f = make_dirs (path_ancestors p) f"

text \<open>Entries of a directory: the name of \<open>q\<close> in \<open>d\<close>, if it is a direct child.\<close>

definition child_name :: "string \<Rightarrow> string \<Rightarrow> string option" where
  "child_name d q =
     (let n = drop (Suc (length d)) q
      in if take (Suc (length d)) q = d @ ''/'' \<and> path_component n then Some n else None)"

definition dir_names :: "string \<Rightarrow> filesys \<Rightarrow> string list" where
  "dir_names d f = List.map_filter (\<lambda>(q, n). child_name (strip_slash d) q) (nodes f)"

text \<open>
  \<^verbatim>\<open>directory_iterator(d, error_code)\<close>: the entries, or the message of the error code it sets.
\<close>

definition directory_iterator :: "string \<Rightarrow> filesys \<Rightarrow> string list expected" where
  "directory_iterator d f =
     (if denied f d then Inl ''Permission denied''
      else case fs_status d f of
             None \<Rightarrow> Inl ''No such file or directory''
           | Some Directory \<Rightarrow> Inr (map (path_append d) (dir_names d f))
           | Some _ \<Rightarrow> Inl ''Not a directory'')"

definition below :: "string \<Rightarrow> string \<Rightarrow> bool" where
  "below d q \<longleftrightarrow> q = d \<or> take (Suc (length d)) q = d @ ''/''"

text \<open>\<^verbatim>\<open>remove(p, ec)\<close>: a file or an empty directory.\<close>

definition remove_ec :: "string \<Rightarrow> filesys \<Rightarrow> filesys" where
  "remove_ec p f =
     (if denied f p \<or> (fs_status p f = Some Directory \<and> dir_names p f \<noteq> []) then f
      else f\<lparr>nodes := filter (\<lambda>(q, n). q \<noteq> strip_slash p) (nodes f)\<rparr>)"

text \<open>\<^verbatim>\<open>remove_all(p, ec)\<close>: every entry of the tree that has no refused entry at or below it.\<close>

definition remove_all :: "string \<Rightarrow> filesys \<Rightarrow> filesys" where
  "remove_all p f =
     f\<lparr>nodes := filter (\<lambda>(q, n). \<not> below (strip_slash p) q \<or>
                   list_ex (\<lambda>(r, m). below q r \<and> denied f r) (nodes f)) (nodes f)\<rparr>"

section \<open>Facts about the operations\<close>

lemma map_of_put_node: "map_of (put_node p n ns) = (map_of ns)(p \<mapsto> n)"
  by (induction p n ns rule: put_node.induct) auto

lemma denied_frames [simp]:
  "denied (write_file p s f) = denied f"
  "denied (remove_ec p f) = denied f"
  "denied (remove_all p f) = denied f"
  by (simp_all add: write_file_def remove_ec_def remove_all_def)

lemma tmp_dir_frames [simp]:
  "tmp_dir (write_file p s f) = tmp_dir f"
  "tmp_dir (remove_ec p f) = tmp_dir f"
  "tmp_dir (remove_all p f) = tmp_dir f"
  by (simp_all add: write_file_def remove_ec_def remove_all_def)

lemma make_dirs_frames:
  "denied (snd (make_dirs ds f)) = denied f" "tmp_dir (snd (make_dirs ds f)) = tmp_dir f"
  by (induction ds f rule: make_dirs.induct) (auto split: option.split node.split)

lemma fs_status_write_file:
  "p \<noteq> [] \<Longrightarrow> strip_slash p \<noteq> [] \<Longrightarrow>
   fs_status q (write_file p s f) =
     (if q \<noteq> [] \<and> strip_slash q = strip_slash p then Some (Regular s) else fs_status q f)"
  by (auto simp: fs_status_def write_file_def map_of_put_node)

lemma map_of_filter_keys: "map_of (filter (\<lambda>(q, n). P q) ns) k = (if P k then map_of ns k else None)"
  by (induction ns) auto

lemma fs_status_remove_file:
  assumes "\<not> denied f p" and "fs_status p f \<noteq> Some Directory"
  shows "fs_status q (remove_ec p f) =
    (if q \<noteq> [] \<and> strip_slash q \<noteq> [] \<and> strip_slash q = strip_slash p then None else fs_status q f)"
  using assms
  by (auto simp: fs_status_def remove_ec_def map_of_filter_keys [where P = "\<lambda>q. q \<noteq> strip_slash p"]
      map_of_filter_keys [where P = "\<lambda>q. q \<noteq> []"])

lemma fs_status_remove_other:
  "strip_slash q \<noteq> strip_slash p \<Longrightarrow> fs_status q (remove_ec p f) = fs_status q f"
  by (auto simp: fs_status_def remove_ec_def map_of_filter_keys [where P = "\<lambda>q. q \<noteq> strip_slash p"])

lemma read_file_frames:
  "strip_slash q \<noteq> strip_slash p \<Longrightarrow> read_file q (remove_ec p f) = read_file q f"
  "strip_slash q \<noteq> strip_slash p \<Longrightarrow> p \<noteq> [] \<Longrightarrow> strip_slash p \<noteq> [] \<Longrightarrow>
   read_file q (write_file p s f) = read_file q f"
  by (simp_all add: read_file_def fs_status_remove_other fs_status_write_file)

lemma read_file_write_file:
  "p \<noteq> [] \<Longrightarrow> strip_slash p \<noteq> [] \<Longrightarrow> \<not> denied f p \<Longrightarrow> read_file p (write_file p s f) = Some s"
  by (simp add: read_file_def fs_status_write_file)

lemma child_name_Some: "child_name d q = Some n \<longleftrightarrow> path_component n \<and> q = d @ ''/'' @ n"
proof
  assume "child_name d q = Some n"
  then show "path_component n \<and> q = d @ ''/'' @ n"
    by (auto simp: child_name_def Let_def split: if_splits)
       (metis append_Cons append_Nil append_assoc append_take_drop_id)
qed (auto simp: child_name_def Let_def)

lemma set_map_filter: "set (List.map_filter g xs) = {y. \<exists>x \<in> set xs. g x = Some y}"
  by (induction xs) (auto simp: List.map_filter_simps split: option.splits)

lemma set_dir_names:
  "set (dir_names d f) = {n. path_component n \<and> strip_slash d @ ''/'' @ n \<in> fst ` set (nodes f)}"
  unfolding dir_names_def set_map_filter by (force simp: child_name_Some)

text \<open>No entry twice: kept by every operation.\<close>

definition fs_inv :: "filesys \<Rightarrow> bool" where
  "fs_inv f \<longleftrightarrow> distinct (map fst (nodes f))"

lemma keys_put_node: "set (map fst (put_node p n ns)) = insert p (set (map fst ns))"
  by (induction p n ns rule: put_node.induct) auto

lemma distinct_put_node: "distinct (map fst ns) \<Longrightarrow> distinct (map fst (put_node p n ns))"
proof (induction p n ns rule: put_node.induct)
  case (2 p n q m ns)
  then show ?case using keys_put_node [of p n ns] by auto
qed simp

lemma fs_inv_write_file: "fs_inv f \<Longrightarrow> fs_inv (write_file p s f)"
  by (simp add: fs_inv_def write_file_def distinct_put_node)

lemma distinct_map_filter_fst: "distinct (map fst ns) \<Longrightarrow> distinct (map fst (filter P ns))"
  by (induction ns) auto

lemma fs_inv_remove:
  "fs_inv f \<Longrightarrow> fs_inv (remove_ec p f)" "fs_inv f \<Longrightarrow> fs_inv (remove_all p f)"
  by (simp_all add: fs_inv_def remove_ec_def remove_all_def distinct_map_filter_fst)

lemma fs_inv_make_dirs:
  "fs_inv f \<Longrightarrow> list_all (\<lambda>d. strip_slash d \<noteq> []) ds \<Longrightarrow> fs_inv (snd (make_dirs ds f))"
proof (induction ds f rule: make_dirs.induct)
  case (2 d ds f)
  then have d: "d \<noteq> []" "strip_slash d \<noteq> []" by (auto simp: strip_slash_def)
  show ?case
  proof (cases "fs_status d f")
    case None
    then have "fs_inv (f\<lparr>nodes := nodes f @ [(strip_slash d, Directory)]\<rparr>)"
      using 2 d by (auto simp: fs_inv_def fs_status_def map_of_eq_None_iff)
    with 2 None show ?thesis by simp
  qed (use 2 in \<open>auto split: node.split\<close>)
qed simp

lemma fs_inv_create_directories: "fs_inv f \<Longrightarrow> fs_inv (snd (create_directories p f))"
  unfolding create_directories_def
  by (rule fs_inv_make_dirs) (simp_all add: path_ancestors_def list_all_iff)

text \<open>For running the operations on concrete files.\<close>

lemmas path_defs = strip_slash_def path_append_def path_ancestors_def path_parent_def path_component_def
  path_filename_def path_is_absolute_def below_def
lemmas file_defs = fs_status_def create_directories_def write_file_def remove_all_def can_write_def fs_exists_ec_def
  fs_is_regular_ec_code directory_iterator_def dir_names_def child_name_def read_file_def
  remove_ec_def List.map_filter_simps

end
