(* ===== verification/Message_Validation.thy ===== *)
theory Message_Validation
  imports Json_Values Std_Files
begin

text \<open>
  \<^verbatim>\<open>MessageValidation\<close> (\<^verbatim>\<open>src/Main/MessageValidation.cpp\<close>): the schema check of a request message and
  the format check of job identifiers. The checks run in the order of the source; the first one
  that fails gives the error text.
\<close>

section \<open>Job identifiers\<close>

definition job_id_max_length :: nat where
  "job_id_max_length = 64"

definition job_id_char :: "char \<Rightarrow> bool" where
  "job_id_char c \<longleftrightarrow>
     (byte CHR ''a'' \<le> byte c \<and> byte c \<le> byte CHR ''z'') \<or>
     (byte CHR ''A'' \<le> byte c \<and> byte c \<le> byte CHR ''Z'') \<or>
     (byte CHR ''0'' \<le> byte c \<and> byte c \<le> byte CHR ''9'') \<or> c = CHR ''-'' \<or> c = CHR ''_''"

definition is_valid_job_id :: "string \<Rightarrow> bool" where
  "is_valid_job_id job_id =
     (if job_id = [] \<or> length job_id > job_id_max_length then False
      else list_all job_id_char job_id)"

section \<open>Request messages\<close>

fun check_arguments :: "json list \<Rightarrow> unit expected" where
  "check_arguments [] = Inr ()"
| "check_arguments (argument # rest) =
     (if \<not> is_string argument then Inl ''task.arguments must contain only strings''
      else check_arguments rest)"

definition nonempty_string :: "string option \<Rightarrow> bool" where
  "nonempty_string s \<longleftrightarrow> (case s of None \<Rightarrow> False | Some t \<Rightarrow> t \<noteq> [])"

fun check_downloads :: "json list \<Rightarrow> unit expected" where
  "check_downloads [] = Inr ()"
| "check_downloads (JObject entry # rest) =
     (if \<not> nonempty_string (get_string entry ''bucket'')
      then Inl ''download_s3.bucket is required and must be a non-empty string''
      else if \<not> nonempty_string (get_string entry ''key'')
      then Inl ''download_s3.key is required and must be a non-empty string''
      else if get_string entry ''method'' = None
      then Inl ''download_s3.method is required and must be a string''
      else check_downloads rest)"
| "check_downloads (_ # rest) = Inl ''download_s3 entries must be objects''"

definition check_task :: "jobject \<Rightarrow> unit expected" where
  "check_task task =
     (if \<not> nonempty_string (get_string task ''name'')
      then Inl ''task.name is required and must be a non-empty string''
      else if obj_contains task ''arguments'' \<and> get_array task ''arguments'' = None
      then Inl ''task.arguments must be an array of strings''
      else case check_arguments (case get_array task ''arguments'' of None \<Rightarrow> [] | Some vs \<Rightarrow> vs) of
             Inl e \<Rightarrow> Inl e
           | Inr _ \<Rightarrow>
               (case obj_find task ''timeout_sec'' of
                  None \<Rightarrow> Inr ()
                | Some v \<Rightarrow>
                    if \<not> is_int64 v then Inl ''task.timeout_sec must be an integer'' else Inr ()))"

definition validate_request :: "jobject \<Rightarrow> unit expected" where
  "validate_request message =
     (case get_string message ''job_id'' of
        None \<Rightarrow> Inl ''job_id is required and must be a non-empty string''
      | Some job_id \<Rightarrow>
          if job_id = [] then Inl ''job_id is required and must be a non-empty string''
          else if \<not> is_valid_job_id job_id
          then Inl (''job_id must match [A-Za-z0-9_-]{1,'' @ show_nat job_id_max_length @ ''}'')
          else (case get_string message ''mode'' of
            None \<Rightarrow> Inl ''mode is required and must be a string''
          | Some mode \<Rightarrow>
              if mode \<noteq> ''execute'' then Inl (''unsupported mode: '' @ c_str mode)
              else (case get_object message ''task'' of
                None \<Rightarrow> Inl ''task is required and must be an object''
              | Some task \<Rightarrow>
                  (case check_task task of
                     Inl e \<Rightarrow> Inl e
                   | Inr _ \<Rightarrow>
                       (case get_array message ''download_s3'' of
                          None \<Rightarrow> Inl ''download_s3 is required and must be an array''
                        | Some entries \<Rightarrow>
                            (case check_downloads entries of
                               Inl e \<Rightarrow> Inl e
                             | Inr _ \<Rightarrow>
                                 if \<not> nonempty_string (get_string message ''output_prefix'')
                                 then Inl ''output_prefix is required and must be a non-empty string''
                                 else Inr ()))))))"

section \<open>The schema\<close>

text \<open>What an accepted message looks like, stated without an order of checks.\<close>

definition download_schema :: "json \<Rightarrow> bool" where
  "download_schema v \<longleftrightarrow> (\<exists>entry bucket key meth.
     v = JObject entry \<and> obj_find entry ''bucket'' = Some (JString bucket) \<and> bucket \<noteq> [] \<and>
     obj_find entry ''key'' = Some (JString key) \<and> key \<noteq> [] \<and>
     obj_find entry ''method'' = Some (JString meth))"

definition task_schema :: "jobject \<Rightarrow> bool" where
  "task_schema task \<longleftrightarrow>
     (\<exists>name. obj_find task ''name'' = Some (JString name) \<and> name \<noteq> []) \<and>
     (\<forall>v. obj_find task ''arguments'' = Some v \<longrightarrow> (\<exists>args. v = JArray (map JString args))) \<and>
     (\<forall>v. obj_find task ''timeout_sec'' = Some v \<longrightarrow> (\<exists>i. v = JInt64 i))"

definition request_schema :: "jobject \<Rightarrow> bool" where
  "request_schema message \<longleftrightarrow> (\<exists>job_id task entries output_prefix.
     obj_find message ''job_id'' = Some (JString job_id) \<and> is_valid_job_id job_id \<and>
     obj_find message ''mode'' = Some (JString ''execute'') \<and>
     obj_find message ''task'' = Some (JObject task) \<and> task_schema task \<and>
     obj_find message ''download_s3'' = Some (JArray entries) \<and> list_all download_schema entries \<and>
     obj_find message ''output_prefix'' = Some (JString output_prefix) \<and> output_prefix \<noteq> [])"

lemma nonempty_get_string:
  "nonempty_string (get_string ms k) \<longleftrightarrow> (\<exists>s. obj_find ms k = Some (JString s) \<and> s \<noteq> [])"
  unfolding nonempty_string_def get_string_Some [symmetric] by (cases "get_string ms k") auto

lemma is_string_iff: "is_string v \<longleftrightarrow> (\<exists>s. v = JString s)"
  by (cases v) auto

lemma is_int64_iff: "is_int64 v \<longleftrightarrow> (\<exists>i. v = JInt64 i)"
  by (cases v) auto

lemma list_all_strings: "list_all is_string vs \<longleftrightarrow> (\<exists>args. vs = map JString args)"
proof
  assume "list_all is_string vs"
  then show "\<exists>args. vs = map JString args"
  proof (induction vs)
    case (Cons v vs)
    then obtain s args where "v = JString s" "vs = map JString args"
      by (auto simp: is_string_iff)
    then have "v # vs = map JString (s # args)" by simp
    then show ?case by (rule exI)
  qed simp
qed (auto simp: list_all_iff)

lemma check_arguments_ok: "check_arguments vs = Inr () \<longleftrightarrow> list_all is_string vs"
  by (induction vs) auto

lemma check_downloads_ok: "check_downloads vs = Inr () \<longleftrightarrow> list_all download_schema vs"
proof (induction vs rule: check_downloads.induct)
  case (2 entry rest)
  have m: "get_string entry ''method'' = None \<longleftrightarrow> (\<nexists>s. obj_find entry ''method'' = Some (JString s))"
    by (rule get_string_None)
  have "download_schema (JObject entry) \<longleftrightarrow>
      (\<exists>s. obj_find entry ''bucket'' = Some (JString s) \<and> s \<noteq> []) \<and>
      (\<exists>s. obj_find entry ''key'' = Some (JString s) \<and> s \<noteq> []) \<and>
      (\<exists>s. obj_find entry ''method'' = Some (JString s))"
    unfolding download_schema_def by blast
  with 2 show ?case
    unfolding check_downloads.simps expected_ok nonempty_get_string m not_not list.pred_inject(2) by blast
qed (simp_all add: download_schema_def)

lemma check_task_ok: "check_task task = Inr () \<longleftrightarrow> task_schema task"
proof -
  have args: "\<not> (obj_contains task ''arguments'' \<and> get_array task ''arguments'' = None) \<and>
      check_arguments (case get_array task ''arguments'' of None \<Rightarrow> [] | Some vs \<Rightarrow> vs) = Inr () \<longleftrightarrow>
      (\<forall>v. obj_find task ''arguments'' = Some v \<longrightarrow> (\<exists>args. v = JArray (map JString args)))"
    by (auto simp: check_arguments_ok list_all_strings obj_contains_def get_array_def split: option.splits json.splits)
  have timeout: "(case obj_find task ''timeout_sec'' of None \<Rightarrow> Inr ()
      | Some v \<Rightarrow> if \<not> is_int64 v then Inl ''task.timeout_sec must be an integer'' else Inr ()) = Inr () \<longleftrightarrow>
      (\<forall>v. obj_find task ''timeout_sec'' = Some v \<longrightarrow> (\<exists>i. v = JInt64 i))"
    by (auto simp: is_int64_iff split: option.split)
  show ?thesis
    unfolding task_schema_def check_task_def expected_ok timeout nonempty_get_string [symmetric]
      args [symmetric] by blast
qed

lemma validate_request_ok: "validate_request message = Inr () \<longleftrightarrow> request_schema message"
proof -
  have "is_valid_job_id j \<Longrightarrow> j \<noteq> []" for j by (auto simp: is_valid_job_id_def)
  then show ?thesis
    unfolding validate_request_def request_schema_def expected_ok check_task_ok check_downloads_ok
      get_string_Some get_object_Some get_array_Some nonempty_get_string not_not
    by blast
qed

section \<open>Identifiers are safe path components\<close>

lemma job_id_char_safe: "job_id_char c \<Longrightarrow> byte c < 0x80 \<and> c \<notin> {CHR ''/'', CHR ''.'', CHR 0x00}"
  by (auto simp: job_id_char_def)

lemma valid_job_id_chars:
  "is_valid_job_id j \<Longrightarrow> c \<in> set j \<Longrightarrow> byte c < 0x80 \<and> c \<notin> {CHR ''/'', CHR ''.'', CHR 0x00}"
  by (auto simp: is_valid_job_id_def list_all_iff split: if_splits dest: job_id_char_safe)

lemma valid_job_id_component: "is_valid_job_id j \<Longrightarrow> path_component j"
  using valid_job_id_chars by (auto simp: path_component_def is_valid_job_id_def)

lemma valid_job_id_utf8: "is_valid_job_id j \<Longrightarrow> utf8_valid j"
  by (rule utf8_valid_ascii) (auto simp: ascii_def list_all_iff dest: valid_job_id_chars)

lemma valid_job_id_c_str: "is_valid_job_id j \<Longrightarrow> c_str j = j"
  by (rule c_str_id) (auto dest: valid_job_id_chars)

section \<open>Properties\<close>

text \<open>
  C23. A message is accepted exactly when it satisfies the schema of requests: a well-formed job identifier,
  the mode \<^verbatim>\<open>execute\<close>, a task with a name, string arguments and an integer time limit if any, inputs with
  bucket, key and method, and an output prefix. No order of the members or of the checks matters.
\<close>

theorem validate_request_schema: "validate_request message = Inr () \<longleftrightarrow> request_schema message"
  by (rule validate_request_ok)

text \<open>
  A well-formed job identifier is one to 64 characters of the alphabet; as a path component it names a
  direct child of any directory, as UTF-8 it can be stored in any document, and as a C string it is whole.
\<close>

lemma valid_job_id_safe:
  assumes "is_valid_job_id j"
  shows "1 \<le> length j \<and> length j \<le> 64 \<and> set j \<inter> {CHR ''/'', CHR ''.'', CHR 0x00} = {} \<and>
    path_component j \<and> path_filename (path_append d j) = j \<and> utf8_valid j \<and> c_str j = j"
proof -
  have "j \<noteq> []" "length j \<le> 64" using assms by (auto simp: is_valid_job_id_def job_id_max_length_def split: if_splits)
  with valid_job_id_chars [OF assms] valid_job_id_component [OF assms] valid_job_id_utf8 [OF assms] valid_job_id_c_str [OF assms]
  show ?thesis by (auto simp: path_filename_append Suc_le_eq)
qed

end
