(* ===== verification/Json_Text.thy ===== *)
theory Json_Text
  imports Json_Values
begin

text \<open>
  A JSON printer and parser that satisfy \<open>json_codec\<close>. They show that the laws the development
  assumes of Boost.JSON can hold together, and they are the codec of the concrete runs. Nothing in
  the model of the worker depends on them.
\<close>

section \<open>Printing\<close>

definition hex_char :: "nat \<Rightarrow> char" where
  "hex_char d = (if d < 10 then char_of (48 + d) else char_of (87 + d))"

definition unhex :: "char \<Rightarrow> nat" where
  "unhex c = (if byte c < 58 then byte c - 48 else byte c - 87)"

definition print_char :: "char \<Rightarrow> string" where
  "print_char c =
     (if byte c < 32 then CHR 0x5C # ''u00'' @ [hex_char (byte c div 16), hex_char (byte c mod 16)]
      else if c = CHR 0x22 \<or> c = CHR 0x5C then [CHR 0x5C, c]
      else [c])"

definition print_string :: "string \<Rightarrow> string" where
  "print_string s = CHR 0x22 # concat (map print_char s) @ [CHR 0x22]"

fun join :: "string list \<Rightarrow> string" where
  "join [] = []"
| "join [x] = x"
| "join (x # y # ys) = x @ '','' @ join (y # ys)"

primrec print_json :: "json \<Rightarrow> string" where
  "print_json JNull = ''null''"
| "print_json (JBool b) = (if b then ''true'' else ''false'')"
| "print_json (JInt64 i) = show_int i"
| "print_json (JUInt64 i) = show_int i"
| "print_json (JDouble d) = ''0E0''"
| "print_json (JString s) = print_string s"
| "print_json (JArray vs) = ''['' @ join (map print_json vs) @ '']''"
| "print_json (JObject ms) =
     ''{'' @ join (map (\<lambda>(k, t). print_string k @ '':'' @ t) (map (map_prod id print_json) ms)) @ ''}''"

section \<open>Parsing\<close>

fun parse_chars :: "string \<Rightarrow> (string \<times> string) option" where
  "parse_chars [] = None"
| "parse_chars (c # s) =
     (if c = CHR 0x22 then Some ([], s)
      else if c = CHR 0x5C then
        (case s of
           [] \<Rightarrow> None
         | e # s' \<Rightarrow>
             if e = CHR ''u''
             then (if length s' < 4 then None
                   else map_option (\<lambda>(t, r). (char_of (16 * unhex (s' ! 2) + unhex (s' ! 3)) # t, r))
                          (parse_chars (drop 4 s')))
             else map_option (\<lambda>(t, r). (e # t, r)) (parse_chars s'))
      else map_option (\<lambda>(t, r). (c # t, r)) (parse_chars s))"

definition number_value :: "int \<Rightarrow> json" where
  "number_value i =
     (if - (2 ^ 63) \<le> i \<and> i < 2 ^ 63 then JInt64 i
      else if 2 ^ 63 \<le> i \<and> i < 2 ^ 64 then JUInt64 i
      else JDouble 0)"

definition parse_number :: "string \<Rightarrow> (json \<times> string) option" where
  "parse_number s =
     (let neg = (s \<noteq> [] \<and> hd s = CHR ''-''); t = (if neg then tl s else s);
          ds = takeWhile is_digit t; r = dropWhile is_digit t; n = int (read_nat ds)
      in if ds = [] then None
         else if r \<noteq> [] \<and> hd r = CHR ''E'' then Some (JDouble 0, dropWhile is_digit (tl r))
         else Some (number_value (if neg then - n else n), r))"

fun parse_value :: "nat \<Rightarrow> string \<Rightarrow> (json \<times> string) option"
  and parse_elems :: "nat \<Rightarrow> string \<Rightarrow> (json list \<times> string) option"
  and parse_members :: "nat \<Rightarrow> string \<Rightarrow> (jobject \<times> string) option" where
  "parse_value 0 s = None"
| "parse_value (Suc n) s =
     (if take 4 s = ''null'' then Some (JNull, drop 4 s)
      else if take 4 s = ''true'' then Some (JBool True, drop 4 s)
      else if take 5 s = ''false'' then Some (JBool False, drop 5 s)
      else if take 2 s = ''[]'' then Some (JArray [], drop 2 s)
      else if take 1 s = ''['' then map_option (\<lambda>(vs, r). (JArray vs, r)) (parse_elems n (drop 1 s))
      else if take 2 s = ''{}'' then Some (JObject [], drop 2 s)
      else if take 1 s = ''{'' then map_option (\<lambda>(ms, r). (JObject ms, r)) (parse_members n (drop 1 s))
      else if take 1 s = [CHR 0x22] then map_option (\<lambda>(t, r). (JString t, r)) (parse_chars (drop 1 s))
      else parse_number s)"
| "parse_elems 0 s = None"
| "parse_elems (Suc n) s =
     (case parse_value n s of
        None \<Rightarrow> None
      | Some (v, r) \<Rightarrow>
          if take 1 r = '']'' then Some ([v], drop 1 r)
          else if take 1 r = '','' then map_option (\<lambda>(vs, r'). (v # vs, r')) (parse_elems n (drop 1 r))
          else None)"
| "parse_members 0 s = None"
| "parse_members (Suc n) s =
     (if take 1 s \<noteq> [CHR 0x22] then None
      else case parse_chars (drop 1 s) of
        None \<Rightarrow> None
      | Some (k, r) \<Rightarrow>
          if take 1 r \<noteq> '':'' then None
          else (case parse_value n (drop 1 r) of
            None \<Rightarrow> None
          | Some (v, r') \<Rightarrow>
              if take 1 r' = ''}'' then Some ([(k, v)], drop 1 r')
              else if take 1 r' = '','' then map_option (\<lambda>(ms, r''). ((k, v) # ms, r'')) (parse_members n (drop 1 r'))
              else None))"

definition parse_json :: "string \<Rightarrow> json expected" where
  "parse_json s =
     (if \<not> utf8_valid s then Inl ''invalid utf8''
      else case parse_value (Suc (length s)) s of
             Some (v, []) \<Rightarrow> if json_doc_ok v then Inr v else Inl ''invalid document''
           | _ \<Rightarrow> Inl ''syntax error'')"

section \<open>Round trip\<close>

lemma byte_less_256: "byte c < 256"
  by simp

lemma unhex_hex_char [simp]: "d < 16 \<Longrightarrow> unhex (hex_char d) = d"
  by (simp add: unhex_def hex_char_def)

lemma parse_print_char:
  "parse_chars (print_char c @ s) = map_option (\<lambda>(t, r). (c # t, r)) (parse_chars s)"
proof (cases "byte c < 32")
  case True
  then have "char_of (16 * (byte c div 16) + byte c mod 16) = c"
    by (metis char_of_char mult_div_mod_eq)
  with True show ?thesis by (simp add: print_char_def)
next
  case False
  have "CHR ''u'' \<noteq> CHR 0x22" "CHR ''u'' \<noteq> CHR 0x5C" by simp_all
  with False show ?thesis by (auto simp: print_char_def)
qed

lemma parse_print_chars:
  "parse_chars (concat (map print_char s) @ CHR 0x22 # r) = Some (s, r)"
  by (induction s) (simp_all add: parse_print_char)

definition delimited :: "string \<Rightarrow> bool" where
  "delimited r \<longleftrightarrow> r = [] \<or> hd r \<in> {CHR '','', CHR '']'', CHR ''}''}"

lemma delimited_simps [simp]:
  "delimited []" "delimited (CHR '','' # r)" "delimited (CHR '']'' # r)" "delimited (CHR ''}'' # r)"
  by (simp_all add: delimited_def)

lemma delimited_not_digit: "delimited r \<Longrightarrow> r = [] \<or> (\<not> is_digit (hd r) \<and> hd r \<noteq> CHR ''E'')"
  by (cases r) (auto simp: delimited_def is_digit_def)

lemma digits_then:
  assumes "delimited r"
  shows "takeWhile is_digit (show_nat n @ r) = show_nat n" "dropWhile is_digit (show_nat n @ r) = r"
proof -
  have all: "\<forall>c \<in> set (show_nat n). is_digit c" by (auto dest: show_nat_digits)
  have "takeWhile is_digit r = []" "dropWhile is_digit r = r"
    using delimited_not_digit [OF assms] by (cases r; simp)+
  with all show "takeWhile is_digit (show_nat n @ r) = show_nat n"
    "dropWhile is_digit (show_nat n @ r) = r"
    by (simp_all add: takeWhile_append2 dropWhile_append2)
qed

lemma hd_show_nat: "hd (show_nat n @ r) \<noteq> CHR ''-''"
  using show_nat_hd_digit [of n] by (cases "show_nat n") auto

lemma parse_number_show_int:
  assumes "delimited r"
  shows "parse_number (show_int i @ r) = Some (number_value i, r)"
  using digits_then [OF assms, of "nat i"] digits_then [OF assms, of "nat (- i)"]
    hd_show_nat [of "nat i" r] delimited_not_digit [OF assms]
  by (auto simp: parse_number_def show_int_def Let_def)

lemma print_starts:
  "is_digit c \<or> c = CHR ''-'' \<Longrightarrow>
   parse_value (Suc n) (c # s) = parse_number (c # s)"
  by (auto simp: is_digit_def)

lemma show_int_starts: "\<exists>c t. show_int i = c # t \<and> (is_digit c \<or> c = CHR ''-'')"
  using show_nat_hd_digit [of "nat i"]
  by (cases "show_nat (nat i)") (auto simp: show_int_def)

lemma parse_value_number:
  assumes "delimited r"
  shows "parse_value (Suc n) (show_int i @ r) = Some (number_value i, r)"
proof -
  obtain c t where ct: "show_int i = c # t" "is_digit c \<or> c = CHR ''-''"
    using show_int_starts by blast
  then have "parse_value (Suc n) (show_int i @ r) = parse_number (show_int i @ r)"
    using print_starts [of c n "t @ r"] by simp
  with parse_number_show_int [OF assms] show ?thesis by simp
qed

text \<open>How much fuel a value needs; its printed length is enough.\<close>

primrec fuel :: "json \<Rightarrow> nat" where
  "fuel JNull = 1"
| "fuel (JBool b) = 1"
| "fuel (JInt64 i) = 1"
| "fuel (JUInt64 i) = 1"
| "fuel (JDouble d) = 1"
| "fuel (JString s) = 1"
| "fuel (JArray vs) = Suc (sum_list (map Suc (map fuel vs)))"
| "fuel (JObject ms) = Suc (sum_list (map (\<lambda>(k, n). Suc n) (map (map_prod id fuel) ms)))"

lemma length_join: "length (join xs) + 1 \<ge> sum_list (map (\<lambda>x. Suc (length x)) xs)"
  by (induction xs rule: join.induct) auto

lemma fuel_length: "fuel v \<le> length (print_json v)"
proof (induction v)
  case (JInt64 i)
  then show ?case using show_int_starts [of i] by auto
next
  case (JUInt64 i)
  then show ?case using show_int_starts [of i] by auto
next
  case (JArray vs)
  have "sum_list (map Suc (map fuel vs)) \<le> sum_list (map (\<lambda>x. Suc (length x)) (map print_json vs))"
    unfolding map_map using JArray by (intro sum_list_mono) auto
  with length_join [of "map print_json vs"] show ?case by simp
next
  case (JObject ms)
  let ?t = "map (\<lambda>(k, t). print_string k @ '':'' @ t) (map (map_prod id print_json) ms)"
  have "sum_list (map (\<lambda>(k, n). Suc n) (map (map_prod id fuel) ms)) \<le>
      sum_list (map (\<lambda>x. Suc (length x)) ?t)"
    unfolding map_map using JObject by (intro sum_list_mono) (fastforce simp: snds.simps)
  with length_join [of ?t] show ?case by simp
qed (simp_all add: print_string_def)

lemma print_json_hd: "\<exists>c t. print_json v = c # t \<and> c \<noteq> CHR '']'' \<and> c \<noteq> CHR ''}''"
proof -
  have "\<exists>c t. show_int i = c # t \<and> c \<noteq> CHR '']'' \<and> c \<noteq> CHR ''}''" for i
    using show_int_starts [of i] by (auto simp: is_digit_def)
  then show ?thesis by (cases v) (auto simp: print_string_def)
qed

definition reads_back :: "json \<Rightarrow> bool" where
  "reads_back v \<longleftrightarrow> (\<forall>n r. fuel v \<le> n \<longrightarrow> delimited r \<longrightarrow>
     parse_value n (print_json v @ r) = Some (forget_doubles v, r))"

lemma parse_elems_print:
  "list_all reads_back vs \<Longrightarrow> vs \<noteq> [] \<Longrightarrow> sum_list (map Suc (map fuel vs)) \<le> n \<Longrightarrow>
   parse_elems n (join (map print_json vs) @ CHR '']'' # r) = Some (map forget_doubles vs, r)"
proof (induction vs arbitrary: n)
  case (Cons v vs)
  then obtain m where n: "n = Suc m" "fuel v \<le> m" "sum_list (map Suc (map fuel vs)) \<le> m"
    by (cases n) auto
  have v: "parse_value m (print_json v @ r') = Some (forget_doubles v, r')" if "delimited r'" for r'
    using Cons.prems(1) n(2) that by (simp add: reads_back_def)
  show ?case
  proof (cases vs)
    case Nil
    with n(1) v show ?thesis by simp
  next
    case (Cons u us)
    with n Cons.prems Cons.IH [of m] v show ?thesis by simp
  qed
qed simp

lemma parse_members_print:
  "list_all reads_back (map snd ms) \<Longrightarrow> ms \<noteq> [] \<Longrightarrow>
   sum_list (map (\<lambda>(k, n). Suc n) (map (map_prod id fuel) ms)) \<le> n \<Longrightarrow>
   parse_members n (join (map (\<lambda>(k, t). print_string k @ '':'' @ t) (map (map_prod id print_json) ms)) @ CHR ''}'' # r)
     = Some (map (map_prod id forget_doubles) ms, r)"
proof (induction ms arbitrary: n)
  case (Cons kv ms)
  obtain k v where kv: "kv = (k, v)" by (cases kv)
  with Cons.prems obtain m where n: "n = Suc m" "fuel v \<le> m"
    "sum_list (map (\<lambda>(k, n). Suc n) (map (map_prod id fuel) ms)) \<le> m"
    by (cases n) (auto simp: id_def)
  have v: "parse_value m (print_json v @ r') = Some (forget_doubles v, r')" if "delimited r'" for r'
    using Cons.prems(1) kv n(2) that by (simp add: reads_back_def)
  show ?case
  proof (cases ms)
    case Nil
    with n(1) v kv show ?thesis by (simp add: print_string_def parse_print_chars)
  next
    case (Cons u us)
    with n Cons.prems Cons.IH [of m] v kv show ?thesis
      by (simp add: print_string_def parse_print_chars)
  qed
qed simp

lemma json_reads_back: "json_ok v \<Longrightarrow> reads_back v"
proof (induction v)
  case (JInt64 i)
  then have "number_value i = JInt64 i" by (simp add: number_value_def)
  then show ?case
    unfolding reads_back_def by (auto simp: parse_value_number dest!: Suc_le_D simp del: parse_value.simps)
next
  case (JUInt64 i)
  then have "number_value i = JUInt64 i" by (simp add: number_value_def)
  then show ?case
    unfolding reads_back_def by (auto simp: parse_value_number dest!: Suc_le_D simp del: parse_value.simps)
next
  case (JDouble d)
  have "parse_value (Suc m) (CHR ''0'' # ''E0'' @ r) = Some (JDouble 0, r)" if "delimited r" for m r
    using delimited_not_digit [OF that]
    by (cases r) (auto simp: parse_number_def is_digit_def)
  then show ?case unfolding reads_back_def by (auto dest!: Suc_le_D simp del: parse_value.simps)
next
  case (JString s)
  then show ?case
    unfolding reads_back_def by (auto simp: print_string_def parse_print_chars dest!: Suc_le_D)
next
  case (JArray vs)
  then have all: "list_all reads_back vs" by (auto simp: list_all_iff)
  show ?case
  proof (cases vs)
    case Nil
    then show ?thesis unfolding reads_back_def by (auto dest!: Suc_le_D)
  next
    case (Cons u us)
    obtain c t where hd: "join (map print_json vs) = c # t" "c \<noteq> CHR '']''"
      using print_json_hd [of u] Cons by (cases us) auto
    show ?thesis
      unfolding reads_back_def
    proof (intro allI impI)
      fix n r assume "fuel (JArray vs) \<le> n" "delimited r"
      then obtain m where m: "n = Suc m" "sum_list (map Suc (map fuel vs)) \<le> m" by (cases n) auto
      have "parse_elems m (join (map print_json vs) @ CHR '']'' # r) = Some (map forget_doubles vs, r)"
        using all Cons m(2) by (intro parse_elems_print) auto
      with m hd show "parse_value n (print_json (JArray vs) @ r) = Some (forget_doubles (JArray vs), r)"
        by simp
    qed
  qed
next
  case (JObject ms)
  then have all: "list_all reads_back (map snd ms)"
    by (fastforce simp: list_all_iff snds.simps)
  let ?t = "join (map (\<lambda>(k, t). print_string k @ '':'' @ t) (map (map_prod id print_json) ms))"
  show ?case
  proof (cases ms)
    case Nil
    then show ?thesis unfolding reads_back_def by (auto dest!: Suc_le_D)
  next
    case (Cons u us)
    obtain c t where hd: "?t = c # t" "c \<noteq> CHR ''}''"
      using Cons by (cases u; cases us) (auto simp: print_string_def)
    show ?thesis
      unfolding reads_back_def
    proof (intro allI impI)
      fix n r assume "fuel (JObject ms) \<le> n" "delimited r"
      then obtain m where m: "n = Suc m"
        "sum_list (map (\<lambda>(k, n). Suc n) (map (map_prod id fuel) ms)) \<le> m" by (cases n) auto
      have "parse_members m (?t @ CHR ''}'' # r) = Some (map (map_prod id forget_doubles) ms, r)"
        using all Cons m(2) by (intro parse_members_print) auto
      with m hd show "parse_value n (print_json (JObject ms) @ r) = Some (forget_doubles (JObject ms), r)"
        by simp
    qed
  qed
qed (auto simp: reads_back_def dest!: Suc_le_D)

section \<open>The laws\<close>

lemma forget_doubles_idem [simp]: "forget_doubles (forget_doubles v) = forget_doubles v"
  by (induction v) (auto simp: snds.simps)

lemma json_ok_forget: "json_ok v \<Longrightarrow> json_ok (forget_doubles v)"
  by (induction v) (fastforce simp: list_all_iff snds.simps comp_def)+

lemma json_depth_forget [simp]: "json_depth (forget_doubles v) = json_depth v"
proof (induction v)
  case (JArray vs)
  then have "map json_depth (map forget_doubles vs) = map json_depth vs" by simp
  then show ?case by (simp only: forget_doubles.simps json_depth.simps)
next
  case (JObject ms)
  then have "map snd (map (map_prod id json_depth) (map (map_prod id forget_doubles) ms)) =
      map snd (map (map_prod id json_depth) ms)"
    by (auto simp: snds.simps)
  then show ?case by (simp only: forget_doubles.simps json_depth.simps)
qed simp_all

lemma json_doc_ok_forget: "json_doc_ok v \<Longrightarrow> json_doc_ok (forget_doubles v)"
  by (simp add: json_doc_ok_def json_ok_forget)

lemma utf8_valid_concat_map:
  assumes "\<And>c. byte c < 0x80 \<Longrightarrow> utf8_valid (g c)" and "\<And>c. 0x80 \<le> byte c \<Longrightarrow> g c = [c]"
  shows "utf8_valid s \<Longrightarrow> utf8_valid (concat (map g s))"
proof (induction s rule: utf8_valid.induct)
  case (2 a s)
  show ?case
  proof (cases "byte a < 0x80")
    case True
    with 2 assms(1) show ?thesis by (simp add: trail_ascii utf8_valid_append utf8_valid.simps(2))
  next
    case False
    obtain k where k: "utf8_trail a = Some k" "k \<le> length s" "list_all is_cont (take k s)"
      "0 < k \<longrightarrow> utf8_second a (hd s)" "utf8_valid (drop k s)"
      using "2.prems" by (auto simp: utf8_valid.simps(2) split: option.splits)
    have "map g (take k s) = map (\<lambda>c. [c]) (take k s)"
      using k(3) assms(2) by (auto simp: list_all_iff is_cont_def)
    then have "concat (map g (take k s)) = take k s" by (simp only: concat_map_singleton list.map_ident)
    then have "concat (map g s) = take k s @ concat (map g (drop k s))"
      by (metis append_take_drop_id concat_append map_append)
    moreover have "0 < k \<longrightarrow> hd (take k s @ concat (map g (drop k s))) = hd s"
      using k(2) by (cases s; cases k) auto
    ultimately show ?thesis using k "2.IH" [OF k(1,5)] False assms(2) by (simp add: utf8_valid.simps(2))
  qed
qed simp

lemma hex_char_ascii: "d < 16 \<Longrightarrow> byte (hex_char d) < 128"
  by (simp add: hex_char_def)

lemma print_string_utf8: "utf8_valid s \<Longrightarrow> utf8_valid (print_string s)"
proof -
  assume "utf8_valid s"
  then have "utf8_valid (concat (map print_char s))"
    by (rule utf8_valid_concat_map [rotated 2]) (auto simp: print_char_def hex_char_ascii)
  then show ?thesis unfolding print_string_def by (simp add: utf8_valid_append)
qed

lemma join_utf8: "list_all utf8_valid xs \<Longrightarrow> utf8_valid (join xs)"
  by (induction xs rule: join.induct) (auto intro!: utf8_valid_append)

lemma print_json_utf8: "json_ok v \<Longrightarrow> utf8_valid (print_json v)"
proof (induction v)
  case (JArray vs)
  then have "list_all utf8_valid (map print_json vs)" by (auto simp: list_all_iff)
  then show ?case using join_utf8 by (simp add: utf8_valid_append)
next
  case (JObject ms)
  then have "list_all utf8_valid (map (\<lambda>(k, t). print_string k @ '':'' @ t) (map (map_prod id print_json) ms))"
    by (fastforce simp: list_all_iff snds.simps intro!: utf8_valid_append print_string_utf8)
  then show ?case using join_utf8 by (simp add: utf8_valid_append)
qed (simp_all add: print_string_utf8 utf8_valid_ascii)

lemma hex_char_not_nul: "d < 16 \<Longrightarrow> hex_char d \<noteq> CHR 0x00"
  by (auto simp: hex_char_def char_of_eq_iff take_bit_eq_mod)

lemma print_char_no_nul: "CHR 0x00 \<notin> set (print_char c)"
proof -
  have "byte c div 16 < 16" by (rule less_mult_imp_div_less) simp
  moreover have "byte c mod 16 < 16" by simp
  ultimately have "hex_char (byte c div 16) \<noteq> CHR 0x00" "hex_char (byte c mod 16) \<noteq> CHR 0x00"
    by (simp_all add: hex_char_not_nul)
  then show ?thesis by (auto simp: print_char_def)
qed

lemma print_string_no_nul: "CHR 0x00 \<notin> set (print_string s)"
  using print_char_no_nul by (auto simp: print_string_def)

lemma join_no_nul: "\<forall>x \<in> set xs. CHR 0x00 \<notin> set x \<Longrightarrow> CHR 0x00 \<notin> set (join xs)"
  by (induction xs rule: join.induct) auto

lemma show_int_no_nul: "CHR 0x00 \<notin> set (show_int i)"
  by (auto simp: show_int_def is_digit_def dest!: show_nat_digits)

lemma print_json_no_nul: "CHR 0x00 \<notin> set (print_json v)"
proof (induction v)
  case (JArray vs)
  then show ?case using join_no_nul [of "map print_json vs"] by auto
next
  case (JObject ms)
  then have "\<forall>x \<in> set (map (\<lambda>(k, t). print_string k @ '':'' @ t) (map (map_prod id print_json) ms)).
      CHR 0x00 \<notin> set x"
    by (fastforce simp: snds.simps print_string_no_nul)
  from join_no_nul [OF this] show ?case by simp
qed (simp_all add: print_string_no_nul show_int_no_nul)

lemma parse_print_json: "json_doc_ok v \<Longrightarrow> parse_json (print_json v) = Inr (forget_doubles v)"
proof -
  assume ok: "json_doc_ok v"
  then have "reads_back v" and "utf8_valid (print_json v)"
    by (simp_all add: json_doc_ok_def json_reads_back print_json_utf8)
  moreover have "fuel v \<le> Suc (length (print_json v))" using fuel_length [of v] by simp
  ultimately have "parse_value (Suc (length (print_json v))) (print_json v) = Some (forget_doubles v, [])"
    unfolding reads_back_def by (metis append_Nil2 delimited_simps(1))
  with \<open>utf8_valid (print_json v)\<close> json_doc_ok_forget [OF ok] show ?thesis by (simp add: parse_json_def)
qed

definition ref_toolkit :: toolkit where
  "ref_toolkit = \<lparr>json_parse = parse_json, json_serialize = print_json\<rparr>"

interpretation ref_codec: json_codec parse_json print_json
proof unfold_locales
  show "json_doc_ok v" if "parse_json s = Inr v" for s v
    using that by (auto simp: parse_json_def split: if_splits option.splits list.splits)
  show "utf8_valid s" if "parse_json s = Inr v" for s v
    using that by (auto simp: parse_json_def split: if_splits)
  show "\<exists>v'. parse_json (print_json v) = Inr v' \<and> forget_doubles v' = forget_doubles v"
    if "json_doc_ok v" for v
    using parse_print_json [OF that] by simp
  show "CHR 0x00 \<notin> set (print_json v)" for v by (rule print_json_no_nul)
qed

lemma ref_toolkit_codec: "json_parse tk = parse_json \<Longrightarrow> json_serialize tk = print_json \<Longrightarrow> json_toolkit tk"
  unfolding json_toolkit_def using ref_codec.json_codec_axioms by simp

interpretation ref: json_toolkit ref_toolkit
  by (rule ref_toolkit_codec) (simp_all add: ref_toolkit_def)

declare print_json.simps [simp del]

end
