(* ===== verification/Task_DLQ.thy ===== *)
theory Task_DLQ
  imports Json_Text Std_Files
begin

text \<open>
  \<^verbatim>\<open>TaskDLQ\<close> (\<^verbatim>\<open>src/Main/TaskDLQ.h\<close>, \<^verbatim>\<open>src/Main/TaskDLQ.cpp\<close>): the dead-letter queue, one JSON
  file per failed job. The file is a cache of the number of attempts; the number carried by the
  message is authoritative, and the larger of the two counts.

  The interface the worker relies on is the locale \<open>retry_ledger\<close>; \<open>dlq_files\<close> shows that the
  files implement it.
\<close>

section \<open>Operations\<close>

record task_dlq =
  dlq_path :: string
  max_retry_count :: int

text \<open>The constructor; the flag is \<open>False\<close> where the source logs that the directory cannot be made.\<close>

definition make_task_dlq :: "string \<Rightarrow> int \<Rightarrow> filesys \<Rightarrow> task_dlq \<times> bool \<times> filesys" where
  "make_task_dlq path max_retries f =
     (case create_directories path f of
        (ok, f') \<Rightarrow> (\<lparr>dlq_path = path, max_retry_count = max_retries\<rparr>, ok, f'))"

definition entry_path :: "task_dlq \<Rightarrow> string \<Rightarrow> string" where
  "entry_path dlq job_id = path_append (dlq_path dlq) (job_id @ ''.json'')"

text \<open>The count in the text of an entry, if the text has one.\<close>

definition entry_try_count :: "'a toolkit_scheme \<Rightarrow> string \<Rightarrow> int option" where
  "entry_try_count tk text =
     (case json_parse tk text of
        Inr (JObject members) \<Rightarrow>
          (case obj_find members ''try_count'' of Some (JInt64 n) \<Rightarrow> Some (cast_int n) | _ \<Rightarrow> None)
      | _ \<Rightarrow> None)"

definition dlq_entry :: "string \<Rightarrow> int \<Rightarrow> string \<Rightarrow> string \<Rightarrow> jobject" where
  "dlq_entry job_id try_count failure_reason request_message =
     obj_set ''request_message'' (JString request_message)
      (obj_set ''failure_reason'' (JString failure_reason)
        (obj_set ''try_count'' (JInt64 try_count)
          (obj_set ''job_id'' (JString job_id) [])))"

definition record_failure ::
  "'a toolkit_scheme \<Rightarrow> task_dlq \<Rightarrow> string \<Rightarrow> string \<Rightarrow> string \<Rightarrow> int \<Rightarrow> (filesys, int expected) comp" where
  "record_failure tk dlq job_id request_message failure_reason inbound_try_count =
     (let path = entry_path dlq job_id;
          inbound = (if inbound_try_count > 0 then inbound_try_count else 0)
      in bindE (fs_exists path) (\<lambda>present.
         bindE (gets (\<lambda>f.
           if present
           then (case read_file path f of
                   None \<Rightarrow> inbound
                 | Some text \<Rightarrow>
                     (case entry_try_count tk text of None \<Rightarrow> inbound | Some n \<Rightarrow> max inbound n))
           else inbound)) (\<lambda>known.
         let try_count = cast_int (known + 1);
             entry = dlq_entry job_id try_count failure_reason request_message
         in bindE (gets (can_write path)) (\<lambda>opened.
            if \<not> opened then ret (Inl (''cannot write dlq entry: '' @ path))
            else bindE (modify (write_file path (json_serialize tk (JObject entry)))) (\<lambda>_.
                 ret (Inr try_count))))))"

definition dlq_remove :: "task_dlq \<Rightarrow> string \<Rightarrow> filesys \<Rightarrow> filesys" where
  "dlq_remove dlq job_id f = remove_ec (entry_path dlq job_id) f"

definition can_retry :: "task_dlq \<Rightarrow> int \<Rightarrow> bool" where
  "can_retry dlq try_count \<longleftrightarrow> try_count \<le> max_retry_count dlq"

text \<open>\<^verbatim>\<open>entry.is_regular_file()\<close>, the throwing form.\<close>

definition entry_is_regular :: "string \<Rightarrow> (filesys, bool) comp" where
  "entry_is_regular p f =
     (if denied f p then (Throw (Filesystem_error p), f) else (Return (fs_is_regular_ec p f), f))"

fun count_entries :: "string list \<Rightarrow> nat \<Rightarrow> (filesys, nat) comp" where
  "count_entries [] count = ret count"
| "count_entries (e # es) count =
     bindE (entry_is_regular e) (\<lambda>regular.
       count_entries es (if regular \<and> path_extension e = ''.json'' then count + 1 else count))"

definition pending_count :: "task_dlq \<Rightarrow> (filesys, nat) comp" where
  "pending_count dlq f =
     (if \<not> fs_exists_ec (dlq_path dlq) f then (Return 0, f)
      else case directory_iterator (dlq_path dlq) f of
             Inl e \<Rightarrow> (Return 0, f)
           | Inr es \<Rightarrow> count_entries es 0 f)"

section \<open>The ledger an operator sees\<close>

text \<open>The count on file for a job: \<open>None\<close> where there is no readable entry.\<close>

definition dlq_count :: "'a toolkit_scheme \<Rightarrow> task_dlq \<Rightarrow> filesys \<Rightarrow> string \<Rightarrow> int option" where
  "dlq_count tk dlq f job_id =
     (case read_file (entry_path dlq job_id) f of
        None \<Rightarrow> None
      | Some text \<Rightarrow> entry_try_count tk text)"

text \<open>What the next attempt number is computed from.\<close>

definition known_attempts :: "int option \<Rightarrow> int \<Rightarrow> int" where
  "known_attempts on_file inbound =
     (case on_file of None \<Rightarrow> max 0 inbound | Some n \<Rightarrow> max (max 0 inbound) n)"

lemma known_attempts_ge [simp]: "inbound \<le> known_attempts on_file inbound" "0 \<le> known_attempts on_file inbound"
  by (auto simp: known_attempts_def split: option.split)

text \<open>
  The number of the next attempt, for some count on file. The addition is done on \<^verbatim>\<open>int\<close>: past the
  largest value it wraps, so a number is above what the message carried, or it is the smallest \<^verbatim>\<open>int\<close>.
\<close>

definition attempt_number :: "int \<Rightarrow> int \<Rightarrow> bool" where
  "attempt_number inbound n \<longleftrightarrow>
     (\<exists>on_file. (\<forall>m. on_file = Some m \<longrightarrow> int_min \<le> m \<and> m \<le> int_max) \<and>
        n = cast_int (known_attempts on_file inbound + 1))"

lemma attempt_number_cases:
  assumes "attempt_number inbound n" and "inbound \<le> int_max"
  shows "max 0 inbound < n \<and> n \<le> int_max \<or> n = int_min"
proof -
  from assms(1) obtain on_file where f: "\<forall>m. on_file = Some m \<longrightarrow> int_min \<le> m \<and> m \<le> int_max"
    and n: "n = cast_int (known_attempts on_file inbound + 1)" unfolding attempt_number_def by blast
  let ?k = "known_attempts on_file inbound"
  have k: "max 0 inbound \<le> ?k" "?k \<le> int_max"
    using f assms(2) by (auto simp: known_attempts_def split: option.split)
  show ?thesis
  proof (cases "?k = int_max")
    case True
    with n cast_int_overflow show ?thesis by simp
  next
    case False
    with k have "n = ?k + 1" unfolding n by (intro cast_int_id) auto
    with k False show ?thesis by auto
  qed
qed

lemma entry_path_component: "path_component job_id \<Longrightarrow> path_component (job_id @ ''.json'')"
  by (simp add: path_component_def)

lemma entry_path_nonempty [simp]: "entry_path dlq job_id \<noteq> []"
  by (auto simp: entry_path_def path_append_def)

lemma strip_entry_path [simp]:
  "path_component job_id \<Longrightarrow> strip_slash (entry_path dlq job_id) = entry_path dlq job_id"
  by (simp add: entry_path_def strip_slash_path_append entry_path_component)

lemma entry_path_inj:
  "path_component i \<Longrightarrow> path_component j \<Longrightarrow> entry_path dlq i = entry_path dlq j \<longleftrightarrow> i = j"
  by (simp add: entry_path_def path_append_inj entry_path_component)

lemma read_file_exists: "read_file p f = Some s \<Longrightarrow> fs_status p f \<noteq> None"
  by (auto simp: read_file_def split: if_splits option.splits)

lemma record_failure_run:
  "record_failure tk dlq job_id msg reason inbound f =
     (let path = entry_path dlq job_id; n = cast_int (known_attempts (dlq_count tk dlq f job_id) inbound + 1)
      in if denied f path then (Throw (Filesystem_error path), f)
         else if \<not> can_write path f then (Return (Inl (''cannot write dlq entry: '' @ path)), f)
         else (Return (Inr n), write_file path (json_serialize tk (JObject (dlq_entry job_id n reason msg))) f))"
proof -
  let ?p = "entry_path dlq job_id"
  have "fs_status ?p f = None \<Longrightarrow> dlq_count tk dlq f job_id = None"
    using read_file_exists [of ?p f] by (auto simp: dlq_count_def split: option.split)
  then show ?thesis
    by (auto simp: record_failure_def fs_exists_def bindE_def gets_def modify_def ret_def Let_def
        dlq_count_def known_attempts_def max_def split: option.split)
qed

lemma dlq_count_range: "dlq_count tk dlq f job_id = Some m \<Longrightarrow> int_min \<le> m \<and> m \<le> int_max"
  using cast_int_range by (auto simp: dlq_count_def entry_try_count_def split: option.splits sum.splits json.splits)

lemma record_failure_returns:
  "record_failure tk dlq job_id msg reason inbound f = (Return (Inr n), f') \<Longrightarrow> attempt_number inbound n"
  unfolding attempt_number_def
  by (auto simp: record_failure_run Let_def split: if_splits dest: dlq_count_range intro!: exI [of _ "dlq_count tk dlq f job_id"])

section \<open>The interface\<close>

text \<open>
  What the retry logic relies on. \<open>enter\<close> takes the job, the request text, the reason and the
  count the message carried; \<open>recorded\<close> is the count on file.
\<close>

locale retry_ledger =
  fixes recorded :: "'d \<Rightarrow> 'j \<Rightarrow> int option"
    and enter :: "'j \<Rightarrow> string \<Rightarrow> string \<Rightarrow> int \<Rightarrow> ('d, int expected) comp"
    and discard :: "'j \<Rightarrow> 'd \<Rightarrow> 'd"
    and good :: "'j \<Rightarrow> bool"
    and readable :: "string \<Rightarrow> bool"
  assumes record_number: "enter j m r i d = (Return (Inr n), d') \<Longrightarrow>
      n = cast_int (known_attempts (recorded d j) i + 1)"
    and record_stored: "good j \<Longrightarrow> readable m \<Longrightarrow> readable r \<Longrightarrow>
      enter j m r i d = (Return (Inr n), d') \<Longrightarrow> recorded d' j = Some n"
    and record_other: "good j \<Longrightarrow> good k \<Longrightarrow> k \<noteq> j \<Longrightarrow>
      enter j m r i d = (out, d') \<Longrightarrow> recorded d' k = recorded d k"
    and record_refused: "enter j m r i d = (Return (Inl e), d') \<Longrightarrow> d' = d"
    and discard_other: "good j \<Longrightarrow> good k \<Longrightarrow> k \<noteq> j \<Longrightarrow> recorded (discard j d) k = recorded d k"
begin

lemma record_exact:
  assumes "enter j m r i d = (Return (Inr n), d')" and "known_attempts (recorded d j) i < int_max"
  shows "n = known_attempts (recorded d j) i + 1"
proof -
  have "0 \<le> known_attempts (recorded d j) i" by simp
  with assms(2) have "cast_int (known_attempts (recorded d j) i + 1) = known_attempts (recorded d j) i + 1"
    by (intro cast_int_id) simp_all
  with record_number [OF assms(1)] show ?thesis by simp
qed

text \<open>Every recorded failure raises the count above what the message and the file said.\<close>

lemma record_increases:
  assumes "enter j m r i d = (Return (Inr n), d')" and "known_attempts (recorded d j) i < int_max"
  shows "i < n" and "recorded d j = Some k \<Longrightarrow> k < n" and "0 < n"
proof -
  have n: "n = known_attempts (recorded d j) i + 1" by (rule record_exact [OF assms])
  have "i \<le> known_attempts (recorded d j) i" "0 \<le> known_attempts (recorded d j) i" by simp_all
  with n show "i < n" "0 < n" by linarith+
  assume "recorded d j = Some k"
  with n show "k < n" by (auto simp: known_attempts_def)
qed

end

section \<open>The files implement the interface\<close>

definition good_job :: "string \<Rightarrow> bool" where
  "good_job job_id \<longleftrightarrow> path_component job_id \<and> utf8_valid job_id"

lemma dlq_entry_find:
  "obj_find (dlq_entry job_id n reason msg) ''try_count'' = Some (JInt64 n)"
  by (simp add: dlq_entry_def)

lemma dlq_entry_ok:
  assumes "utf8_valid job_id" "utf8_valid reason" "utf8_valid msg" "int_min \<le> n" "n \<le> int_max"
  shows "json_doc_ok (JObject (dlq_entry job_id n reason msg))"
  unfolding dlq_entry_def using assms
  by (intro json_doc_ok_set) simp_all

lemma dlq_count_write_other:
  assumes "path_component j" "path_component k" "k \<noteq> j"
  shows "dlq_count tk dlq (write_file (entry_path dlq j) s f) k = dlq_count tk dlq f k"
    and "dlq_count tk dlq (dlq_remove dlq j f) k = dlq_count tk dlq f k"
  using assms
  by (simp_all add: dlq_count_def dlq_remove_def read_file_frames entry_path_inj)

locale dlq_files = json_toolkit tk for tk :: "'a toolkit_scheme" +
  fixes dlq :: task_dlq
begin

lemma entry_readable:
  assumes "good_job job_id" "utf8_valid reason" "utf8_valid msg" "int_min \<le> n" "n \<le> int_max"
  shows "entry_try_count tk (json_serialize tk (JObject (dlq_entry job_id n reason msg))) = Some n"
proof -
  have "json_doc_ok (JObject (dlq_entry job_id n reason msg))"
    using assms by (intro dlq_entry_ok) (simp_all add: good_job_def)
  then obtain ms where
    ms: "json_parse tk (json_serialize tk (JObject (dlq_entry job_id n reason msg))) = Inr (JObject ms)"
      "map_option forget_doubles (obj_find ms ''try_count'') =
       map_option forget_doubles (obj_find (dlq_entry job_id n reason msg) ''try_count'')"
    by (rule reparse_object) blast
  then have "obj_find ms ''try_count'' = Some (JInt64 n)"
    using forget_doubles_same(2) dlq_entry_find by blast
  with ms(1) assms show ?thesis by (simp add: entry_try_count_def cast_int_id)
qed

lemma record_stored_on_file:
  assumes "good_job j" "utf8_valid m" "utf8_valid r"
    and "record_failure tk dlq j m r i f = (Return (Inr n), f')"
  shows "dlq_count tk dlq f' j = Some n"
proof -
  let ?p = "entry_path dlq j"
  from assms(4) have n: "n = cast_int (known_attempts (dlq_count tk dlq f j) i + 1)"
    and d: "\<not> denied f ?p"
    and f': "f' = write_file ?p (json_serialize tk (JObject (dlq_entry j n r m))) f"
    by (auto simp: record_failure_run Let_def split: if_splits)
  have "read_file ?p f' = Some (json_serialize tk (JObject (dlq_entry j n r m)))"
    unfolding f' using d assms(1) by (intro read_file_write_file) (simp_all add: good_job_def)
  with entry_readable assms(1-3) n cast_int_range show ?thesis
    by (simp add: dlq_count_def)
qed

end

sublocale dlq_files \<subseteq> ledger: retry_ledger "dlq_count tk dlq" "record_failure tk dlq" "dlq_remove dlq"
  good_job utf8_valid
proof unfold_locales
  fix j m r i f n f'
  assume "record_failure tk dlq j m r i f = (Return (Inr n), f')"
  then show "n = cast_int (known_attempts (dlq_count tk dlq f j) i + 1)"
    by (auto simp: record_failure_run Let_def split: if_splits)
next
  fix j m r i f n f'
  assume "good_job j" "utf8_valid m" "utf8_valid r"
    and "record_failure tk dlq j m r i f = (Return (Inr n), f')"
  then show "dlq_count tk dlq f' j = Some n" by (rule record_stored_on_file)
next
  fix j k m r i f out f'
  assume "good_job j" "good_job k" "k \<noteq> j" "record_failure tk dlq j m r i f = (out, f')"
  then show "dlq_count tk dlq f' k = dlq_count tk dlq f k"
    by (auto simp: record_failure_run Let_def good_job_def dlq_count_write_other split: if_splits)
next
  fix j m r i f e f'
  assume "record_failure tk dlq j m r i f = (Return (Inl e), f')"
  then show "f' = f" by (auto simp: record_failure_run Let_def split: if_splits)
next
  fix j k f
  assume "good_job j" "good_job k" "k \<noteq> j"
  then show "dlq_count tk dlq (dlq_remove dlq j f) k = dlq_count tk dlq f k"
    by (simp add: good_job_def dlq_count_write_other)
qed

section \<open>Counting the entries\<close>

text \<open>The names an operator sees as pending: regular files with the extension of entries.\<close>

definition pending_names :: "task_dlq \<Rightarrow> filesys \<Rightarrow> string set" where
  "pending_names dlq f =
     {n. path_component n \<and> (\<exists>s. fs_status (path_append (dlq_path dlq) n) f = Some (Regular s)) \<and>
         path_extension (path_append (dlq_path dlq) n) = ''.json''}"

text \<open>A directory that is there, every entry of it accessible, its path written without a final slash.\<close>

definition dlq_ready :: "task_dlq \<Rightarrow> filesys \<Rightarrow> bool" where
  "dlq_ready dlq f \<longleftrightarrow> fs_inv f \<and> dlq_path dlq \<noteq> [] \<and> last (dlq_path dlq) \<noteq> CHR ''/'' \<and>
     fs_status (dlq_path dlq) f = Some Directory \<and> (\<forall>p. \<not> denied f p)"

lemma count_entries_filter:
  "\<forall>p. \<not> denied f p \<Longrightarrow>
   count_entries es n f = (Return (n + length (filter (\<lambda>p. fs_is_regular_ec p f \<and> path_extension p = ''.json'') es)), f)"
  by (induction es arbitrary: n) (auto simp: ret_def bindE_def entry_is_regular_def)

lemma distinct_map_filter:
  assumes "distinct xs" and "\<And>x y v. x \<in> set xs \<Longrightarrow> y \<in> set xs \<Longrightarrow> g x = Some v \<Longrightarrow> g y = Some v \<Longrightarrow> x = y"
  shows "distinct (List.map_filter g xs)"
  using assms
proof (induction xs)
  case (Cons x xs)
  then have "distinct (List.map_filter g xs)" by simp
  moreover have "y \<notin> set (List.map_filter g xs)" if "g x = Some y" for y
    using Cons.prems that by (fastforce simp: set_map_filter)
  ultimately show ?case by (auto simp: List.map_filter_simps split: option.split)
qed (simp add: List.map_filter_simps)

lemma distinct_dir_names: "fs_inv f \<Longrightarrow> distinct (dir_names d f)"
proof -
  assume inv: "fs_inv f"
  then have "distinct (nodes f)" by (simp add: fs_inv_def distinct_map)
  moreover have "x = y" if "x \<in> set (nodes f)" "y \<in> set (nodes f)"
    "child_name (strip_slash d) (fst x) = Some v" "child_name (strip_slash d) (fst y) = Some v" for x y v
    using inv that by (auto simp: fs_inv_def child_name_Some distinct_map inj_on_def)
  ultimately show ?thesis
    unfolding dir_names_def by (intro distinct_map_filter) (auto simp: case_prod_beta)
qed

lemma plain_dir:
  assumes "d \<noteq> []" "last d \<noteq> CHR ''/''" "path_component n"
  shows "path_append d n = d @ ''/'' @ n" and "strip_slash d = d" and "strip_slash (path_append d n) = path_append d n"
proof -
  show "path_append d n = d @ ''/'' @ n" using assms by (simp add: path_append_component)
  show "strip_slash d = d" using assms(1,2) strip_slash_snoc(1) [of "last d" "butlast d"] by simp
  show "strip_slash (path_append d n) = path_append d n" using assms(3) by (rule strip_slash_path_append)
qed

lemma pending_names_dir:
  assumes "dlq_ready dlq f"
  shows "pending_names dlq f = set (filter (\<lambda>n. fs_is_regular_ec (path_append (dlq_path dlq) n) f \<and>
    path_extension (path_append (dlq_path dlq) n) = ''.json'') (dir_names (dlq_path dlq) f))"
proof -
  let ?d = "dlq_path dlq"
  have d: "?d \<noteq> []" "last ?d \<noteq> CHR ''/''" "strip_slash ?d = ?d" and acc: "\<forall>p. \<not> denied f p"
    using assms strip_slash_snoc(1) [of "last ?d" "butlast ?d"] by (auto simp: dlq_ready_def)
  have "n \<in> set (dir_names ?d f)" if "path_component n" "fs_status (path_append ?d n) f = Some (Regular s)" for n s
    using that d plain_dir [OF d(1,2) that(1)] unfolding set_dir_names
    by (auto simp: fs_status_def split: if_splits dest!: map_of_SomeD intro: image_eqI [rotated])
  then show ?thesis using acc by (auto simp: pending_names_def fs_is_regular_ec_def set_dir_names)
qed

lemma pending_count_card:
  assumes "dlq_ready dlq f"
  shows "pending_count dlq f = (Return (card (pending_names dlq f)), f)"
proof -
  let ?d = "dlq_path dlq"
  let ?P = "\<lambda>n. fs_is_regular_ec (path_append ?d n) f \<and> path_extension (path_append ?d n) = ''.json''"
  have "length (filter (\<lambda>p. fs_is_regular_ec p f \<and> path_extension p = ''.json'') (map (path_append ?d) (dir_names ?d f))) =
      length (filter ?P (dir_names ?d f))"
    by (simp add: filter_map o_def)
  also have "\<dots> = card (pending_names dlq f)"
    using assms distinct_dir_names distinct_card [of "filter ?P (dir_names ?d f)"]
    by (simp add: pending_names_dir dlq_ready_def)
  finally show ?thesis
    using assms count_entries_filter [of f]
    by (simp add: pending_count_def fs_exists_ec_def directory_iterator_def dlq_ready_def)
qed

lemma pending_names_record:
  assumes "good_job j" and "record_failure tk dlq j m r i f = (Return (Inr n), f')"
  shows "pending_names dlq f' = insert (j @ ''.json'') (pending_names dlq f)"
proof -
  let ?p = "entry_path dlq j"
  have comp: "path_component j" "path_component (j @ ''.json'')"
    using assms(1) by (simp_all add: good_job_def entry_path_component)
  from assms(2) obtain s where f': "f' = write_file ?p s f"
    by (auto simp: record_failure_run Let_def split: if_splits)
  have "fs_status (path_append (dlq_path dlq) k) f' =
      (if k = j @ ''.json'' then Some (Regular s) else fs_status (path_append (dlq_path dlq) k) f)"
    if "path_component k" for k
    unfolding f' using that comp
    by (simp add: fs_status_write_file strip_slash_path_append entry_path_def path_append_inj path_append_component_nonempty)
  then show ?thesis
    using comp path_extension_json [OF comp(1)] by (auto simp: pending_names_def)
qed

lemma pending_names_remove:
  assumes "good_job j" and "dlq_ready dlq f" and "fs_status (entry_path dlq j) f \<noteq> Some Directory"
  shows "pending_names dlq (dlq_remove dlq j f) = pending_names dlq f - {j @ ''.json''}"
proof -
  let ?p = "entry_path dlq j"
  have comp: "path_component (j @ ''.json'')"
    using assms(1) by (simp add: good_job_def entry_path_component)
  have "fs_status (path_append (dlq_path dlq) k) (dlq_remove dlq j f) =
      (if k = j @ ''.json'' then None else fs_status (path_append (dlq_path dlq) k) f)" if "path_component k" for k
    using that comp assms(2,3)
    by (simp add: dlq_remove_def fs_status_remove_file dlq_ready_def strip_slash_path_append entry_path_def
        path_append_inj path_append_component_nonempty)
  then show ?thesis by (auto simp: pending_names_def split: if_splits)
qed

lemma finite_pending_names: "dlq_ready dlq f \<Longrightarrow> finite (pending_names dlq f)"
  by (simp add: pending_names_dir)

lemma dlq_ready_record:
  assumes "good_job j" and "dlq_ready dlq f" and "record_failure tk dlq j m r i f = (Return (Inr n), f')"
  shows "dlq_ready dlq f'"
proof -
  from assms(3) obtain s where f': "f' = write_file (entry_path dlq j) s f"
    by (auto simp: record_failure_run Let_def split: if_splits)
  have comp: "path_component (j @ ''.json'')" using assms(1) by (simp add: good_job_def entry_path_component)
  have d: "dlq_path dlq \<noteq> []" "last (dlq_path dlq) \<noteq> CHR ''/''" using assms(2) by (simp_all add: dlq_ready_def)
  then have "strip_slash (dlq_path dlq) \<noteq> entry_path dlq j"
    using plain_dir(1,2) [OF d comp] by (simp add: entry_path_def)
  then have "fs_status (dlq_path dlq) f' = fs_status (dlq_path dlq) f"
    unfolding f' using assms(1) by (simp add: fs_status_write_file good_job_def)
  with assms(2) f' show ?thesis by (simp add: dlq_ready_def fs_inv_write_file)
qed

lemma dlq_ready_remove:
  assumes "good_job j" and "dlq_ready dlq f"
  shows "dlq_ready dlq (dlq_remove dlq j f)"
proof -
  have comp: "path_component (j @ ''.json'')" using assms(1) by (simp add: good_job_def entry_path_component)
  have d: "dlq_path dlq \<noteq> []" "last (dlq_path dlq) \<noteq> CHR ''/''" using assms(2) by (simp_all add: dlq_ready_def)
  then have "strip_slash (dlq_path dlq) \<noteq> strip_slash (entry_path dlq j)"
    using plain_dir [OF d comp] assms(1) by (simp add: entry_path_def good_job_def strip_slash_path_append comp)
  with assms(2) show ?thesis
    by (simp add: dlq_ready_def dlq_remove_def fs_status_remove_other fs_inv_remove)
qed

context dlq_files
begin

text \<open>What an attempt leaves on file, in terms of the ledger.\<close>

lemma attempt_recorded:
  assumes "good_job j" "utf8_valid m" "utf8_valid r"
    and "record_failure tk dlq j m r i f = (Return (Inr n), f')"
    and "known_attempts (dlq_count tk dlq f j) i < int_max"
  shows "n = known_attempts (dlq_count tk dlq f j) i + 1 \<and> dlq_count tk dlq f' j = Some n \<and>
    (good_job k \<longrightarrow> k \<noteq> j \<longrightarrow> dlq_count tk dlq f' k = dlq_count tk dlq f k)"
  using ledger.record_exact [OF assms(4,5)] ledger.record_stored [OF assms(1-4)]
    ledger.record_other [OF assms(1) _ _ assms(4)] by blast

end

interpretation text_dlq: dlq_files ref_toolkit dlq for dlq
  by (simp add: dlq_files_def ref.json_toolkit_axioms)

section \<open>Properties\<close>

definition sample_dlq :: task_dlq where
  "sample_dlq = \<lparr>dlq_path = ''/dlq'', max_retry_count = 3\<rparr>"

definition sample_files :: filesys where
  "sample_files = \<lparr>nodes = [(''/dlq'', Directory)], tmp_dir = None, denied = (\<lambda>p. False)\<rparr>"

lemma sample_record:
  "record_failure ref_toolkit sample_dlq ''j1'' m r i sample_files =
     (Return (Inr (cast_int (max 0 i + 1))),
      write_file ''/dlq/j1.json'' (print_json (JObject (dlq_entry ''j1'' (cast_int (max 0 i + 1)) r m))) sample_files)"
  by (simp add: record_failure_run dlq_count_def known_attempts_def file_defs path_defs Let_def
      sample_dlq_def sample_files_def entry_path_def ref_toolkit_def)

lemma sample_ready:
  "dlq_ready sample_dlq sample_files" "good_job ''j1''" "good_job ''j2''"
  by (auto simp: dlq_ready_def sample_dlq_def sample_files_def fs_inv_def file_defs path_defs good_job_def)

lemma sample_empty:
  "dlq_count ref_toolkit sample_dlq sample_files ''j1'' = None" "dlq_count ref_toolkit sample_dlq sample_files ''j2'' = None"
  "pending_names sample_dlq sample_files = {}"
  by (auto simp: sample_dlq_def sample_files_def file_defs path_defs dlq_count_def entry_path_def pending_names_def
      split: if_splits)

text \<open>
  C20. A recorded failure gets the number after the larger of the count on file and the count the
  message carries. That number is what the file then says, and the counts of other jobs stay.
\<close>

theorem record_failure_counts:
  assumes "json_toolkit tk" and "good_job j" and "utf8_valid m" and "utf8_valid r"
    and "record_failure tk dlq j m r i f = (Return (Inr n), f')"
    and "known_attempts (dlq_count tk dlq f j) i < int_max"
  shows "n = known_attempts (dlq_count tk dlq f j) i + 1 \<and> dlq_count tk dlq f' j = Some n \<and>
    (\<forall>k. good_job k \<longrightarrow> k \<noteq> j \<longrightarrow> dlq_count tk dlq f' k = dlq_count tk dlq f k)"
  using dlq_files.attempt_recorded [OF _ assms(2-6)] assms(1) by (simp add: dlq_files_def)

theorem record_failure_counts_witness:
  "\<exists>f'. record_failure ref_toolkit sample_dlq ''j1'' ''{}'' ''exit code 1'' 2 sample_files = (Return (Inr 3), f') \<and>
     dlq_count ref_toolkit sample_dlq f' ''j1'' = Some 3 \<and> dlq_count ref_toolkit sample_dlq f' ''j2'' = None"
proof -
  let ?f = "write_file ''/dlq/j1.json'' (print_json (JObject (dlq_entry ''j1'' 3 ''exit code 1'' ''{}''))) sample_files"
  have run: "record_failure ref_toolkit sample_dlq ''j1'' ''{}'' ''exit code 1'' 2 sample_files = (Return (Inr 3), ?f)"
    by (simp add: sample_record cast_int_id)
  have "known_attempts (dlq_count ref_toolkit sample_dlq sample_files ''j1'') 2 < int_max"
    by (simp add: sample_empty known_attempts_def)
  from record_failure_counts [OF ref.json_toolkit_axioms sample_ready(2) _ _ run this] sample_ready(3) run
  show ?thesis by (auto simp: sample_empty)
qed

text \<open>
  C21. Recording a failure of a job makes its entry pending and removing it undoes exactly that:
  \<^verbatim>\<open>pending_count\<close> counts the entries before, one more if the job had none, and all but the job's.
\<close>

theorem pending_count_follows:
  assumes "dlq_ready dlq f" and "good_job j" and "record_failure tk dlq j m r i f = (Return (Inr n), f')"
  shows "pending_count dlq f = (Return (card (pending_names dlq f)), f) \<and>
    pending_count dlq f' = (Return (card (insert (j @ ''.json'') (pending_names dlq f))), f') \<and>
    pending_count dlq (dlq_remove dlq j f') =
      (Return (card (pending_names dlq f - {j @ ''.json''})), dlq_remove dlq j f') \<and>
    dlq_count tk dlq (dlq_remove dlq j f') j = None"
proof -
  have r: "dlq_ready dlq f'" by (rule dlq_ready_record [OF assms(2,1,3)])
  have p: "pending_names dlq f' = insert (j @ ''.json'') (pending_names dlq f)" by (rule pending_names_record [OF assms(2,3)])
  obtain s where s: "fs_status (entry_path dlq j) f' = Some (Regular s)"
    using assms(2,3) by (auto simp: record_failure_run Let_def fs_status_write_file good_job_def split: if_splits)
  have q: "pending_names dlq (dlq_remove dlq j f') = pending_names dlq f - {j @ ''.json''}"
    using pending_names_remove [OF assms(2) r] s p by auto
  have "fs_status (entry_path dlq j) (dlq_remove dlq j f') = None"
    using r s assms(2) by (simp add: dlq_remove_def fs_status_remove_file dlq_ready_def good_job_def)
  then have "dlq_count tk dlq (dlq_remove dlq j f') j = None" by (simp add: dlq_count_def read_file_def)
  with pending_count_card [OF assms(1)] pending_count_card [OF r] pending_count_card [OF dlq_ready_remove [OF assms(2) r]] p q
  show ?thesis by simp
qed

theorem pending_count_follows_witness:
  "\<exists>f'. record_failure ref_toolkit sample_dlq ''j1'' ''{}'' ''exit code 1'' 0 sample_files = (Return (Inr 1), f') \<and>
     fst (pending_count sample_dlq f') = Return 1 \<and> fst (pending_count sample_dlq (dlq_remove sample_dlq ''j1'' f')) = Return 0"
proof -
  let ?f = "write_file ''/dlq/j1.json'' (print_json (JObject (dlq_entry ''j1'' 1 ''exit code 1'' ''{}''))) sample_files"
  have run: "record_failure ref_toolkit sample_dlq ''j1'' ''{}'' ''exit code 1'' 0 sample_files = (Return (Inr 1), ?f)"
    by (simp add: sample_record cast_int_id)
  from pending_count_follows [OF sample_ready(1,2) run] run show ?thesis by (auto simp: sample_empty)
qed

text \<open>
  Recording a failure refuses, with the path in the message, exactly when the entry can be
  examined and cannot be opened for writing; it throws exactly when the entry cannot be examined.
  In both cases the files stay as they are.
\<close>

lemma record_failure_errors:
  "(record_failure tk dlq j m r i f = (Return (Inl e), f') \<longleftrightarrow>
      \<not> denied f (entry_path dlq j) \<and> \<not> can_write (entry_path dlq j) f \<and>
      e = ''cannot write dlq entry: '' @ entry_path dlq j \<and> f' = f) \<and>
   (record_failure tk dlq j m r i f = (Throw x, f') \<longleftrightarrow>
      denied f (entry_path dlq j) \<and> x = Filesystem_error (entry_path dlq j) \<and> f' = f)"
  by (auto simp: record_failure_run Let_def)

text \<open>
  C22. The count is an \<^verbatim>\<open>int\<close>, and one failure after the largest value the number wraps (the source
  leaves this overflow undefined): it is then negative, so a request that has exhausted its retries
  counts as one that may be retried.
\<close>

theorem record_failure_overflow:
  assumes "known_attempts (dlq_count tk dlq f j) i = int_max" and "can_write (entry_path dlq j) f"
    and "0 \<le> max_retry_count dlq"
  shows "fst (record_failure tk dlq j m r i f) = Return (Inr int_min) \<and> can_retry dlq int_min"
  using assms cast_int_overflow by (simp add: record_failure_run can_write_def can_retry_def)

theorem record_failure_overflow_witness:
  "fst (record_failure ref_toolkit sample_dlq ''j1'' ''{}'' ''exit code 1'' int_max sample_files) = Return (Inr int_min) \<and>
   can_retry sample_dlq int_min"
  by (rule record_failure_overflow)
    (simp_all add: dlq_count_def known_attempts_def sample_dlq_def sample_files_def file_defs path_defs entry_path_def)

end
