(* ===== verification/Worker_World.thy ===== *)
theory Worker_World
  imports Json_Values Std_Files
begin

text \<open>
  The world the worker acts on. Redis, S3, SQS and the process launcher are code outside the
  repository: the record \<open>services\<close> holds their operations as parameters, on opaque states \<open>'r\<close>
  (Redis) and \<open>'e\<close> (everything else), so that a definition of the worker can do nothing to them but
  call these operations. Every call that changes something outside is appended to \<open>trace\<close>, in order;
  a sleep is recorded with its length. The clock and the random generator are streams of readings.
  Log lines are not part of the world: nothing in the worker reads them.
\<close>

section \<open>Services\<close>

text \<open>
  What the event loop of a launched process delivers: the completion of the timer (with the
  cancellation error, or without) and of the wait (with an error text, or without).
\<close>

datatype completion = Timer_done bool | Wait_done "string option"

record ('r, 'e) services = toolkit +
  redis_connect :: "'r \<Rightarrow> unit expected \<times> 'r"
  redis_get :: "string \<Rightarrow> 'r \<Rightarrow> string expected \<times> 'r"
  redis_set :: "string \<Rightarrow> string \<Rightarrow> int option \<Rightarrow> 'r \<Rightarrow> unit expected \<times> 'r"
  s3_download_file :: "string \<Rightarrow> string \<Rightarrow> string \<Rightarrow> 'e \<Rightarrow> filesys \<Rightarrow> unit expected \<times> 'e \<times> filesys"
  s3_upload_file :: "string \<Rightarrow> string \<Rightarrow> string \<Rightarrow> 'e \<Rightarrow> filesys \<Rightarrow> unit expected \<times> 'e"
  s3_presign :: "string \<Rightarrow> string \<Rightarrow> int \<Rightarrow> 'e \<Rightarrow> string expected \<times> 'e"
  sqs_send :: "string \<Rightarrow> string \<Rightarrow> string \<Rightarrow> 'e \<Rightarrow> unit expected \<times> 'e"
  process_run :: "string \<Rightarrow> string list \<Rightarrow> string \<Rightarrow> int \<Rightarrow> 'e \<Rightarrow> filesys \<Rightarrow>
    (string + completion list \<times> int) \<times> 'e \<times> filesys"

section \<open>State\<close>

datatype event =
    Slept int
  | Redis_stored string string "int option"
  | S3_downloaded string string string
  | S3_uploaded string string string
  | Launched string "string list" int
  | Sqs_sent string string string

record ('r, 'e) world =
  redis :: 'r
  ext :: 'e
  fs :: filesys
  rnd :: "nat \<Rightarrow> nat"
  rnd_pos :: nat
  clock :: "nat \<Rightarrow> int"
  clock_pos :: nat
  trace :: "event list"

definition emit :: "event \<Rightarrow> ('r, 'e) world \<Rightarrow> ('r, 'e) world" where
  "emit e w = w\<lparr>trace := trace w @ [e]\<rparr>"

section \<open>Calls\<close>

definition call_redis_connect :: "('r, 'e) services \<Rightarrow> (('r, 'e) world, unit expected) comp" where
  "call_redis_connect sv w =
     (case redis_connect sv (redis w) of (res, r) \<Rightarrow> (Return res, w\<lparr>redis := r\<rparr>))"

definition call_redis_get :: "('r, 'e) services \<Rightarrow> string \<Rightarrow> (('r, 'e) world, string expected) comp" where
  "call_redis_get sv key w =
     (case redis_get sv key (redis w) of (res, r) \<Rightarrow> (Return res, w\<lparr>redis := r\<rparr>))"

definition call_redis_set ::
  "('r, 'e) services \<Rightarrow> string \<Rightarrow> string \<Rightarrow> int option \<Rightarrow> (('r, 'e) world, unit expected) comp" where
  "call_redis_set sv key text ttl w =
     (case redis_set sv key text ttl (redis w) of
        (res, r) \<Rightarrow> (Return res, emit (Redis_stored key text ttl) (w\<lparr>redis := r\<rparr>)))"

definition call_s3_download ::
  "('r, 'e) services \<Rightarrow> string \<Rightarrow> string \<Rightarrow> string \<Rightarrow> (('r, 'e) world, unit expected) comp" where
  "call_s3_download sv bucket key path w =
     (case s3_download_file sv bucket key path (ext w) (fs w) of
        (res, e, f) \<Rightarrow> (Return res, emit (S3_downloaded bucket key path) (w\<lparr>ext := e, fs := f\<rparr>)))"

definition call_s3_upload ::
  "('r, 'e) services \<Rightarrow> string \<Rightarrow> string \<Rightarrow> string \<Rightarrow> (('r, 'e) world, unit expected) comp" where
  "call_s3_upload sv bucket key path w =
     (case s3_upload_file sv bucket key path (ext w) (fs w) of
        (res, e) \<Rightarrow> (Return res, emit (S3_uploaded bucket key path) (w\<lparr>ext := e\<rparr>)))"

definition call_s3_presign ::
  "('r, 'e) services \<Rightarrow> string \<Rightarrow> string \<Rightarrow> int \<Rightarrow> (('r, 'e) world, string expected) comp" where
  "call_s3_presign sv bucket key ttl w =
     (case s3_presign sv bucket key ttl (ext w) of (res, e) \<Rightarrow> (Return res, w\<lparr>ext := e\<rparr>))"

definition call_sqs_send ::
  "('r, 'e) services \<Rightarrow> string \<Rightarrow> string \<Rightarrow> string \<Rightarrow> (('r, 'e) world, unit expected) comp" where
  "call_sqs_send sv body gid dedup w =
     (case sqs_send sv body gid dedup (ext w) of
        (res, e) \<Rightarrow> (Return res, emit (Sqs_sent body gid dedup) (w\<lparr>ext := e\<rparr>)))"

definition call_process_run ::
  "('r, 'e) services \<Rightarrow> string \<Rightarrow> string list \<Rightarrow> string \<Rightarrow> int \<Rightarrow>
   (('r, 'e) world, string + completion list \<times> int) comp" where
  "call_process_run sv exe args stdout_path timeout w =
     (case process_run sv exe args stdout_path timeout (ext w) (fs w) of
        (res, e, f) \<Rightarrow> (Return res, emit (Launched exe args timeout) (w\<lparr>ext := e, fs := f\<rparr>)))"

text \<open>\<^verbatim>\<open>std::this_thread::sleep_for\<close>, \<^verbatim>\<open>uniform_int_distribution(0, hi)\<close> and \<^verbatim>\<open>system_clock::now\<close>.\<close>

definition sleep_for :: "int \<Rightarrow> (('r, 'e) world, unit) comp" where
  "sleep_for ms = modify (emit (Slept ms))"

definition uniform_draw :: "int \<Rightarrow> (('r, 'e) world, int) comp" where
  "uniform_draw hi w = (Return (int (rnd w (rnd_pos w)) mod (hi + 1)), w\<lparr>rnd_pos := Suc (rnd_pos w)\<rparr>)"

definition system_clock_now :: "(('r, 'e) world, int) comp" where
  "system_clock_now w = (Return (clock w (clock_pos w)), w\<lparr>clock_pos := Suc (clock_pos w)\<rparr>)"

text \<open>A computation on the file system, run in the world.\<close>

definition lift_fs :: "(filesys, 'a) comp \<Rightarrow> (('r, 'e) world, 'a) comp" where
  "lift_fs m w = (case m (fs w) of (res, f) \<Rightarrow> (res, w\<lparr>fs := f\<rparr>))"

definition update_fs :: "(filesys \<Rightarrow> filesys) \<Rightarrow> ('r, 'e) world \<Rightarrow> ('r, 'e) world" where
  "update_fs g w = w\<lparr>fs := g (fs w)\<rparr>"

fun is_sleep :: "event \<Rightarrow> bool" where
  "is_sleep (Slept ms) = True"
| "is_sleep _ = False"

section \<open>Behaviour of computations\<close>

text \<open>
  \<open>behaves P Q E m\<close>: whatever the state, \<open>m\<close> only appends events with \<open>P\<close> to the trace, returns
  only values with \<open>Q\<close> and throws only exceptions with \<open>E\<close>. The rules follow the sequencing of the
  code, so a property of a handler is proved call by call.
\<close>

definition behaves ::
  "(event \<Rightarrow> bool) \<Rightarrow> ('a \<Rightarrow> bool) \<Rightarrow> (exn \<Rightarrow> bool) \<Rightarrow> (('r, 'e) world, 'a) comp \<Rightarrow> bool" where
  "behaves P Q E m \<longleftrightarrow>
     (\<forall>w r w'. m w = (r, w') \<longrightarrow>
        (\<exists>es. trace w' = trace w @ es \<and> list_all P es) \<and>
        (case r of Return a \<Rightarrow> Q a | Throw e \<Rightarrow> E e))"

named_theorems behaves_rules "what a computation emits, returns and throws"

lemma behavesI:
  assumes "\<And>w r w'. m w = (r, w') \<Longrightarrow> \<exists>es. trace w' = trace w @ es \<and> list_all P es"
    and "\<And>w a w'. m w = (Return a, w') \<Longrightarrow> Q a"
    and "\<And>w e w'. m w = (Throw e, w') \<Longrightarrow> E e"
  shows "behaves P Q E m"
  unfolding behaves_def using assms by (auto split: outcome.split)

lemma behaves_emits:
  "behaves P Q E m \<Longrightarrow> m w = (r, w') \<Longrightarrow> \<exists>es. trace w' = trace w @ es \<and> list_all P es"
  by (simp add: behaves_def)

lemma behaves_returns: "behaves P Q E m \<Longrightarrow> m w = (Return a, w') \<Longrightarrow> Q a"
  by (fastforce simp: behaves_def)

lemma behaves_throws: "behaves P Q E m \<Longrightarrow> m w = (Throw e, w') \<Longrightarrow> E e"
  by (fastforce simp: behaves_def)

lemma behaves_weaken:
  assumes "behaves P Q E m" and "\<And>e. P e \<Longrightarrow> P' e" and "\<And>a. Q a \<Longrightarrow> Q' a" and "\<And>x. E x \<Longrightarrow> E' x"
  shows "behaves P' Q' E' m"
proof (rule behavesI)
  fix w r w' assume "m w = (r, w')"
  with behaves_emits [OF assms(1)] assms(2)
  show "\<exists>es. trace w' = trace w @ es \<and> list_all P' es" by (metis list.pred_mono_strong)
next
  show "Q' a" if "m w = (Return a, w')" for w a w' using behaves_returns [OF assms(1) that] by (rule assms(3))
  show "E' e" if "m w = (Throw e, w')" for w e w' using behaves_throws [OF assms(1) that] by (rule assms(4))
qed

lemma behaves_bindE:
  assumes m: "behaves P R E m" and f: "\<And>a. R a \<Longrightarrow> behaves P Q E (f a)"
  shows "behaves P Q E (bindE m f)"
proof -
  have "(\<exists>es. trace w' = trace w @ es \<and> list_all P es) \<and> (case r of Return a \<Rightarrow> Q a | Throw e \<Rightarrow> E e)"
    if run: "bindE m f w = (r, w')" for w r w'
  proof -
    obtain x w1 where x: "m w = (x, w1)" by (cases "m w")
    from behaves_emits [OF m x] obtain es where es: "trace w1 = trace w @ es" "list_all P es" by blast
    show ?thesis
    proof (cases x)
      case (Return a)
      with run x have run': "f a w1 = (r, w')" by (simp add: bindE_def)
      have "behaves P Q E (f a)" using f behaves_returns [OF m] x Return by blast
      with run' obtain es' where "trace w' = trace w1 @ es'" "list_all P es'"
        "case r of Return a \<Rightarrow> Q a | Throw e \<Rightarrow> E e" unfolding behaves_def by blast
      with es show ?thesis by (auto intro!: exI [of _ "es @ es'"])
    next
      case (Throw e)
      with run x es behaves_throws [OF m] show ?thesis by (auto simp: bindE_def)
    qed
  qed
  then show ?thesis unfolding behaves_def by blast
qed

lemma behaves_then [behaves_rules]:
  "behaves P (\<lambda>_. True) E m \<Longrightarrow> (\<And>a. behaves P Q E (f a)) \<Longrightarrow> behaves P Q E (bindE m f)"
  by (rule behaves_bindE)

lemma behaves_finallyE [behaves_rules]:
  assumes "behaves P Q E m" and "\<And>w. trace (d w) = trace w"
  shows "behaves P Q E (finallyE m d)"
proof -
  have run: "\<exists>w1. m w = (r, w1) \<and> trace w' = trace w1" if "finallyE m d w = (r, w')" for w r w'
    using that assms(2) by (auto simp: finallyE_def split: prod.splits)
  show ?thesis
  proof (rule behavesI)
    fix w r w' assume "finallyE m d w = (r, w')"
    from run [OF this] obtain w1 where "m w = (r, w1)" "trace w' = trace w1" by blast
    with behaves_emits [OF assms(1)] show "\<exists>es. trace w' = trace w @ es \<and> list_all P es" by metis
  next
    show "Q a" if "finallyE m d w = (Return a, w')" for w a w'
      using run [OF that] behaves_returns [OF assms(1)] by blast
    show "E e" if "finallyE m d w = (Throw e, w')" for w e w'
      using run [OF that] behaves_throws [OF assms(1)] by blast
  qed
qed

lemma behaves_ret [behaves_rules]: "Q a \<Longrightarrow> behaves P Q E (ret a)"
  by (rule behavesI) (auto simp: ret_def)

lemma behaves_gets [behaves_rules]: "behaves P (\<lambda>_. True) E (gets f)"
  by (rule behavesI) (auto simp: gets_def)

lemma behaves_update_fs [behaves_rules]: "behaves P (\<lambda>_. True) E (modify (update_fs g))"
  by (rule behavesI) (auto simp: modify_def update_fs_def)

lemma behaves_lift_fs:
  "(\<And>f a f'. m f = (Return a, f') \<Longrightarrow> Q a) \<Longrightarrow> (\<And>f e f'. m f = (Throw e, f') \<Longrightarrow> E e) \<Longrightarrow>
   behaves P Q E (lift_fs m)"
  by (rule behavesI) (auto simp: lift_fs_def split: prod.splits)

lemma behaves_reads [behaves_rules]:
  "behaves P (\<lambda>_. True) E (call_redis_connect sv)"
  "behaves P (\<lambda>_. True) E (call_redis_get sv key)"
  "behaves P (\<lambda>_. True) E (call_s3_presign sv b k ttl)"
  "behaves P (\<lambda>_. True) E system_clock_now"
  by (rule behavesI, auto simp: call_redis_connect_def call_redis_get_def call_s3_presign_def
      system_clock_now_def split: prod.splits)+

lemma behaves_uniform_draw:
  "0 \<le> hi \<Longrightarrow> behaves P (\<lambda>n. 0 \<le> n \<and> n \<le> hi) E (uniform_draw hi)"
  using pos_mod_bound [of "hi + 1"] by (intro behavesI) (fastforce simp: uniform_draw_def)+

lemma behaves_calls [behaves_rules]:
  "P (Redis_stored key text ttl) \<Longrightarrow> behaves P (\<lambda>_. True) E (call_redis_set sv key text ttl)"
  "P (S3_downloaded bucket key path) \<Longrightarrow> behaves P (\<lambda>_. True) E (call_s3_download sv bucket key path)"
  "P (S3_uploaded bucket key path) \<Longrightarrow> behaves P (\<lambda>_. True) E (call_s3_upload sv bucket key path)"
  "P (Sqs_sent body gid dedup) \<Longrightarrow> behaves P (\<lambda>_. True) E (call_sqs_send sv body gid dedup)"
  "P (Launched exe args timeout) \<Longrightarrow> behaves P (\<lambda>_. True) E (call_process_run sv exe args out timeout)"
  "P (Slept ms) \<Longrightarrow> behaves P (\<lambda>_. True) E (sleep_for ms)"
  by (rule behavesI, auto simp: call_redis_set_def call_s3_download_def call_s3_upload_def call_sqs_send_def
      call_process_run_def sleep_for_def modify_def emit_def split: prod.splits)+

lemma behaves_if [behaves_rules]:
  "(b \<Longrightarrow> behaves P Q E m) \<Longrightarrow> (\<not> b \<Longrightarrow> behaves P Q E n) \<Longrightarrow> behaves P Q E (if b then m else n)"
  by simp

lemma behaves_option [behaves_rules]:
  "(z = None \<Longrightarrow> behaves P Q E m) \<Longrightarrow> (\<And>x. z = Some x \<Longrightarrow> behaves P Q E (f x)) \<Longrightarrow>
   behaves P Q E (case z of None \<Rightarrow> m | Some x \<Rightarrow> f x)"
  by (simp split: option.split)

lemma behaves_sum [behaves_rules]:
  "(\<And>x. z = Inl x \<Longrightarrow> behaves P Q E (f x)) \<Longrightarrow> (\<And>y. z = Inr y \<Longrightarrow> behaves P Q E (g y)) \<Longrightarrow>
   behaves P Q E (case z of Inl x \<Rightarrow> f x | Inr y \<Rightarrow> g y)"
  by (simp split: sum.split)

section \<open>Sequences of calls\<close>

text \<open>
  \<open>does m L\<close>: whatever the state, \<open>m\<close> appends to the trace a sequence of calls that is in the
  language \<open>L\<close> of its result. Where \<open>behaves\<close> bounds the single calls, \<open>does\<close> fixes their order.
\<close>

definition does :: "(('r, 'e) world, 'a) comp \<Rightarrow> ('a outcome \<Rightarrow> event list \<Rightarrow> bool) \<Rightarrow> bool" where
  "does m L \<longleftrightarrow> (\<forall>w r w'. m w = (r, w') \<longrightarrow> (\<exists>es. trace w' = trace w @ es \<and> L r es))"

lemma does_run: "does m L \<Longrightarrow> m w = (r, w') \<Longrightarrow> \<exists>es. trace w' = trace w @ es \<and> L r es"
  by (simp add: does_def)

lemma does_weaken: "does m L \<Longrightarrow> (\<And>r es. L r es \<Longrightarrow> L' r es) \<Longrightarrow> does m L'"
  unfolding does_def by blast

lemma does_behaves: "behaves P Q E m \<Longrightarrow> does m (\<lambda>r es. list_all P es \<and> (case r of Return a \<Rightarrow> Q a | Throw e \<Rightarrow> E e))"
  unfolding does_def behaves_def by blast

lemma does_bindE_value:
  assumes m: "does m M" and f: "\<And>a es. M (Return a) es \<Longrightarrow> does (f a) (F a)"
    and ok: "\<And>a es r es'. M (Return a) es \<Longrightarrow> F a r es' \<Longrightarrow> L r (es @ es')"
    and bad: "\<And>e es. M (Throw e) es \<Longrightarrow> L (Throw e) es"
  shows "does (bindE m f) L"
  unfolding does_def
proof (intro allI impI)
  fix w r w' assume run: "bindE m f w = (r, w')"
  obtain x w1 where x: "m w = (x, w1)" by (cases "m w")
  from does_run [OF m x] obtain es where es: "trace w1 = trace w @ es" "M x es" by blast
  show "\<exists>es. trace w' = trace w @ es \<and> L r es"
  proof (cases x)
    case (Return a)
    with run x have "f a w1 = (r, w')" by (simp add: bindE_def)
    from does_run [OF f this] es(2) Return obtain es' where "trace w' = trace w1 @ es'" "F a r es'" by blast
    with es Return ok show ?thesis by auto
  next
    case (Throw e)
    with run x es bad show ?thesis by (auto simp: bindE_def)
  qed
qed

lemma does_bindE:
  assumes "does m M" and "\<And>a. does (f a) (F a)"
    and "\<And>a es r es'. M (Return a) es \<Longrightarrow> F a r es' \<Longrightarrow> L r (es @ es')"
    and "\<And>e es. M (Throw e) es \<Longrightarrow> L (Throw e) es"
  shows "does (bindE m f) L"
  using assms by (rule does_bindE_value)

lemma does_ret: "does (ret a) (\<lambda>r es. r = Return a \<and> es = [])"
  by (simp add: does_def ret_def)

lemma does_finallyE:
  assumes "does m L" and "\<And>w. trace (d w) = trace w"
  shows "does (finallyE m d) L"
  unfolding does_def using does_run [OF assms(1)] assms(2)
  by (fastforce simp: finallyE_def split: prod.splits)

lemma does_silent: "(\<And>w. trace (snd (m w)) = trace w) \<Longrightarrow> does m (\<lambda>r es. es = [])"
  unfolding does_def by (metis append_Nil2 snd_conv)

lemma does_if: "(b \<Longrightarrow> does m L) \<Longrightarrow> (\<not> b \<Longrightarrow> does n L) \<Longrightarrow> does (if b then m else n) L"
  by simp

lemma does_option:
  "(z = None \<Longrightarrow> does m L) \<Longrightarrow> (\<And>x. z = Some x \<Longrightarrow> does (f x) L) \<Longrightarrow>
   does (case z of None \<Rightarrow> m | Some x \<Rightarrow> f x) L"
  by (simp split: option.split)

lemma does_sum:
  "(\<And>x. z = Inl x \<Longrightarrow> does (f x) L) \<Longrightarrow> (\<And>y. z = Inr y \<Longrightarrow> does (g y) L) \<Longrightarrow>
   does (case z of Inl x \<Rightarrow> f x | Inr y \<Rightarrow> g y) L"
  by (simp split: sum.split)

end
