(* ===== verification/Configurations.thy ===== *)
theory Configurations
  imports Json_Values Std_Files
begin

text \<open>
  \<^verbatim>\<open>Configurations\<close> (\<^verbatim>\<open>src/Main/Configurations.h\<close>, \<^verbatim>\<open>src/Main/Configurations.cpp\<close>): defaults, the
  settings file, the command line, the range checks, and the check of the required settings. The
  argument parser and the file reader are code of CppToolkit, outside the repository: they are
  parameters. A member \<^verbatim>\<open>x_\<close> of the class is the field \<open>c_x\<close>; the getters are the field selectors.
\<close>

section \<open>Data\<close>

record task_definition =
  task_name :: string
  executable :: string
  description :: string

record configurations =
  c_root_path :: string
  c_config_path :: string
  c_worker_title :: string
  c_write_file_log :: int
  c_write_console_log :: int
  c_write_interval :: int
  c_log_root_path :: string
  c_high_priority_count :: int
  c_normal_priority_count :: int
  c_low_priority_count :: int
  c_redis_host :: string
  c_redis_port :: int
  c_redis_db_index :: int
  c_redis_ttl_sec :: int
  c_aws_region :: string
  c_aws_access_key :: string
  c_aws_secret_key :: string
  c_aws_endpoint :: string
  c_sqs_request_queue_url :: string
  c_sqs_message_group_id :: string
  c_sqs_wait_time_seconds :: int
  c_sqs_visibility_timeout :: int
  c_sqs_max_number_of_messages :: int
  c_s3_bucket :: string
  c_presign_ttl_sec :: int
  c_dlq_path :: string
  c_dlq_max_retry_count :: int
  c_dlq_backlog_alert_count :: int
  c_default_timeout_sec :: int
  c_task_whitelist :: "task_definition list"

text \<open>CppToolkit: the parsed command line, the file reader, the number of \<^verbatim>\<open>LogTypes::Information\<close>.\<close>

record argument_parser =
  program_folder :: string
  arg_string :: "string \<Rightarrow> string option"
  arg_int :: "string \<Rightarrow> int option"

record config_source =
  file_opens :: "string \<Rightarrow> bool"
  file_bytes :: "string \<Rightarrow> string expected"
  bytes_to_string :: "string \<Rightarrow> string"
  log_information :: int

section \<open>Loading\<close>

definition default_configurations :: "config_source \<Rightarrow> configurations" where
  "default_configurations src = \<lparr>
     c_root_path = '''', c_config_path = '''', c_worker_title = ''TaskForgeWorker'',
     c_write_file_log = log_information src, c_write_console_log = log_information src,
     c_write_interval = 1000, c_log_root_path = '''',
     c_high_priority_count = 1, c_normal_priority_count = 2, c_low_priority_count = 1,
     c_redis_host = ''127.0.0.1'', c_redis_port = 6379, c_redis_db_index = 0, c_redis_ttl_sec = 3600,
     c_aws_region = ''us-east-1'', c_aws_access_key = '''', c_aws_secret_key = '''', c_aws_endpoint = '''',
     c_sqs_request_queue_url = '''', c_sqs_message_group_id = ''request'',
     c_sqs_wait_time_seconds = 5, c_sqs_visibility_timeout = 60, c_sqs_max_number_of_messages = 1,
     c_s3_bucket = '''', c_presign_ttl_sec = 600,
     c_dlq_path = '''', c_dlq_max_retry_count = 3, c_dlq_backlog_alert_count = 10,
     c_default_timeout_sec = 30, c_task_whitelist = []\<rparr>"

definition read_string :: "jobject \<Rightarrow> string \<Rightarrow> string \<Rightarrow> string" where
  "read_string message key target =
     (case get_string message key of None \<Rightarrow> target | Some s \<Rightarrow> c_str s)"

definition read_int :: "jobject \<Rightarrow> string \<Rightarrow> int \<Rightarrow> int" where
  "read_int message key target =
     (case obj_find message key of Some (JInt64 i) \<Rightarrow> cast_int i | _ \<Rightarrow> target)"

definition read_long :: "jobject \<Rightarrow> string \<Rightarrow> int \<Rightarrow> int" where
  "read_long message key target =
     (case obj_find message key of Some (JInt64 i) \<Rightarrow> i | _ \<Rightarrow> target)"

fun load_whitelist :: "json list \<Rightarrow> task_definition list" where
  "load_whitelist [] = []"
| "load_whitelist (JObject entry # rest) =
     (case get_string entry ''name'' of
        None \<Rightarrow> load_whitelist rest
      | Some name \<Rightarrow>
          (case get_string entry ''executable'' of
             None \<Rightarrow> load_whitelist rest
           | Some exec_path \<Rightarrow>
               \<lparr>task_name = c_str name, executable = c_str exec_path,
                description = (case get_string entry ''description'' of None \<Rightarrow> '''' | Some d \<Rightarrow> c_str d)\<rparr>
               # load_whitelist rest))"
| "load_whitelist (_ # rest) = load_whitelist rest"

definition apply_settings :: "jobject \<Rightarrow> configurations \<Rightarrow> configurations" where
  "apply_settings message c = c\<lparr>
     c_worker_title := read_string message ''worker_title'' (c_worker_title c),
     c_write_file_log := read_int message ''write_file_log'' (c_write_file_log c),
     c_write_console_log := read_int message ''write_console_log'' (c_write_console_log c),
     c_write_interval := read_int message ''write_interval'' (c_write_interval c),
     c_log_root_path := read_string message ''log_root_path'' (c_log_root_path c),
     c_high_priority_count := read_int message ''high_priority_count'' (c_high_priority_count c),
     c_normal_priority_count := read_int message ''normal_priority_count'' (c_normal_priority_count c),
     c_low_priority_count := read_int message ''low_priority_count'' (c_low_priority_count c),
     c_redis_host := read_string message ''redis_host'' (c_redis_host c),
     c_redis_port := read_int message ''redis_port'' (c_redis_port c),
     c_redis_db_index := read_int message ''redis_db_index'' (c_redis_db_index c),
     c_redis_ttl_sec := read_long message ''redis_ttl_sec'' (c_redis_ttl_sec c),
     c_aws_region := read_string message ''aws_region'' (c_aws_region c),
     c_aws_access_key := read_string message ''aws_access_key'' (c_aws_access_key c),
     c_aws_secret_key := read_string message ''aws_secret_key'' (c_aws_secret_key c),
     c_aws_endpoint := read_string message ''aws_endpoint'' (c_aws_endpoint c),
     c_sqs_request_queue_url := read_string message ''sqs_request_queue_url'' (c_sqs_request_queue_url c),
     c_sqs_message_group_id := read_string message ''sqs_message_group_id'' (c_sqs_message_group_id c),
     c_sqs_wait_time_seconds := read_int message ''sqs_wait_time_seconds'' (c_sqs_wait_time_seconds c),
     c_sqs_visibility_timeout := read_int message ''sqs_visibility_timeout'' (c_sqs_visibility_timeout c),
     c_sqs_max_number_of_messages :=
       read_int message ''sqs_max_number_of_messages'' (c_sqs_max_number_of_messages c),
     c_s3_bucket := read_string message ''s3_bucket'' (c_s3_bucket c),
     c_presign_ttl_sec := read_int message ''presign_ttl_sec'' (c_presign_ttl_sec c),
     c_dlq_path := read_string message ''dlq_path'' (c_dlq_path c),
     c_dlq_max_retry_count := read_int message ''dlq_max_retry_count'' (c_dlq_max_retry_count c),
     c_dlq_backlog_alert_count := read_int message ''dlq_backlog_alert_count'' (c_dlq_backlog_alert_count c),
     c_default_timeout_sec := read_int message ''default_timeout_sec'' (c_default_timeout_sec c),
     c_task_whitelist :=
       (case get_array message ''task_whitelist'' of
          None \<Rightarrow> c_task_whitelist c
        | Some entries \<Rightarrow> load_whitelist entries)\<rparr>"

definition load :: "'a toolkit_scheme \<Rightarrow> config_source \<Rightarrow> configurations \<Rightarrow> configurations" where
  "load tk src c =
     (if \<not> file_opens src (c_config_path c) then c
      else case file_bytes src (c_config_path c) of
             Inl e \<Rightarrow> c
           | Inr bytes \<Rightarrow>
               (case json_parse tk (bytes_to_string src bytes) of
                  Inl e \<Rightarrow> c
                | Inr v \<Rightarrow> (case v of JObject message \<Rightarrow> apply_settings message c | _ \<Rightarrow> c)))"

definition override :: "'b option \<Rightarrow> 'b \<Rightarrow> 'b" where
  "override arg current = (case arg of None \<Rightarrow> current | Some v \<Rightarrow> v)"

definition parse_arguments :: "argument_parser \<Rightarrow> configurations \<Rightarrow> configurations" where
  "parse_arguments args c = c\<lparr>
     c_write_console_log := override (arg_int args ''--write_console_log'') (c_write_console_log c),
     c_write_file_log := override (arg_int args ''--write_file_log'') (c_write_file_log c),
     c_worker_title := override (arg_string args ''--worker_title'') (c_worker_title c),
     c_redis_host := override (arg_string args ''--redis_host'') (c_redis_host c),
     c_aws_endpoint := override (arg_string args ''--aws_endpoint'') (c_aws_endpoint c),
     c_sqs_request_queue_url :=
       override (arg_string args ''--sqs_request_queue_url'') (c_sqs_request_queue_url c)\<rparr>"

definition validate_configuration :: "configurations \<Rightarrow> configurations" where
  "validate_configuration c = c\<lparr>
     c_log_root_path := (if c_log_root_path c = [] then c_root_path c else c_log_root_path c),
     c_dlq_path := (if c_dlq_path c = [] then path_append (c_root_path c) ''dlq'' else c_dlq_path c),
     c_redis_port := (if c_redis_port c \<le> 0 \<or> c_redis_port c > 65535 then 6379 else c_redis_port c),
     c_redis_ttl_sec := (if c_redis_ttl_sec c < 0 then 3600 else c_redis_ttl_sec c),
     c_sqs_wait_time_seconds :=
       (if c_sqs_wait_time_seconds c < 0 \<or> c_sqs_wait_time_seconds c > 20 then 5 else c_sqs_wait_time_seconds c),
     c_sqs_visibility_timeout := (if c_sqs_visibility_timeout c \<le> 0 then 60 else c_sqs_visibility_timeout c),
     c_sqs_max_number_of_messages :=
       (if c_sqs_max_number_of_messages c \<le> 0 \<or> c_sqs_max_number_of_messages c > 10 then 1
        else c_sqs_max_number_of_messages c),
     c_presign_ttl_sec := (if c_presign_ttl_sec c \<le> 0 then 600 else c_presign_ttl_sec c),
     c_dlq_max_retry_count := (if c_dlq_max_retry_count c < 0 then 3 else c_dlq_max_retry_count c),
     c_default_timeout_sec := (if c_default_timeout_sec c \<le> 0 then 30 else c_default_timeout_sec c),
     c_high_priority_count := (if c_high_priority_count c < 0 then 1 else c_high_priority_count c),
     c_normal_priority_count := (if c_normal_priority_count c < 0 then 2 else c_normal_priority_count c),
     c_low_priority_count := (if c_low_priority_count c < 0 then 1 else c_low_priority_count c)\<rparr>"

text \<open>The constructor.\<close>

definition make_configurations ::
  "'a toolkit_scheme \<Rightarrow> config_source \<Rightarrow> argument_parser \<Rightarrow> configurations" where
  "make_configurations tk src args =
     (let root = program_folder args;
          path = (case arg_string args ''--config_path'' of
                    Some p \<Rightarrow> p
                  | None \<Rightarrow> path_append root ''task_forge_worker_configurations.json'');
          c = (default_configurations src)\<lparr>c_root_path := root, c_config_path := path\<rparr>
      in validate_configuration (parse_arguments args (load tk src c)))"

definition validate_required :: "configurations \<Rightarrow> unit expected" where
  "validate_required c =
     (if c_sqs_request_queue_url c = [] then Inl ''sqs_request_queue_url is required''
      else if c_s3_bucket c = [] then Inl ''s3_bucket is required''
      else if c_task_whitelist c = [] then Inl ''task_whitelist must contain at least one task''
      else Inr ())"

text \<open>\<^verbatim>\<open>write_interval()\<close> narrows to 16 bits.\<close>

definition write_interval :: "configurations \<Rightarrow> int" where
  "write_interval c = take_bit 16 (c_write_interval c)"

section \<open>The settings in effect\<close>

text \<open>The members of the settings file; none when it cannot be opened, read or parsed, or is no object.\<close>

definition file_settings :: "'a toolkit_scheme \<Rightarrow> config_source \<Rightarrow> string \<Rightarrow> jobject" where
  "file_settings tk src path =
     (if \<not> file_opens src path then []
      else case file_bytes src path of
             Inl e \<Rightarrow> []
           | Inr bytes \<Rightarrow> (case json_parse tk (bytes_to_string src bytes) of Inr (JObject message) \<Rightarrow> message | _ \<Rightarrow> []))"

lemma read_nothing [simp]: "read_string [] k s = s" "read_int [] k i = i" "read_long [] k i = i"
  by (simp_all add: read_string_def read_int_def read_long_def get_string_def)

lemma apply_no_settings: "apply_settings [] c = c"
  by (simp add: apply_settings_def get_array_def)

lemma load_settings: "load tk src c = apply_settings (file_settings tk src (c_config_path c)) c"
  by (simp add: load_def file_settings_def apply_no_settings split: sum.split json.split)

definition config_path_of :: "argument_parser \<Rightarrow> string" where
  "config_path_of args =
     (case arg_string args ''--config_path'' of
        Some p \<Rightarrow> p
      | None \<Rightarrow> path_append (program_folder args) ''task_forge_worker_configurations.json'')"

lemma make_configurations_settings:
  "make_configurations tk src args =
     validate_configuration (parse_arguments args
       (apply_settings (file_settings tk src (config_path_of args))
         ((default_configurations src)\<lparr>c_root_path := program_folder args, c_config_path := config_path_of args\<rparr>)))"
  by (simp add: make_configurations_def load_settings config_path_of_def Let_def)

text \<open>One entry of the whitelist.\<close>

definition whitelist_entry :: "json \<Rightarrow> task_definition option" where
  "whitelist_entry v =
     (case v of
        JObject entry \<Rightarrow>
          (case (get_string entry ''name'', get_string entry ''executable'') of
             (Some name, Some exec_path) \<Rightarrow>
               Some \<lparr>task_name = c_str name, executable = c_str exec_path,
                     description = (case get_string entry ''description'' of None \<Rightarrow> '''' | Some d \<Rightarrow> c_str d)\<rparr>
           | _ \<Rightarrow> None)
      | _ \<Rightarrow> None)"

lemma load_whitelist_filter: "load_whitelist vs = List.map_filter whitelist_entry vs"
  by (induction vs rule: load_whitelist.induct)
    (auto simp: whitelist_entry_def List.map_filter_simps split: option.split)

text \<open>What the rest of the worker relies on.\<close>

definition in_range :: "configurations \<Rightarrow> bool" where
  "in_range c \<longleftrightarrow>
     0 < c_redis_port c \<and> c_redis_port c \<le> 65535 \<and> 0 \<le> c_redis_ttl_sec c \<and>
     0 \<le> c_sqs_wait_time_seconds c \<and> c_sqs_wait_time_seconds c \<le> 20 \<and> 0 < c_sqs_visibility_timeout c \<and>
     0 < c_sqs_max_number_of_messages c \<and> c_sqs_max_number_of_messages c \<le> 10 \<and> 0 < c_presign_ttl_sec c \<and>
     0 \<le> c_dlq_max_retry_count c \<and> 0 < c_default_timeout_sec c \<and>
     0 \<le> c_high_priority_count c \<and> 0 \<le> c_normal_priority_count c \<and> 0 \<le> c_low_priority_count c \<and>
     c_dlq_path c \<noteq> [] \<and> (c_log_root_path c = [] \<longrightarrow> c_root_path c = [])"

text \<open>The inputs of the concrete instances below: no file, every option given, a parser that refuses everything.\<close>

definition missing_file :: config_source where
  "missing_file = \<lparr>file_opens = (\<lambda>p. False), file_bytes = (\<lambda>p. Inl ''''), bytes_to_string = id, log_information = 4\<rparr>"

definition every_option :: argument_parser where
  "every_option = \<lparr>program_folder = ''/app'', arg_string = (\<lambda>n. Some ''x''), arg_int = (\<lambda>n. None)\<rparr>"

definition no_json :: toolkit where
  "no_json = \<lparr>json_parse = (\<lambda>s. Inl s), json_serialize = (\<lambda>v. '''')\<rparr>"

text \<open>The whitelist holds the usable entries of the file, in order.\<close>

lemma make_configurations_whitelist:
  "c_task_whitelist (make_configurations tk src args) =
     (case get_array (file_settings tk src (config_path_of args)) ''task_whitelist'' of
        None \<Rightarrow> []
      | Some entries \<Rightarrow> List.map_filter whitelist_entry entries)"
  by (simp add: make_configurations_settings validate_configuration_def parse_arguments_def apply_settings_def
      default_configurations_def load_whitelist_filter split: option.split)

lemma make_configurations_in_range: "in_range (make_configurations tk src args)"
  by (simp add: make_configurations_settings in_range_def validate_configuration_def path_append_nonempty)

lemma validate_configuration_in_range: "in_range c \<Longrightarrow> validate_configuration c = c"
  by (cases c) (auto simp: in_range_def validate_configuration_def)

section \<open>Properties\<close>

text \<open>
  C31. Whatever the settings file and the command line say, the settings of a constructed object are in
  range; and a configuration that is in range already is left as it is, so checking twice changes
  nothing.
\<close>

theorem configuration_in_range:
  "in_range (make_configurations tk src args) \<and> (in_range c \<longrightarrow> validate_configuration c = c)"
  using validate_configuration_in_range make_configurations_in_range by blast

theorem configuration_in_range_witness:
  "in_range ((default_configurations missing_file)
       \<lparr>c_dlq_path := ''/dlq''\<rparr>) \<and>
   validate_configuration ((default_configurations missing_file)
       \<lparr>c_dlq_path := ''/dlq''\<rparr>) =
     (default_configurations missing_file)
       \<lparr>c_dlq_path := ''/dlq''\<rparr>"
proof -
  let ?c = "(default_configurations missing_file)
       \<lparr>c_dlq_path := ''/dlq''\<rparr>"
  have "in_range ?c" by (simp add: in_range_def default_configurations_def missing_file_def)
  with configuration_in_range [of _ _ _ ?c] show ?thesis by blast
qed

text \<open>
  Where a setting comes from. For the settings with a command-line option, the option wins over the
  settings file, and the file over the built-in default; a file entry counts only if it is a string
  (an integer for the two log levels, read as \<^verbatim>\<open>int\<close>).
\<close>

lemma settings_precedence:
  "let c = make_configurations tk src args; message = file_settings tk src (config_path_of args);
       str = (\<lambda>opt key default. case arg_string args opt of Some v \<Rightarrow> v
                | None \<Rightarrow> (case get_string message key of Some s \<Rightarrow> c_str s | None \<Rightarrow> default));
       num = (\<lambda>opt key default. case arg_int args opt of Some v \<Rightarrow> v
                | None \<Rightarrow> (case obj_find message key of Some (JInt64 i) \<Rightarrow> cast_int i | _ \<Rightarrow> default))
   in c_worker_title c = str ''--worker_title'' ''worker_title'' ''TaskForgeWorker'' \<and>
      c_redis_host c = str ''--redis_host'' ''redis_host'' ''127.0.0.1'' \<and>
      c_aws_endpoint c = str ''--aws_endpoint'' ''aws_endpoint'' '''' \<and>
      c_sqs_request_queue_url c = str ''--sqs_request_queue_url'' ''sqs_request_queue_url'' '''' \<and>
      c_write_console_log c = num ''--write_console_log'' ''write_console_log'' (log_information src) \<and>
      c_write_file_log c = num ''--write_file_log'' ''write_file_log'' (log_information src)"
  by (simp add: make_configurations_settings validate_configuration_def parse_arguments_def apply_settings_def
      default_configurations_def override_def read_string_def read_int_def Let_def split: option.split)

text \<open>
  No silent start. The required settings are accepted exactly when the queue, the bucket and the
  whitelist are all set; and without a usable settings file they never are, whatever the command line.
\<close>

lemma required_settings:
  "(validate_required c = Inr () \<longleftrightarrow>
      c_sqs_request_queue_url c \<noteq> [] \<and> c_s3_bucket c \<noteq> [] \<and> c_task_whitelist c \<noteq> []) \<and>
   (file_settings tk src (config_path_of args) = [] \<longrightarrow>
      validate_required (make_configurations tk src args) \<noteq> Inr ())"
  by (simp add: validate_required_def make_configurations_settings apply_no_settings validate_configuration_def
      parse_arguments_def default_configurations_def)

end
