(* ===== verification/Task_Executor.thy ===== *)
theory Task_Executor
  imports Worker_World Configurations
begin

unbundle bit_operations_syntax

text \<open>
  \<^verbatim>\<open>TaskExecutor\<close> (\<^verbatim>\<open>src/Main/TaskExecutor.cpp\<close>): the whitelist lookup, the time limit, the launch of
  the whitelisted executable with its two completion handlers, and the tail of its output. Starting
  and waiting for a process is Boost.Process and Boost.Asio code: \<open>process_run\<close> is a parameter that
  gives the completions the event loop delivered and the exit code.
\<close>

section \<open>Operations\<close>

record task_executor =
  whitelist :: "task_definition list"
  root_path :: string
  default_timeout_sec :: int

record task_execution_result =
  exit_code :: int
  timed_out :: bool
  stdout_tail :: string

definition stdout_tail_bytes :: nat where
  "stdout_tail_bytes = 2048"

fun find_in :: "task_definition list \<Rightarrow> string \<Rightarrow> task_definition option" where
  "find_in [] name = None"
| "find_in (definition' # rest) name =
     (if task_name definition' = name then Some definition' else find_in rest name)"

definition find_task :: "task_executor \<Rightarrow> string \<Rightarrow> task_definition option" where
  "find_task ex name = find_in (whitelist ex) name"

definition resolve_executable :: "task_executor \<Rightarrow> string \<Rightarrow> string" where
  "resolve_executable ex exec_path =
     (if path_is_absolute exec_path then exec_path else path_append (root_path ex) exec_path)"

definition effective_timeout :: "int \<Rightarrow> int \<Rightarrow> int" where
  "effective_timeout default_sec timeout_sec =
     (let effective = (if timeout_sec > 0 then timeout_sec else default_sec)
      in if effective > default_sec then default_sec else effective)"

text \<open>The bytes \<open>10xxxxxx\<close>, tested as the source tests them.\<close>

definition is_continuation :: "char \<Rightarrow> bool" where
  "is_continuation c \<longleftrightarrow> (of_char c :: 8 word) AND 0xC0 = 0x80"

function skip_from :: "string \<Rightarrow> nat \<Rightarrow> nat" where
  "skip_from tail offset =
     (if offset < length tail \<and> is_continuation (tail ! offset) then skip_from tail (offset + 1) else offset)"
  by pat_completeness auto
termination
  by (relation "measure (\<lambda>(tail, offset). length tail - offset)") auto

definition tail_of :: "string \<Rightarrow> string" where
  "tail_of content =
     (let file_size = length content;
          read_size = (if file_size > stdout_tail_bytes then stdout_tail_bytes else file_size);
          tail = drop (file_size - read_size) content
      in if read_size < file_size then drop (skip_from tail 0) tail else tail)"

definition read_stdout_tail :: "string \<Rightarrow> filesys \<Rightarrow> string" where
  "read_stdout_tail stdout_path f =
     (case read_file stdout_path f of None \<Rightarrow> '''' | Some content \<Rightarrow> tail_of content)"

text \<open>The two completion handlers, on the variables they share.\<close>

record io_state =
  io_timed_out :: bool
  io_terminated :: bool
  io_timer_cancelled :: bool

definition io_start :: io_state where
  "io_start = \<lparr>io_timed_out = False, io_terminated = False, io_timer_cancelled = False\<rparr>"

definition on_timer :: "bool \<Rightarrow> io_state \<Rightarrow> io_state" where
  "on_timer timer_error st = (if timer_error then st else st\<lparr>io_timed_out := True, io_terminated := True\<rparr>)"

definition on_wait :: "string option \<Rightarrow> io_state \<Rightarrow> io_state" where
  "on_wait wait_error st = st\<lparr>io_timer_cancelled := True\<rparr>"

fun run_io :: "completion list \<Rightarrow> io_state \<Rightarrow> io_state" where
  "run_io [] st = st"
| "run_io (Timer_done timer_error # rest) st = run_io rest (on_timer timer_error st)"
| "run_io (Wait_done wait_error # rest) st = run_io rest (on_wait wait_error st)"

definition execute ::
  "('r, 'e) services \<Rightarrow> task_executor \<Rightarrow> task_definition \<Rightarrow> string list \<Rightarrow> string \<Rightarrow> string \<Rightarrow> string \<Rightarrow> int \<Rightarrow>
   (('r, 'e) world, task_execution_result expected) comp" where
  "execute sv ex task arguments inputs_dir outputs_dir stdout_path timeout_sec =
     (let executable_path = resolve_executable ex (executable task);
          effective = effective_timeout (default_timeout_sec ex) timeout_sec
      in bindE (gets (\<lambda>w. fs_exists_ec executable_path (fs w) \<and> fs_is_regular_ec executable_path (fs w))) (\<lambda>found.
         if \<not> found then ret (Inl (''task executable not found: '' @ executable_path))
         else
         bindE (gets (\<lambda>w. can_write stdout_path (fs w))) (\<lambda>opened.
         if \<not> opened then ret (Inl (''cannot open stdout capture file: '' @ stdout_path))
         else
         bindE (modify (update_fs (write_file stdout_path ''''))) (\<lambda>_.
         bindE (call_process_run sv executable_path (inputs_dir # outputs_dir # arguments) stdout_path effective) (\<lambda>ran.
         case ran of
           Inl what \<Rightarrow> ret (Inl (''cannot execute task ['' @ task_name task @ '']: '' @ what))
         | Inr run \<Rightarrow>
             let io = run_io (fst run) io_start
             in bindE (gets (\<lambda>w. read_stdout_tail stdout_path (fs w))) (\<lambda>tail.
                if io_timed_out io
                then ret (Inl (''task ['' @ task_name task @ ''] timed out after '' @ show_int effective @ '' seconds''))
                else ret (Inr \<lparr>exit_code = snd run, timed_out = False, stdout_tail = tail\<rparr>)))))))"

declare skip_from.simps [simp del]

section \<open>Whitelist\<close>

lemma find_in_Some: "find_in ds name = Some d \<Longrightarrow> d \<in> set ds \<and> task_name d = name"
  by (induction ds) (auto split: if_splits)

lemma find_in_None: "find_in ds name = None \<longleftrightarrow> name \<notin> task_name ` set ds"
  by (induction ds) auto

lemma find_in_first:
  "find_in ds name = Some d \<longleftrightarrow>
     (\<exists>before after. ds = before @ d # after \<and> task_name d = name \<and> name \<notin> task_name ` set before)"
proof (induction ds)
  case (Cons x xs)
  show ?case
  proof (cases "task_name x = name")
    case True
    then show ?thesis by (auto simp: Cons_eq_append_conv)
  next
    case False
    with Cons.IH show ?thesis by (auto simp: Cons_eq_append_conv) (metis image_insert insertE list.simps(15))
  qed
qed simp

section \<open>Time limit\<close>

lemma effective_timeout_bounds:
  assumes "0 < default_sec"
  shows "0 < effective_timeout default_sec t" and "effective_timeout default_sec t \<le> default_sec"
    and "0 < t \<Longrightarrow> effective_timeout default_sec t = min t default_sec"
    and "t \<le> 0 \<Longrightarrow> effective_timeout default_sec t = default_sec"
  using assms by (auto simp: effective_timeout_def Let_def)

lemma run_io_timed_out:
  "io_timed_out (run_io cs st) \<longleftrightarrow> io_timed_out st \<or> Timer_done False \<in> set cs"
  by (induction cs st rule: run_io.induct) (auto simp: on_timer_def on_wait_def)

section \<open>Output tail\<close>

lemma is_continuation_is_cont: "is_continuation c \<longleftrightarrow> is_cont c"
proof (cases c)
  case (Char b0 b1 b2 b3 b4 b5 b6 b7)
  show ?thesis
    unfolding Char is_continuation_def is_cont_def
    by (cases b0; cases b1; cases b2; cases b3; cases b4; cases b5; cases b6; cases b7) simp_all
qed

lemma skip_from_drop: "offset \<le> length tail \<Longrightarrow> drop (skip_from tail offset) tail = dropWhile is_cont (drop offset tail)"
proof (induction tail offset rule: skip_from.induct)
  case (1 tail offset)
  show ?case
  proof (cases "offset < length tail \<and> is_continuation (tail ! offset)")
    case True
    then have "drop offset tail = tail ! offset # drop (offset + 1) tail"
      by (simp add: Cons_nth_drop_Suc)
    with 1 True show ?thesis
      by (simp add: skip_from.simps [of tail offset] is_continuation_is_cont)
  next
    case False
    then have "dropWhile is_cont (drop offset tail) = drop offset tail"
      using 1 by (cases "offset < length tail")
        (auto simp: is_continuation_is_cont Cons_nth_drop_Suc [symmetric])
    moreover from False have "skip_from tail offset = offset" by (subst skip_from.simps) auto
    ultimately show ?thesis by simp
  qed
qed

lemma tail_of_eq:
  "tail_of content =
     (if length content \<le> stdout_tail_bytes then content
      else dropWhile is_cont (drop (length content - stdout_tail_bytes) content))"
  using skip_from_drop [of 0 "drop (length content - stdout_tail_bytes) content"]
  by (auto simp: tail_of_def Let_def simp del: drop_drop)

lemma tail_of_suffix: "suffix (tail_of content) content"
  by (auto simp: tail_of_eq suffix_drop intro: suffix_order.trans [OF suffix_dropWhile suffix_drop])

lemma tail_of_length: "length (tail_of content) \<le> stdout_tail_bytes"
  using length_dropWhile_le [of is_cont "drop (length content - stdout_tail_bytes) content"]
  by (auto simp: tail_of_eq)

lemma tail_of_utf8: "utf8_valid content \<Longrightarrow> utf8_valid (tail_of content)"
  by (simp add: tail_of_eq utf8_valid_resync)

lemma tail_of_keeps: "utf8_valid content \<Longrightarrow> min (length content) (stdout_tail_bytes - 3) \<le> length (tail_of content)"
proof -
  assume valid: "utf8_valid content"
  let ?t = "drop (length content - stdout_tail_bytes) content"
  have "length ?t = length (takeWhile is_cont ?t) + length (dropWhile is_cont ?t)"
    by (metis length_append takeWhile_dropWhile_id)
  with utf8_cont_run [OF valid, of "length content - stdout_tail_bytes"] show ?thesis
    by (auto simp: tail_of_eq stdout_tail_bytes_def)
qed

section \<open>Properties\<close>

text \<open>
  The whitelist lookup returns the first definition of that name, and finds nothing exactly when no
  definition has the name.
\<close>

theorem find_task_first_match:
  "(find_task ex name = Some d \<longleftrightarrow>
     (\<exists>before after. whitelist ex = before @ d # after \<and> task_name d = name \<and> name \<notin> task_name ` set before)) \<and>
   (find_task ex name = None \<longleftrightarrow> name \<notin> task_name ` set (whitelist ex))"
  by (simp add: find_task_def find_in_first find_in_None)

text \<open>
  The time limit of a task. With a positive configured limit (which the configuration guarantees),
  the effective limit is the requested one, capped by the configured one, and the configured one when
  the request asks for none: it is always positive and never above the configured limit.
\<close>

theorem time_limit_capped:
  assumes "0 < default_sec"
  shows "effective_timeout default_sec requested = (if requested \<le> 0 then default_sec else min requested default_sec) \<and>
    0 < effective_timeout default_sec requested \<and> effective_timeout default_sec requested \<le> default_sec"
  using effective_timeout_bounds [OF assms] by simp

theorem time_limit_capped_witness:
  "effective_timeout 30 120 = 30 \<and> effective_timeout 30 (- 5) = 30 \<and> effective_timeout 30 7 = 7"
  using time_limit_capped [of 30 120] time_limit_capped [of 30 "- 5"] time_limit_capped [of 30 7] by simp


text \<open>
  C28. The tail of the output. The text kept is a suffix of the output of at most 2048 bytes, the whole
  output when it is no longer than that; cutting UTF-8 output never leaves a broken character at the
  start, and costs at most three bytes more.
\<close>

theorem stdout_tail_is_sound:
  "suffix (tail_of content) content \<and> length (tail_of content) \<le> stdout_tail_bytes \<and>
   (length content \<le> stdout_tail_bytes \<longrightarrow> tail_of content = content) \<and>
   (utf8_valid content \<longrightarrow> utf8_valid (tail_of content) \<and>
      min (length content) (stdout_tail_bytes - 3) \<le> length (tail_of content))"
  using tail_of_suffix [of content] tail_of_length [of content] tail_of_utf8 tail_of_keeps
  by (simp add: tail_of_eq)

theorem stdout_tail_is_sound_witness:
  "utf8_valid (replicate 3000 (CHR ''a'')) \<and> utf8_valid (tail_of (replicate 3000 (CHR ''a''))) \<and>
   2045 \<le> length (tail_of (replicate 3000 (CHR ''a''))) \<and> length (tail_of (replicate 3000 (CHR ''a''))) \<le> 2048"
proof -
  have v: "utf8_valid (replicate 3000 (CHR ''a''))" by (rule utf8_valid_ascii) (simp add: ascii_def list_all_iff)
  with stdout_tail_is_sound [of "replicate 3000 (CHR ''a'')"] show ?thesis by (simp add: stdout_tail_bytes_def)
qed

end
