(* ===== verification/Job_Status.thy ===== *)
theory Job_Status
  imports Worker_World Configurations
begin

text \<open>
  The status documents of \<^verbatim>\<open>src/Main/TaskForgeWorker.cpp\<close>: the fields every document carries
  (\<^verbatim>\<open>contract_fields\<close>), the time stamp, the read-merge-write of \<^verbatim>\<open>set_job_status\<close>, and the terminal
  check \<^verbatim>\<open>is_terminal_status\<close>. Redis is a parameter; the locale \<open>redis_store\<close> in
  \<open>Job_Store\<close> names what a client relies on.
\<close>

section \<open>Operations\<close>

definition contract_fields :: "jobject \<Rightarrow> jobject" where
  "contract_fields message =
     (let fields = (case get_object message ''task'' of
                      None \<Rightarrow> []
                    | Some task \<Rightarrow>
                        (case get_string task ''name'' of
                           None \<Rightarrow> []
                         | Some name \<Rightarrow> obj_set ''task_name'' (JString name) []))
      in case get_string message ''enqueued_at'' of
           None \<Rightarrow> fields
         | Some at \<Rightarrow> obj_set ''enqueued_at'' (JString at) fields)"

text \<open>
  \<^verbatim>\<open>gmtime_r\<close> and \<^verbatim>\<open>strftime("%Y-%m-%dT%H:%M:%SZ")\<close> on seconds since 1970: the proleptic Gregorian
  date of a day number, years counted from March so that the leap day is the last.
\<close>

definition civil_from_days :: "int \<Rightarrow> int \<times> int \<times> int" where
  "civil_from_days days =
     (let z = days + 719468;
          era = z div 146097;
          doe = z mod 146097;
          yoe = (doe - doe div 1460 + doe div 36524 - doe div 146096) div 365;
          doy = doe - (365 * yoe + yoe div 4 - yoe div 100);
          mp = (5 * doy + 2) div 153;
          d = doy - (153 * mp + 2) div 5 + 1;
          m = (if mp < 10 then mp + 3 else mp - 9)
      in (yoe + era * 400 + (if m \<le> 2 then 1 else 0), m, d))"

definition two_digits :: "int \<Rightarrow> string" where
  "two_digits n = (if n < 10 then ''0'' @ show_int n else show_int n)"

definition utc_timestamp :: "int \<Rightarrow> string" where
  "utc_timestamp t =
     (let days = t div 86400; secs = t mod 86400;
          (y, m, d) = civil_from_days days
      in show_int y @ ''-'' @ two_digits m @ ''-'' @ two_digits d @ ''T'' @
         two_digits (secs div 3600) @ '':'' @ two_digits (secs div 60 mod 60) @ '':'' @
         two_digits (secs mod 60) @ ''Z'')"

definition current_utc_timestamp :: "(('r, 'e) world, string) comp" where
  "current_utc_timestamp = bindE system_clock_now (\<lambda>now. ret (utc_timestamp now))"

text \<open>The merge loop: a null value erases the field.\<close>

fun apply_updates :: "jobject \<Rightarrow> jobject \<Rightarrow> jobject" where
  "apply_updates [] document = document"
| "apply_updates ((key, v) # rest) document =
     apply_updates rest (if is_null v then obj_erase key document else obj_set key v document)"

definition existing_document :: "('r, 'e) services \<Rightarrow> string expected \<Rightarrow> jobject" where
  "existing_document sv existing =
     (case existing of
        Inl e \<Rightarrow> []
      | Inr text \<Rightarrow> (case json_parse sv text of Inr (JObject members) \<Rightarrow> members | _ \<Rightarrow> []))"

definition status_document :: "jobject \<Rightarrow> string \<Rightarrow> string \<Rightarrow> jobject \<Rightarrow> string \<Rightarrow> jobject" where
  "status_document document job_id status updates now =
     obj_set ''updated_at'' (JString now)
       (apply_updates updates (obj_set ''status'' (JString status) (obj_set ''job_id'' (JString job_id) document)))"

definition set_job_status ::
  "('r, 'e) services \<Rightarrow> configurations \<Rightarrow> string \<Rightarrow> string \<Rightarrow> jobject \<Rightarrow> (('r, 'e) world, unit) comp" where
  "set_job_status sv c job_id status updates =
     bindE (call_redis_get sv job_id) (\<lambda>existing.
     bindE current_utc_timestamp (\<lambda>now.
     bindE (call_redis_set sv job_id
              (json_serialize sv (JObject (status_document (existing_document sv existing) job_id status updates now)))
              (Some (c_redis_ttl_sec c))) (\<lambda>saved.
     ret ())))"

definition terminal_document :: "('r, 'e) services \<Rightarrow> string \<Rightarrow> bool" where
  "terminal_document sv text =
     (case json_parse sv text of
        Inr (JObject document) \<Rightarrow>
          (case get_string document ''status'' of
             None \<Rightarrow> False
           | Some status \<Rightarrow> status = ''done'' \<or> status = ''failed'')
      | _ \<Rightarrow> False)"

definition is_terminal_status :: "('r, 'e) services \<Rightarrow> string \<Rightarrow> (('r, 'e) world, bool) comp" where
  "is_terminal_status sv job_id =
     bindE (call_redis_get sv job_id) (\<lambda>existing.
     ret (case existing of Inl e \<Rightarrow> False | Inr text \<Rightarrow> terminal_document sv text))"

section \<open>Documents\<close>

lemma apply_updates_fold:
  "apply_updates us d = fold (\<lambda>(k, v) d. if is_null v then obj_erase k d else obj_set k v d) us d"
  by (induction us d rule: apply_updates.induct) auto

text \<open>The merge, through the member interface.\<close>

lemma find_apply_updates:
  assumes "obj_inv d" and "obj_inv us"
  shows "obj_find (apply_updates us d) k =
    (case obj_find us k of None \<Rightarrow> obj_find d k | Some v \<Rightarrow> if is_null v then None else Some v)"
  using members.find_merge [OF assms(1), of us is_null k] assms(2)
  by (simp add: apply_updates_fold obj_inv_def obj_find_def)

lemma obj_inv_apply_updates: "obj_inv d \<Longrightarrow> obj_inv (apply_updates us d)"
  unfolding apply_updates_fold by (rule members.inv_merge)

lemma doc_ok_apply_updates:
  "json_doc_ok (JObject d) \<Longrightarrow> \<forall>(k, v) \<in> set us. utf8_valid k \<and> member_ok v \<Longrightarrow>
   json_doc_ok (JObject (apply_updates us d))"
  by (induction us d rule: apply_updates.induct) (auto simp: json_doc_ok_erase json_doc_ok_set)

lemma find_status_document:
  assumes "obj_inv d" and "obj_inv us"
  shows "obj_find (status_document d job_id status us now) k =
    (if k = ''updated_at'' then Some (JString now)
     else case obj_find us k of
            Some v \<Rightarrow> if is_null v then None else Some v
          | None \<Rightarrow> if k = ''status'' then Some (JString status)
                    else if k = ''job_id'' then Some (JString job_id)
                    else obj_find d k)"
  using assms
  by (simp add: status_document_def find_apply_updates obj_inv_set split: option.split)

lemma ascii_two_digits [simp]: "ascii (two_digits n)"
  by (simp add: two_digits_def)

lemma ascii_utc_timestamp: "ascii (utc_timestamp t)"
  by (simp add: utc_timestamp_def Let_def split: prod.split)

lemma status_document_ok:
  assumes "json_doc_ok (JObject d)" and "utf8_valid job_id" and "utf8_valid status" and "utf8_valid now"
    and "\<forall>(k, v) \<in> set us. utf8_valid k \<and> member_ok v"
  shows "json_doc_ok (JObject (status_document d job_id status us now))"
  unfolding status_document_def using assms
  by (intro json_doc_ok_set doc_ok_apply_updates) simp_all

lemma obj_inv_contract_fields [simp]: "obj_inv (contract_fields message)"
  by (auto simp: contract_fields_def Let_def intro!: obj_inv_set split: option.split)

lemma find_contract_fields:
  "obj_find (contract_fields message) k =
     (if k = ''enqueued_at'' then map_option JString (get_string message ''enqueued_at'')
      else if k = ''task_name'' then
        (case get_object message ''task'' of None \<Rightarrow> None | Some task \<Rightarrow> map_option JString (get_string task ''name''))
      else None)"
  by (simp add: contract_fields_def Let_def split: option.split)

end
