(* ===== verification/Job_Handler.thy ===== *)
theory Job_Handler
  imports Message_Validation Task_DLQ Task_Executor Job_Status
begin

text \<open>
  The message handler of \<^verbatim>\<open>src/Main/TaskForgeWorker.cpp\<close>: back-off, the temporary directory, the
  download and upload loops, \<^verbatim>\<open>process_job\<close>, the two failure paths and \<^verbatim>\<open>handle_message\<close>. The worker's
  members that the handler reads are the record \<open>worker\<close>.
\<close>

section \<open>Helpers\<close>

definition redis_connect_attempts :: int where "redis_connect_attempts = 5"
definition s3_download_attempts :: int where "s3_download_attempts = 3"
definition retry_base_delay_ms :: int where "retry_base_delay_ms = 1000"
definition retry_max_delay_ms :: int where "retry_max_delay_ms = 8000"
definition download_base_delay_ms :: int where "download_base_delay_ms = 500"
definition download_max_delay_ms :: int where "download_max_delay_ms = 4000"
definition redis_base_delay_ms :: int where "redis_base_delay_ms = 500"
definition redis_max_delay_ms :: int where "redis_max_delay_ms = 4000"

definition capped_delay :: "int \<Rightarrow> int \<Rightarrow> int \<Rightarrow> int" where
  "capped_delay attempt base_delay_ms max_delay_ms =
     (let shift = (if attempt > 1 then attempt - 1 else 0);
          shift = (if shift > 16 then 16 else shift);
          exponential = push_bit (nat shift) base_delay_ms
      in if exponential > max_delay_ms then max_delay_ms else exponential)"

definition backoff_with_jitter :: "int \<Rightarrow> int \<Rightarrow> int \<Rightarrow> (('r, 'e) world, int) comp" where
  "backoff_with_jitter attempt base_delay_ms max_delay_ms =
     (let capped = capped_delay attempt base_delay_ms max_delay_ms
      in bindE (uniform_draw (capped div 2)) (\<lambda>jitter. ret (capped + jitter)))"

definition find_last_of :: "char \<Rightarrow> string \<Rightarrow> nat option" where
  "find_last_of c s = (case dropWhile (\<lambda>x. x \<noteq> c) (rev s) of [] \<Rightarrow> None | _ # before \<Rightarrow> Some (length before))"

definition key_filename :: "string \<Rightarrow> string" where
  "key_filename object_key =
     (case find_last_of (CHR ''/'') object_key of
        None \<Rightarrow> object_key
      | Some separator \<Rightarrow> drop (separator + 1) object_key)"

text \<open>\<^verbatim>\<open>TempDirGuard\<close>: the constructor, the destructor at scope exit, and the three paths.\<close>

definition temp_root :: "string \<Rightarrow> filesys \<Rightarrow> string outcome" where
  "temp_root job_id f =
     (case tmp_dir f of
        None \<Rightarrow> Throw (Filesystem_error ''temp_directory_path'')
      | Some t \<Rightarrow> Return (path_append (path_append t ''taskforge'') job_id))"

definition temp_inputs :: "string \<Rightarrow> string" where "temp_inputs root = path_append root ''inputs''"
definition temp_outputs :: "string \<Rightarrow> string" where "temp_outputs root = path_append root ''outputs''"
definition temp_stdout_log :: "string \<Rightarrow> string" where "temp_stdout_log root = path_append root ''stdout.log''"

definition make_temp_dirs :: "string \<Rightarrow> filesys \<Rightarrow> filesys" where
  "make_temp_dirs root f =
     snd (create_directories (temp_outputs root) (snd (create_directories (temp_inputs root) f)))"

definition with_temp_dir ::
  "string \<Rightarrow> (string \<Rightarrow> (('r, 'e) world, 'a) comp) \<Rightarrow> (('r, 'e) world, 'a) comp" where
  "with_temp_dir job_id body =
     bindE (\<lambda>w. (temp_root job_id (fs w), w)) (\<lambda>root.
     bindE (modify (update_fs (make_temp_dirs root))) (\<lambda>_.
     finallyE (body root) (update_fs (remove_all root))))"

text \<open>\<^verbatim>\<open>x.at(k).as_string().c_str()\<close> and its kin.\<close>

definition at_string :: "jobject \<Rightarrow> string \<Rightarrow> string outcome" where
  "at_string members k =
     (case obj_at members k of
        Throw e \<Rightarrow> Throw e
      | Return v \<Rightarrow> (case as_string v of Throw e \<Rightarrow> Throw e | Return s \<Rightarrow> Return (c_str s)))"

definition at_object :: "jobject \<Rightarrow> string \<Rightarrow> jobject outcome" where
  "at_object members k = (case obj_at members k of Throw e \<Rightarrow> Throw e | Return v \<Rightarrow> as_object v)"

definition at_array :: "jobject \<Rightarrow> string \<Rightarrow> json list outcome" where
  "at_array members k = (case obj_at members k of Throw e \<Rightarrow> Throw e | Return v \<Rightarrow> as_array v)"

definition at_int64 :: "jobject \<Rightarrow> string \<Rightarrow> int outcome" where
  "at_int64 members k = (case obj_at members k of Throw e \<Rightarrow> Throw e | Return v \<Rightarrow> as_int64 v)"

section \<open>The worker\<close>

record worker =
  configurations :: configurations
  task_executor :: task_executor
  task_dlq :: task_dlq

fun download_attempts ::
  "('r, 'e) services \<Rightarrow> string \<Rightarrow> string \<Rightarrow> string \<Rightarrow> int list \<Rightarrow> string \<Rightarrow> (('r, 'e) world, unit expected) comp" where
  "download_attempts sv bucket object_key local_path [] last_error = ret (Inl last_error)"
| "download_attempts sv bucket object_key local_path (attempt # rest) last_error =
     bindE (call_s3_download sv bucket object_key local_path) (\<lambda>downloaded.
     case downloaded of
       Inr _ \<Rightarrow> ret (Inr ())
     | Inl e \<Rightarrow>
         bindE (backoff_with_jitter attempt download_base_delay_ms download_max_delay_ms) (\<lambda>delay.
         bindE (sleep_for delay) (\<lambda>_.
         download_attempts sv bucket object_key local_path rest e)))"

fun download_entries ::
  "('r, 'e) services \<Rightarrow> string \<Rightarrow> json list \<Rightarrow> (('r, 'e) world, unit expected) comp" where
  "download_entries sv inputs_dir [] = ret (Inr ())"
| "download_entries sv inputs_dir (entry # rest) =
     bindE (of_outcome (as_object entry)) (\<lambda>entry_object.
     bindE (of_outcome (at_string entry_object ''bucket'')) (\<lambda>bucket.
     bindE (of_outcome (at_string entry_object ''key'')) (\<lambda>object_key.
     bindE (download_attempts sv bucket object_key (path_append inputs_dir (key_filename object_key))
              [1..s3_download_attempts] '''') (\<lambda>downloaded.
     case downloaded of
       Inl last_error \<Rightarrow> ret (Inl (''cannot download s3 object ['' @ object_key @ '']: '' @ last_error))
     | Inr _ \<Rightarrow> download_entries sv inputs_dir rest))))"

definition download_inputs ::
  "('r, 'e) services \<Rightarrow> jobject \<Rightarrow> string \<Rightarrow> (('r, 'e) world, unit expected) comp" where
  "download_inputs sv message inputs_dir =
     bindE (of_outcome (at_array message ''download_s3'')) (\<lambda>entries. download_entries sv inputs_dir entries)"

definition result_object :: "string \<Rightarrow> string \<Rightarrow> json" where
  "result_object filename url =
     JObject (obj_set ''method'' (JString ''GET'')
               (obj_set ''download_url'' (JString url) (obj_set ''filename'' (JString filename) [])))"

fun upload_entries ::
  "('r, 'e) services \<Rightarrow> configurations \<Rightarrow> string \<Rightarrow> string list \<Rightarrow> json list \<Rightarrow>
   (('r, 'e) world, json list expected) comp" where
  "upload_entries sv c output_prefix [] results = ret (Inr results)"
| "upload_entries sv c output_prefix (entry # rest) results =
     bindE (lift_fs (entry_is_regular entry)) (\<lambda>regular.
     if \<not> regular then upload_entries sv c output_prefix rest results
     else let filename = path_filename entry; object_key = output_prefix @ filename
     in bindE (call_s3_upload sv (c_str (c_s3_bucket c)) (c_str object_key) (c_str entry)) (\<lambda>uploaded.
     case uploaded of
       Inl e \<Rightarrow> ret (Inl (''cannot upload output ['' @ filename @ '']: '' @ e))
     | Inr _ \<Rightarrow>
         bindE (call_s3_presign sv (c_str (c_s3_bucket c)) (c_str object_key) (c_presign_ttl_sec c)) (\<lambda>presigned.
         case presigned of
           Inl e \<Rightarrow> ret (Inl (''cannot presign output ['' @ filename @ '']: '' @ e))
         | Inr url \<Rightarrow> upload_entries sv c output_prefix rest (results @ [result_object filename url]))))"

definition upload_outputs ::
  "('r, 'e) services \<Rightarrow> configurations \<Rightarrow> string \<Rightarrow> string \<Rightarrow> (('r, 'e) world, json list expected) comp" where
  "upload_outputs sv c output_prefix outputs_dir =
     bindE (gets (\<lambda>w. directory_iterator outputs_dir (fs w))) (\<lambda>entries.
     case entries of
       Inl e \<Rightarrow> ret (Inl (''cannot iterate outputs directory: '' @ e))
     | Inr es \<Rightarrow> upload_entries sv c output_prefix es [])"

definition fail_without_retry ::
  "('r, 'e) services \<Rightarrow> worker \<Rightarrow> string \<Rightarrow> jobject \<Rightarrow> string \<Rightarrow> (('r, 'e) world, unit) comp" where
  "fail_without_retry sv wk job_id message reason =
     bindE (set_job_status sv (configurations wk) job_id ''failed''
              (obj_set ''failure_reason'' (JString reason) (contract_fields message))) (\<lambda>_.
     modify (update_fs (dlq_remove (task_dlq wk) job_id)))"

fun collect_arguments :: "json list \<Rightarrow> string list outcome" where
  "collect_arguments [] = Return []"
| "collect_arguments (argument # rest) =
     (case as_string argument of
        Throw e \<Rightarrow> Throw e
      | Return s \<Rightarrow> (case collect_arguments rest of Throw e \<Rightarrow> Throw e | Return ss \<Rightarrow> Return (c_str s # ss)))"

definition task_arguments :: "jobject \<Rightarrow> string list outcome" where
  "task_arguments task =
     (if obj_contains task ''arguments''
      then (case at_array task ''arguments'' of Throw e \<Rightarrow> Throw e | Return vs \<Rightarrow> collect_arguments vs)
      else Return [])"

definition task_timeout :: "jobject \<Rightarrow> int outcome" where
  "task_timeout task =
     (if obj_contains task ''timeout_sec''
      then (case at_int64 task ''timeout_sec'' of Throw e \<Rightarrow> Throw e | Return i \<Rightarrow> Return (cast_int i))
      else Return 0)"

definition done_updates :: "jobject \<Rightarrow> task_execution_result \<Rightarrow> json list \<Rightarrow> jobject" where
  "done_updates message executed uploaded =
     obj_set ''failure_reason'' JNull
      (obj_set ''result_download_url'' (JArray uploaded)
        (obj_set ''stdout_tail'' (JString (stdout_tail executed))
          (obj_set ''exit_code'' (JInt64 (exit_code executed)) (contract_fields message))))"

text \<open>The part of \<^verbatim>\<open>process_job\<close> inside the scope of the temporary directory.\<close>

definition run_task ::
  "('r, 'e) services \<Rightarrow> worker \<Rightarrow> jobject \<Rightarrow> string \<Rightarrow> jobject \<Rightarrow> string \<Rightarrow> task_definition \<Rightarrow> string \<Rightarrow>
   (('r, 'e) world, unit expected) comp" where
  "run_task sv wk message job_id task name definition' root =
     bindE (download_inputs sv message (temp_inputs root)) (\<lambda>downloaded.
     case downloaded of
       Inl e \<Rightarrow> ret (Inl e)
     | Inr _ \<Rightarrow>
     bindE (of_outcome (task_arguments task)) (\<lambda>arguments.
     bindE (of_outcome (task_timeout task)) (\<lambda>timeout_sec.
     bindE (execute sv (task_executor wk) definition' arguments (temp_inputs root) (temp_outputs root)
              (temp_stdout_log root) timeout_sec) (\<lambda>executed.
     case executed of
       Inl e \<Rightarrow> ret (Inl e)
     | Inr result \<Rightarrow>
     if exit_code result \<noteq> 0
     then ret (Inl (''task ['' @ name @ ''] exited with code '' @ show_int (exit_code result) @ '': '' @
                    stdout_tail result))
     else
     bindE (of_outcome (at_string message ''output_prefix'')) (\<lambda>output_prefix.
     bindE (upload_outputs sv (configurations wk) output_prefix (temp_outputs root)) (\<lambda>uploaded.
     case uploaded of
       Inl e \<Rightarrow> ret (Inl e)
     | Inr results \<Rightarrow>
     bindE (set_job_status sv (configurations wk) job_id ''done'' (done_updates message result results)) (\<lambda>_.
     bindE (modify (update_fs (dlq_remove (task_dlq wk) job_id))) (\<lambda>_.
     ret (Inr ())))))))))"

definition process_job ::
  "('r, 'e) services \<Rightarrow> worker \<Rightarrow> jobject \<Rightarrow> (('r, 'e) world, unit expected) comp" where
  "process_job sv wk message =
     bindE (of_outcome (at_string message ''job_id'')) (\<lambda>job_id.
     bindE (of_outcome (at_object message ''task'')) (\<lambda>task.
     bindE (of_outcome (at_string task ''name'')) (\<lambda>name.
     bindE (is_terminal_status sv job_id) (\<lambda>terminal.
     if terminal then ret (Inr ())
     else case find_task (task_executor wk) name of
       None \<Rightarrow>
         bindE (fail_without_retry sv wk job_id message
                  (''task ['' @ name @ ''] is not registered in the whitelist'')) (\<lambda>_.
         ret (Inr ()))
     | Some definition' \<Rightarrow>
         bindE (set_job_status sv (configurations wk) job_id ''running'' (contract_fields message)) (\<lambda>_.
         with_temp_dir job_id (run_task sv wk message job_id task name definition'))))))"

section \<open>Failure and retry\<close>

definition republish_object :: "('r, 'e) services \<Rightarrow> string \<Rightarrow> string \<Rightarrow> jobject" where
  "republish_object sv job_id message_body =
     (case json_parse sv message_body of
        Inr (JObject members) \<Rightarrow> members
      | _ \<Rightarrow> obj_set ''job_id'' (JString job_id) [])"

definition inbound_try_count :: "jobject \<Rightarrow> int" where
  "inbound_try_count republish =
     (case obj_find republish ''dlq_try_count'' of Some (JInt64 i) \<Rightarrow> cast_int i | _ \<Rightarrow> 0)"

definition dedup_id :: "string \<Rightarrow> int \<Rightarrow> string" where
  "dedup_id job_id try_count = job_id @ ''-retry-'' @ show_int try_count"

definition failure_updates :: "jobject \<Rightarrow> string \<Rightarrow> jobject" where
  "failure_updates republish reason = obj_set ''failure_reason'' (JString reason) (contract_fields republish)"

definition retry_updates :: "jobject \<Rightarrow> string \<Rightarrow> int \<Rightarrow> jobject" where
  "retry_updates republish reason try_count =
     obj_set ''retry_count'' (JInt64 try_count) (failure_updates republish reason)"

definition handle_processing_failure ::
  "('r, 'e) services \<Rightarrow> worker \<Rightarrow> string \<Rightarrow> string \<Rightarrow> string \<Rightarrow> (('r, 'e) world, unit) comp" where
  "handle_processing_failure sv wk job_id message_body reason =
     (let republish = republish_object sv job_id message_body;
          c = configurations wk
      in bindE (lift_fs (record_failure sv (task_dlq wk) job_id message_body reason (inbound_try_count republish)))
         (\<lambda>recorded.
         case recorded of
           Inl e \<Rightarrow> set_job_status sv c job_id ''failed'' (failure_updates republish reason)
         | Inr try_count \<Rightarrow>
             if \<not> can_retry (task_dlq wk) try_count
             then bindE (modify (update_fs (dlq_remove (task_dlq wk) job_id))) (\<lambda>_.
                  set_job_status sv c job_id ''failed'' (retry_updates republish reason try_count))
             else let republish' = obj_set ''dlq_try_count'' (JInt64 try_count) republish
             in bindE (backoff_with_jitter try_count retry_base_delay_ms retry_max_delay_ms) (\<lambda>backoff.
                bindE (sleep_for backoff) (\<lambda>_.
                bindE (call_sqs_send sv (c_str (json_serialize sv (JObject republish')))
                         (c_str (c_sqs_message_group_id c)) (c_str (dedup_id job_id try_count))) (\<lambda>republished.
                case republished of
                  Inl e \<Rightarrow>
                    bindE (modify (update_fs (dlq_remove (task_dlq wk) job_id))) (\<lambda>_.
                    set_job_status sv c job_id ''failed''
                      (retry_updates republish' (reason @ '' (republish failed: '' @ e @ '')'') try_count))
                | Inr _ \<Rightarrow>
                    set_job_status sv c job_id ''queued'' (retry_updates republish' reason try_count))))))"

section \<open>The handler\<close>

definition reject_message ::
  "('r, 'e) services \<Rightarrow> worker \<Rightarrow> jobject \<Rightarrow> string \<Rightarrow> (('r, 'e) world, unit) comp" where
  "reject_message sv wk message error =
     (case get_string message ''job_id'' of
        None \<Rightarrow> ret ()
      | Some job_id \<Rightarrow>
          if is_valid_job_id job_id
          then set_job_status sv (configurations wk) (c_str job_id) ''failed''
                 (obj_set ''failure_reason'' (JString error) (contract_fields message))
          else ret ())"

definition handle_message ::
  "('r, 'e) services \<Rightarrow> worker \<Rightarrow> string \<Rightarrow> (('r, 'e) world, unit expected) comp" where
  "handle_message sv wk message_body =
     (case json_parse sv message_body of
        Inl e \<Rightarrow> ret (Inr ())
      | Inr parsed \<Rightarrow>
          (case parsed of
             JObject message \<Rightarrow>
               (case validate_request message of
                  Inl e \<Rightarrow> bindE (reject_message sv wk message e) (\<lambda>_. ret (Inr ()))
                | Inr _ \<Rightarrow>
                    bindE (process_job sv wk message) (\<lambda>processed.
                    case processed of
                      Inr _ \<Rightarrow> ret (Inr ())
                    | Inl reason \<Rightarrow>
                        bindE (of_outcome (at_string message ''job_id'')) (\<lambda>job_id.
                        bindE (handle_processing_failure sv wk job_id message_body reason) (\<lambda>_.
                        ret (Inr ())))))
           | _ \<Rightarrow> ret (Inr ())))"

section \<open>Delays\<close>

lemma capped_delay_exact:
  assumes "0 < base" and "base \<le> limit"
  shows "capped_delay attempt base limit = min limit (base * 2 ^ nat (min 16 (max 0 (attempt - 1))))"
proof -
  have "(if (if attempt > 1 then attempt - 1 else 0) > 16 then 16 else if attempt > 1 then attempt - 1 else 0) =
      min 16 (max 0 (attempt - 1))" by auto
  then show ?thesis unfolding capped_delay_def Let_def push_bit_eq_mult by (simp only: min_def) auto
qed

lemma backoff_run:
  "backoff_with_jitter attempt base limit w =
     (let d = capped_delay attempt base limit
      in (Return (d + int (rnd w (rnd_pos w)) mod (d div 2 + 1)), w\<lparr>rnd_pos := Suc (rnd_pos w)\<rparr>))"
  by (simp add: backoff_with_jitter_def bindE_def uniform_draw_def ret_def Let_def)

section \<open>Names of downloaded files\<close>

text \<open>The file name of an object key is what follows its last slash.\<close>

lemma key_filename_rev: "key_filename key = rev (takeWhile (\<lambda>c. c \<noteq> CHR ''/'') (rev key))"
proof -
  let ?P = "\<lambda>c. c \<noteq> CHR ''/''"
  have split: "key = rev (dropWhile ?P (rev key)) @ rev (takeWhile ?P (rev key))"
    by (metis rev_append rev_rev_ident takeWhile_dropWhile_id)
  show ?thesis
  proof (cases "dropWhile ?P (rev key)")
    case Nil
    then have "key_filename key = key" unfolding key_filename_def find_last_of_def by (simp only: list.case option.case)
    moreover have "rev (takeWhile ?P (rev key)) = key" using split unfolding Nil by simp
    ultimately show ?thesis by simp
  next
    case (Cons c before)
    then have "drop (length before + 1) (rev (c # before) @ rev (takeWhile ?P (rev key))) = rev (takeWhile ?P (rev key))"
      by simp
    with split Cons have "drop (length before + 1) key = rev (takeWhile ?P (rev key))" by metis
    with Cons show ?thesis unfolding key_filename_def find_last_of_def by (simp only: list.case option.case)
  qed
qed

lemma key_filename_no_slash: "CHR ''/'' \<notin> set (key_filename key)"
  unfolding key_filename_rev by (auto dest: set_takeWhileD)

end
