(* ===== verification/Worker_Lifecycle.thy ===== *)
theory Worker_Lifecycle
  imports Job_Handler
begin

text \<open>
  The life of the worker object: the constructor, \<^verbatim>\<open>start\<close>, \<^verbatim>\<open>stop\<close> and the steps of \<^verbatim>\<open>start\<close>
  (\<^verbatim>\<open>src/Main/TaskForgeWorker.cpp\<close>, up to the message handler). The thread pool, the Redis client and
  the AWS clients are code outside the repository: a client is the data the worker constructs it with,
  and the record \<open>platform\<close> holds, as parameters, the operations whose results the worker looks at. Every
  call on a client that is not a call of the handler is appended to \<open>calls\<close>, in order.

  A member pointer is an option; using one that is null, which the language leaves undefined, is written
  as the exception \<open>Null_pointer\<close>, and setting the stop promise a second time is \<open>Future_error\<close>.
\<close>

section \<open>Clients\<close>

datatype job_priority = High | Normal | Low | LongTerm

record thread_pool =
  pool_title :: string
  pool_workers :: "job_priority list list"
  pool_jobs :: "(job_priority \<times> string) list"

record client_config =
  cfg_region :: string
  cfg_endpoint_override :: string
  cfg_scheme_http :: bool
  cfg_verify_ssl :: bool

record consumer_config =
  wait_time_seconds :: int
  visibility_timeout :: int
  max_number_of_messages :: int

record s3_client =
  s3_keys :: "(string \<times> string) option"
  s3_config :: client_config
  s3_virtual_addressing :: bool

record sqs_publisher =
  pub_keys :: "(string \<times> string) option"
  pub_config :: client_config
  pub_url :: string

record sqs_consumer =
  con_keys :: "(string \<times> string) option"
  con_config :: client_config
  con_consume :: consumer_config
  con_url :: string

record redis_client =
  rc_host :: string
  rc_port :: int
  rc_db_index :: int

text \<open>The configuration the AWS SDK starts from, and the operations that can fail.\<close>

record ('r, 'e) platform =
  pl_services :: "('r, 'e) services"
  pl_client_config :: client_config
  pl_pool_start :: "thread_pool \<Rightarrow> 'e \<Rightarrow> unit expected \<times> 'e"
  pl_pool_push :: "thread_pool \<Rightarrow> 'e \<Rightarrow> unit expected \<times> 'e"
  pl_register_handler :: "sqs_consumer \<Rightarrow> 'e \<Rightarrow> unit expected \<times> 'e"
  pl_consumer_start :: "sqs_consumer \<Rightarrow> 'e \<Rightarrow> unit expected \<times> 'e"
  pl_start_consume :: "sqs_consumer \<Rightarrow> 'e \<Rightarrow> unit expected \<times> 'e"

section \<open>The worker object\<close>

datatype call =
    Pool_started | Handler_registered | Consumer_started | Consuming_started | Monitor_pushed
  | Consuming_stopped | Consumer_stopped | Pool_stopped | Redis_disconnected | Promise_set
  | Destroyed string

record members =
  running :: bool
  thread_pool :: "thread_pool option"
  redis_client :: "redis_client option"
  s3_client :: "s3_client option"
  sqs_consumer :: "sqs_consumer option"
  sqs_publisher :: "sqs_publisher option"
  the_executor :: "task_executor option"
  the_dlq :: "task_dlq option"
  promised :: bool

record ('r, 'e) process =
  world :: "('r, 'e) world"
  members :: members
  calls :: "call list"

definition new_members :: members where
  "new_members = \<lparr>running = False, thread_pool = None, redis_client = None, s3_client = None, sqs_consumer = None,
     sqs_publisher = None, the_executor = None, the_dlq = None, promised = False\<rparr>"

definition set_members :: "(members \<Rightarrow> members) \<Rightarrow> (('r, 'e) process, unit) comp" where
  "set_members g = modify (\<lambda>p. p\<lparr>members := g (members p)\<rparr>)"

definition call :: "call \<Rightarrow> (('r, 'e) process, unit) comp" where
  "call e = modify (\<lambda>p. p\<lparr>calls := calls p @ [e]\<rparr>)"

definition in_world :: "(('r, 'e) world, 'a) comp \<Rightarrow> (('r, 'e) process, 'a) comp" where
  "in_world m p = (case m (world p) of (r, w) \<Rightarrow> (r, p\<lparr>world := w\<rparr>))"

text \<open>A fallible operation of the platform, and the use of a member pointer.\<close>

definition ask :: "('e \<Rightarrow> unit expected \<times> 'e) \<Rightarrow> call \<Rightarrow> (('r, 'e) process, unit expected) comp" where
  "ask operation e p =
     (case operation (ext (world p)) of
        (r, x) \<Rightarrow> (Return r, p\<lparr>world := (world p)\<lparr>ext := x\<rparr>, calls := calls p @ [e]\<rparr>))"

definition deref :: "string \<Rightarrow> (members \<Rightarrow> 'a option) \<Rightarrow> (('r, 'e) process, 'a) comp" where
  "deref name sel p =
     (case sel (members p) of None \<Rightarrow> (Throw (Null_pointer name), p) | Some x \<Rightarrow> (Return x, p))"

section \<open>Steps of the start\<close>

fun push_workers :: "nat \<Rightarrow> job_priority list \<Rightarrow> thread_pool \<Rightarrow> thread_pool" where
  "push_workers 0 priorities pool = pool"
| "push_workers (Suc n) priorities pool =
     push_workers n priorities (pool\<lparr>pool_workers := pool_workers pool @ [priorities]\<rparr>)"

definition make_pool :: "configurations \<Rightarrow> thread_pool" where
  "make_pool c =
     push_workers 1 [LongTerm]
       (push_workers (nat (c_low_priority_count c)) [Low, Normal]
         (push_workers (nat (c_normal_priority_count c)) [Normal, High]
           (push_workers (nat (c_high_priority_count c)) [High]
             \<lparr>pool_title = ''TaskForgeWorkerPool'', pool_workers = [], pool_jobs = []\<rparr>)))"

definition create_thread_pool ::
  "('r, 'e) platform \<Rightarrow> configurations \<Rightarrow> (('r, 'e) process, unit expected) comp" where
  "create_thread_pool pl c =
     bindE (set_members (\<lambda>m. m\<lparr>thread_pool := Some (make_pool c)\<rparr>)) (\<lambda>_.
     ask (pl_pool_start pl (make_pool c)) Pool_started)"

fun connect_attempts ::
  "('r, 'e) services \<Rightarrow> int list \<Rightarrow> string \<Rightarrow> (('r, 'e) world, unit expected) comp" where
  "connect_attempts sv [] last_error = ret (Inl last_error)"
| "connect_attempts sv (attempt # rest) last_error =
     bindE (call_redis_connect sv) (\<lambda>connected.
     bindE (case connected of
              Inr _ \<Rightarrow> call_redis_set sv ''taskforge:healthcheck'' ''ok'' (Some 5)
            | Inl e \<Rightarrow> ret (Inl e)) (\<lambda>verified.
     case verified of
       Inr _ \<Rightarrow> ret (Inr ())
     | Inl e \<Rightarrow>
         bindE (backoff_with_jitter attempt redis_base_delay_ms redis_max_delay_ms) (\<lambda>delay.
         bindE (sleep_for delay) (\<lambda>_.
         connect_attempts sv rest e))))"

definition connect_redis ::
  "('r, 'e) platform \<Rightarrow> configurations \<Rightarrow> (('r, 'e) process, unit expected) comp" where
  "connect_redis pl c =
     bindE (set_members (\<lambda>m. m\<lparr>redis_client :=
        Some \<lparr>rc_host = c_redis_host c, rc_port = c_redis_port c, rc_db_index = c_redis_db_index c\<rparr>\<rparr>)) (\<lambda>_.
     in_world (connect_attempts (pl_services pl) [1..redis_connect_attempts] ''''))"

definition catalog_entry :: "task_definition \<Rightarrow> json" where
  "catalog_entry definition' =
     JObject (obj_set ''description'' (JString (description definition'))
               (obj_set ''name'' (JString (task_name definition')) []))"

definition catalog_document :: "task_definition list \<Rightarrow> string \<Rightarrow> jobject" where
  "catalog_document definitions now =
     obj_set ''updated_at'' (JString now) (obj_set ''tasks'' (JArray (map catalog_entry definitions)) [])"

definition upload_task_catalog ::
  "('r, 'e) platform \<Rightarrow> configurations \<Rightarrow> (('r, 'e) process, unit expected) comp" where
  "upload_task_catalog pl c =
     bindE (in_world current_utc_timestamp) (\<lambda>now.
     bindE (deref ''redis_client_'' redis_client) (\<lambda>_.
     in_world (call_redis_set (pl_services pl) ''task_catalog''
        (json_serialize (pl_services pl) (JObject (catalog_document (c_task_whitelist c) now))) None)))"

definition make_client_config :: "('r, 'e) platform \<Rightarrow> configurations \<Rightarrow> client_config" where
  "make_client_config pl c =
     (let config = (pl_client_config pl)\<lparr>cfg_region := c_str (c_aws_region c)\<rparr>
      in if c_aws_endpoint c \<noteq> []
         then config\<lparr>cfg_endpoint_override := c_str (c_aws_endpoint c), cfg_scheme_http := True, cfg_verify_ssl := False\<rparr>
         else config)"

text \<open>The three clients, with the configured keys if there are any.\<close>

definition make_s3_client :: "('r, 'e) platform \<Rightarrow> configurations \<Rightarrow> s3_client" where
  "make_s3_client pl c =
     \<lparr>s3_keys = (if c_aws_access_key c \<noteq> [] then Some (c_str (c_aws_access_key c), c_str (c_aws_secret_key c)) else None),
      s3_config = make_client_config pl c, s3_virtual_addressing = (c_aws_endpoint c = [])\<rparr>"

definition make_publisher :: "('r, 'e) platform \<Rightarrow> configurations \<Rightarrow> sqs_publisher" where
  "make_publisher pl c =
     \<lparr>pub_keys = (if c_aws_access_key c \<noteq> [] then Some (c_aws_access_key c, c_aws_secret_key c) else None),
      pub_config = make_client_config pl c, pub_url = c_sqs_request_queue_url c\<rparr>"

definition make_consumer :: "('r, 'e) platform \<Rightarrow> configurations \<Rightarrow> sqs_consumer" where
  "make_consumer pl c =
     \<lparr>con_keys = (if c_aws_access_key c \<noteq> [] then Some (c_aws_access_key c, c_aws_secret_key c) else None),
      con_config = make_client_config pl c,
      con_consume = \<lparr>wait_time_seconds = c_sqs_wait_time_seconds c, visibility_timeout = c_sqs_visibility_timeout c,
         max_number_of_messages = c_sqs_max_number_of_messages c\<rparr>,
      con_url = c_sqs_request_queue_url c\<rparr>"

definition connect_aws_service ::
  "('r, 'e) platform \<Rightarrow> configurations \<Rightarrow> (('r, 'e) process, unit expected) comp" where
  "connect_aws_service pl c =
     bindE (set_members (\<lambda>m. m\<lparr>s3_client := Some (make_s3_client pl c), sqs_publisher := Some (make_publisher pl c)\<rparr>)) (\<lambda>_.
     bindE (set_members (\<lambda>m. m\<lparr>sqs_consumer := Some (make_consumer pl c)\<rparr>)) (\<lambda>_.
     bindE (ask (pl_register_handler pl (make_consumer pl c)) Handler_registered) (\<lambda>handler_registered.
     case handler_registered of
       Inl e \<Rightarrow> ret (Inl e)
     | Inr _ \<Rightarrow>
         bindE (ask (pl_consumer_start pl (make_consumer pl c)) Consumer_started) (\<lambda>started.
         case started of
           Inl e \<Rightarrow> ret (Inl e)
         | Inr _ \<Rightarrow> ask (pl_start_consume pl (make_consumer pl c)) Consuming_started))))"

definition start_dlq_backlog_monitor :: "('r, 'e) platform \<Rightarrow> (('r, 'e) process, unit expected) comp" where
  "start_dlq_backlog_monitor pl =
     bindE (deref ''thread_pool_'' thread_pool) (\<lambda>pool.
     let pool' = pool\<lparr>pool_jobs := pool_jobs pool @ [(LongTerm, ''dlq_backlog_monitor'')]\<rparr>
     in bindE (set_members (\<lambda>m. m\<lparr>thread_pool := Some pool'\<rparr>)) (\<lambda>_.
        ask (pl_pool_push pl pool') Monitor_pushed))"

text \<open>
  The job the monitor runs, given what each reading of \<open>running\<close> finds: the counts it raised an alert
  for, or nothing if the readings end before one is false.
\<close>

definition backlog_alert :: "configurations \<Rightarrow> nat \<Rightarrow> bool" where
  "backlog_alert c backlog \<longleftrightarrow> cast_int (int backlog) \<ge> c_dlq_backlog_alert_count c"

fun backlog_monitor ::
  "configurations \<Rightarrow> task_dlq \<Rightarrow> bool list \<Rightarrow> nat list \<Rightarrow> (('r, 'e) world, nat list option) comp" where
  "backlog_monitor c q [] alerts = ret None"
| "backlog_monitor c q (False # readings) alerts = ret (Some alerts)"
| "backlog_monitor c q (True # readings) alerts =
     bindE (lift_fs (pending_count q)) (\<lambda>backlog.
     bindE (sleep_for 5000) (\<lambda>_.
     backlog_monitor c q readings (if backlog_alert c backlog then alerts @ [backlog] else alerts)))"

section \<open>Start and stop\<close>

definition make_parts :: "configurations \<Rightarrow> (('r, 'e) process, unit) comp" where
  "make_parts c =
     bindE (set_members (\<lambda>m. m\<lparr>the_executor := Some \<lparr>whitelist = c_task_whitelist c, root_path = c_root_path c,
        default_timeout_sec = c_default_timeout_sec c\<rparr>\<rparr>)) (\<lambda>_.
     bindE (in_world (lift_fs (\<lambda>f. case make_task_dlq (c_dlq_path c) (c_dlq_max_retry_count c) f of
        (q, ok, f') \<Rightarrow> (Return q, f')))) (\<lambda>q.
     set_members (\<lambda>m. m\<lparr>the_dlq := Some q\<rparr>)))"

definition checked ::
  "string \<Rightarrow> (('r, 'e) process, unit expected) comp \<Rightarrow> (('r, 'e) process, unit expected) comp \<Rightarrow>
   (('r, 'e) process, unit expected) comp" where
  "checked context_text m rest =
     bindE m (\<lambda>r. case r of Inl e \<Rightarrow> ret (Inl (context_text @ e)) | Inr _ \<Rightarrow> rest)"

definition start :: "('r, 'e) platform \<Rightarrow> configurations \<Rightarrow> (('r, 'e) process, unit expected) comp" where
  "start pl c =
     checked ''invalid configuration: '' (ret (validate_required c))
     (bindE (set_members (\<lambda>m. m\<lparr>running := True\<rparr>)) (\<lambda>_.
      bindE (make_parts c) (\<lambda>_.
      checked ''cannot create thread pool: '' (create_thread_pool pl c)
     (checked ''cannot connect redis: '' (connect_redis pl c)
     (checked ''cannot upload task catalog: '' (upload_task_catalog pl c)
     (checked ''cannot connect aws service: '' (connect_aws_service pl c)
     (checked ''cannot start dlq backlog monitor: '' (start_dlq_backlog_monitor pl)
     (ret (Inr ())))))))))"

definition when_set :: "(members \<Rightarrow> 'a option) \<Rightarrow> (('r, 'e) process, unit) comp \<Rightarrow> (('r, 'e) process, unit) comp" where
  "when_set sel m = bindE (gets (\<lambda>p. sel (members p) \<noteq> None)) (\<lambda>set. if set then m else ret ())"

definition set_promise :: "(('r, 'e) process, unit) comp" where
  "set_promise p =
     (if promised (members p) then (Throw Future_error, p)
      else (Return (), p\<lparr>members := (members p)\<lparr>promised := True\<rparr>, calls := calls p @ [Promise_set]\<rparr>))"

definition stop :: "(('r, 'e) process, unit) comp" where
  "stop =
     bindE (gets (\<lambda>p. running (members p))) (\<lambda>was_running.
     if \<not> was_running then ret ()
     else bindE (set_members (\<lambda>m. m\<lparr>running := False\<rparr>)) (\<lambda>_.
     bindE (when_set sqs_consumer
        (bindE (call Consuming_stopped) (\<lambda>_.
         bindE (call Consumer_stopped) (\<lambda>_.
         set_members (\<lambda>m. m\<lparr>sqs_consumer := None\<rparr>))))) (\<lambda>_.
     bindE (set_members (\<lambda>m. m\<lparr>sqs_publisher := None\<rparr>)) (\<lambda>_.
     bindE (set_members (\<lambda>m. m\<lparr>s3_client := None\<rparr>)) (\<lambda>_.
     bindE (when_set thread_pool
        (bindE (call Pool_stopped) (\<lambda>_. set_members (\<lambda>m. m\<lparr>thread_pool := None\<rparr>)))) (\<lambda>_.
     bindE (when_set redis_client
        (bindE (call Redis_disconnected) (\<lambda>_. set_members (\<lambda>m. m\<lparr>redis_client := None\<rparr>)))) (\<lambda>_.
     set_promise)))))))"

text \<open>The destructor: \<^verbatim>\<open>stop\<close>, then what is left of the members, the last declared first.\<close>

definition still_set :: "members \<Rightarrow> string list" where
  "still_set m =
     (if the_dlq m = None then [] else [''task_dlq_'']) @ (if the_executor m = None then [] else [''task_executor_'']) @
     (if sqs_publisher m = None then [] else [''sqs_publisher_'']) @ (if sqs_consumer m = None then [] else [''sqs_consumer_'']) @
     (if s3_client m = None then [] else [''s3_client_'']) @ (if redis_client m = None then [] else [''redis_client_'']) @
     (if thread_pool m = None then [] else [''thread_pool_''])"

definition destroy_worker :: "(('r, 'e) process, unit) comp" where
  "destroy_worker =
     bindE stop (\<lambda>_.
     modify (\<lambda>p. p\<lparr>calls := calls p @ map Destroyed (still_set (members p)), members := new_members\<rparr>))"

text \<open>The worker the message handler runs with, once its parts are made.\<close>

definition worker_of :: "configurations \<Rightarrow> members \<Rightarrow> worker option" where
  "worker_of c m =
     (case (the_executor m, the_dlq m) of
        (Some ex, Some q) \<Rightarrow> Some \<lparr>configurations = c, task_executor = ex, task_dlq = q\<rparr>
      | _ \<Rightarrow> None)"

section \<open>Effect of the steps on the members\<close>

lemmas member_steps = bindE_def ret_def gets_def modify_def set_members_def call_def in_world_def ask_def deref_def

lemma pool_of_push_workers: "pool_workers (push_workers n ps pool) = pool_workers pool @ replicate n ps"
  by (induction n ps pool rule: push_workers.induct) (simp_all add: replicate_app_Cons_same)

lemma make_pool_workers:
  "pool_workers (make_pool c) =
     replicate (nat (c_high_priority_count c)) [High] @ replicate (nat (c_normal_priority_count c)) [Normal, High] @
     replicate (nat (c_low_priority_count c)) [Low, Normal] @ [[LongTerm]]"
  by (simp add: make_pool_def pool_of_push_workers)

lemma stop_idle: "\<not> running (members p) \<Longrightarrow> stop p = (Return (), p)"
  by (simp add: stop_def bindE_def gets_def ret_def)

text \<open>What \<^verbatim>\<open>stop\<close> does to a running worker: the calls it makes depend on what is there.\<close>

definition stop_calls :: "members \<Rightarrow> call list" where
  "stop_calls m =
     (if sqs_consumer m = None then [] else [Consuming_stopped, Consumer_stopped]) @
     (if thread_pool m = None then [] else [Pool_stopped]) @
     (if redis_client m = None then [] else [Redis_disconnected])"

lemma stop_running:
  assumes "running (members p)" and "\<not> promised (members p)"
  shows "stop p = (Return (), p\<lparr>calls := calls p @ stop_calls (members p) @ [Promise_set],
    members := (members p)\<lparr>running := False, thread_pool := None, redis_client := None, s3_client := None,
      sqs_consumer := None, sqs_publisher := None, promised := True\<rparr>\<rparr>)"
  using assms by (cases p; cases "members p")
    (auto simp: stop_def member_steps when_set_def set_promise_def stop_calls_def)

section \<open>Attempts at a connection\<close>

text \<open>
  The attempts end with a successful health check or after all of them, each failed one followed by a
  sleep; nothing is stored but the health check.
\<close>

lemma connect_attempts_trace:
  assumes "connect_attempts sv as err w = (r, w')"
  shows "\<exists>es. trace w' = trace w @ es \<and>
     (\<forall>e \<in> set es. is_sleep e \<or> e = Redis_stored ''taskforge:healthcheck'' ''ok'' (Some 5)) \<and>
     (r = Return (Inr ()) \<and> length (filter is_sleep es) < length as \<and> es \<noteq> [] \<and> last es = Redis_stored ''taskforge:healthcheck'' ''ok'' (Some 5) \<or>
      (\<exists>e. r = Return (Inl e)) \<and> length (filter is_sleep es) = length as)"
  using assms
proof (induction as arbitrary: err w)
  case Nil
  then show ?case by (auto simp: ret_def)
next
  case (Cons a as)
  let ?check = "Redis_stored ''taskforge:healthcheck'' ''ok'' (Some 5)"
  have again: ?case if run: "connect_attempts sv as e v = (r, w')" and t: "trace v = trace w @ xs @ [Slept d]"
    and xs: "xs = [] \<or> xs = [?check]" for e v xs d
  proof -
    from Cons.IH [OF run] obtain es where "trace w' = trace v @ es"
      and "\<forall>e \<in> set es. is_sleep e \<or> e = ?check"
      and "r = Return (Inr ()) \<and> length (filter is_sleep es) < length as \<and> es \<noteq> [] \<and> last es = ?check \<or>
        (\<exists>e. r = Return (Inl e)) \<and> length (filter is_sleep es) = length as" by blast
    with t xs show ?thesis
      by (intro exI [of _ "xs @ Slept d # es"]) auto
  qed
  obtain res x where con: "redis_connect sv (redis w) = (res, x)" by fastforce
  show ?case
  proof (cases res)
    case (Inl e)
    let ?c = "capped_delay a redis_base_delay_ms redis_max_delay_ms"
    define d where "d = ?c + int (rnd w (rnd_pos w)) mod (?c div 2 + 1)"
    have "connect_attempts sv as e (w\<lparr>redis := x, rnd_pos := Suc (rnd_pos w), trace := trace w @ [] @ [Slept d]\<rparr>) = (r, w')"
      using Cons.prems con Inl
      by (simp add: bindE_def call_redis_connect_def ret_def backoff_run Let_def sleep_for_def modify_def emit_def d_def)
    from again [OF this, of "[]" d] show ?thesis by simp
  next
    case (Inr u)
    obtain res' y where set: "redis_set sv ''taskforge:healthcheck'' ''ok'' (Some 5) x = (res', y)" by fastforce
    show ?thesis
    proof (cases res')
      case Inl': (Inl e)
      let ?c = "capped_delay a redis_base_delay_ms redis_max_delay_ms"
      define d where "d = ?c + int (rnd w (rnd_pos w)) mod (?c div 2 + 1)"
      have "connect_attempts sv as e (w\<lparr>redis := y, rnd_pos := Suc (rnd_pos w), trace := trace w @ [?check] @ [Slept d]\<rparr>) = (r, w')"
        using Cons.prems con Inr set Inl'
        by (simp add: bindE_def call_redis_connect_def call_redis_set_def ret_def backoff_run Let_def sleep_for_def modify_def
            emit_def d_def)
      from again [OF this, of "[?check]" d] show ?thesis by simp
    next
      case (Inr u')
      with Cons.prems con \<open>res = Inr u\<close> set show ?thesis
        by (intro exI [of _ "[?check]"]) (auto simp: bindE_def call_redis_connect_def call_redis_set_def ret_def emit_def)
    qed
  qed
qed

lemma connect_attempts_returns: "connect_attempts sv as err w = (r, w') \<Longrightarrow> \<exists>x. r = Return x"
  using connect_attempts_trace by blast

end
