(* ===== verification/Lifecycle_Runs.thy ===== *)
theory Lifecycle_Runs
  imports Worker_Lifecycle
begin

text \<open>
  Runs of the program (\<^verbatim>\<open>src/Main/main.cpp\<close>): the main thread, the signal handler and the threads of the
  clients, as a step relation. The main thread is a program counter over the statements of \<^verbatim>\<open>main\<close>; inside
  \<^verbatim>\<open>start\<close> it stops after each step of it, so that a signal can arrive in between. A signal handler runs to
  its end in one step. Other threads handle messages: they change the world and no member of the worker.
\<close>

section \<open>The start, step by step\<close>

datatype stage =
  Check_required | Set_running | Make_parts | Create_pool | Connect_redis | Upload_catalog | Connect_aws | Start_monitor

definition start_stages :: "stage list" where
  "start_stages =
     [Check_required, Set_running, Make_parts, Create_pool, Connect_redis, Upload_catalog, Connect_aws, Start_monitor]"

fun run_stage :: "('r, 'e) platform \<Rightarrow> configurations \<Rightarrow> stage \<Rightarrow> (('r, 'e) process, unit expected) comp" where
  "run_stage pl c Check_required = checked ''invalid configuration: '' (ret (validate_required c)) (ret (Inr ()))"
| "run_stage pl c Set_running = bindE (set_members (\<lambda>m. m\<lparr>running := True\<rparr>)) (\<lambda>_. ret (Inr ()))"
| "run_stage pl c Make_parts = bindE (make_parts c) (\<lambda>_. ret (Inr ()))"
| "run_stage pl c Create_pool = checked ''cannot create thread pool: '' (create_thread_pool pl c) (ret (Inr ()))"
| "run_stage pl c Connect_redis = checked ''cannot connect redis: '' (connect_redis pl c) (ret (Inr ()))"
| "run_stage pl c Upload_catalog = checked ''cannot upload task catalog: '' (upload_task_catalog pl c) (ret (Inr ()))"
| "run_stage pl c Connect_aws = checked ''cannot connect aws service: '' (connect_aws_service pl c) (ret (Inr ()))"
| "run_stage pl c Start_monitor = checked ''cannot start dlq backlog monitor: '' (start_dlq_backlog_monitor pl) (ret (Inr ()))"

fun run_stages :: "('r, 'e) platform \<Rightarrow> configurations \<Rightarrow> stage list \<Rightarrow> (('r, 'e) process, unit expected) comp" where
  "run_stages pl c [] = ret (Inr ())"
| "run_stages pl c (st # rest) =
     bindE (run_stage pl c st) (\<lambda>r. case r of Inl e \<Rightarrow> ret (Inl e) | Inr _ \<Rightarrow> run_stages pl c rest)"

lemma checked_then:
  "bindE (checked t m (ret (Inr ()))) (\<lambda>r. case r of Inl e \<Rightarrow> ret (Inl e) | Inr _ \<Rightarrow> rest) = checked t m rest"
proof -
  have "bindE (case r of Inl e \<Rightarrow> ret (Inl (t @ e)) | Inr _ \<Rightarrow> ret (Inr ())) (\<lambda>r. case r of Inl e \<Rightarrow> ret (Inl e) | Inr _ \<Rightarrow> rest) =
      (case r of Inl e \<Rightarrow> ret (Inl (t @ e)) | Inr _ \<Rightarrow> rest)" for r :: "unit expected"
    by (cases r) (simp_all add: bindE_ret_left)
  then show ?thesis by (simp add: checked_def bindE_assoc)
qed

lemma start_by_stages: "start pl c = run_stages pl c start_stages"
  by (simp add: start_def start_stages_def checked_then bindE_assoc bindE_ret_left)

section \<open>The program\<close>

datatype signal = SIGINT | SIGILL | SIGABRT | SIGFPE | SIGSEGV | SIGTERM

datatype pc =
    Booting | Signals_registered | Constructed | Starting "stage list" | Start_failed | Waiting
  | Leaving | Worker_gone | Signals_restored | Exited
  | Crashed exn | Killed

record ('r, 'e) program =
  proc :: "('r, 'e) process"
  handlers :: "signal \<Rightarrow> bool"
  worker_set :: bool
  exit_status :: int
  at :: pc

definition register_signal :: "('r, 'e) program \<Rightarrow> ('r, 'e) program" where
  "register_signal s = s\<lparr>handlers := (handlers s)(SIGINT := True, SIGILL := True, SIGABRT := True,
     SIGFPE := True, SIGSEGV := True, SIGTERM := True)\<rparr>"

definition deregister_signal :: "('r, 'e) program \<Rightarrow> ('r, 'e) program" where
  "deregister_signal s = s\<lparr>handlers := (handlers s)(SIGINT := False, SIGILL := False, SIGABRT := False,
     SIGFPE := False, SIGSEGV := False, SIGTERM := False)\<rparr>"

text \<open>A step on the worker: an exception ends the program.\<close>

definition on_worker :: "(('r, 'e) process, unit) comp \<Rightarrow> ('r, 'e) program \<Rightarrow> ('r, 'e) program" where
  "on_worker m s =
     (case m (proc s) of
        (Return _, p) \<Rightarrow> s\<lparr>proc := p\<rparr>
      | (Throw e, p) \<Rightarrow> s\<lparr>proc := p, at := Crashed e\<rparr>)"

definition signal_callback :: "('r, 'e) program \<Rightarrow> ('r, 'e) program" where
  "signal_callback s =
     (let s' = deregister_signal s in if worker_set s' then on_worker stop s' else s')"

text \<open>Without a handler, the default action of these signals ends the program.\<close>

definition deliver_signal :: "signal \<Rightarrow> ('r, 'e) program \<Rightarrow> ('r, 'e) program" where
  "deliver_signal sig s = (if handlers s sig then signal_callback s else s\<lparr>at := Killed\<rparr>)"

text \<open>The statements of \<^verbatim>\<open>main\<close> after the configuration is loaded; \<open>None\<close> where it blocks or has ended.\<close>

definition main_next :: "('r, 'e) platform \<Rightarrow> configurations \<Rightarrow> ('r, 'e) program \<Rightarrow> ('r, 'e) program option" where
  "main_next pl c s =
     (case at s of
        Booting \<Rightarrow> Some (register_signal (s\<lparr>at := Signals_registered\<rparr>))
      | Signals_registered \<Rightarrow> Some (s\<lparr>proc := (proc s)\<lparr>members := new_members\<rparr>, worker_set := True, at := Constructed\<rparr>)
      | Constructed \<Rightarrow> Some (s\<lparr>exit_status := 0, at := Starting start_stages\<rparr>)
      | Starting [] \<Rightarrow> Some (s\<lparr>at := Waiting\<rparr>)
      | Starting (st # rest) \<Rightarrow>
          (case run_stage pl c st (proc s) of
             (Return (Inr _), p) \<Rightarrow> Some (s\<lparr>proc := p, at := Starting rest\<rparr>)
           | (Return (Inl e), p) \<Rightarrow> Some (s\<lparr>proc := p, at := Start_failed\<rparr>)
           | (Throw e, p) \<Rightarrow> Some (s\<lparr>proc := p, at := Crashed e\<rparr>))
      | Start_failed \<Rightarrow> Some (on_worker stop (s\<lparr>exit_status := 1, at := Leaving\<rparr>))
      | Waiting \<Rightarrow> if promised (members (proc s)) then Some (s\<lparr>at := Leaving\<rparr>) else None
      | Leaving \<Rightarrow> Some (on_worker destroy_worker (s\<lparr>worker_set := False, at := Worker_gone\<rparr>))
      | Worker_gone \<Rightarrow> Some (deregister_signal (s\<lparr>at := Signals_restored\<rparr>))
      | Signals_restored \<Rightarrow> Some (s\<lparr>at := Exited\<rparr>)
      | _ \<Rightarrow> None)"

fun ended :: "pc \<Rightarrow> bool" where
  "ended Exited = True"
| "ended Killed = True"
| "ended (Crashed e) = True"
| "ended _ = False"

datatype action = Main | Signal signal | Threads

inductive step :: "('r, 'e) platform \<Rightarrow> configurations \<Rightarrow> ('r, 'e) program \<Rightarrow> action \<Rightarrow> ('r, 'e) program \<Rightarrow> bool"
  for pl c where
  main: "main_next pl c s = Some s' \<Longrightarrow> step pl c s Main s'"
| signal: "\<not> ended (at s) \<Longrightarrow> step pl c s (Signal sig) (deliver_signal sig s)"
| threads: "\<not> ended (at s) \<Longrightarrow> step pl c s Threads (s\<lparr>proc := (proc s)\<lparr>world := w\<rparr>\<rparr>)"

inductive_cases step_cases: "step pl c s l s'"

definition boot :: "('r, 'e) world \<Rightarrow> ('r, 'e) program" where
  "boot w = \<lparr>proc = \<lparr>world = w, members = new_members, calls = []\<rparr>, handlers = (\<lambda>_. False), worker_set = False,
     exit_status = 0, at = Booting\<rparr>"

text \<open>States reached by actions that \<open>allowed\<close> admits.\<close>

inductive reach ::
  "(('r, 'e) program \<Rightarrow> action \<Rightarrow> bool) \<Rightarrow> ('r, 'e) platform \<Rightarrow> configurations \<Rightarrow> ('r, 'e) program \<Rightarrow> ('r, 'e) program \<Rightarrow> bool"
  for allowed pl c s0 where
  init: "reach allowed pl c s0 s0"
| step: "reach allowed pl c s0 s \<Longrightarrow> allowed s l \<Longrightarrow> step pl c s l s' \<Longrightarrow> reach allowed pl c s0 s'"

abbreviation any_action :: "('r, 'e) program \<Rightarrow> action \<Rightarrow> bool" where
  "any_action \<equiv> (\<lambda>s l. True)"

text \<open>No signal while the worker is being started.\<close>

definition calm :: "('r, 'e) program \<Rightarrow> action \<Rightarrow> bool" where
  "calm s l \<longleftrightarrow> (case l of Signal sig \<Rightarrow> (case at s of Starting rest \<Rightarrow> False | _ \<Rightarrow> True) | _ \<Rightarrow> True)"

text \<open>The main thread alone, for a number of steps; it stays where it blocks.\<close>

fun run_main :: "('r, 'e) platform \<Rightarrow> configurations \<Rightarrow> nat \<Rightarrow> ('r, 'e) program \<Rightarrow> ('r, 'e) program" where
  "run_main pl c 0 s = s"
| "run_main pl c (Suc n) s = (case main_next pl c s of None \<Rightarrow> s | Some s' \<Rightarrow> run_main pl c n s')"

section \<open>The promise\<close>

definition promise_count :: "('r, 'e) process \<Rightarrow> nat" where
  "promise_count p = count_list (calls p) Promise_set"

text \<open>The promise has been set as often as the member says, and not while the worker is running.\<close>

definition promise_ok :: "('r, 'e) process \<Rightarrow> bool" where
  "promise_ok p \<longleftrightarrow> promise_count p = (if promised (members p) then 1 else 0) \<and> (running (members p) \<longrightarrow> \<not> promised (members p))"

lemma run_stage_flags:
  assumes "run_stage pl c st p = (r, p')"
  shows "promised (members p') = promised (members p) \<and> running (members p') = (running (members p) \<or> st = Set_running) \<and>
    promise_count p' = promise_count p"
  using assms
  by (cases st)
    (auto simp: checked_def member_steps make_parts_def create_thread_pool_def connect_redis_def upload_task_catalog_def
      connect_aws_service_def start_dlq_backlog_monitor_def promise_count_def Let_def lift_fs_def
      split: prod.splits outcome.splits sum.splits option.splits)

lemma stop_promise:
  assumes "promise_ok p"
  obtains p' where "stop p = (Return (), p')" "promise_ok p'" "\<not> running (members p')" "running (members p) \<or> p' = p"
proof (cases "running (members p)")
  case True
  then have np: "\<not> promised (members p)" and "promise_count p = 0" using assms by (auto simp: promise_ok_def)
  moreover have "count_list (stop_calls (members p)) Promise_set = 0" by (simp add: stop_calls_def)
  ultimately show ?thesis
    using stop_running [OF True np] True by (intro that) (auto simp: promise_ok_def promise_count_def)
next
  case False
  with stop_idle assms show ?thesis by (intro that) auto
qed

fun before_running :: "pc \<Rightarrow> bool" where
  "before_running Booting = True"
| "before_running Signals_registered = True"
| "before_running Constructed = True"
| "before_running (Starting rest) = (Set_running \<in> set rest)"
| "before_running _ = False"

fun has_worker :: "pc \<Rightarrow> bool" where
  "has_worker Constructed = True"
| "has_worker (Starting rest) = True"
| "has_worker Start_failed = True"
| "has_worker Waiting = True"
| "has_worker Leaving = True"
| "has_worker _ = False"

definition program_inv :: "('r, 'e) program \<Rightarrow> bool" where
  "program_inv s \<longleftrightarrow>
     promise_count (proc s) \<le> 1 \<and> (worker_set s \<longrightarrow> promise_ok (proc s)) \<and> (has_worker (at s) \<longrightarrow> worker_set s) \<and>
     (before_running (at s) \<longrightarrow> promise_count (proc s) = 0 \<and> \<not> running (members (proc s)) \<and> \<not> promised (members (proc s))) \<and>
     (\<forall>rest. at s = Starting rest \<longrightarrow> suffix rest start_stages) \<and> at s \<noteq> Crashed Future_error"

lemma promise_ok_count: "promise_ok p \<Longrightarrow> promise_count p \<le> 1"
  by (simp add: promise_ok_def)

text \<open>The only exception of a step of the start is the use of a member that is not there.\<close>

lemma run_stage_throws:
  assumes "run_stage pl c st p = (Throw e, p')"
  shows "(st = Upload_catalog \<and> redis_client (members p) = None) \<or> (st = Start_monitor \<and> thread_pool (members p) = None)"
    and "e \<noteq> Future_error"
  using assms
  by (cases st;
    auto simp: checked_def member_steps make_parts_def create_thread_pool_def connect_redis_def upload_task_catalog_def
      connect_aws_service_def start_dlq_backlog_monitor_def current_utc_timestamp_def system_clock_now_def call_redis_set_def
      Let_def lift_fs_def split: prod.splits outcome.splits sum.splits option.splits dest: connect_attempts_returns)+

lemma suffix_stage:
  assumes "suffix (st # rest) start_stages"
  shows "suffix rest start_stages" and "st \<notin> set rest"
proof -
  show "suffix rest start_stages" using assms by (rule suffix_ConsD)
  from assms obtain before where "start_stages = before @ st # rest" by (auto simp: suffix_def)
  moreover have "distinct start_stages" by (simp add: start_stages_def)
  ultimately show "st \<notin> set rest" by (metis distinct_append distinct.simps(2))
qed

lemma program_inv_stage:
  assumes "program_inv s" and "at s = Starting (st # rest)" and "run_stage pl c st (proc s) = (r, p)"
  shows "case r of
      Return (Inr u) \<Rightarrow> program_inv (s\<lparr>proc := p, at := Starting rest\<rparr>)
    | Return (Inl e) \<Rightarrow> program_inv (s\<lparr>proc := p, at := Start_failed\<rparr>)
    | Throw e \<Rightarrow> program_inv (s\<lparr>proc := p, at := Crashed e\<rparr>)"
proof -
  have suf: "suffix rest start_stages" "st \<notin> set rest" using assms(1,2) suffix_stage by (auto simp: program_inv_def)
  have f: "promised (members p) = promised (members (proc s))"
    "running (members p) = (running (members (proc s)) \<or> st = Set_running)" "promise_count p = promise_count (proc s)"
    using run_stage_flags [OF assms(3)] by auto
  have ok: "promise_ok (proc s)" using assms(1,2) by (simp add: program_inv_def)
  have first: "st = Set_running \<or> Set_running \<in> set rest \<Longrightarrow> promise_count (proc s) = 0 \<and>
      \<not> running (members (proc s)) \<and> \<not> promised (members (proc s))"
    using assms(1,2) by (auto simp: program_inv_def)
  have ok': "promise_ok p" using ok first f by (auto simp: promise_ok_def)
  have e: "e \<noteq> Future_error" if "r = Throw e" for e using run_stage_throws(2) assms(3) that by blast
  show ?thesis
    using assms(1,2) suf f ok' first e promise_ok_count [OF ok']
    by (auto simp: program_inv_def split: outcome.split sum.split)
qed

lemma program_inv_stop:
  assumes "program_inv s" and "promise_ok (proc s)"
  shows "program_inv (on_worker stop s)"
proof -
  obtain p where p: "stop (proc s) = (Return (), p)" "promise_ok p" "\<not> running (members p)"
    "running (members (proc s)) \<or> p = proc s" using stop_promise [OF assms(2)] by blast
  with assms promise_ok_count [OF p(2)] show ?thesis by (auto simp: on_worker_def program_inv_def)
qed

lemma program_inv_destroy:
  assumes "program_inv s" and "promise_ok (proc s)" and "\<not> worker_set s" and "\<not> before_running (at s)"
  shows "program_inv (on_worker destroy_worker s)"
proof -
  obtain p where p: "stop (proc s) = (Return (), p)" "promise_ok p" using stop_promise [OF assms(2)] by blast
  have "promise_count (p\<lparr>calls := calls p @ map Destroyed xs, members := m\<rparr>) = promise_count p" for xs m
    by (induction xs) (auto simp: promise_count_def)
  with assms p promise_ok_count [OF p(2)] show ?thesis
    by (auto simp: on_worker_def program_inv_def destroy_worker_def bindE_def modify_def)
qed

lemma program_inv_signal:
  assumes "program_inv s"
  shows "program_inv (deliver_signal sig s)"
proof -
  have d: "program_inv (deregister_signal s)" "worker_set (deregister_signal s) = worker_set s"
    "proc (deregister_signal s) = proc s" using assms by (simp_all add: program_inv_def deregister_signal_def)
  have "worker_set s \<Longrightarrow> promise_ok (proc s)" using assms by (simp add: program_inv_def)
  then have "program_inv (signal_callback s)"
    using program_inv_stop [OF d(1)] d by (simp add: signal_callback_def Let_def)
  then show ?thesis using assms by (auto simp: deliver_signal_def program_inv_def)
qed

lemma program_inv_main:
  assumes "program_inv s" and "main_next pl c s = Some s'"
  shows "program_inv s'"
proof (cases "at s")
  case Start_failed
  let ?t = "s\<lparr>exit_status := 1, at := Leaving\<rparr>"
  have "program_inv ?t" "promise_ok (proc ?t)" using assms(1) Start_failed by (auto simp: program_inv_def)
  then have "program_inv (on_worker stop ?t)" by (rule program_inv_stop)
  with assms(2) Start_failed show ?thesis by (simp add: main_next_def)
next
  case Leaving
  let ?t = "s\<lparr>worker_set := False, at := Worker_gone\<rparr>"
  have "program_inv ?t" "promise_ok (proc ?t)" using assms(1) Leaving by (auto simp: program_inv_def)
  then have "program_inv (on_worker destroy_worker ?t)" by (rule program_inv_destroy) simp_all
  with assms(2) Leaving show ?thesis by (simp add: main_next_def)
next
  case (Starting stages)
  show ?thesis
  proof (cases stages)
    case Nil
    with assms Starting show ?thesis by (auto simp: main_next_def program_inv_def)
  next
    case (Cons st rest)
    obtain r p where run: "run_stage pl c st (proc s) = (r, p)" by fastforce
    with program_inv_stage [OF assms(1) _ run] assms(2) Starting Cons show ?thesis
      by (auto simp: main_next_def split: outcome.splits sum.splits)
  qed
qed (use assms in \<open>auto simp: main_next_def program_inv_def register_signal_def deregister_signal_def new_members_def
      promise_ok_def promise_count_def split: if_splits\<close>)

lemma program_inv_reach: "reach allowed pl c (boot w) s \<Longrightarrow> program_inv s"
proof (induction rule: reach.induct)
  case init
  show ?case by (simp add: program_inv_def boot_def promise_count_def new_members_def)
next
  case (step s l s')
  from step(3) show ?case
  proof (cases rule: step.cases)
    case main
    with step(4) program_inv_main show ?thesis by blast
  next
    case (signal sig)
    with step(4) program_inv_signal show ?thesis by blast
  next
    case (threads w)
    with step(4) show ?thesis by (auto simp: program_inv_def promise_ok_def promise_count_def)
  qed
qed

section \<open>Members during the start\<close>

lemma run_stage_parts:
  assumes "run_stage pl c st p = (Return (Inr u), p')"
  shows "thread_pool (members p') \<noteq> None \<longleftrightarrow> thread_pool (members p) \<noteq> None \<or> st = Create_pool"
    and "redis_client (members p') \<noteq> None \<longleftrightarrow> redis_client (members p) \<noteq> None \<or> st = Connect_redis"
  using assms
  by (cases st;
    auto simp: checked_def member_steps make_parts_def create_thread_pool_def connect_redis_def upload_task_catalog_def
      connect_aws_service_def start_dlq_backlog_monitor_def Let_def lift_fs_def
      split: prod.splits outcome.splits sum.splits option.splits)+

text \<open>While no signal interferes, what the steps done so far have made is there.\<close>

definition calm_inv :: "('r, 'e) program \<Rightarrow> bool" where
  "calm_inv s \<longleftrightarrow> program_inv s \<and> (\<forall>e. at s \<noteq> Crashed e) \<and>
     (\<forall>rest. at s = Starting rest \<longrightarrow>
        (Create_pool \<in> set rest \<or> thread_pool (members (proc s)) \<noteq> None) \<and>
        (Connect_redis \<in> set rest \<or> redis_client (members (proc s)) \<noteq> None))"

lemma late_stages:
  "suffix (Upload_catalog # rest) start_stages \<Longrightarrow> Connect_redis \<notin> set (Upload_catalog # rest)"
  "suffix (Start_monitor # rest) start_stages \<Longrightarrow> Create_pool \<notin> set (Start_monitor # rest)"
  by (auto simp: start_stages_def suffix_Cons)

lemma on_worker_at:
  assumes "promise_ok (proc s)"
  shows "at (on_worker stop s) = at s" and "at (on_worker destroy_worker s) = at s"
proof -
  obtain p where "stop (proc s) = (Return (), p)" using stop_promise [OF assms] by blast
  then show "at (on_worker stop s) = at s" "at (on_worker destroy_worker s) = at s"
    by (simp_all add: on_worker_def destroy_worker_def bindE_def modify_def)
qed

lemma calm_inv_main:
  assumes "calm_inv s" and "main_next pl c s = Some s'"
  shows "calm_inv s'"
proof (cases "\<exists>st rest. at s = Starting (st # rest)")
  case True
  then obtain st rest where at: "at s = Starting (st # rest)" by blast
  then have suf: "suffix (st # rest) start_stages" using assms(1) by (simp add: calm_inv_def program_inv_def)
  obtain r p where run: "run_stage pl c st (proc s) = (r, p)" by fastforce
  have inv: "Create_pool \<in> set (st # rest) \<or> thread_pool (members (proc s)) \<noteq> None"
    "Connect_redis \<in> set (st # rest) \<or> redis_client (members (proc s)) \<noteq> None"
    using assms(1) at by (auto simp: calm_inv_def)
  have new: "program_inv s'" using program_inv_main [OF _ assms(2)] assms(1) by (simp add: calm_inv_def)
  show ?thesis
  proof (cases r)
    case (Throw e)
    with run_stage_throws(1) [of pl c st "proc s" e p] run late_stages suf inv show ?thesis by auto
  next
    case (Return x)
    show ?thesis
    proof (cases x)
      case (Inl e)
      with assms(2) at run Return have "s' = s\<lparr>proc := p, at := Start_failed\<rparr>" by (simp add: main_next_def)
      with new show ?thesis by (simp add: calm_inv_def)
    next
      case (Inr u)
      with assms(2) at run Return have s': "s' = s\<lparr>proc := p, at := Starting rest\<rparr>" by (simp add: main_next_def)
      from run_stage_parts [of pl c st "proc s" u p] run Return Inr inv
      have "Create_pool \<in> set rest \<or> thread_pool (members p) \<noteq> None" "Connect_redis \<in> set rest \<or> redis_client (members p) \<noteq> None"
        by auto
      with new s' show ?thesis by (simp add: calm_inv_def)
    qed
  qed
next
  case False
  have i: "program_inv s" "has_worker (at s) \<Longrightarrow> promise_ok (proc s)" "\<And>e. at s \<noteq> Crashed e"
    using assms(1) by (auto simp: calm_inv_def program_inv_def)
  have "ended (at s') \<longrightarrow> at s' = Exited" "\<forall>rest. at s' = Starting rest \<longrightarrow> rest = start_stages"
  proof (atomize (full), cases "at s")
    case (Starting stages)
    with False have "stages = []" by (cases stages) auto
    with assms(2) Starting show "(ended (at s') \<longrightarrow> at s' = Exited) \<and> (\<forall>rest. at s' = Starting rest \<longrightarrow> rest = start_stages)"
      by (auto simp: main_next_def)
  qed (use assms(2) i(2,3) in \<open>auto simp: main_next_def on_worker_at register_signal_def deregister_signal_def
      split: if_splits\<close>)
  then show ?thesis using program_inv_main [OF i(1) assms(2)] by (auto simp: calm_inv_def start_stages_def)
qed

lemma calm_inv_signal:
  assumes "calm_inv s" and "calm s (Signal sig)"
  shows "calm_inv (deliver_signal sig s)"
proof -
  have w: "worker_set s \<Longrightarrow> promise_ok (proc s)" using assms(1) by (auto simp: calm_inv_def program_inv_def)
  have "at (signal_callback s) = at s"
    using on_worker_at(1) [of "deregister_signal s"] w by (auto simp: signal_callback_def Let_def deregister_signal_def)
  then have "at (deliver_signal sig s) = (if handlers s sig then at s else Killed)" by (simp add: deliver_signal_def)
  with assms program_inv_signal [of s sig] show ?thesis by (auto simp: calm_inv_def calm_def)
qed

lemma calm_inv_reach: "reach calm pl c (boot w) s \<Longrightarrow> calm_inv s"
proof (induction rule: reach.induct)
  case init
  show ?case using program_inv_reach [OF reach.init] by (simp add: calm_inv_def boot_def)
next
  case (step s l s')
  from step(3) show ?case
  proof (cases rule: step.cases)
    case main
    with step(4) calm_inv_main show ?thesis by blast
  next
    case (signal sig)
    with step(2,4) calm_inv_signal show ?thesis by blast
  next
    case (threads w)
    with step(4) show ?thesis by (auto simp: calm_inv_def program_inv_def promise_ok_def promise_count_def)
  qed
qed

section \<open>The main thread on its own\<close>

lemma run_main_started:
  assumes "run_stages pl c stages (proc s) = (Return (Inr ()), p)" and "at s = Starting stages"
  shows "run_main pl c (Suc (length stages) + n) s = run_main pl c n (s\<lparr>proc := p, at := Waiting\<rparr>)"
  using assms
proof (induction stages arbitrary: s)
  case Nil
  then show ?case by (cases s) (simp add: main_next_def ret_def)
next
  case (Cons st rest)
  from Cons.prems(1) obtain u p1 where "run_stage pl c st (proc s) = (Return (Inr u), p1)"
    and "run_stages pl c rest p1 = (Return (Inr ()), p)"
    by (auto simp: bindE_def ret_def split: prod.splits outcome.splits sum.splits)
  with Cons.IH [of "s\<lparr>proc := p1, at := Starting rest\<rparr>"] Cons.prems(2) show ?case
    by (simp add: main_next_def)
qed

lemma run_main_start_failed:
  assumes "run_stages pl c stages (proc s) = (Return (Inl e), p)" and "at s = Starting stages"
  shows "\<exists>k \<le> length stages. \<forall>n. run_main pl c (k + n) s = run_main pl c n (s\<lparr>proc := p, at := Start_failed\<rparr>)"
  using assms
proof (induction stages arbitrary: s)
  case Nil
  then show ?case by (simp add: ret_def)
next
  case (Cons st rest)
  consider (failed) "run_stage pl c st (proc s) = (Return (Inl e), p)"
    | (passed) u p1 where "run_stage pl c st (proc s) = (Return (Inr u), p1)" "run_stages pl c rest p1 = (Return (Inl e), p)"
    using Cons.prems(1) by (auto simp: bindE_def ret_def split: prod.splits outcome.splits sum.splits)
  then show ?case
  proof cases
    case failed
    with Cons.prems(2) show ?thesis by (intro exI [of _ 1]) (simp add: main_next_def)
  next
    case passed
    with Cons.IH [of "s\<lparr>proc := p1, at := Starting rest\<rparr>"] obtain k where "k \<le> length rest"
      "\<forall>n. run_main pl c (k + n) (s\<lparr>proc := p1, at := Starting rest\<rparr>) = run_main pl c n (s\<lparr>proc := p, at := Start_failed\<rparr>)"
      by auto
    with passed(1) Cons.prems(2) show ?thesis by (intro exI [of _ "Suc k"]) (simp add: main_next_def)
  qed
qed

definition fresh :: "('r, 'e) world \<Rightarrow> ('r, 'e) process" where
  "fresh w = \<lparr>world = w, members = new_members, calls = []\<rparr>"

lemma registered: "handlers (register_signal s) = (\<lambda>_. True)"
proof (rule ext)
  fix sig :: signal
  show "handlers (register_signal s) sig = True" by (cases sig) (simp_all add: register_signal_def)
qed

lemma deregistered: "handlers (deregister_signal s) = (\<lambda>_. False)"
proof (rule ext)
  fix sig :: signal
  show "handlers (deregister_signal s) sig = False" by (cases sig) (simp_all add: deregister_signal_def)
qed

lemma register_signal_eq: "register_signal s = s\<lparr>handlers := \<lambda>_. True\<rparr>"
  using registered [of s] by (simp add: register_signal_def)

lemma deregister_signal_eq: "deregister_signal s = s\<lparr>handlers := \<lambda>_. False\<rparr>"
  using deregistered [of s] by (simp add: deregister_signal_def)

lemma run_main_boot:
  "run_main pl c (Suc (Suc (Suc n))) (boot w) =
     run_main pl c n \<lparr>proc = fresh w, handlers = (\<lambda>_. True), worker_set = True, exit_status = 0, at = Starting start_stages\<rparr>"
  by (simp add: main_next_def boot_def register_signal_eq fresh_def)

end
