(* ===== verification/Handler_Safety.thy ===== *)
theory Handler_Safety
  imports Job_Handler
begin

text \<open>
  What the message handler can do to the outside, and what it can throw. \<open>job_event\<close> lists, for an
  accepted message, the only calls the handler makes; \<open>handle_message_behaves\<close> proves it for every
  state of the world, call by call along the code. The properties below are read off it.
\<close>

section \<open>Reading an accepted message\<close>

definition is_fs_exn :: "exn \<Rightarrow> bool" where
  "is_fs_exn e \<longleftrightarrow> (\<exists>p. e = Filesystem_error p)"

lemma at_string_find: "obj_find ms k = Some (JString s) \<Longrightarrow> at_string ms k = Return (c_str s)"
  by (simp add: at_string_def obj_at_def)

lemma at_object_find: "obj_find ms k = Some (JObject t) \<Longrightarrow> at_object ms k = Return t"
  by (simp add: at_object_def obj_at_def)

lemma at_array_find: "obj_find ms k = Some (JArray vs) \<Longrightarrow> at_array ms k = Return vs"
  by (simp add: at_array_def obj_at_def)

lemma collect_arguments_strings: "collect_arguments (map JString ss) = Return (map c_str ss)"
  by (induction ss) simp_all

lemma task_arguments_ok: "task_schema task \<Longrightarrow> \<exists>ss. task_arguments task = Return ss"
  by (cases "obj_find task ''arguments''")
    (auto simp: task_schema_def task_arguments_def obj_contains_def at_array_find collect_arguments_strings)

lemma task_timeout_ok: "task_schema task \<Longrightarrow> \<exists>i. task_timeout task = Return i"
  by (cases "obj_find task ''timeout_sec''")
    (auto simp: task_schema_def task_timeout_def obj_contains_def at_int64_def obj_at_def)

text \<open>The data of an accepted message, as the handler reads them.\<close>

record request =
  req_job :: string
  req_task :: jobject
  req_name :: string
  req_downloads :: "json list"
  req_prefix :: string

definition reads_request :: "jobject \<Rightarrow> request \<Rightarrow> bool" where
  "reads_request message q \<longleftrightarrow>
     is_valid_job_id (req_job q) \<and> obj_find message ''job_id'' = Some (JString (req_job q)) \<and>
     at_string message ''job_id'' = Return (req_job q) \<and>
     at_object message ''task'' = Return (req_task q) \<and> task_schema (req_task q) \<and>
     at_string (req_task q) ''name'' = Return (req_name q) \<and>
     at_array message ''download_s3'' = Return (req_downloads q) \<and>
     list_all download_schema (req_downloads q) \<and>
     at_string message ''output_prefix'' = Return (req_prefix q)"

lemma validated_reads_request:
  assumes "validate_request message = Inr ()"
  obtains q where "reads_request message q"
proof -
  from assms have "request_schema message" by (simp add: validate_request_ok)
  then obtain j task entries pre where
    s: "obj_find message ''job_id'' = Some (JString j)" "is_valid_job_id j"
      "obj_find message ''task'' = Some (JObject task)" "task_schema task"
      "obj_find message ''download_s3'' = Some (JArray entries)" "list_all download_schema entries"
      "obj_find message ''output_prefix'' = Some (JString pre)"
    unfolding request_schema_def by blast
  from s(4) obtain name where name: "obj_find task ''name'' = Some (JString name)"
    unfolding task_schema_def by blast
  have "reads_request message
    \<lparr>req_job = j, req_task = task, req_name = c_str name, req_downloads = entries, req_prefix = c_str pre\<rparr>"
    using s at_string_find [OF s(1)] at_object_find [OF s(3)] at_array_find [OF s(5)]
      at_string_find [OF s(7)] at_string_find [OF name] valid_job_id_c_str [OF s(2)]
    by (simp add: reads_request_def)
  with that show thesis by blast
qed

lemma reads_request_unique: "reads_request message q \<Longrightarrow> reads_request message q' \<Longrightarrow> q = q'"
  unfolding reads_request_def by (cases q, cases q') auto

section \<open>The calls of a handler\<close>

definition job_root :: "string \<Rightarrow> string \<Rightarrow> bool" where
  "job_root job_id root \<longleftrightarrow> (\<exists>t. root = path_append (path_append t ''taskforge'') job_id)"

text \<open>The retry message, its number taken from the count the message carried and the count on file.\<close>

definition retry_call ::
  "('r, 'e) services \<Rightarrow> worker \<Rightarrow> jobject \<Rightarrow> string \<Rightarrow> int \<Rightarrow> string \<Rightarrow> string \<Rightarrow> string \<Rightarrow> bool" where
  "retry_call sv wk message job_id n body gid dedup \<longleftrightarrow>
     n \<le> max_retry_count (task_dlq wk) \<and>
     attempt_number (inbound_try_count message) n \<and>
     body = c_str (json_serialize sv (JObject (obj_set ''dlq_try_count'' (JInt64 n) message))) \<and>
     gid = c_str (c_sqs_message_group_id (configurations wk)) \<and>
     dedup = c_str (dedup_id job_id n)"

fun job_event :: "('r, 'e) services \<Rightarrow> worker \<Rightarrow> jobject \<Rightarrow> request \<Rightarrow> event \<Rightarrow> bool" where
  "job_event sv wk message q (Slept ms) = (500 \<le> ms \<and> ms \<le> 12000)"
| "job_event sv wk message q (Redis_stored key text ttl) =
     (key = req_job q \<and> ttl = Some (c_redis_ttl_sec (configurations wk)))"
| "job_event sv wk message q (S3_downloaded bucket key path) =
     (\<exists>root entry. job_root (req_job q) root \<and> JObject entry \<in> set (req_downloads q) \<and>
        at_string entry ''bucket'' = Return bucket \<and> at_string entry ''key'' = Return key \<and>
        path = path_append (temp_inputs root) (key_filename key))"
| "job_event sv wk message q (S3_uploaded bucket key path) =
     (\<exists>root name. job_root (req_job q) root \<and> path_component name \<and>
        bucket = c_str (c_s3_bucket (configurations wk)) \<and> key = c_str (req_prefix q @ name) \<and>
        path = c_str (path_append (temp_outputs root) name))"
| "job_event sv wk message q (Launched exe args timeout) =
     (\<exists>root d extra t. job_root (req_job q) root \<and>
        find_task (task_executor wk) (req_name q) = Some d \<and>
        exe = resolve_executable (task_executor wk) (executable d) \<and>
        task_arguments (req_task q) = Return extra \<and> args = temp_inputs root # temp_outputs root # extra \<and>
        task_timeout (req_task q) = Return t \<and>
        timeout = effective_timeout (default_timeout_sec (task_executor wk)) t)"
| "job_event sv wk message q (Sqs_sent body gid dedup) =
     (\<exists>n. retry_call sv wk message (req_job q) n body gid dedup)"

section \<open>Back-off\<close>

lemma capped_delay_bounds:
  assumes "0 < base" and "base \<le> limit"
  shows "base \<le> capped_delay attempt base limit" and "capped_delay attempt base limit \<le> limit"
proof -
  have "base * 1 \<le> base * 2 ^ n" for n
    using assms(1) by (intro mult_left_mono) simp_all
  then have "base \<le> push_bit n base" for n by (simp add: push_bit_eq_mult)
  with assms show "base \<le> capped_delay attempt base limit" "capped_delay attempt base limit \<le> limit"
    by (auto simp: capped_delay_def Let_def)
qed

lemma behaves_backoff:
  assumes "0 < base" and "base \<le> limit"
  shows "behaves P (\<lambda>d. base \<le> d \<and> d \<le> limit + limit div 2) E (backoff_with_jitter attempt base limit)"
proof -
  have b: "base \<le> capped_delay attempt base limit" "capped_delay attempt base limit \<le> limit"
    by (rule capped_delay_bounds [OF assms])+
  show ?thesis
    unfolding backoff_with_jitter_def Let_def
    by (rule behaves_bindE, rule behaves_uniform_draw) (use assms b in \<open>auto intro!: behaves_ret\<close>)
qed

section \<open>Each call in turn\<close>

lemma behaves_set_job_status:
  assumes "\<And>text. P (Redis_stored job_id text (Some (c_redis_ttl_sec c)))"
  shows "behaves P (\<lambda>_. True) E (set_job_status sv c job_id status updates)"
  unfolding set_job_status_def current_utc_timestamp_def
  by (intro behaves_rules assms TrueI)

lemma behaves_is_terminal_status: "behaves P (\<lambda>_. True) E (is_terminal_status sv job_id)"
  unfolding is_terminal_status_def by (intro behaves_rules TrueI)

lemma behaves_download_attempts:
  assumes "P (S3_downloaded bucket key path)" and "\<And>ms. 500 \<le> ms \<Longrightarrow> ms \<le> 6000 \<Longrightarrow> P (Slept ms)"
  shows "behaves P (\<lambda>_. True) E (download_attempts sv bucket key path attempts last_error)"
proof (induction attempts arbitrary: last_error)
  case Nil
  show ?case by (simp add: behaves_ret)
next
  case (Cons a as)
  have delay: "behaves P (\<lambda>d. 500 \<le> d \<and> d \<le> 6000) E
      (backoff_with_jitter a download_base_delay_ms download_max_delay_ms)"
    using behaves_backoff [of download_base_delay_ms download_max_delay_ms P E a]
    by (simp add: download_base_delay_ms_def download_max_delay_ms_def)
  have wait: "behaves P (\<lambda>_. True) E (bindE (backoff_with_jitter a download_base_delay_ms download_max_delay_ms)
      (\<lambda>delay. bindE (sleep_for delay) (\<lambda>_. download_attempts sv bucket key path as e)))" for e
    by (rule behaves_bindE [OF delay]) (intro behaves_rules assms(2) Cons.IH; simp)
  show ?case
    unfolding download_attempts.simps
    by (intro behaves_then behaves_calls(2) assms(1)) (intro behaves_sum wait behaves_ret TrueI)
qed

lemma behaves_download_entries:
  assumes "list_all download_schema entries"
    and "\<And>entry bucket key. JObject entry \<in> set entries \<Longrightarrow> at_string entry ''bucket'' = Return bucket \<Longrightarrow>
      at_string entry ''key'' = Return key \<Longrightarrow> P (S3_downloaded bucket key (path_append dir (key_filename key)))"
    and "\<And>ms. 500 \<le> ms \<Longrightarrow> ms \<le> 6000 \<Longrightarrow> P (Slept ms)"
  shows "behaves P (\<lambda>_. True) E (download_entries sv dir entries)"
  using assms(1,2)
proof (induction entries)
  case Nil
  show ?case by (simp add: behaves_ret)
next
  case (Cons v vs)
  from Cons.prems(1) obtain entry b k where v: "v = JObject entry"
    "at_string entry ''bucket'' = Return (c_str b)" "at_string entry ''key'' = Return (c_str k)"
    by (auto simp: download_schema_def at_string_find)
  have rest: "behaves P (\<lambda>_. True) E (download_entries sv dir vs)"
    using Cons.prems by (intro Cons.IH) auto
  have "P (S3_downloaded (c_str b) (c_str k) (path_append dir (key_filename (c_str k))))"
    using Cons.prems(2) v by auto
  then show ?case
    unfolding download_entries.simps v as_object.simps bindE_of_outcome
    by (intro behaves_rules behaves_download_attempts assms(3) rest TrueI)
qed

lemma behaves_entry_is_regular: "behaves P (\<lambda>_. True) is_fs_exn (lift_fs (entry_is_regular p))"
  by (rule behaves_lift_fs) (auto simp: entry_is_regular_def is_fs_exn_def split: if_splits)

lemma behaves_upload_entries:
  assumes "\<And>p. p \<in> set entries \<Longrightarrow>
    P (S3_uploaded (c_str (c_s3_bucket c)) (c_str (output_prefix @ path_filename p)) (c_str p))"
  shows "behaves P (\<lambda>_. True) is_fs_exn (upload_entries sv c output_prefix entries results)"
  using assms
proof (induction entries arbitrary: results)
  case Nil
  show ?case by (simp add: behaves_ret)
next
  case (Cons p ps)
  have rest: "behaves P (\<lambda>_. True) is_fs_exn (upload_entries sv c output_prefix ps rs)" for rs
    using Cons.prems by (intro Cons.IH) auto
  show ?case
    unfolding upload_entries.simps Let_def
    by (intro behaves_rules behaves_entry_is_regular Cons.prems rest TrueI) simp
qed

lemma behaves_upload_outputs:
  assumes "\<And>name. path_component name \<Longrightarrow>
    P (S3_uploaded (c_str (c_s3_bucket c)) (c_str (output_prefix @ name)) (c_str (path_append dir name)))"
  shows "behaves P (\<lambda>_. True) is_fs_exn (upload_outputs sv c output_prefix dir)"
proof -
  have "behaves P (\<lambda>entries. \<forall>es. entries = Inr es \<longrightarrow> (\<forall>p \<in> set es. \<exists>n. path_component n \<and> p = path_append dir n))
      is_fs_exn (gets (\<lambda>w. directory_iterator dir (fs w)))"
    by (rule behavesI)
      (auto simp: gets_def directory_iterator_def set_dir_names split: if_splits option.splits node.splits)
  then show ?thesis
    unfolding upload_outputs_def
  proof (rule behaves_bindE)
    fix entries :: "string list expected"
    assume e: "\<forall>es. entries = Inr es \<longrightarrow> (\<forall>p \<in> set es. \<exists>n. path_component n \<and> p = path_append dir n)"
    show "behaves P (\<lambda>_. True) is_fs_exn (case entries of
        Inl e \<Rightarrow> ret (Inl (''cannot iterate outputs directory: '' @ e))
      | Inr es \<Rightarrow> upload_entries sv c output_prefix es [])"
    proof (rule behaves_sum)
      fix es assume "entries = Inr es"
      with e have "\<And>p. p \<in> set es \<Longrightarrow> \<exists>n. path_component n \<and> p = path_append dir n" by blast
      then show "behaves P (\<lambda>_. True) is_fs_exn (upload_entries sv c output_prefix es [])"
        by (intro behaves_upload_entries) (metis assms path_filename_append)
    qed (rule behaves_ret, rule TrueI)
  qed
qed

lemma behaves_execute:
  assumes "P (Launched (resolve_executable ex (executable d)) (inputs # outputs # arguments)
    (effective_timeout (default_timeout_sec ex) timeout_sec))"
  shows "behaves P (\<lambda>_. True) E (execute sv ex d arguments inputs outputs out timeout_sec)"
  unfolding execute_def Let_def by (intro behaves_rules assms TrueI)

lemma behaves_fail_without_retry:
  assumes "\<And>text. P (Redis_stored job_id text (Some (c_redis_ttl_sec (configurations wk))))"
  shows "behaves P (\<lambda>_. True) E (fail_without_retry sv wk job_id message reason)"
  unfolding fail_without_retry_def by (intro behaves_rules behaves_set_job_status assms)

lemma behaves_run_task:
  assumes q: "reads_request message q" and d: "find_task (task_executor wk) (req_name q) = Some d"
    and root: "job_root (req_job q) root"
  shows "behaves (job_event sv wk message q) (\<lambda>_. True) is_fs_exn
    (run_task sv wk message (req_job q) (req_task q) (req_name q) d root)"
proof -
  let ?P = "job_event sv wk message q"
  from q have schema: "task_schema (req_task q)" "list_all download_schema (req_downloads q)"
    and at: "at_array message ''download_s3'' = Return (req_downloads q)"
      "at_string message ''output_prefix'' = Return (req_prefix q)"
    by (simp_all add: reads_request_def)
  obtain extra t where args: "task_arguments (req_task q) = Return extra" "task_timeout (req_task q) = Return t"
    using task_arguments_ok [OF schema(1)] task_timeout_ok [OF schema(1)] by blast
  have download: "behaves ?P (\<lambda>_. True) is_fs_exn (download_inputs sv message (temp_inputs root))"
    unfolding download_inputs_def at bindE_of_outcome
    using root schema(2) by (intro behaves_download_entries) auto
  have launch: "behaves ?P (\<lambda>_. True) is_fs_exn (execute sv (task_executor wk) d extra
      (temp_inputs root) (temp_outputs root) (temp_stdout_log root) t)"
    using root d args by (intro behaves_execute) auto
  have upload: "behaves ?P (\<lambda>_. True) is_fs_exn
      (upload_outputs sv (configurations wk) (req_prefix q) (temp_outputs root))"
    using root by (intro behaves_upload_outputs) auto
  have status: "behaves ?P (\<lambda>_. True) is_fs_exn (set_job_status sv (configurations wk) (req_job q) s us)" for s us
    by (rule behaves_set_job_status) simp
  show ?thesis
    unfolding run_task_def at args bindE_of_outcome
    by (intro behaves_rules download launch upload status TrueI)
qed

lemma behaves_with_temp_dir:
  assumes "\<And>root. job_root job_id root \<Longrightarrow> behaves P (\<lambda>_. True) is_fs_exn (body root)"
  shows "behaves P (\<lambda>_. True) is_fs_exn (with_temp_dir job_id body)"
proof -
  have "behaves P (job_root job_id) is_fs_exn (\<lambda>w. (temp_root job_id (fs w), w))"
    by (rule behavesI) (auto simp: temp_root_def job_root_def is_fs_exn_def split: option.splits)
  then show ?thesis
    unfolding with_temp_dir_def
  proof (rule behaves_bindE)
    fix root assume "job_root job_id root"
    then show "behaves P (\<lambda>_. True) is_fs_exn (bindE (modify (update_fs (make_temp_dirs root)))
        (\<lambda>_. finallyE (body root) (update_fs (remove_all root))))"
      by (intro behaves_then behaves_update_fs behaves_finallyE assms) (simp_all add: update_fs_def)
  qed
qed

lemma behaves_process_job:
  assumes q: "reads_request message q"
  shows "behaves (job_event sv wk message q) (\<lambda>_. True) is_fs_exn (process_job sv wk message)"
proof -
  let ?P = "job_event sv wk message q"
  from q have at: "at_string message ''job_id'' = Return (req_job q)"
    "at_object message ''task'' = Return (req_task q)" "at_string (req_task q) ''name'' = Return (req_name q)"
    by (simp_all add: reads_request_def)
  have status: "behaves ?P (\<lambda>_. True) is_fs_exn (set_job_status sv (configurations wk) (req_job q) s us)" for s us
    by (rule behaves_set_job_status) simp
  have fail: "behaves ?P (\<lambda>_. True) is_fs_exn (fail_without_retry sv wk (req_job q) message r)" for r
    by (rule behaves_fail_without_retry) simp
  show ?thesis
    unfolding process_job_def at bindE_of_outcome
    by (intro behaves_then behaves_if behaves_option behaves_is_terminal_status behaves_ret status fail
        behaves_with_temp_dir behaves_run_task q TrueI)
qed

lemma record_failure_throws:
  "record_failure tk dlq job_id msg reason inbound f = (Throw e, f') \<Longrightarrow> is_fs_exn e"
  by (auto simp: record_failure_run Let_def is_fs_exn_def split: if_splits)

lemma behaves_record_failure:
  "behaves P (\<lambda>recorded. \<forall>n. recorded = Inr n \<longrightarrow> attempt_number inbound n) is_fs_exn
     (lift_fs (record_failure tk dlq job_id msg reason inbound))"
  by (rule behaves_lift_fs) (blast dest: record_failure_returns record_failure_throws)+

lemma behaves_handle_failure:
  assumes body: "json_parse sv body = Inr (JObject message)"
  shows "behaves (job_event sv wk message q) (\<lambda>_. True) is_fs_exn
    (handle_processing_failure sv wk (req_job q) body reason)"
proof -
  let ?P = "job_event sv wk message q" and ?c = "configurations wk" and ?j = "req_job q"
  have republish: "republish_object sv ?j body = message"
    by (simp add: republish_object_def body)
  have status: "behaves ?P (\<lambda>_. True) is_fs_exn (set_job_status sv ?c ?j s us)" for s us
    by (rule behaves_set_job_status) simp
  have delay: "behaves ?P (\<lambda>d. 500 \<le> d \<and> d \<le> 12000) is_fs_exn
      (backoff_with_jitter n retry_base_delay_ms retry_max_delay_ms)" for n
    by (rule behaves_weaken [OF behaves_backoff])
      (simp_all add: retry_base_delay_ms_def retry_max_delay_ms_def)
  show ?thesis
    unfolding handle_processing_failure_def republish Let_def
  proof (rule behaves_bindE [OF behaves_record_failure], rule behaves_sum [OF status], rule behaves_if, goal_cases)
    case (2 recorded n)
    then have n: "attempt_number (inbound_try_count message) n" by blast
    have send: "?P (Sqs_sent (c_str (json_serialize sv (JObject (obj_set ''dlq_try_count'' (JInt64 n) message))))
        (c_str (c_sqs_message_group_id ?c)) (c_str (dedup_id ?j n)))"
      using 2 n by (auto simp: retry_call_def can_retry_def)
    show ?case
      by (rule behaves_bindE [OF delay])
        (intro behaves_then behaves_sum behaves_calls(4) behaves_calls(6) behaves_update_fs status send; simp)
  qed (intro behaves_then behaves_update_fs status)
qed

section \<open>The handler\<close>

lemma handle_message_behaves:
  assumes body: "json_parse sv body = Inr (JObject message)" and valid: "validate_request message = Inr ()"
    and q: "reads_request message q"
  shows "behaves (job_event sv wk message q) (\<lambda>r. r = Inr ()) is_fs_exn (handle_message sv wk body)"
proof -
  have at: "at_string message ''job_id'' = Return (req_job q)" using q by (simp add: reads_request_def)
  show ?thesis
    unfolding handle_message_def body valid sum.case json.case at bindE_of_outcome
    by (intro behaves_then behaves_sum behaves_ret behaves_process_job behaves_handle_failure q body refl)
qed

lemma handle_message_rejects:
  assumes "json_parse sv body = Inr (JObject message)" and "validate_request message = Inl e"
  shows "behaves (\<lambda>ev. \<exists>job text. get_string message ''job_id'' = Some job \<and> is_valid_job_id job \<and>
      ev = Redis_stored job text (Some (c_redis_ttl_sec (configurations wk))))
    (\<lambda>r. r = Inr ()) (\<lambda>_. False) (handle_message sv wk body)"
  unfolding handle_message_def assms sum.case json.case reject_message_def
  by (intro behaves_then behaves_option behaves_if behaves_set_job_status behaves_ret TrueI refl)
    (simp_all add: valid_job_id_c_str)

lemma handle_message_drops:
  assumes "\<nexists>message. json_parse sv body = Inr (JObject message)"
  shows "handle_message sv wk body w = (Return (Inr ()), w)"
  using assms by (auto simp: handle_message_def ret_def split: sum.split json.split)

text \<open>The three kinds of message body.\<close>

lemma message_cases:
  obtains (dropped) "\<nexists>message. json_parse sv body = Inr (JObject message)"
  | (rejected) message e where "json_parse sv body = Inr (JObject message)" "validate_request message = Inl e"
  | (accepted) message q where "json_parse sv body = Inr (JObject message)"
      "validate_request message = Inr ()" "reads_request message q"
proof (cases "\<exists>message. json_parse sv body = Inr (JObject message)")
  case True
  then obtain message where m: "json_parse sv body = Inr (JObject message)" by blast
  show ?thesis
  proof (cases "validate_request message")
    case (Inr u)
    then have "validate_request message = Inr ()" by simp
    with m validated_reads_request [OF this] accepted show ?thesis by metis
  qed (use m rejected in blast)
qed (use dropped in blast)

definition new_events :: "('r, 'e) world \<Rightarrow> ('r, 'e) world \<Rightarrow> event list" where
  "new_events w w' = drop (length (trace w)) (trace w')"

lemma behaves_new_events:
  assumes "behaves P Q E m" and "m w = (r, w')"
  shows "list_all P (new_events w w')"
  using behaves_emits [OF assms] by (auto simp: new_events_def)

end
