(* ===== verification/Handler_Protocol.thy ===== *)
theory Handler_Protocol
  imports Handler_Safety
begin

text \<open>
  The order of the calls of the message handler. \<open>job_protocol\<close> is the abstract specification of
  the life of one delivery: what is written to Redis before and after the work, when a retry is
  published, and which status goes with it. \<open>handle_message_does\<close> shows that
  \<^verbatim>\<open>handle_message\<close> (\<^verbatim>\<open>src/Main/TaskForgeWorker.cpp\<close>) follows it in every state of the world.
\<close>

section \<open>The protocol\<close>

text \<open>The event of \<^verbatim>\<open>set_job_status\<close>: a merge on top of what some read of the job's key returned.\<close>

definition stores :: "('r, 'e) services \<Rightarrow> worker \<Rightarrow> string \<Rightarrow> string \<Rightarrow> jobject \<Rightarrow> event \<Rightarrow> bool" where
  "stores sv wk job_id status updates e \<longleftrightarrow>
     (\<exists>existing t. e = Redis_stored job_id
        (json_serialize sv (JObject (status_document (existing_document sv existing) job_id status updates (utc_timestamp t))))
        (Some (c_redis_ttl_sec (configurations wk))))"

fun is_fetch :: "event \<Rightarrow> bool" where
  "is_fetch (S3_downloaded bucket key path) = True"
| "is_fetch (Slept ms) = True"
| "is_fetch _ = False"

fun is_launch :: "event \<Rightarrow> bool" where
  "is_launch (Launched exe args timeout) = True"
| "is_launch _ = False"

fun is_upload :: "event \<Rightarrow> bool" where
  "is_upload (S3_uploaded bucket key path) = True"
| "is_upload _ = False"

text \<open>Downloads, then at most one launch, then uploads, and no upload without a launch.\<close>

definition work_done :: "event list \<Rightarrow> event list \<Rightarrow> event list \<Rightarrow> bool" where
  "work_done fetches launches uploads \<longleftrightarrow>
     list_all is_fetch fetches \<and> list_all is_launch launches \<and> length launches \<le> 1 \<and>
     list_all is_upload uploads \<and> (uploads \<noteq> [] \<longrightarrow> launches \<noteq> [])"

text \<open>A result entry of the final document, and the upload it stands for.\<close>

definition result_of_upload :: "worker \<Rightarrow> string \<Rightarrow> event \<Rightarrow> json \<Rightarrow> bool" where
  "result_of_upload wk output_prefix e result \<longleftrightarrow>
     (\<exists>name url path. e = S3_uploaded (c_str (c_s3_bucket (configurations wk))) (c_str (output_prefix @ name)) path \<and>
        result = result_object name url)"

inductive job_protocol ::
  "('r, 'e) services \<Rightarrow> worker \<Rightarrow> jobject \<Rightarrow> request \<Rightarrow> unit expected outcome \<Rightarrow> event list \<Rightarrow> bool"
  for sv wk message q where
  redelivered: "job_protocol sv wk message q (Return (Inr ())) []"
| unregistered:
    "find_task (task_executor wk) (req_name q) = None \<Longrightarrow>
     stores sv wk (req_job q) ''failed'' (obj_set ''failure_reason'' (JString reason) (contract_fields message)) e \<Longrightarrow>
     job_protocol sv wk message q (Return (Inr ())) [e]"
| completed:
    "stores sv wk (req_job q) ''running'' (contract_fields message) e \<Longrightarrow>
     work_done fetches [launch] uploads \<Longrightarrow> exit_code result = 0 \<Longrightarrow>
     list_all2 (result_of_upload wk (req_prefix q)) uploads results \<Longrightarrow>
     stores sv wk (req_job q) ''done'' (done_updates message result results) e' \<Longrightarrow>
     job_protocol sv wk message q (Return (Inr ())) (e # fetches @ launch # uploads @ [e'])"
| failed:
    "stores sv wk (req_job q) ''running'' (contract_fields message) e \<Longrightarrow>
     work_done fetches launches uploads \<Longrightarrow>
     updates = failure_updates message reason \<or>
       (\<exists>n. \<not> can_retry (task_dlq wk) n \<and> updates = retry_updates message reason n) \<Longrightarrow>
     stores sv wk (req_job q) ''failed'' updates e' \<Longrightarrow>
     job_protocol sv wk message q (Return (Inr ())) (e # fetches @ launches @ uploads @ [e'])"
| retried:
    "stores sv wk (req_job q) ''running'' (contract_fields message) e \<Longrightarrow>
     work_done fetches launches uploads \<Longrightarrow>
     retry_call sv wk message (req_job q) n body gid dedup \<Longrightarrow>
     status = ''queued'' \<or> status = ''failed'' \<Longrightarrow>
     stores sv wk (req_job q) status
       (retry_updates (obj_set ''dlq_try_count'' (JInt64 n) message) reason n) e' \<Longrightarrow>
     job_protocol sv wk message q (Return (Inr ()))
       (e # fetches @ launches @ uploads @ [Slept ms, Sqs_sent body gid dedup, e'])"
| broken:
    "stores sv wk (req_job q) ''running'' (contract_fields message) e \<Longrightarrow>
     work_done fetches launches uploads \<Longrightarrow> is_fs_exn x \<Longrightarrow>
     job_protocol sv wk message q (Throw x) (e # fetches @ launches @ uploads)"

section \<open>The parts\<close>

lemma does_set_job_status:
  "does (set_job_status sv (configurations wk) job_id status updates)
     (\<lambda>r es. r = Return () \<and> (\<exists>e. es = [e] \<and> stores sv wk job_id status updates e))"
  by (auto simp: does_def set_job_status_def current_utc_timestamp_def bindE_def call_redis_get_def
      call_redis_set_def system_clock_now_def ret_def emit_def stores_def split: prod.splits)

lemma does_update_fs: "does (modify (update_fs g)) (\<lambda>r es. r = Return () \<and> es = [])"
  by (simp add: does_def modify_def update_fs_def)

text \<open>A status write, with file-system updates before or after it.\<close>

lemma does_status_then_fs:
  "does (bindE (set_job_status sv (configurations wk) job_id status updates) (\<lambda>_. modify (update_fs g)))
     (\<lambda>r es. r = Return () \<and> (\<exists>e. es = [e] \<and> stores sv wk job_id status updates e))"
  by (rule does_bindE [OF does_set_job_status does_update_fs]) auto

lemma does_fs_then_status:
  "does (bindE (modify (update_fs g)) (\<lambda>_. set_job_status sv (configurations wk) job_id status updates))
     (\<lambda>r es. r = Return () \<and> (\<exists>e. es = [e] \<and> stores sv wk job_id status updates e))"
  by (rule does_bindE [OF does_update_fs does_set_job_status]) auto

lemma does_download_inputs:
  assumes "reads_request message q"
  shows "does (download_inputs sv message dir) (\<lambda>r es. list_all is_fetch es \<and> (\<exists>v. r = Return v))"
proof -
  have "behaves is_fetch (\<lambda>_. True) (\<lambda>_. False) (download_inputs sv message dir)"
    using assms unfolding download_inputs_def reads_request_def
    by (auto simp: bindE_of_outcome intro: behaves_download_entries)
  from does_behaves [OF this] show ?thesis
    by (rule does_weaken) (auto split: outcome.splits)
qed

lemma does_execute:
  "does (execute sv ex d arguments inputs outputs out timeout_sec)
     (\<lambda>r es. list_all is_launch es \<and> length es \<le> 1 \<and> (\<exists>v. r = Return v \<and> (\<forall>x. v = Inr x \<longrightarrow> length es = 1)))"
  by (auto simp: does_def execute_def Let_def bindE_def gets_def ret_def modify_def update_fs_def
      call_process_run_def emit_def split: prod.splits sum.splits if_splits)

lemma does_upload_entries:
  "does (upload_entries sv (configurations wk) output_prefix entries results)
     (\<lambda>r es. list_all is_upload es \<and> (\<forall>x. r = Throw x \<longrightarrow> is_fs_exn x) \<and>
        (\<forall>rs. r = Return (Inr rs) \<longrightarrow>
           (\<exists>new. rs = results @ new \<and> list_all2 (result_of_upload wk output_prefix) es new)))"
proof (induction entries arbitrary: results)
  case Nil
  show ?case unfolding upload_entries.simps by (rule does_weaken [OF does_ret]) auto
next
  case (Cons p ps)
  let ?L = "\<lambda>results r es. list_all is_upload es \<and> (\<forall>x. r = Throw x \<longrightarrow> is_fs_exn x) \<and>
        (\<forall>rs. r = Return (Inr rs) \<longrightarrow>
           (\<exists>new. rs = results @ new \<and> list_all2 (result_of_upload wk output_prefix) es new))"
  let ?name = "path_filename p" and ?c = "configurations wk"
  have presign: "does (bindE (call_s3_presign sv (c_str (c_s3_bucket ?c)) (c_str (output_prefix @ ?name))
        (c_presign_ttl_sec ?c)) (\<lambda>presigned. case presigned of
          Inl e \<Rightarrow> ret (Inl (''cannot presign output ['' @ ?name @ '']: '' @ e))
        | Inr url \<Rightarrow> upload_entries sv ?c output_prefix ps (results @ [result_object ?name url])))
      (\<lambda>r es. list_all is_upload es \<and> (\<forall>x. r = Throw x \<longrightarrow> is_fs_exn x) \<and>
        (\<forall>rs. r = Return (Inr rs) \<longrightarrow> (\<exists>new url. rs = results @ result_object ?name url # new \<and>
           list_all2 (result_of_upload wk output_prefix) es new)))"
    (is "does (bindE _ ?f) ?M")
  proof (rule does_bindE [where M = "\<lambda>r es. es = [] \<and> (\<exists>v. r = Return v)" and F = "\<lambda>_. ?M"])
    show "does (call_s3_presign sv (c_str (c_s3_bucket ?c)) (c_str (output_prefix @ ?name)) (c_presign_ttl_sec ?c))
        (\<lambda>r es. es = [] \<and> (\<exists>v. r = Return v))"
      by (auto simp: does_def call_s3_presign_def split: prod.splits)
    show "does (?f v) ?M" for v
      by (rule does_sum; rule does_weaken [OF does_ret] does_weaken [OF Cons.IH]; fastforce)
  qed auto
  have upload: "does (bindE (call_s3_upload sv (c_str (c_s3_bucket ?c)) (c_str (output_prefix @ ?name)) (c_str p))
      (\<lambda>uploaded. case uploaded of
         Inl e \<Rightarrow> ret (Inl (''cannot upload output ['' @ ?name @ '']: '' @ e))
       | Inr _ \<Rightarrow> bindE (call_s3_presign sv (c_str (c_s3_bucket ?c)) (c_str (output_prefix @ ?name))
          (c_presign_ttl_sec ?c)) (\<lambda>presigned. case presigned of
            Inl e \<Rightarrow> ret (Inl (''cannot presign output ['' @ ?name @ '']: '' @ e))
          | Inr url \<Rightarrow> upload_entries sv ?c output_prefix ps (results @ [result_object ?name url]))))
      (?L results)"
    (is "does (bindE _ ?g) _")
  proof (rule does_bindE)
    show "does (call_s3_upload sv (c_str (c_s3_bucket ?c)) (c_str (output_prefix @ ?name)) (c_str p))
        (\<lambda>r es. es = [S3_uploaded (c_str (c_s3_bucket ?c)) (c_str (output_prefix @ ?name)) (c_str p)] \<and> (\<exists>v. r = Return v))"
      by (auto simp: does_def call_s3_upload_def emit_def split: prod.splits)
    show "does (?g v) ?M" for v
      by (rule does_sum; rule does_weaken [OF does_ret] presign; simp)
  qed (fastforce simp: result_of_upload_def)+
  show ?case
    unfolding upload_entries.simps Let_def
  proof (rule does_bindE)
    show "does (lift_fs (entry_is_regular p)) (\<lambda>r es. es = [] \<and> (\<forall>x. r = Throw x \<longrightarrow> is_fs_exn x))"
      by (auto simp: does_def lift_fs_def entry_is_regular_def is_fs_exn_def split: prod.splits if_splits)
    show "does (if \<not> regular then upload_entries sv ?c output_prefix ps results else bindE (call_s3_upload sv
         (c_str (c_s3_bucket ?c)) (c_str (output_prefix @ ?name)) (c_str p)) ?g) (?L results)" for regular
      by (rule does_if [OF Cons.IH upload])
  qed auto
qed

lemma does_upload_outputs:
  "does (upload_outputs sv (configurations wk) output_prefix dir)
     (\<lambda>r es. list_all is_upload es \<and> (\<forall>x. r = Throw x \<longrightarrow> is_fs_exn x) \<and>
        (\<forall>rs. r = Return (Inr rs) \<longrightarrow> list_all2 (result_of_upload wk output_prefix) es rs))"
  (is "does _ ?L")
  unfolding upload_outputs_def
proof (rule does_bindE)
  show "does (gets (\<lambda>w. directory_iterator dir (fs w))) (\<lambda>r es. es = [] \<and> (\<exists>v. r = Return v))"
    by (simp add: does_def gets_def)
  show "does (case entries of
      Inl e \<Rightarrow> ret (Inl (''cannot iterate outputs directory: '' @ e))
    | Inr es \<Rightarrow> upload_entries sv (configurations wk) output_prefix es []) ?L" for entries
    by (rule does_sum; rule does_weaken [OF does_ret] does_weaken [OF does_upload_entries]; simp)
qed auto

text \<open>The work inside the temporary directory: it either ends with the final document, or leaves no status.\<close>

definition task_trace :: "('r, 'e) services \<Rightarrow> worker \<Rightarrow> jobject \<Rightarrow> request \<Rightarrow> unit expected outcome \<Rightarrow> event list \<Rightarrow> bool" where
  "task_trace sv wk message q r es \<longleftrightarrow>
     (case r of
        Return (Inr _) \<Rightarrow> \<exists>fetches launch uploads result results e.
          es = fetches @ launch # uploads @ [e] \<and> work_done fetches [launch] uploads \<and> exit_code result = 0 \<and>
          list_all2 (result_of_upload wk (req_prefix q)) uploads results \<and>
          stores sv wk (req_job q) ''done'' (done_updates message result results) e
      | Return (Inl _) \<Rightarrow> \<exists>fetches launches uploads.
          es = fetches @ launches @ uploads \<and> work_done fetches launches uploads
      | Throw x \<Rightarrow> is_fs_exn x \<and> (\<exists>fetches launches uploads.
          es = fetches @ launches @ uploads \<and> work_done fetches launches uploads))"

lemma task_trace_quiet:
  "work_done fetches launches uploads \<Longrightarrow> task_trace sv wk message q (Return (Inl reason)) (fetches @ launches @ uploads)"
  by (auto simp: task_trace_def)

lemma task_trace_thrown:
  "work_done fetches launches uploads \<Longrightarrow> is_fs_exn x \<Longrightarrow>
   task_trace sv wk message q (Throw x) (fetches @ launches @ uploads)"
  by (auto simp: task_trace_def)

lemma task_trace_done:
  "work_done fetches [launch] uploads \<Longrightarrow> exit_code result = 0 \<Longrightarrow>
   list_all2 (result_of_upload wk (req_prefix q)) uploads results \<Longrightarrow>
   stores sv wk (req_job q) ''done'' (done_updates message result results) e \<Longrightarrow>
   task_trace sv wk message q (Return (Inr ())) (fetches @ launch # uploads @ [e])"
  unfolding task_trace_def outcome.case sum.case by blast

text \<open>The end of the work: uploads, the final document, and the removal of the dead letter.\<close>

definition finish_trace ::
  "('r, 'e) services \<Rightarrow> worker \<Rightarrow> jobject \<Rightarrow> request \<Rightarrow> task_execution_result \<Rightarrow> unit expected outcome \<Rightarrow> event list \<Rightarrow> bool" where
  "finish_trace sv wk message q result r es \<longleftrightarrow>
     (case r of
        Return (Inr _) \<Rightarrow> \<exists>uploads results e. es = uploads @ [e] \<and> list_all is_upload uploads \<and>
          list_all2 (result_of_upload wk (req_prefix q)) uploads results \<and>
          stores sv wk (req_job q) ''done'' (done_updates message result results) e
      | Return (Inl _) \<Rightarrow> list_all is_upload es
      | Throw x \<Rightarrow> is_fs_exn x \<and> list_all is_upload es)"

lemma does_finish:
  "does (bindE (upload_outputs sv (configurations wk) (req_prefix q) dir) (\<lambda>uploaded.
      case uploaded of
        Inl e \<Rightarrow> ret (Inl e)
      | Inr results \<Rightarrow>
          bindE (set_job_status sv (configurations wk) (req_job q) ''done'' (done_updates message result results)) (\<lambda>_.
          bindE (modify (update_fs g)) (\<lambda>_. ret (Inr ())))))
    (finish_trace sv wk message q result)"
proof (rule does_bindE [OF does_upload_outputs])
  have fin: "does (bindE (modify (update_fs g)) (\<lambda>_. ret (Inr ()))) (\<lambda>r es. r = Return (Inr ()) \<and> es = [])"
    by (rule does_bindE [OF does_update_fs does_ret]) auto
  show "does (case uploaded of
        Inl e \<Rightarrow> ret (Inl e)
      | Inr results \<Rightarrow>
          bindE (set_job_status sv (configurations wk) (req_job q) ''done'' (done_updates message result results)) (\<lambda>_.
          bindE (modify (update_fs g)) (\<lambda>_. ret (Inr ()))))
      (\<lambda>r es. case uploaded of
         Inl e \<Rightarrow> r = Return (Inl e) \<and> es = []
       | Inr results \<Rightarrow> r = Return (Inr ()) \<and>
           (\<exists>e. es = [e] \<and> stores sv wk (req_job q) ''done'' (done_updates message result results) e))"
    for uploaded :: "json list expected"
    by (rule does_sum) (auto intro: does_weaken [OF does_ret] does_bindE [OF does_set_job_status fin])
qed (auto simp: finish_trace_def split: sum.splits)

lemma does_run_task:
  assumes q: "reads_request message q"
  shows "does (run_task sv wk message (req_job q) (req_task q) (req_name q) d root) (task_trace sv wk message q)"
proof -
  from q have schema: "task_schema (req_task q)"
    and at: "at_string message ''output_prefix'' = Return (req_prefix q)"
    by (simp_all add: reads_request_def)
  obtain extra t where args: "task_arguments (req_task q) = Return extra" "task_timeout (req_task q) = Return t"
    using task_arguments_ok [OF schema] task_timeout_ok [OF schema] by blast
  let ?after = "\<lambda>executed r es. (\<exists>e. r = Return (Inl e) \<and> es = []) \<or>
    (\<exists>result. executed = Inr result \<and> exit_code result = 0 \<and> finish_trace sv wk message q result r es)"
  let ?launch = "\<lambda>r es. \<exists>launches es'. es = launches @ es' \<and> list_all is_launch launches \<and> length launches \<le> 1 \<and>
    ((\<exists>e. r = Return (Inl e) \<and> es' = []) \<or>
     (\<exists>result. length launches = 1 \<and> exit_code result = 0 \<and> finish_trace sv wk message q result r es'))"
  show ?thesis
    unfolding run_task_def at args bindE_of_outcome
  proof (rule does_bindE [OF does_download_inputs [OF q]], rule does_sum)
    fix downloaded :: "unit expected" and e
    show "does (ret (Inl e)) ?launch" by (rule does_weaken [OF does_ret]) auto
  next
    fix downloaded :: "unit expected" and u
    show "does (bindE (execute sv (task_executor wk) d extra (temp_inputs root) (temp_outputs root) (temp_stdout_log root) t)
      (\<lambda>executed. case executed of
         Inl e \<Rightarrow> ret (Inl e)
       | Inr result \<Rightarrow>
           if exit_code result \<noteq> 0
           then ret (Inl (''task ['' @ req_name q @ ''] exited with code '' @ show_int (exit_code result) @ '': '' @
                    stdout_tail result))
           else bindE (upload_outputs sv (configurations wk) (req_prefix q) (temp_outputs root)) (\<lambda>uploaded.
             case uploaded of
               Inl e \<Rightarrow> ret (Inl e)
             | Inr results \<Rightarrow>
                 bindE (set_job_status sv (configurations wk) (req_job q) ''done'' (done_updates message result results)) (\<lambda>_.
                 bindE (modify (update_fs (dlq_remove (task_dlq wk) (req_job q)))) (\<lambda>_. ret (Inr ())))))) ?launch"
    proof (rule does_bindE [OF does_execute, where F = ?after], goal_cases)
      case (1 executed)
      show ?case
        by (rule does_sum, rule does_weaken [OF does_ret], simp, rule does_if,
            rule does_weaken [OF does_ret], simp, rule does_weaken [OF does_finish], simp)
    next
      case (2 executed es r es')
      then show ?case by (intro exI [of _ es] exI [of _ es']) auto
    qed auto
  next
    fix downloaded :: "unit expected" and es r es'
    assume fetch: "list_all is_fetch es \<and> (\<exists>v. Return downloaded = Return v)" and "?launch r es'"
    then obtain launches rest where es': "es' = launches @ rest" "list_all is_launch launches" "length launches \<le> 1"
      and r: "(\<exists>e. r = Return (Inl e) \<and> rest = []) \<or>
        (\<exists>result. length launches = 1 \<and> exit_code result = 0 \<and> finish_trace sv wk message q result r rest)"
      by blast
    from r show "task_trace sv wk message q r (es @ es')"
    proof (elim disjE exE conjE)
      fix e assume "r = Return (Inl e)" "rest = []"
      with fetch es' show ?thesis
        using task_trace_quiet [of es launches "[]"] by (simp add: work_done_def)
    next
      fix result assume one: "length launches = 1" and zero: "exit_code result = 0"
        and fin: "finish_trace sv wk message q result r rest"
      from one obtain l where l: "launches = [l]" by (auto simp: length_Suc_conv)
      have work: "list_all is_upload us \<Longrightarrow> work_done es [l] us" for us
        using fetch es' l by (simp add: work_done_def)
      show ?thesis
        using fin work zero task_trace_quiet [of es "[l]" rest] task_trace_thrown [of es "[l]" rest]
        unfolding es'(1) l finish_trace_def
        by (auto split: outcome.splits sum.splits intro: task_trace_done)
    qed
  qed auto
qed

lemma does_with_temp_dir:
  assumes "\<And>root. does (body root) (task_trace sv wk message q)"
  shows "does (with_temp_dir job_id body) (task_trace sv wk message q)"
  unfolding with_temp_dir_def
proof (rule does_bindE)
  show "does (\<lambda>w. (temp_root job_id (fs w), w)) (\<lambda>r es. es = [] \<and> (\<forall>x. r = Throw x \<longrightarrow> is_fs_exn x))"
    by (auto simp: does_def temp_root_def is_fs_exn_def split: option.splits)
  show "does (bindE (modify (update_fs (make_temp_dirs root))) (\<lambda>_. finallyE (body root) (update_fs (remove_all root))))
      (task_trace sv wk message q)" for root
    by (rule does_bindE [OF does_update_fs does_finallyE [OF assms]]) (simp_all add: update_fs_def)
  show "task_trace sv wk message q (Throw e) es" if "es = [] \<and> (\<forall>x. Throw e = Throw x \<longrightarrow> is_fs_exn x)" for e es
    using that task_trace_thrown [of "[]" "[]" "[]" e] by (simp add: work_done_def)
qed simp

definition process_trace :: "('r, 'e) services \<Rightarrow> worker \<Rightarrow> jobject \<Rightarrow> request \<Rightarrow> unit expected outcome \<Rightarrow> event list \<Rightarrow> bool" where
  "process_trace sv wk message q r es \<longleftrightarrow>
     r = Return (Inr ()) \<and> es = [] \<or>
     r = Return (Inr ()) \<and> find_task (task_executor wk) (req_name q) = None \<and>
       (\<exists>reason e. es = [e] \<and> stores sv wk (req_job q) ''failed''
          (obj_set ''failure_reason'' (JString reason) (contract_fields message)) e) \<or>
     (\<exists>e rest. es = e # rest \<and> stores sv wk (req_job q) ''running'' (contract_fields message) e \<and>
        task_trace sv wk message q r rest)"

lemma does_process_job:
  assumes q: "reads_request message q"
  shows "does (process_job sv wk message) (process_trace sv wk message q)"
proof -
  from q have at: "at_string message ''job_id'' = Return (req_job q)"
    "at_object message ''task'' = Return (req_task q)" "at_string (req_task q) ''name'' = Return (req_name q)"
    by (simp_all add: reads_request_def)
  have terminal: "does (is_terminal_status sv (req_job q)) (\<lambda>r es. es = [] \<and> (\<exists>v. r = Return v))"
    by (auto simp: does_def is_terminal_status_def bindE_def call_redis_get_def ret_def split: prod.splits)
  have skip: "does (ret (Inr ())) (process_trace sv wk message q)"
    by (rule does_weaken [OF does_ret]) (simp add: process_trace_def)
  have unregistered: "does (bindE (fail_without_retry sv wk (req_job q) message reason) (\<lambda>_. ret (Inr ())))
      (process_trace sv wk message q)" if "find_task (task_executor wk) (req_name q) = None" for reason
    unfolding fail_without_retry_def
    by (rule does_bindE [OF does_status_then_fs does_ret]) (use that in \<open>auto simp: process_trace_def\<close>)
  have run: "does (bindE (set_job_status sv (configurations wk) (req_job q) ''running'' (contract_fields message)) (\<lambda>_.
      with_temp_dir (req_job q) (run_task sv wk message (req_job q) (req_task q) (req_name q) d)))
      (process_trace sv wk message q)" for d
    by (rule does_bindE [OF does_set_job_status does_with_temp_dir [OF does_run_task [OF q]]])
      (auto simp: process_trace_def)
  show ?thesis
    unfolding process_job_def at bindE_of_outcome
    by (rule does_bindE [OF terminal], rule does_if [OF skip], rule does_option [OF unregistered run]) auto
qed

section \<open>The failure path\<close>

definition failure_trace :: "('r, 'e) services \<Rightarrow> worker \<Rightarrow> jobject \<Rightarrow> request \<Rightarrow> unit outcome \<Rightarrow> event list \<Rightarrow> bool" where
  "failure_trace sv wk message q r es \<longleftrightarrow>
     (\<exists>x. r = Throw x \<and> is_fs_exn x \<and> es = []) \<or>
     r = Return () \<and>
       ((\<exists>e updates reason. es = [e] \<and> stores sv wk (req_job q) ''failed'' updates e \<and>
           (updates = failure_updates message reason \<or>
            (\<exists>n. \<not> can_retry (task_dlq wk) n \<and> updates = retry_updates message reason n))) \<or>
        (\<exists>ms n body gid dedup status reason e. es = [Slept ms, Sqs_sent body gid dedup, e] \<and>
           retry_call sv wk message (req_job q) n body gid dedup \<and> (status = ''queued'' \<or> status = ''failed'') \<and>
           stores sv wk (req_job q) status (retry_updates (obj_set ''dlq_try_count'' (JInt64 n) message) reason n) e))"

lemma failure_trace_failed:
  "stores sv wk (req_job q) ''failed'' updates e \<Longrightarrow>
   updates = failure_updates message reason \<or>
     (\<exists>n. \<not> can_retry (task_dlq wk) n \<and> updates = retry_updates message reason n) \<Longrightarrow>
   failure_trace sv wk message q (Return ()) [e]"
  by (auto simp: failure_trace_def)

lemma failure_trace_sent:
  "retry_call sv wk message (req_job q) n body gid dedup \<Longrightarrow> status = ''queued'' \<or> status = ''failed'' \<Longrightarrow>
   stores sv wk (req_job q) status (retry_updates (obj_set ''dlq_try_count'' (JInt64 n) message) reason n) e \<Longrightarrow>
   failure_trace sv wk message q (Return ()) [Slept ms, Sqs_sent body gid dedup, e]"
  by (auto simp: failure_trace_def)

lemma does_backoff: "does (backoff_with_jitter n b m) (\<lambda>r es. es = [] \<and> (\<exists>d. r = Return d))"
  by (auto simp: does_def backoff_with_jitter_def Let_def bindE_def uniform_draw_def ret_def)

lemma does_sleep: "does (sleep_for ms) (\<lambda>r es. r = Return () \<and> es = [Slept ms])"
  by (simp add: does_def sleep_for_def modify_def emit_def)

lemma does_send: "does (call_sqs_send sv body gid dedup) (\<lambda>r es. es = [Sqs_sent body gid dedup] \<and> (\<exists>v. r = Return v))"
  by (auto simp: does_def call_sqs_send_def emit_def split: prod.splits)

lemma does_record_failure:
  "does (lift_fs (record_failure tk dlq job_id msg reason inbound))
     (\<lambda>r es. es = [] \<and> (\<forall>x. r = Throw x \<longrightarrow> is_fs_exn x) \<and>
        (\<forall>n. r = Return (Inr n) \<longrightarrow> attempt_number inbound n))"
  by (auto simp: does_def lift_fs_def split: prod.splits dest: record_failure_returns record_failure_throws)

lemma does_republish:
  assumes n: "can_retry (task_dlq wk) n" "attempt_number (inbound_try_count message) n"
  shows "does (bindE (backoff_with_jitter n retry_base_delay_ms retry_max_delay_ms) (\<lambda>backoff.
      bindE (sleep_for backoff) (\<lambda>_.
      bindE (call_sqs_send sv (c_str (json_serialize sv (JObject (obj_set ''dlq_try_count'' (JInt64 n) message))))
               (c_str (c_sqs_message_group_id (configurations wk))) (c_str (dedup_id (req_job q) n))) (\<lambda>republished.
      case republished of
        Inl e \<Rightarrow>
          bindE (modify (update_fs (dlq_remove (task_dlq wk) (req_job q)))) (\<lambda>_.
          set_job_status sv (configurations wk) (req_job q) ''failed''
            (retry_updates (obj_set ''dlq_try_count'' (JInt64 n) message) (reason @ '' (republish failed: '' @ e @ '')'') n))
      | Inr _ \<Rightarrow> set_job_status sv (configurations wk) (req_job q) ''queued''
            (retry_updates (obj_set ''dlq_try_count'' (JInt64 n) message) reason n)))))
    (failure_trace sv wk message q)" (is "does (bindE _ (\<lambda>backoff. bindE _ (\<lambda>_. bindE (call_sqs_send _ ?body ?gid ?dedup) ?fin))) _")
proof -
  have call: "retry_call sv wk message (req_job q) n ?body ?gid ?dedup"
    unfolding retry_call_def using n by (auto simp: can_retry_def)
  let ?stored = "\<lambda>r es. r = Return () \<and> (\<exists>e status reason. es = [e] \<and> (status = ''queued'' \<or> status = ''failed'') \<and>
    stores sv wk (req_job q) status (retry_updates (obj_set ''dlq_try_count'' (JInt64 n) message) reason n) e)"
  have status: "does (?fin republished) ?stored" for republished
    by (rule does_sum; rule does_weaken [OF does_fs_then_status] does_weaken [OF does_set_job_status]; blast)
  have send: "does (bindE (call_sqs_send sv ?body ?gid ?dedup) ?fin)
      (\<lambda>r es. \<exists>es'. es = Sqs_sent ?body ?gid ?dedup # es' \<and> ?stored r es')"
    by (rule does_bindE [OF does_send status]) auto
  have sent: "failure_trace sv wk message q r (Slept ms # Sqs_sent ?body ?gid ?dedup # es)" if "?stored r es" for r es ms
  proof -
    from that obtain e status reason where "r = Return ()" "es = [e]" and st: "status = ''queued'' \<or> status = ''failed''"
      and e: "stores sv wk (req_job q) status (retry_updates (obj_set ''dlq_try_count'' (JInt64 n) message) reason n) e"
      by blast
    with failure_trace_sent [OF call st e] show ?thesis by simp
  qed
  have sleep: "does (bindE (sleep_for backoff) (\<lambda>_. bindE (call_sqs_send sv ?body ?gid ?dedup) ?fin))
      (failure_trace sv wk message q)" for backoff
    by (rule does_bindE [OF does_sleep send]) (use sent in fastforce)+
  show ?thesis by (rule does_bindE [OF does_backoff sleep]) auto
qed

lemma does_handle_failure:
  assumes body: "json_parse sv body = Inr (JObject message)"
  shows "does (handle_processing_failure sv wk (req_job q) body reason) (failure_trace sv wk message q)"
proof -
  have republish: "republish_object sv (req_job q) body = message"
    by (simp add: republish_object_def body)
  have failed: "does (set_job_status sv (configurations wk) (req_job q) ''failed'' (failure_updates message reason))
      (failure_trace sv wk message q)"
    by (rule does_weaken [OF does_set_job_status]) (auto intro: failure_trace_failed)
  have gave_up: "does (bindE (modify (update_fs g)) (\<lambda>_. set_job_status sv (configurations wk) (req_job q) ''failed''
      (retry_updates message reason n))) (failure_trace sv wk message q)" if "\<not> can_retry (task_dlq wk) n" for g n
    by (rule does_weaken [OF does_fs_then_status]) (use that in \<open>auto intro: failure_trace_failed\<close>)
  show ?thesis
    unfolding handle_processing_failure_def republish Let_def
  proof (rule does_bindE_value [OF does_record_failure], rule does_sum [OF failed], rule does_if [OF gave_up], goal_cases)
    case (2 recorded es n)
    then show ?case by (intro does_republish) auto
  qed (auto simp: failure_trace_def)
qed


section \<open>The handler\<close>

lemma failed_protocol:
  assumes e: "stores sv wk (req_job q) ''running'' (contract_fields message) e"
    and work: "work_done fetches launches uploads" and fail: "failure_trace sv wk message q r es"
  shows "job_protocol sv wk message q (case r of Return _ \<Rightarrow> Return (Inr ()) | Throw x \<Rightarrow> Throw x)
    (e # fetches @ launches @ uploads @ es)"
  using fail unfolding failure_trace_def
proof (elim disjE exE conjE, goal_cases)
  case (1 x)
  with job_protocol.broken [OF e work] show ?case by simp
next
  case (2 e' updates reason)
  with job_protocol.failed [OF e work, of updates reason e'] show ?case by simp
next
  case (3 e' updates reason n)
  then have u: "updates = failure_updates message reason \<or>
       (\<exists>n. \<not> can_retry (task_dlq wk) n \<and> updates = retry_updates message reason n)" by blast
  from 3 job_protocol.failed [OF e work u] show ?case by simp
next
  case (4 ms n body gid dedup status reason e')
  then show ?case using job_protocol.retried [OF e work 4(3), of status reason e' ms] by simp
next
  case (5 ms n body gid dedup status reason e')
  then show ?case using job_protocol.retried [OF e work 5(3), of status reason e' ms] by simp
qed

lemma handle_message_does:
  assumes body: "json_parse sv body = Inr (JObject message)" and valid: "validate_request message = Inr ()"
    and q: "reads_request message q"
  shows "does (handle_message sv wk body) (job_protocol sv wk message q)"
proof -
  have at: "at_string message ''job_id'' = Return (req_job q)" using q by (simp add: reads_request_def)
  let ?fail = "\<lambda>r es. \<exists>r'. failure_trace sv wk message q r' es \<and> r = (case r' of Return _ \<Rightarrow> Return (Inr ()) | Throw x \<Rightarrow> Throw x)"
  let ?fin = "\<lambda>processed r es. case processed of Inr _ \<Rightarrow> r = Return (Inr ()) \<and> es = [] | Inl _ \<Rightarrow> ?fail r es"
  have fail: "does (bindE (handle_processing_failure sv wk (req_job q) body reason) (\<lambda>_. ret (Inr ()))) ?fail" for reason
    by (rule does_bindE [OF does_handle_failure [OF body] does_ret]) fastforce+
  have rest: "does (case processed of
      Inl reason \<Rightarrow> bindE (handle_processing_failure sv wk (req_job q) body reason) (\<lambda>_. ret (Inr ()))
    | Inr _ \<Rightarrow> ret (Inr ())) (?fin processed)" for processed :: "unit expected"
    using fail does_ret [of "Inr ()"] by (auto split: sum.split)
  show ?thesis
    unfolding handle_message_def body valid sum.case json.case at bindE_of_outcome
  proof (rule does_bindE [OF does_process_job [OF q] rest], goal_cases)
    case (1 processed es r es')
    show ?case
    proof (cases processed)
      case (Inr u)
      with 1 show ?thesis unfolding process_trace_def task_trace_def
        by (auto intro: job_protocol.intros)
    next
      case (Inl reason)
      with 1(1) obtain e fetches launches uploads where
        "es = e # fetches @ launches @ uploads" "stores sv wk (req_job q) ''running'' (contract_fields message) e"
        "work_done fetches launches uploads"
        by (auto simp: process_trace_def task_trace_def)
      with 1(2) Inl show ?thesis by (auto dest: failed_protocol)
    qed
  next
    case (2 x es)
    then show ?case
      by (auto simp: process_trace_def task_trace_def intro: job_protocol.broken)
  qed
qed
end
