(* ===== verification/Job_Store.thy ===== *)
theory Job_Store
  imports Job_Status
begin

text \<open>
  The status documents in Redis. Redis is outside the repository: the locale \<open>redis_store\<close> names
  what a client of \<^verbatim>\<open>RedisClient::get\<close> and \<^verbatim>\<open>RedisClient::set\<close> relies on. What the message
  handler relies on in turn is the locale \<open>status_board\<close>: a job has a status, announcing one
  replaces it, and the terminal check reads it. \<^verbatim>\<open>set_job_status\<close> and \<^verbatim>\<open>is_terminal_status\<close>
  (\<^verbatim>\<open>src/Main/TaskForgeWorker.cpp\<close>) implement that interface on every such Redis.
\<close>

section \<open>The interface of the handler\<close>

definition terminal_status :: "string option \<Rightarrow> bool" where
  "terminal_status status \<longleftrightarrow> status = Some ''done'' \<or> status = Some ''failed''"

locale status_board =
  fixes status_of :: "'w \<Rightarrow> string \<Rightarrow> string option"
    and announce :: "string \<Rightarrow> string \<Rightarrow> jobject \<Rightarrow> ('w, unit) comp"
    and finished :: "string \<Rightarrow> ('w, bool) comp"
    and good_update :: "jobject \<Rightarrow> bool"
    and good_text :: "string \<Rightarrow> bool"
    and online :: "'w \<Rightarrow> bool"
  assumes announce_online: "online w \<Longrightarrow> good_text j \<Longrightarrow> good_text s \<Longrightarrow> good_update us \<Longrightarrow>
      announce j s us w = (r, w') \<Longrightarrow> status_of w' j = Some s"
    and announce_other: "announce j s us w = (r, w') \<Longrightarrow> k \<noteq> j \<Longrightarrow> status_of w' k = status_of w k"
    and finished_online: "online w \<Longrightarrow> finished j w = (b, w') \<Longrightarrow>
      b = Return (terminal_status (status_of w j)) \<and> status_of w' = status_of w"
begin

text \<open>A terminal status, once announced, is what every later check of the job finds.\<close>

lemma announced_is_finished:
  assumes "online w" "good_text j" "good_text s" "good_update us" "announce j s us w = (r, w1)"
    and "online w2" "status_of w2 j = status_of w1 j" "finished j w2 = (r', w3)"
  shows "r' = Return (s = ''done'' \<or> s = ''failed'')"
  using finished_online [OF assms(6,8)] announce_online [OF assms(1-5)] assms(7)
  by (simp add: terminal_status_def)

lemma announced_keeps_others:
  assumes "announce j s us w = (r, w1)" "online w1" "finished k w1 = (r', w2)" "k \<noteq> j"
  shows "r' = Return (terminal_status (status_of w k))"
  using finished_online [OF assms(2,3)] announce_other [OF assms(1,4)] by simp

end

section \<open>Redis\<close>

text \<open>
  \<open>view\<close> is the text a key holds, \<open>up\<close> that the server answers. A read gives what the key holds; an
  accepted write replaces it and nothing else; a refused one leaves the store alone. An expiry is a
  change of the store between calls, so no law speaks about it.
\<close>

locale redis_store = json_toolkit sv
  for sv :: "('r, 'e) services" +
  fixes view :: "'r \<Rightarrow> string \<Rightarrow> string option"
    and up :: "'r \<Rightarrow> bool"
  assumes get_view: "redis_get sv k r = (res, r') \<Longrightarrow> view r' = view r"
    and get_found: "redis_get sv k r = (Inr text, r') \<Longrightarrow> view r k = Some text"
    and get_up: "up r \<Longrightarrow> redis_get sv k r = (res, r') \<Longrightarrow> up r' \<and> (view r k = Some text \<longrightarrow> res = Inr text)"
    and set_stored: "redis_set sv k text ttl r = (Inr (), r') \<Longrightarrow> view r' = (view r)(k \<mapsto> text)"
    and set_refused: "redis_set sv k text ttl r = (Inl e, r') \<Longrightarrow> view r' = view r"
    and set_up: "up r \<Longrightarrow> redis_set sv k text ttl r = (saved, r') \<Longrightarrow> up r' \<and> saved = Inr ()"

text \<open>The status an observer reads for a job.\<close>

definition status_in :: "'a toolkit_scheme \<Rightarrow> (string \<Rightarrow> string option) \<Rightarrow> string \<Rightarrow> string option" where
  "status_in tk store job_id =
     (case store job_id of
        None \<Rightarrow> None
      | Some text \<Rightarrow>
          (case json_parse tk text of Inr (JObject document) \<Rightarrow> get_string document ''status'' | _ \<Rightarrow> None))"

lemma terminal_document_status:
  "store job_id = Some text \<Longrightarrow> terminal_document sv text \<longleftrightarrow> terminal_status (status_in sv store job_id)"
  by (auto simp: terminal_document_def status_in_def terminal_status_def split: sum.split json.split option.split)

definition good_updates :: "jobject \<Rightarrow> bool" where
  "good_updates us \<longleftrightarrow> obj_inv us \<and> (\<forall>(k, v) \<in> set us. utf8_valid k \<and> member_ok v) \<and>
     obj_find us ''status'' = None \<and> obj_find us ''job_id'' = None"

text \<open>What the document of a job says for a member, after a status write on top of \<open>old\<close>.\<close>

definition merged :: "(string \<Rightarrow> json option) \<Rightarrow> string \<Rightarrow> string \<Rightarrow> jobject \<Rightarrow> string \<Rightarrow> string \<Rightarrow> json option" where
  "merged old job_id status updates now k =
     (if k = ''updated_at'' then Some (JString now)
      else if k = ''status'' then Some (JString status)
      else if k = ''job_id'' then Some (JString job_id)
      else case obj_find updates k of
             Some v \<Rightarrow> if is_null v then None else Some v
           | None \<Rightarrow> old k)"

lemma find_status_document_merged:
  assumes "obj_inv d" and "good_updates us"
  shows "obj_find (status_document d job_id status us now) = merged (obj_find d) job_id status us now"
proof
  fix k
  have "obj_inv us" "obj_find us ''status'' = None" "obj_find us ''job_id'' = None"
    using assms(2) by (simp_all add: good_updates_def)
  then show "obj_find (status_document d job_id status us now) k = merged (obj_find d) job_id status us now k"
    using assms(1) by (auto simp: find_status_document merged_def split: option.split)
qed

context redis_store
begin

lemma existing_document_ok: "json_doc_ok (JObject (existing_document sv existing))"
  using parse_ok by (fastforce simp: existing_document_def split: sum.splits json.splits)

text \<open>The read-merge-write, on a Redis that answers.\<close>

lemma set_job_status_run:
  assumes "set_job_status sv c j s us w = (r, w')"
  obtains existing r1 r2 saved now where "redis_get sv j (redis w) = (existing, r1)"
    and "redis_set sv j (json_serialize sv (JObject (status_document (existing_document sv existing) j s us now)))
           (Some (c_redis_ttl_sec c)) r1 = (saved, r2)"
    and "r = Return ()" and "redis w' = r2" and "now = utc_timestamp (clock w (clock_pos w))"
  using assms
  by (auto simp: set_job_status_def current_utc_timestamp_def bindE_def call_redis_get_def call_redis_set_def
      system_clock_now_def ret_def emit_def split: prod.splits)

lemma status_written:
  assumes up: "up (redis w)" and good: "utf8_valid j" "utf8_valid s" "good_updates us"
    and run: "set_job_status sv c j s us w = (r, w')"
  obtains document where "view (redis w') = (view (redis w))(j \<mapsto> json_serialize sv (JObject document))"
    and "json_doc_ok (JObject document)"
    and "obj_find document =
           merged (obj_find (existing_document sv (case view (redis w) j of None \<Rightarrow> Inl '''' | Some text \<Rightarrow> Inr text)))
             j s us (utc_timestamp (clock w (clock_pos w)))"
proof -
  from run obtain existing r1 r2 saved now where
    get: "redis_get sv j (redis w) = (existing, r1)"
    and put: "redis_set sv j (json_serialize sv (JObject (status_document (existing_document sv existing) j s us now)))
           (Some (c_redis_ttl_sec c)) r1 = (saved, r2)"
    and w': "redis w' = r2" and now: "now = utc_timestamp (clock w (clock_pos w))"
    by (rule set_job_status_run) blast
  let ?d = "status_document (existing_document sv existing) j s us now"
  have up1: "up r1" using get_up [OF up get] by blast
  with set_up [OF up1 put] set_stored put have view: "view r2 = (view r1)(j \<mapsto> json_serialize sv (JObject ?d))" by blast
  have old: "existing_document sv existing =
      existing_document sv (case view (redis w) j of None \<Rightarrow> Inl '''' | Some text \<Rightarrow> Inr text)"
    using get_up [OF up get] get_found get
    by (cases "view (redis w) j"; cases existing) (auto simp: existing_document_def)
  have ok: "json_doc_ok (JObject ?d)"
    using good now by (intro status_document_ok existing_document_ok)
      (auto simp: good_updates_def intro: utf8_valid_ascii ascii_utc_timestamp)
  have "obj_inv (existing_document sv existing)"
    using existing_document_ok by (simp add: json_doc_ok_object)
  from find_status_document_merged [OF this good(3)] that [OF _ ok] view w' get_view [OF get] old now
  show thesis by simp
qed

lemma status_read_back:
  assumes "json_doc_ok (JObject document)" "store j = Some (json_serialize sv (JObject document))"
    "obj_find document ''status'' = Some (JString s)"
  shows "status_in sv store j = Some s"
proof -
  from reparse_object [OF assms(1)] obtain ms where
    ms: "json_parse sv (json_serialize sv (JObject document)) = Inr (JObject ms)"
      "map_option forget_doubles (obj_find ms ''status'') = map_option forget_doubles (obj_find document ''status'')"
    by blast
  with forget_doubles_same(1) [OF ms(2)] assms show ?thesis by (simp add: status_in_def get_string_Some)
qed

end

text \<open>With the settings of a worker, the store is a status board.\<close>

locale redis_board = redis_store sv view up
  for sv :: "('r, 'e) services" and view up +
  fixes c :: configurations

sublocale redis_board \<subseteq> board: status_board "\<lambda>w. status_in sv (view (redis w))" "set_job_status sv c"
  "is_terminal_status sv" good_updates utf8_valid "\<lambda>w. up (redis w)"
proof unfold_locales
  fix w j s us r w'
  assume "up (redis w)" "utf8_valid j" "utf8_valid s" "good_updates us" "set_job_status sv c j s us w = (r, w')"
  then obtain document where d: "view (redis w') = (view (redis w))(j \<mapsto> json_serialize sv (JObject document))"
    "json_doc_ok (JObject document)"
    "obj_find document = merged (obj_find (existing_document sv (case view (redis w) j of None \<Rightarrow> Inl '''' | Some text \<Rightarrow> Inr text)))
             j s us (utc_timestamp (clock w (clock_pos w)))"
    by (rule status_written)
  then have "obj_find document ''status'' = Some (JString s)" by (simp add: merged_def)
  with status_read_back [OF d(2)] d(1) show "status_in sv (view (redis w')) j = Some s" by simp
next
  fix j s us w r w' k
  assume run: "set_job_status sv c j s us w = (r, w')" and k: "k \<noteq> j"
  from run obtain existing r1 r2 saved now where
    get: "redis_get sv j (redis w) = (existing, r1)"
    and put: "redis_set sv j (json_serialize sv (JObject (status_document (existing_document sv existing) j s us now)))
           (Some (c_redis_ttl_sec c)) r1 = (saved, r2)" and w': "redis w' = r2"
    by (rule set_job_status_run)
  have "view r2 k = view r1 k"
    using put k by (cases saved) (auto dest: set_stored set_refused)
  with get_view [OF get] w' show "status_in sv (view (redis w')) k = status_in sv (view (redis w)) k"
    by (simp add: status_in_def)
next
  fix w j b w'
  assume up: "up (redis w)" and run: "is_terminal_status sv j w = (b, w')"
  obtain existing r1 where get: "redis_get sv j (redis w) = (existing, r1)" by (cases "redis_get sv j (redis w)")
  with run have b: "b = Return (case existing of Inl e \<Rightarrow> False | Inr text \<Rightarrow> terminal_document sv text)"
    and w': "redis w' = r1"
    by (auto simp: is_terminal_status_def bindE_def call_redis_get_def ret_def)
  have "(case existing of Inl e \<Rightarrow> False | Inr text \<Rightarrow> terminal_document sv text) =
      terminal_status (status_in sv (view (redis w)) j)"
  proof (cases existing)
    case (Inl e)
    with get_up [OF up get] have "view (redis w) j = None" by (cases "view (redis w) j") auto
    with Inl show ?thesis by (simp add: status_in_def terminal_status_def)
  next
    case (Inr content)
    with get get_found have "view (redis w) j = Some content" by blast
    from terminal_document_status [of "view (redis w)" j, OF this] Inr show ?thesis by simp
  qed
  with b w' get_view [OF get]
  show "b = Return (terminal_status (status_in sv (view (redis w)) j)) \<and>
      (\<lambda>k. status_in sv (view (redis w')) k) = (\<lambda>k. status_in sv (view (redis w)) k)" by simp
qed

end
