(* ===== verification/Handler_Store.thy ===== *)
theory Handler_Store
  imports Handler_Protocol Job_Store
begin

text \<open>
  The handler and the status documents together. On a Redis that answers, the store after a handler
  is the store before it with the handler's writes replayed (\<open>follows\<close>), so the order of writes
  fixed in \<open>Handler_Protocol\<close> says what every later delivery of the job finds.
\<close>

section \<open>The store follows the trace\<close>

fun replay_event :: "event \<Rightarrow> (string \<Rightarrow> string option) \<Rightarrow> string \<Rightarrow> string option" where
  "replay_event (Redis_stored key content ttl) store = store(key \<mapsto> content)"
| "replay_event _ store = store"

definition replay :: "event list \<Rightarrow> (string \<Rightarrow> string option) \<Rightarrow> string \<Rightarrow> string option" where
  "replay es store = fold replay_event es store"

definition follows ::
  "('r \<Rightarrow> string \<Rightarrow> string option) \<Rightarrow> ('r \<Rightarrow> bool) \<Rightarrow> (('r, 'e) world, 'a) comp \<Rightarrow> bool" where
  "follows view up m \<longleftrightarrow>
     (\<forall>w r w'. up (redis w) \<longrightarrow> m w = (r, w') \<longrightarrow>
        up (redis w') \<and> (\<exists>es. trace w' = trace w @ es \<and> view (redis w') = replay es (view (redis w))))"

named_theorems follows_rules "computations whose store follows the trace"

lemma followsI:
  assumes "\<And>w r w'. up (redis w) \<Longrightarrow> m w = (r, w') \<Longrightarrow>
    up (redis w') \<and> (\<exists>es. trace w' = trace w @ es \<and> view (redis w') = replay es (view (redis w)))"
  shows "follows view up m"
  unfolding follows_def using assms by blast

lemma follows_run:
  "follows view up m \<Longrightarrow> up (redis w) \<Longrightarrow> m w = (r, w') \<Longrightarrow>
   up (redis w') \<and> (\<exists>es. trace w' = trace w @ es \<and> view (redis w') = replay es (view (redis w)))"
  by (simp add: follows_def)

lemma replay_append: "replay (es @ es') store = replay es' (replay es store)"
  by (simp add: replay_def)

lemma follows_bindE [follows_rules]:
  assumes m: "follows view up m" and f: "\<And>a. follows view up (f a)"
  shows "follows view up (bindE m f)"
proof (rule followsI)
  fix w r w' assume up: "up (redis w)" and run: "bindE m f w = (r, w')"
  obtain x w1 where x: "m w = (x, w1)" by (cases "m w")
  from follows_run [OF m up x] obtain es where
    es: "up (redis w1)" "trace w1 = trace w @ es" "view (redis w1) = replay es (view (redis w))" by blast
  show "up (redis w') \<and> (\<exists>es. trace w' = trace w @ es \<and> view (redis w') = replay es (view (redis w)))"
  proof (cases x)
    case (Return a)
    with run x have "f a w1 = (r, w')" by (simp add: bindE_def)
    from follows_run [OF f es(1) this] es show ?thesis by (auto simp: replay_append)
  next
    case (Throw e)
    with run x es show ?thesis by (auto simp: bindE_def)
  qed
qed

text \<open>A computation that leaves Redis and the trace alone.\<close>

lemma follows_silent:
  "(\<And>w r w'. m w = (r, w') \<Longrightarrow> redis w' = redis w \<and> trace w' = trace w) \<Longrightarrow> follows view up m"
  by (rule followsI) (auto simp: replay_def)

lemma follows_pure [follows_rules]:
  "follows view up (ret a)" "follows view up (gets f)" "follows view up (of_outcome x)"
  "follows view up (lift_fs g)" "follows view up (modify (update_fs h))"
  "follows view up system_clock_now" "follows view up (uniform_draw hi)"
  "follows view up (call_s3_presign sv b k ttl)" "follows view up (\<lambda>w. (temp_root job_id (fs w), w))"
  by (rule follows_silent, auto simp: ret_def gets_def of_outcome_def lift_fs_def modify_def update_fs_def
      system_clock_now_def uniform_draw_def call_s3_presign_def split: prod.splits)+

lemma follows_calls [follows_rules]:
  "follows view up (sleep_for ms)" "follows view up (call_s3_download sv b k p)"
  "follows view up (call_s3_upload sv b k p)" "follows view up (call_process_run sv exe args out t)"
  "follows view up (call_sqs_send sv body gid dedup)"
  by (rule followsI, force simp: sleep_for_def modify_def call_s3_download_def call_s3_upload_def
      call_process_run_def call_sqs_send_def emit_def replay_def split: prod.splits)+

lemma follows_finallyE [follows_rules]:
  assumes "follows view up m" shows "follows view up (finallyE m (update_fs g))"
proof (rule followsI)
  fix w r w' assume "up (redis w)" "finallyE m (update_fs g) w = (r, w')"
  with follows_run [OF assms]
  show "up (redis w') \<and> (\<exists>es. trace w' = trace w @ es \<and> view (redis w') = replay es (view (redis w)))"
    by (fastforce simp: finallyE_def update_fs_def split: prod.splits)
qed

lemma follows_cases [follows_rules]:
  "follows view up m \<Longrightarrow> follows view up n \<Longrightarrow> follows view up (if b then m else n)"
  "follows view up m \<Longrightarrow> (\<And>x. follows view up (f x)) \<Longrightarrow> follows view up (case z of None \<Rightarrow> m | Some x \<Rightarrow> f x)"
  "(\<And>x. follows view up (g x)) \<Longrightarrow> (\<And>y. follows view up (h y)) \<Longrightarrow>
   follows view up (case s of Inl x \<Rightarrow> g x | Inr y \<Rightarrow> h y)"
  by (simp_all split: option.split sum.split)

context redis_store
begin

lemma follows_redis [follows_rules]:
  "follows view up (call_redis_get sv key)" "follows view up (call_redis_set sv key content ttl)"
proof -
  show "follows view up (call_redis_get sv key)"
    by (rule followsI) (auto simp: call_redis_get_def replay_def split: prod.splits dest: get_up get_view)
  show "follows view up (call_redis_set sv key content ttl)"
  proof (rule followsI)
    fix w r w' assume up: "up (redis w)" and run: "call_redis_set sv key content ttl w = (r, w')"
    obtain saved r1 where put: "redis_set sv key content ttl (redis w) = (saved, r1)"
      by (cases "redis_set sv key content ttl (redis w)")
    with set_up [OF up put] set_stored have "up r1" "view r1 = (view (redis w))(key \<mapsto> content)" by blast+
    with run put show "up (redis w') \<and> (\<exists>es. trace w' = trace w @ es \<and> view (redis w') = replay es (view (redis w)))"
      by (auto simp: call_redis_set_def emit_def replay_def)
  qed
qed

lemma follows_status [follows_rules]:
  "follows view up (set_job_status sv c job_id status updates)" "follows view up (is_terminal_status sv job_id)"
  unfolding set_job_status_def current_utc_timestamp_def is_terminal_status_def by (intro follows_rules)+

lemma follows_backoff [follows_rules]: "follows view up (backoff_with_jitter n b m)"
  unfolding backoff_with_jitter_def Let_def by (intro follows_rules)

lemma follows_download_attempts [follows_rules]:
  "follows view up (download_attempts sv bucket key path attempts last_error)"
  by (induction attempts arbitrary: last_error) (simp_all, (intro follows_rules | assumption)+)

lemma follows_download_entries [follows_rules]: "follows view up (download_entries sv dir entries)"
  by (induction entries) (simp_all, (intro follows_rules | assumption)+)

lemma follows_upload_entries [follows_rules]: "follows view up (upload_entries sv c output_prefix entries results)"
proof (induction entries arbitrary: results)
  case (Cons entry rest)
  show ?case unfolding upload_entries.simps Let_def by (intro follows_rules Cons.IH)
qed (simp add: follows_pure)

lemma follows_handler_parts [follows_rules]:
  "follows view up (download_inputs sv message dir)" "follows view up (upload_outputs sv c output_prefix dir)"
  "follows view up (execute sv ex d arguments inputs outputs out timeout_sec)"
  "follows view up (fail_without_retry sv wk job_id message reason)"
  "follows view up (handle_processing_failure sv wk job_id body reason)"
  "follows view up (reject_message sv wk message error)"
  unfolding download_inputs_def upload_outputs_def execute_def fail_without_retry_def
    handle_processing_failure_def reject_message_def Let_def
  by (intro follows_rules)+

lemma follows_run_task [follows_rules]: "follows view up (run_task sv wk message job_id task name d root)"
  unfolding run_task_def by (intro follows_rules)

lemma follows_process_job [follows_rules]: "follows view up (process_job sv wk message)"
  unfolding process_job_def with_temp_dir_def by (intro follows_rules)

lemma follows_object [follows_rules]:
  fixes f :: "jobject \<Rightarrow> (('r, 'e) world, unit expected) comp"
  shows "(\<And>message. follows view up (f message)) \<Longrightarrow>
    follows view up (case v of JObject message \<Rightarrow> f message | _ \<Rightarrow> ret (Inr ()))"
  by (cases v) (simp_all add: follows_pure)

lemma follows_handle_message: "follows view up (handle_message sv wk body)"
  unfolding handle_message_def by (intro follows_rules)

end

section \<open>Deliveries of one job\<close>

text \<open>The data of a body that the handler accepts.\<close>

definition accepted :: "('r, 'e) services \<Rightarrow> string \<Rightarrow> jobject \<Rightarrow> request \<Rightarrow> bool" where
  "accepted sv body message q \<longleftrightarrow>
     json_parse sv body = Inr (JObject message) \<and> validate_request message = Inr () \<and> reads_request message q"

lemma accepted_reads:
  assumes "accepted sv body message q"
  shows "handle_message sv wk body = bindE (process_job sv wk message) (\<lambda>processed.
      case processed of
        Inr _ \<Rightarrow> ret (Inr ())
      | Inl reason \<Rightarrow> bindE (handle_processing_failure sv wk (req_job q) body reason) (\<lambda>_. ret (Inr ())))"
    and "process_job sv wk message = bindE (is_terminal_status sv (req_job q)) (\<lambda>terminal.
      if terminal then ret (Inr ())
      else case find_task (task_executor wk) (req_name q) of
        None \<Rightarrow> bindE (fail_without_retry sv wk (req_job q) message
                  (''task ['' @ req_name q @ ''] is not registered in the whitelist'')) (\<lambda>_. ret (Inr ()))
      | Some d \<Rightarrow> bindE (set_job_status sv (configurations wk) (req_job q) ''running'' (contract_fields message)) (\<lambda>_.
          with_temp_dir (req_job q) (run_task sv wk message (req_job q) (req_task q) (req_name q) d)))"
  using assms
  by (simp_all add: accepted_def reads_request_def handle_message_def process_job_def bindE_of_outcome)

lemma is_terminal_run:
  "is_terminal_status sv job_id w =
     (case redis_get sv job_id (redis w) of (res, r) \<Rightarrow>
        (Return (case res of Inl e \<Rightarrow> False | Inr content \<Rightarrow> terminal_document sv content), w\<lparr>redis := r\<rparr>))"
  by (simp add: is_terminal_status_def bindE_def call_redis_get_def ret_def split: prod.split)

lemma terminal_skips:
  assumes "accepted sv body message q" and "redis_get sv (req_job q) (redis w) = (Inr content, r)"
    and "terminal_document sv content"
  shows "handle_message sv wk body w = (Return (Inr ()), w\<lparr>redis := r\<rparr>)"
  using assms(2,3)
  by (simp add: accepted_reads [OF assms(1)] bindE_def is_terminal_run ret_def)

lemma unregistered_fails:
  assumes "accepted sv body message q" and "find_task (task_executor wk) (req_name q) = None"
    and "redis_get sv (req_job q) (redis w) = (res, r)" and "\<forall>content. res = Inr content \<longrightarrow> \<not> terminal_document sv content"
  shows "handle_message sv wk body w =
    (case set_job_status sv (configurations wk) (req_job q) ''failed''
        (obj_set ''failure_reason'' (JString (''task ['' @ req_name q @ ''] is not registered in the whitelist''))
          (contract_fields message)) (w\<lparr>redis := r\<rparr>) of
       (_, w') \<Rightarrow> (Return (Inr ()), update_fs (dlq_remove (task_dlq wk) (req_job q)) w'))"
  using assms(2-4)
  by (auto simp: accepted_reads [OF assms(1)] bindE_def is_terminal_run ret_def fail_without_retry_def modify_def
      set_job_status_def current_utc_timestamp_def call_redis_get_def call_redis_set_def system_clock_now_def
      split: sum.split prod.split)

lemma unregistered_events:
  assumes "accepted sv body message q" and "find_task (task_executor wk) (req_name q) = None"
    and "redis_get sv (req_job q) (redis w) = (res, r)"
    and "\<forall>content. res = Inr content \<longrightarrow> \<not> terminal_document sv content"
  shows "\<exists>w' e. handle_message sv wk body w = (Return (Inr ()), w') \<and> new_events w w' = [e] \<and>
    stores sv wk (req_job q) ''failed''
      (obj_set ''failure_reason'' (JString (''task ['' @ req_name q @ ''] is not registered in the whitelist''))
        (contract_fields message)) e \<and>
    fs w' = dlq_remove (task_dlq wk) (req_job q) (fs w)"
proof -
  let ?us = "obj_set ''failure_reason'' (JString (''task ['' @ req_name q @ ''] is not registered in the whitelist''))
        (contract_fields message)"
  obtain x w1 where set: "set_job_status sv (configurations wk) (req_job q) ''failed'' ?us (w\<lparr>redis := r\<rparr>) = (x, w1)"
    by (cases "set_job_status sv (configurations wk) (req_job q) ''failed'' ?us (w\<lparr>redis := r\<rparr>)")
  from does_run [OF does_set_job_status set] obtain e where
    e: "trace w1 = trace w @ [e]" "stores sv wk (req_job q) ''failed'' ?us e" by auto
  have "fs w1 = fs w"
    using set by (auto simp: set_job_status_def current_utc_timestamp_def bindE_def call_redis_get_def
        call_redis_set_def system_clock_now_def ret_def emit_def split: prod.splits)
  with e unregistered_fails [OF assms] set show ?thesis
    by (auto simp: new_events_def update_fs_def)
qed

text \<open>The fields of the documents the worker writes are well formed.\<close>

lemma good_updates_contract:
  assumes "json_doc_ok (JObject message)"
  shows "good_updates (contract_fields message)"
proof -
  have task: "utf8_valid s" if "get_object message ''task'' = Some t" "get_string t ''name'' = Some s" for t s
  proof -
    from that(1) have "obj_find message ''task'' = Some (JObject t)" by (simp add: get_object_Some)
    then have "json_ok (JObject t)"
      using json_doc_ok_find [OF assms] unfolding member_ok_def by blast
    then have "\<forall>(k, v) \<in> set t. json_ok v" by (auto simp: json_ok_object simp del: json_ok.simps)
    moreover have "(''name'', JString s) \<in> set t"
      using that(2) by (simp add: get_string_Some obj_find_def map_of_SomeD)
    ultimately show "utf8_valid s" by fastforce
  qed
  have at: "utf8_valid s" if "get_string message ''enqueued_at'' = Some s" for s
    using json_doc_ok_find [OF assms] that by (fastforce simp: get_string_Some)
  have "json_doc_ok (JObject (contract_fields message))"
    unfolding contract_fields_def Let_def
    by (auto split: option.split intro!: json_doc_ok_set intro: task at)
  then show ?thesis
    by (simp add: good_updates_def json_doc_ok_object find_contract_fields)
qed

lemma good_updates_set:
  "good_updates us \<Longrightarrow> utf8_valid k \<Longrightarrow> member_ok v \<Longrightarrow> k \<noteq> ''status'' \<Longrightarrow> k \<noteq> ''job_id'' \<Longrightarrow>
   good_updates (obj_set k v us)"
  using json_doc_ok_set [of us k v] by (simp add: good_updates_def json_doc_ok_object)

context redis_store
begin

lemma stored_status:
  assumes "stores sv wk j s us e" and "utf8_valid j" "utf8_valid s" "good_updates us"
  shows "status_in sv (replay (es @ [e]) store) j = Some s"
proof -
  from assms(1) obtain existing t where e: "e = Redis_stored j (json_serialize sv (JObject
      (status_document (existing_document sv existing) j s us (utc_timestamp t)))) (Some (c_redis_ttl_sec (configurations wk)))"
    (is "e = Redis_stored j (json_serialize sv (JObject ?d)) _")
    unfolding stores_def by blast
  have ok: "json_doc_ok (JObject ?d)"
    using assms(2-4) by (intro status_document_ok existing_document_ok)
      (auto simp: good_updates_def intro: utf8_valid_ascii ascii_utc_timestamp)
  have "obj_inv (existing_document sv existing)"
    using existing_document_ok by (simp add: json_doc_ok_object)
  from find_status_document_merged [OF this assms(4)]
  have "obj_find ?d ''status'' = Some (JString s)" by (simp add: merged_def)
  from status_read_back [OF ok _ this] show ?thesis by (simp add: e replay_def)
qed

text \<open>After a handler, the store shows the status of its last write.\<close>

lemma written_status:
  assumes "up (redis w)" and "handle_message sv wk body w = (r, w')" and "new_events w w' = es @ [e]"
    and "stores sv wk j s us e" and "utf8_valid j" "utf8_valid s" "good_updates us"
  shows "status_in sv (view (redis w')) j = Some s"
proof -
  from follows_run [OF follows_handle_message assms(1,2)] obtain es' where
    t: "trace w' = trace w @ es'" and v: "view (redis w') = replay es' (view (redis w))" by blast
  from t assms(3) have "es' = es @ [e]" by (simp add: new_events_def)
  with v stored_status [OF assms(4-7)] show ?thesis by simp
qed

lemma handled_status:
  assumes "up (redis w)" and "accepted sv body message q" and "handle_message sv wk body w = (r, w')"
    and "new_events w w' = es @ [e]" and "stores sv wk (req_job q) s us e" and "utf8_valid s" "good_updates us"
  shows "status_in sv (view (redis w')) (req_job q) = Some s"
proof -
  have "utf8_valid (req_job q)"
    using assms(2) by (auto simp: accepted_def reads_request_def intro: valid_job_id_utf8)
  with written_status assms show ?thesis by blast
qed

lemma redelivery_skipped:
  assumes "up (redis w)" and "accepted sv body message q"
    and "terminal_status (status_in sv (view (redis w)) (req_job q))"
  shows "\<exists>r. handle_message sv wk body w = (Return (Inr ()), w\<lparr>redis := r\<rparr>) \<and> up r \<and> view r = view (redis w)"
proof -
  let ?j = "req_job q"
  obtain res r where get: "redis_get sv ?j (redis w) = (res, r)" by (cases "redis_get sv ?j (redis w)")
  from assms(3) obtain content where c: "view (redis w) ?j = Some content"
    by (cases "view (redis w) ?j") (auto simp: status_in_def terminal_status_def)
  with get_up [OF assms(1) get] have res: "res = Inr content" "up r" by blast+
  have "terminal_document sv content"
    using terminal_document_status [of "view (redis w)" ?j content sv, OF c] assms(3) by simp
  with terminal_skips [OF assms(2) get [unfolded res(1)]] get_view [OF get] res(2) show ?thesis by blast
qed

end

end
