(* ===== verification/Retry_Chain.thy ===== *)
theory Retry_Chain
  imports Handler_Store
begin

text \<open>
  Retries across deliveries. A failed delivery publishes its own request again with a new
  \<^verbatim>\<open>dlq_try_count\<close>; the text travels through the queue and is parsed by another worker. This theory
  shows what survives the trip, and that the chain of retries of a request ends.
\<close>

section \<open>What a message keeps through its text form\<close>

definition same_json :: "json \<Rightarrow> json \<Rightarrow> bool" where
  "same_json v v' \<longleftrightarrow> forget_doubles v = forget_doubles v'"

lemma same_find:
  "same_json (JObject a) (JObject b) \<Longrightarrow>
   map_option forget_doubles (obj_find a k) = map_option forget_doubles (obj_find b k)"
  unfolding same_json_def by (simp add: forget_doubles_find [symmetric])

lemma same_find_string:
  "same_json (JObject a) (JObject b) \<Longrightarrow> obj_find a k = Some (JString s) \<Longrightarrow> obj_find b k = Some (JString s)"
  using forget_doubles_same(1) [OF same_find] by blast

lemma same_find_int:
  "same_json (JObject a) (JObject b) \<Longrightarrow> obj_find a k = Some (JInt64 i) \<Longrightarrow> obj_find b k = Some (JInt64 i)"
  using forget_doubles_same(2) [OF same_find] by blast

lemma same_find_None:
  "same_json (JObject a) (JObject b) \<Longrightarrow> obj_find a k = None \<longleftrightarrow> obj_find b k = None"
  using same_find [of a b k] by (cases "obj_find a k"; cases "obj_find b k") auto

lemma same_find_Some:
  assumes "same_json (JObject a) (JObject b)" and "obj_find a k = Some v"
  obtains v' where "obj_find b k = Some v'" and "same_json v v'"
  using same_find [OF assms(1), of k] assms(2)
  by (cases "obj_find b k") (auto simp: same_json_def)

lemma same_object:
  assumes "same_json (JObject t) v" obtains t' where "v = JObject t'"
  using assms by (cases v) (auto simp: same_json_def)

lemma same_array:
  assumes "same_json (JArray vs) v" obtains vs' where "v = JArray vs'" and "list_all2 same_json vs vs'"
proof -
  from assms obtain vs' where v: "v = JArray vs'" "map forget_doubles vs = map forget_doubles vs'"
    by (cases v) (auto simp: same_json_def)
  from v(2) have "list_all2 same_json vs vs'"
    by (simp add: list_all2_conv_all_nth same_json_def list_eq_iff_nth_eq)
  with v(1) that show thesis by blast
qed

lemma same_strings: "list_all2 same_json (map JString ss) vs \<Longrightarrow> vs = map JString ss"
  by (induction ss arbitrary: vs) (auto simp: same_json_def list_all2_Cons1)

lemma same_download_schema:
  assumes "same_json v v'" and "download_schema v"
  shows "download_schema v'"
proof -
  from assms(2) obtain e b k m where v: "v = JObject e" "obj_find e ''bucket'' = Some (JString b)" "b \<noteq> []"
    "obj_find e ''key'' = Some (JString k)" "k \<noteq> []" "obj_find e ''method'' = Some (JString m)"
    unfolding download_schema_def by blast
  with assms(1) obtain e' where e': "v' = JObject e'" "same_json (JObject e) (JObject e')" by (metis same_object)
  from v e' show ?thesis
    unfolding download_schema_def by (blast intro: same_find_string)
qed

lemma same_task_schema:
  assumes same: "same_json (JObject t) (JObject t')" and schema: "task_schema t"
  shows "task_schema t'" and "task_arguments t' = task_arguments t" and "task_timeout t' = task_timeout t"
proof -
  from schema obtain name where name: "obj_find t ''name'' = Some (JString name)" "name \<noteq> []"
    and args: "\<And>v. obj_find t ''arguments'' = Some v \<Longrightarrow> \<exists>ss. v = JArray (map JString ss)"
    and time: "\<And>v. obj_find t ''timeout_sec'' = Some v \<Longrightarrow> \<exists>i. v = JInt64 i"
    unfolding task_schema_def by blast
  have args': "obj_find t' ''arguments'' = obj_find t ''arguments''"
  proof (cases "obj_find t ''arguments''")
    case None
    with same_find_None [OF same] show ?thesis by metis
  next
    case (Some v)
    with args obtain ss where v: "obj_find t ''arguments'' = Some (JArray (map JString ss))" by blast
    from same_find_Some [OF same v] show ?thesis
      by (metis same_array same_strings v)
  qed
  have time': "obj_find t' ''timeout_sec'' = obj_find t ''timeout_sec''"
  proof (cases "obj_find t ''timeout_sec''")
    case None
    with same_find_None [OF same] show ?thesis by metis
  next
    case (Some v)
    with time obtain i where v: "obj_find t ''timeout_sec'' = Some (JInt64 i)" by blast
    from same_find_int [OF same v] v show ?thesis by simp
  qed
  show "task_schema t'"
    unfolding task_schema_def args' time' using same_find_string [OF same name(1)] name(2) args time by blast
  show "task_arguments t' = task_arguments t" "task_timeout t' = task_timeout t"
    using args' time'
    by (simp_all add: task_arguments_def task_timeout_def obj_contains_def at_array_def at_int64_def obj_at_def)
qed

text \<open>Two requests that make a worker do the same.\<close>

definition same_request :: "request \<Rightarrow> request \<Rightarrow> bool" where
  "same_request q q' \<longleftrightarrow>
     req_job q' = req_job q \<and> req_name q' = req_name q \<and> req_prefix q' = req_prefix q \<and>
     task_arguments (req_task q') = task_arguments (req_task q) \<and>
     task_timeout (req_task q') = task_timeout (req_task q) \<and>
     list_all2 same_json (req_downloads q) (req_downloads q')"

lemma same_request_refl: "same_request q q"
  by (simp add: same_request_def list_all2_conv_all_nth same_json_def)

lemma same_json_trans: "same_json u v \<Longrightarrow> same_json v w \<Longrightarrow> same_json u w"
  by (simp add: same_json_def)

lemma same_request_trans: "same_request p q \<Longrightarrow> same_request q r \<Longrightarrow> same_request p r"
  unfolding same_request_def by (auto intro: list_all2_trans [OF same_json_trans])

text \<open>An accepted message, its members laid out.\<close>

lemma accepted_members:
  assumes "validate_request message = Inr ()" and "reads_request message q"
  obtains name pre where
    "obj_find message ''job_id'' = Some (JString (req_job q))" "is_valid_job_id (req_job q)"
    "obj_find message ''mode'' = Some (JString ''execute'')"
    "obj_find message ''task'' = Some (JObject (req_task q))" "task_schema (req_task q)"
    "obj_find (req_task q) ''name'' = Some (JString name)" "req_name q = c_str name"
    "obj_find message ''download_s3'' = Some (JArray (req_downloads q))" "list_all download_schema (req_downloads q)"
    "obj_find message ''output_prefix'' = Some (JString pre)" "pre \<noteq> []" "req_prefix q = c_str pre"
proof -
  from assms(1) obtain j t ds pre where
    s: "obj_find message ''job_id'' = Some (JString j)" "is_valid_job_id j"
      "obj_find message ''mode'' = Some (JString ''execute'')"
      "obj_find message ''task'' = Some (JObject t)" "task_schema t"
      "obj_find message ''download_s3'' = Some (JArray ds)" "list_all download_schema ds"
      "obj_find message ''output_prefix'' = Some (JString pre)" "pre \<noteq> []"
    unfolding validate_request_ok request_schema_def by blast
  from s(5) obtain name where name: "obj_find t ''name'' = Some (JString name)" unfolding task_schema_def by blast
  from assms(2) s name have "req_job q = j" "req_task q = t" "req_downloads q = ds" "req_prefix q = c_str pre"
    "req_name q = c_str name"
    by (simp_all add: reads_request_def at_string_find at_object_find at_array_find)
  with s name that show thesis by blast
qed

lemma members_accepted:
  assumes "obj_find message ''job_id'' = Some (JString j)" "is_valid_job_id j"
    "obj_find message ''mode'' = Some (JString ''execute'')"
    "obj_find message ''task'' = Some (JObject t)" "task_schema t" "obj_find t ''name'' = Some (JString name)"
    "obj_find message ''download_s3'' = Some (JArray ds)" "list_all download_schema ds"
    "obj_find message ''output_prefix'' = Some (JString pre)" "pre \<noteq> []"
  shows "validate_request message = Inr ()"
    and "reads_request message
      \<lparr>req_job = j, req_task = t, req_name = c_str name, req_downloads = ds, req_prefix = c_str pre\<rparr>"
  using assms valid_job_id_c_str [OF assms(2)]
  unfolding validate_request_ok request_schema_def reads_request_def
  by (simp_all add: at_string_find at_object_find at_array_find)

lemma same_accepted:
  assumes same: "same_json (JObject a) (JObject b)" and a: "validate_request a = Inr ()" "reads_request a q"
  obtains q' where "validate_request b = Inr ()" "reads_request b q'" "same_request q q'"
proof -
  from a obtain name pre where m: "obj_find a ''job_id'' = Some (JString (req_job q))" "is_valid_job_id (req_job q)"
    "obj_find a ''mode'' = Some (JString ''execute'')"
    "obj_find a ''task'' = Some (JObject (req_task q))" "task_schema (req_task q)"
    "obj_find (req_task q) ''name'' = Some (JString name)" "req_name q = c_str name"
    "obj_find a ''download_s3'' = Some (JArray (req_downloads q))" "list_all download_schema (req_downloads q)"
    "obj_find a ''output_prefix'' = Some (JString pre)" "pre \<noteq> []" "req_prefix q = c_str pre"
    by (rule accepted_members)
  from same_find_Some [OF same m(4)] obtain t' where
    t': "obj_find b ''task'' = Some (JObject t')" "same_json (JObject (req_task q)) (JObject t')"
    by (metis same_object)
  from same_find_Some [OF same m(8)] obtain ds' where
    ds': "obj_find b ''download_s3'' = Some (JArray ds')" "list_all2 same_json (req_downloads q) ds'"
    by (metis same_array)
  have schema: "list_all download_schema ds'"
    using ds'(2) m(9) by (auto simp: list_all_length list_all2_conv_all_nth) (metis same_download_schema)
  note members_accepted [OF same_find_string [OF same m(1)] m(2) same_find_string [OF same m(3)] t'(1)
      same_task_schema(1) [OF t'(2) m(5)] same_find_string [OF t'(2) m(6)] ds'(1) schema
      same_find_string [OF same m(10)] m(11)]
  with that show thesis
    using same_task_schema(2,3) [OF t'(2) m(5)] ds'(2) m(7,12) by (auto simp: same_request_def)
qed

lemma at_set_other:
  "k \<noteq> l \<Longrightarrow> at_string (obj_set k v ms) l = at_string ms l"
  "k \<noteq> l \<Longrightarrow> at_object (obj_set k v ms) l = at_object ms l"
  "k \<noteq> l \<Longrightarrow> at_array (obj_set k v ms) l = at_array ms l"
  by (simp_all add: at_string_def at_object_def at_array_def obj_at_def)

lemma set_accepted:
  assumes "validate_request message = Inr ()" "reads_request message q"
    and "k \<notin> {''job_id'', ''mode'', ''task'', ''download_s3'', ''output_prefix''}"
  shows "validate_request (obj_set k v message) = Inr ()" and "reads_request (obj_set k v message) q"
proof -
  have keep: "obj_find (obj_set k v message) l = obj_find message l"
    if "l \<in> {''job_id'', ''mode'', ''task'', ''download_s3'', ''output_prefix''}" for l
    using assms(3) that by auto
  then show "validate_request (obj_set k v message) = Inr ()"
    using assms(1) unfolding validate_request_ok request_schema_def by simp
  show "reads_request (obj_set k v message) q"
    using assms(2,3) keep [of "''job_id''"] by (simp add: reads_request_def at_set_other)
qed

section \<open>One retry\<close>

lemma inbound_range: "int_min \<le> inbound_try_count message" "inbound_try_count message \<le> int_max"
  using cast_int_range by (auto simp: inbound_try_count_def split: option.split json.split)

lemma retry_number_range: "attempt_number inbound n \<Longrightarrow> int_min \<le> n \<and> n \<le> int_max"
  using cast_int_range by (auto simp: attempt_number_def)

text \<open>A published retry, when it is delivered, is accepted as the same request with the new number.\<close>

lemma retry_delivered:
  assumes tk: "json_toolkit sv" and acc: "accepted sv body message q"
    and call: "retry_call sv wk message job_id n body' gid dedup"
  obtains message' q' where "accepted sv body' message' q'" "same_request q q'" "inbound_try_count message' = n"
proof -
  let ?m = "obj_set ''dlq_try_count'' (JInt64 n) message"
  have n: "attempt_number (inbound_try_count message) n" and body': "body' = json_serialize sv (JObject ?m)"
    using call json_codec.c_str_serialize [OF tk [unfolded json_toolkit_def]] by (simp_all add: retry_call_def)
  have "json_doc_ok (JObject message)"
    using acc json_codec.parse_ok [OF tk [unfolded json_toolkit_def]] by (auto simp: accepted_def)
  then have "json_doc_ok (JObject ?m)"
    using retry_number_range [OF n] by (intro json_doc_ok_set) (simp_all add: ascii_def utf8_valid_ascii)
  then obtain v where v: "json_parse sv body' = Inr v" "same_json (JObject ?m) v"
    using json_codec.parse_serialize [OF tk [unfolded json_toolkit_def]] by (fastforce simp: body' same_json_def)
  from same_object [OF v(2)] obtain message' where m': "v = JObject message'" by blast
  have s: "same_json (JObject ?m) (JObject message')" using v(2) m' by simp
  have ok: "validate_request ?m = Inr ()" "reads_request ?m q"
    using acc by (auto simp: accepted_def intro!: set_accepted)
  from same_accepted [OF s ok] obtain q' where
    q': "validate_request message' = Inr ()" "reads_request message' q'" "same_request q q'" by blast
  have "obj_find message' ''dlq_try_count'' = Some (JInt64 n)" by (rule same_find_int [OF s]) simp
  then have "inbound_try_count message' = n"
    using retry_number_range [OF n] by (simp add: inbound_try_count_def cast_int_id)
  with that q' v(1) m' show thesis by (auto simp: accepted_def)
qed

section \<open>The chain\<close>

definition carried :: "'a toolkit_scheme \<Rightarrow> string \<Rightarrow> int" where
  "carried tk body = (case json_parse tk body of Inr (JObject message) \<Rightarrow> inbound_try_count message | _ \<Rightarrow> 0)"

text \<open>
  \<open>retry_chain sv wk k body body'\<close>: \<open>body'\<close> is what the \<open>k\<close>-th retry of \<open>body\<close> published. Every
  delivery may meet another state of the world: another worker, other files, another Redis. The
  counter of the last message has not wrapped around.
\<close>

inductive retry_chain :: "('r, 'e) services \<Rightarrow> worker \<Rightarrow> nat \<Rightarrow> string \<Rightarrow> string \<Rightarrow> bool" for sv wk where
  original: "retry_chain sv wk 0 body body"
| retry: "retry_chain sv wk k body body1 \<Longrightarrow> handle_message sv wk body1 w = (r, w') \<Longrightarrow>
    Sqs_sent body2 gid dedup \<in> set (new_events w w') \<Longrightarrow> 0 < carried sv body2 \<Longrightarrow>
    retry_chain sv wk (Suc k) body body2"

inductive_cases retry_chain_0E: "retry_chain sv wk 0 body body'"

lemma sent_is_retry:
  assumes "accepted sv body message q" and "handle_message sv wk body w = (r, w')"
    and "Sqs_sent body' gid dedup \<in> set (new_events w w')"
  obtains n where "retry_call sv wk message (req_job q) n body' gid dedup"
proof -
  have "list_all (job_event sv wk message q) (new_events w w')"
    using assms(1) by (intro behaves_new_events [OF handle_message_behaves assms(2)]) (simp_all add: accepted_def)
  with assms(3) have "job_event sv wk message q (Sqs_sent body' gid dedup)" by (auto simp: list_all_iff)
  with that show thesis by auto
qed

lemma sent_is_accepted:
  assumes "handle_message sv wk body w = (r, w')" and "Sqs_sent body' gid dedup \<in> set (new_events w w')"
  obtains message q where "accepted sv body message q"
proof (cases rule: message_cases [of sv body])
  case dropped
  with handle_message_drops assms(1) have "w' = w" by fastforce
  with assms(2) show ?thesis by (simp add: new_events_def)
next
  case (rejected message e)
  from behaves_new_events [OF handle_message_rejects [OF rejected] assms(1)] assms(2)
  show ?thesis by (auto simp: list_all_iff)
next
  case (accepted message q)
  with that show ?thesis by (simp add: accepted_def)
qed

lemma retry_raises:
  assumes tk: "json_toolkit sv" and run: "handle_message sv wk body w = (r, w')"
    and sent: "Sqs_sent body' gid dedup \<in> set (new_events w w')" and pos: "0 < carried sv body'"
  shows "max 0 (carried sv body) < carried sv body'" and "carried sv body' \<le> max_retry_count (task_dlq wk)"
proof -
  from sent_is_accepted [OF run sent] obtain message q where acc: "accepted sv body message q" .
  from sent_is_retry [OF acc run sent] obtain n where call: "retry_call sv wk message (req_job q) n body' gid dedup" .
  from retry_delivered [OF tk acc call] obtain message' q' where
    d: "accepted sv body' message' q'" "inbound_try_count message' = n" by blast
  then have c': "carried sv body' = n" by (simp add: carried_def accepted_def)
  have c: "carried sv body = inbound_try_count message" using acc by (simp add: carried_def accepted_def)
  have "attempt_number (inbound_try_count message) n" "n \<le> max_retry_count (task_dlq wk)"
    using call by (simp_all add: retry_call_def)
  with attempt_number_cases inbound_range(2) pos c c'
  show "max 0 (carried sv body) < carried sv body'" "carried sv body' \<le> max_retry_count (task_dlq wk)" by fastforce+
qed

lemma retry_chain_counts:
  assumes tk: "json_toolkit sv" and "retry_chain sv wk k body body'" and "0 < k"
  shows "max 0 (carried sv body) + int k \<le> carried sv body' \<and> carried sv body' \<le> max_retry_count (task_dlq wk)"
  using assms(2,3)
proof (induction rule: retry_chain.induct)
  case (retry k body body1 w r w' body2 gid dedup)
  from retry_raises [OF tk retry.hyps(2,3,4)] retry.IH
  show ?case
  proof (cases k)
    case 0
    with retry.hyps(1) have "body1 = body" by (auto elim: retry_chain_0E)
    with 0 retry_raises [OF tk retry.hyps(2,3,4)] show ?thesis by (simp add: max_def)
  qed auto
qed simp

end
