(* ===== verification/Reference_World.thy ===== *)
theory Reference_World
  imports Retry_Chain Json_Text
begin

text \<open>
  A concrete instance of everything the development takes as a parameter: an in-memory Redis, an S3
  that stores a fixed text, a queue that accepts every message, a launcher whose process prints a
  line, writes one output file and exits with a given code. It shows that the hypotheses of the
  properties hold together, and it is the input of their concrete runs.
\<close>

definition ref_services :: "int \<Rightarrow> (string \<rightharpoonup> string, unit) services" where
  "ref_services code = \<lparr>
     json_parse = parse_json, json_serialize = print_json,
     redis_connect = (\<lambda>r. (Inr (), r)),
     redis_get = (\<lambda>k r. (case r k of None \<Rightarrow> Inl ''nil'' | Some v \<Rightarrow> Inr v, r)),
     redis_set = (\<lambda>k v ttl r. (Inr (), r(k \<mapsto> v))),
     s3_download_file = (\<lambda>b k p e f. (Inr (), e, write_file p ''hello world'' f)),
     s3_upload_file = (\<lambda>b k p e f. (Inr (), e)),
     s3_presign = (\<lambda>b k ttl e. (Inr (''http://s3/'' @ k), e)),
     sqs_send = (\<lambda>body gid dedup e. (Inr (), e)),
     process_run = (\<lambda>exe args out timeout e f.
       (Inr ([Wait_done None, Timer_done True], code), e,
        write_file (path_append (args ! 1) ''a.txt'') ''2'' (write_file out ''ok'' f)))\<rparr>"

lemma ref_services_toolkit: "json_toolkit (ref_services code)"
  by (rule ref_toolkit_codec) (simp_all add: ref_services_def)

definition ref_worker :: worker where
  "ref_worker = \<lparr>
     configurations = (default_configurations
        \<lparr>file_opens = (\<lambda>p. False), file_bytes = (\<lambda>p. Inl ''''), bytes_to_string = id, log_information = 4\<rparr>)
        \<lparr>c_s3_bucket := ''b'', c_sqs_request_queue_url := ''q'', c_dlq_path := ''/dlq'', c_root_path := ''/app'',
         c_config_path := ''/app/cfg.json'', c_log_root_path := ''/app'',
         c_task_whitelist := [\<lparr>task_name = ''wc'', executable = ''wc.sh'', description = ''''\<rparr>]\<rparr>,
     task_executor = \<lparr>whitelist = [\<lparr>task_name = ''wc'', executable = ''wc.sh'', description = ''''\<rparr>],
                      root_path = ''/app'', default_timeout_sec = 30\<rparr>,
     task_dlq = \<lparr>dlq_path = ''/dlq'', max_retry_count = 3\<rparr>\<rparr>"

definition ref_fs :: filesys where
  "ref_fs = \<lparr>nodes = [(''/tmp'', Directory), (''/dlq'', Directory), (''/app'', Directory), (''/app/wc.sh'', Regular '''')],
             tmp_dir = Some ''/tmp'', denied = (\<lambda>p. False)\<rparr>"

definition ref_world :: "(string \<rightharpoonup> string, unit) world" where
  "ref_world = \<lparr>redis = Map.empty, ext = (), fs = ref_fs, rnd = (\<lambda>n. 0), rnd_pos = 0,
                clock = (\<lambda>n. 0), clock_pos = 0, trace = []\<rparr>"

definition ref_message :: jobject where
  "ref_message =
     [(''job_id'', JString ''j1''), (''mode'', JString ''execute''),
      (''task'', JObject [(''name'', JString ''wc'')]),
      (''download_s3'', JArray [JObject [(''bucket'', JString ''b''), (''key'', JString ''in/x.txt''),
                                         (''method'', JString ''GET'')]]),
      (''output_prefix'', JString ''out/'')]"

definition ref_body :: string where
  "ref_body = print_json (JObject ref_message)"

lemma ref_message_ok: "json_doc_ok (JObject ref_message)"
  by (simp add: json_doc_ok_def ref_message_def)

lemma ref_body_parse: "json_parse (ref_services code) ref_body = Inr (JObject ref_message)"
  using parse_print_json [OF ref_message_ok] by (simp add: ref_services_def ref_body_def ref_message_def)

lemma ref_message_valid: "validate_request ref_message = Inr ()"
  by (simp add: ref_message_def validate_request_def get_string_def get_object_def get_array_def obj_find_def
      is_valid_job_id_def job_id_max_length_def job_id_char_def check_task_def nonempty_string_def obj_contains_def)

definition ref_request :: request where
  "ref_request = \<lparr>req_job = ''j1'', req_task = [(''name'', JString ''wc'')], req_name = ''wc'',
     req_downloads = [JObject [(''bucket'', JString ''b''), (''key'', JString ''in/x.txt''), (''method'', JString ''GET'')]],
     req_prefix = ''out/''\<rparr>"

lemma ref_reads_request: "reads_request ref_message ref_request"
  by (simp add: reads_request_def ref_message_def ref_request_def obj_find_def at_string_def obj_at_def at_object_def
      at_array_def c_str_def is_valid_job_id_def job_id_max_length_def job_id_char_def task_schema_def download_schema_def)

lemma ref_services_simps [simp]:
  "json_parse (ref_services code) = parse_json"
  "json_serialize (ref_services code) = print_json"
  "redis_connect (ref_services code) r = (Inr (), r)"
  "redis_get (ref_services code) k r = (case r k of None \<Rightarrow> Inl ''nil'' | Some v \<Rightarrow> Inr v, r)"
  "redis_set (ref_services code) k v ttl r = (Inr (), r(k \<mapsto> v))"
  "s3_download_file (ref_services code) b k p e f = (Inr (), e, write_file p ''hello world'' f)"
  "s3_upload_file (ref_services code) b k p e f = (Inr (), e)"
  "s3_presign (ref_services code) b k t e = (Inr (''http://s3/'' @ k), e)"
  "sqs_send (ref_services code) body gid dedup e = (Inr (), e)"
  "process_run (ref_services code) exe args out timeout e f =
     (Inr ([Wait_done None, Timer_done True], code), e,
      write_file (path_append (args ! 1) ''a.txt'') ''2'' (write_file out ''ok'' f))"
  by (simp_all add: ref_services_def)

section \<open>The interfaces on the reference world\<close>

interpretation ref_dlq: dlq_files "ref_services code" "task_dlq ref_worker" for code
  by (simp add: dlq_files_def ref_services_toolkit)

interpretation ref_board: redis_board "ref_services code" "\<lambda>r. r" "\<lambda>_. True" "configurations ref_worker" for code
  unfolding redis_board_def redis_store_def redis_store_axioms_def
  by (auto simp: ref_services_toolkit split: option.splits)

lemma ref_accepted: "accepted (ref_services code) ref_body ref_message ref_request"
  unfolding accepted_def using ref_body_parse ref_message_valid ref_reads_request by blast

section \<open>The runs of the reference message\<close>

text \<open>The text of a status document; the runs below never look inside it.\<close>

definition ref_text ::
  "int \<Rightarrow> string \<Rightarrow> string \<Rightarrow> jobject \<Rightarrow> (string \<rightharpoonup> string, unit) world \<Rightarrow> string" where
  "ref_text code job_id status updates w =
     print_json (JObject (status_document (existing_document (ref_services code)
        (case redis w job_id of None \<Rightarrow> Inl ''nil'' | Some v \<Rightarrow> Inr v)) job_id status updates
        (utc_timestamp (clock w (clock_pos w)))))"

lemma ref_set_job_status:
  "set_job_status (ref_services code) c job_id status updates w =
     (Return (), w\<lparr>redis := (redis w)(job_id \<mapsto> ref_text code job_id status updates w), clock_pos := Suc (clock_pos w),
        trace := trace w @ [Redis_stored job_id (ref_text code job_id status updates w) (Some (c_redis_ttl_sec c))]\<rparr>)"
  by (simp add: set_job_status_def current_utc_timestamp_def bindE_def call_redis_get_def call_redis_set_def
      system_clock_now_def ret_def emit_def ref_text_def)

lemmas comp_defs = bindE_def ret_def of_outcome_def modify_def gets_def finallyE_def
lemmas call_defs = call_redis_get_def call_redis_set_def call_s3_download_def call_s3_upload_def call_s3_presign_def
  call_sqs_send_def call_process_run_def sleep_for_def uniform_draw_def system_clock_now_def lift_fs_def
  update_fs_def emit_def
lemmas world_path_defs = path_defs key_filename_def find_last_of_def entry_path_def
lemmas world_file_defs = file_defs entry_is_regular_def
lemmas temp_defs = make_temp_dirs_def temp_inputs_def temp_outputs_def temp_stdout_log_def temp_root_def

text \<open>The file system after the directories are made, after the download, after the task, and at the end.\<close>

definition ref_fs1 :: filesys where
  "ref_fs1 = ref_fs\<lparr>nodes := nodes ref_fs @
     [(''/tmp/taskforge'', Directory), (''/tmp/taskforge/j1'', Directory),
      (''/tmp/taskforge/j1/inputs'', Directory), (''/tmp/taskforge/j1/outputs'', Directory)]\<rparr>"

definition ref_fs2 :: filesys where
  "ref_fs2 = ref_fs1\<lparr>nodes := nodes ref_fs1 @ [(''/tmp/taskforge/j1/inputs/x.txt'', Regular ''hello world'')]\<rparr>"

definition ref_fs3 :: filesys where
  "ref_fs3 = ref_fs2\<lparr>nodes := nodes ref_fs2 @
     [(''/tmp/taskforge/j1/stdout.log'', Regular ''ok''), (''/tmp/taskforge/j1/outputs/a.txt'', Regular ''2'')]\<rparr>"

definition ref_fs4 :: filesys where
  "ref_fs4 = ref_fs\<lparr>nodes := nodes ref_fs @ [(''/tmp/taskforge'', Directory)]\<rparr>"

lemmas ref_fs_defs = ref_fs4_def ref_fs3_def ref_fs2_def ref_fs1_def ref_fs_def

definition ref_task :: task_definition where
  "ref_task = \<lparr>task_name = ''wc'', executable = ''wc.sh'', description = ''''\<rparr>"

lemma ref_files:
  "temp_root ''j1'' ref_fs = Return ''/tmp/taskforge/j1''"
  "make_temp_dirs ''/tmp/taskforge/j1'' ref_fs = ref_fs1"
  "dlq_remove (task_dlq ref_worker) ''j1'' ref_fs3 = ref_fs3"
  "remove_all ''/tmp/taskforge/j1'' ref_fs3 = ref_fs4"
  by (simp_all add: world_path_defs world_file_defs temp_defs ref_fs_defs dlq_remove_def ref_worker_def)

lemma ref_paths:
  "temp_inputs ''/tmp/taskforge/j1'' = ''/tmp/taskforge/j1/inputs''"
  "temp_outputs ''/tmp/taskforge/j1'' = ''/tmp/taskforge/j1/outputs''"
  "temp_stdout_log ''/tmp/taskforge/j1'' = ''/tmp/taskforge/j1/stdout.log''"
  by (simp_all add: world_path_defs temp_defs)

lemma ref_reads:
  "at_string ref_message ''job_id'' = Return ''j1''"
  "at_object ref_message ''task'' = Return [(''name'', JString ''wc'')]"
  "at_array ref_message ''download_s3'' =
     Return [JObject [(''bucket'', JString ''b''), (''key'', JString ''in/x.txt''), (''method'', JString ''GET'')]]"
  "at_string ref_message ''output_prefix'' = Return ''out/''"
  "at_string [(''name'', JString ''wc'')] ''name'' = Return ''wc''"
  using ref_reads_request by (simp_all add: reads_request_def ref_request_def)

lemma ref_task_reads:
  "task_arguments [(''name'', JString ''wc'')] = Return []"
  "task_timeout [(''name'', JString ''wc'')] = Return 0"
  "find_task (task_executor ref_worker) ''wc'' = Some ref_task"
  "c_redis_ttl_sec (configurations ref_worker) = 3600"
  by (simp_all add: task_arguments_def task_timeout_def obj_contains_def obj_find_def find_task_def ref_worker_def
      ref_task_def default_configurations_def)

lemma ref_download:
  "fs w = ref_fs1 \<Longrightarrow> download_inputs (ref_services code) ref_message ''/tmp/taskforge/j1/inputs'' w =
     (Return (Inr ()), w\<lparr>fs := ref_fs2,
        trace := trace w @ [S3_downloaded ''b'' ''in/x.txt'' ''/tmp/taskforge/j1/inputs/x.txt'']\<rparr>)"
  by (simp add: download_inputs_def ref_reads comp_defs call_defs world_path_defs world_file_defs upto.simps
      s3_download_attempts_def ref_fs_defs at_string_def obj_find_def obj_at_def c_str_def)

lemma ref_execute:
  "fs w = ref_fs2 \<Longrightarrow>
   execute (ref_services code) (task_executor ref_worker) ref_task [] ''/tmp/taskforge/j1/inputs''
     ''/tmp/taskforge/j1/outputs'' ''/tmp/taskforge/j1/stdout.log'' 0 w =
   (Return (Inr \<lparr>exit_code = code, timed_out = False, stdout_tail = ''ok''\<rparr>), w\<lparr>fs := ref_fs3,
      trace := trace w @ [Launched ''/app/wc.sh'' [''/tmp/taskforge/j1/inputs'', ''/tmp/taskforge/j1/outputs''] 30]\<rparr>)"
  by (simp add: execute_def Let_def comp_defs call_defs world_path_defs world_file_defs resolve_executable_def ref_worker_def
      ref_task_def ref_fs_defs effective_timeout_def on_timer_def on_wait_def io_start_def read_stdout_tail_def
      tail_of_def stdout_tail_bytes_def)

lemma ref_upload:
  "fs w = ref_fs3 \<Longrightarrow>
   upload_outputs (ref_services code) (configurations ref_worker) ''out/'' ''/tmp/taskforge/j1/outputs'' w =
   (Return (Inr [result_object ''a.txt'' ''http://s3/out/a.txt'']),
    w\<lparr>trace := trace w @ [S3_uploaded ''b'' ''out/a.txt'' ''/tmp/taskforge/j1/outputs/a.txt'']\<rparr>)"
  by (simp add: upload_outputs_def Let_def comp_defs call_defs world_path_defs world_file_defs ref_worker_def ref_fs_defs c_str_def
      default_configurations_def)

text \<open>The result of the task, and the calls of the work.\<close>

definition ref_result :: "int \<Rightarrow> task_execution_result" where
  "ref_result code = \<lparr>exit_code = code, timed_out = False, stdout_tail = ''ok''\<rparr>"

definition ref_work :: "event list" where
  "ref_work =
     [S3_downloaded ''b'' ''in/x.txt'' ''/tmp/taskforge/j1/inputs/x.txt'',
      Launched ''/app/wc.sh'' [''/tmp/taskforge/j1/inputs'', ''/tmp/taskforge/j1/outputs''] 30]"

lemmas ref_steps = ref_reads ref_task_reads ref_set_job_status ref_files ref_paths ref_download
  ref_execute [folded ref_result_def] ref_upload

definition ref_running :: "int \<Rightarrow> event" where
  "ref_running code = Redis_stored ''j1'' (ref_text code ''j1'' ''running'' (contract_fields ref_message) ref_world) (Some 3600)"

definition ref_done_updates :: jobject where
  "ref_done_updates = done_updates ref_message (ref_result 0) [result_object ''a.txt'' ''http://s3/out/a.txt'']"

lemma ref_text_stores:
  "stores (ref_services code) ref_worker job_id status updates
     (Redis_stored job_id (ref_text code job_id status updates w) (Some 3600))"
  unfolding stores_def ref_text_def by (simp add: ref_task_reads) blast

lemma ref_world_redis: "ref_world\<lparr>redis := Map.empty\<rparr> = ref_world"
  by (simp add: ref_world_def)

lemma ref_done_run:
  "\<exists>w' w1. handle_message (ref_services 0) ref_worker ref_body ref_world = (Return (Inr ()), w') \<and>
     trace w' = ref_running 0 # ref_work @
       [S3_uploaded ''b'' ''out/a.txt'' ''/tmp/taskforge/j1/outputs/a.txt'',
        Redis_stored ''j1'' (ref_text 0 ''j1'' ''done'' ref_done_updates w1) (Some 3600)] \<and>
     fs w' = ref_fs4"
proof -
  have "fs ref_world = ref_fs" "redis ref_world = Map.empty" "trace ref_world = []"
    by (simp_all add: ref_world_def)
  then show ?thesis
    by (auto simp: accepted_reads [OF ref_accepted] ref_request_def is_terminal_run with_temp_dir_def run_task_def
        comp_defs ref_steps update_fs_def ref_running_def ref_work_def ref_result_def
        ref_world_redis ref_done_updates_def)
qed

lemma ref_done_good: "good_updates ref_done_updates"
proof -
  have "utf8_valid s" if "s \<in> {''exit_code'', ''stdout_tail'', ''result_download_url'', ''failure_reason'', ''ok''}" for s
    using that by (auto simp: ascii_def intro!: utf8_valid_ascii)
  moreover have "member_ok (JArray [result_object ''a.txt'' ''http://s3/out/a.txt''])"
    by (simp add: member_ok_def result_object_def obj_set.simps)
  ultimately show ?thesis
    unfolding ref_done_updates_def done_updates_def ref_result_def
    by (intro good_updates_set good_updates_contract ref_message_ok) simp_all
qed

text \<open>The failing run: the retry carries number 1.\<close>

definition ref_retry :: jobject where
  "ref_retry = obj_set ''dlq_try_count'' (JInt64 1) ref_message"

lemma ref_republish:
  "republish_object (ref_services code) job_id ref_body = ref_message"
  by (simp add: republish_object_def ref_body_parse [unfolded ref_services_simps])

lemma ref_inbound: "inbound_try_count ref_message = 0"
  by (simp add: inbound_try_count_def ref_message_def obj_find_def)

lemma ref_record:
  "\<exists>f. record_failure (ref_services code) (task_dlq ref_worker) ''j1'' ref_body reason 0 ref_fs4 = (Return (Inr 1), f)"
  by (simp add: record_failure_run Let_def world_path_defs world_file_defs ref_fs_defs ref_worker_def dlq_count_def
      known_attempts_def cast_int_id)

lemma ref_retry_text: "c_str (print_json (JObject ref_retry)) = print_json (JObject ref_retry)"
  by (rule ref_codec.c_str_serialize)

lemma ref_failure:
  assumes "fs w = ref_fs4" and "rnd w = (\<lambda>n. 0)"
  shows "\<exists>w' content. handle_processing_failure (ref_services code) ref_worker ''j1'' ref_body reason w = (Return (), w') \<and>
    trace w' = trace w @
      [Slept 1000, Sqs_sent (print_json (JObject ref_retry)) ''request'' ''j1-retry-1'', Redis_stored ''j1'' content (Some 3600)]"
proof -
  obtain f where "record_failure (ref_services code) (task_dlq ref_worker) ''j1'' ref_body reason 0 ref_fs4 = (Return (Inr 1), f)"
    using ref_record by blast
  moreover have "can_retry (task_dlq ref_worker) 1" by (simp add: can_retry_def ref_worker_def)
  moreover have "c_str (c_sqs_message_group_id (configurations ref_worker)) = ''request''"
    by (simp add: ref_worker_def default_configurations_def c_str_def)
  moreover have "c_str (dedup_id ''j1'' 1) = ''j1-retry-1''"
    by (simp add: dedup_id_def show_int_def show_nat.simps digit_char_def char_of_def c_str_def bit_0)
  ultimately show ?thesis
    using assms ref_retry_text
    by (simp add: handle_processing_failure_def Let_def ref_republish ref_inbound comp_defs call_defs
        backoff_with_jitter_def capped_delay_def retry_base_delay_ms_def retry_max_delay_ms_def ref_set_job_status
        ref_retry_def [symmetric] ref_task_reads)
qed

lemma ref_process_fails:
  "\<exists>reason w'. process_job (ref_services 1) ref_worker ref_message ref_world = (Return (Inl reason), w') \<and>
     trace w' = ref_running 1 # ref_work \<and> fs w' = ref_fs4 \<and> rnd w' = (\<lambda>n. 0)"
proof -
  have "fs ref_world = ref_fs" "redis ref_world = Map.empty" "trace ref_world = []" "rnd ref_world = (\<lambda>n. 0)" by (simp_all add: ref_world_def)
  then show ?thesis
    by (simp add: accepted_reads [OF ref_accepted] ref_request_def is_terminal_run with_temp_dir_def run_task_def
        comp_defs ref_steps update_fs_def ref_running_def ref_work_def ref_result_def
        ref_world_redis)
qed

lemma ref_retry_run:
  "\<exists>w' content. handle_message (ref_services 1) ref_worker ref_body ref_world = (Return (Inr ()), w') \<and>
     trace w' = ref_running 1 # ref_work @
       [Slept 1000, Sqs_sent (print_json (JObject ref_retry)) ''request'' ''j1-retry-1'', Redis_stored ''j1'' content (Some 3600)]"
proof -
  from ref_process_fails obtain reason w1 where
    p: "process_job (ref_services 1) ref_worker ref_message ref_world = (Return (Inl reason), w1)"
      "trace w1 = ref_running 1 # ref_work" "fs w1 = ref_fs4" "rnd w1 = (\<lambda>n. 0)" by blast
  from ref_failure [OF p(3,4)] obtain w2 content where
    "handle_processing_failure (ref_services 1) ref_worker ''j1'' ref_body reason w1 = (Return (), w2)"
    "trace w2 = trace w1 @
      [Slept 1000, Sqs_sent (print_json (JObject ref_retry)) ''request'' ''j1-retry-1'', Redis_stored ''j1'' content (Some 3600)]"
    by blast
  with p show ?thesis
    by (simp add: accepted_reads(1) [OF ref_accepted] comp_defs ref_request_def)
qed

text \<open>The two runs, as the properties quote them.\<close>

lemma ref_done_events:
  obtains w' e where "handle_message (ref_services 0) ref_worker ref_body ref_world = (Return (Inr ()), w')"
    and "new_events ref_world w' =
      (ref_running 0 # ref_work @ [S3_uploaded ''b'' ''out/a.txt'' ''/tmp/taskforge/j1/outputs/a.txt'']) @ [e]"
    and "stores (ref_services 0) ref_worker (req_job ref_request) ''done'' ref_done_updates e" and "fs w' = ref_fs4"
proof -
  have "trace ref_world = []" "req_job ref_request = ''j1''" by (simp_all add: ref_world_def ref_request_def)
  with that ref_done_run ref_text_stores show thesis by (fastforce simp: new_events_def)
qed

lemma ref_retry_events:
  obtains w' content where "handle_message (ref_services 1) ref_worker ref_body ref_world = (Return (Inr ()), w')"
    and "new_events ref_world w' = ref_running 1 # ref_work @
       [Slept 1000, Sqs_sent (print_json (JObject ref_retry)) ''request'' ''j1-retry-1'', Redis_stored ''j1'' content (Some 3600)]"
  using ref_retry_run by (auto simp: new_events_def ref_world_def)

end
