(* ===== verification/Job_Steps.thy ===== *)
theory Job_Steps
  imports Reference_World
begin

text \<open>
  The single steps of the handler of \<^verbatim>\<open>src/Main/TaskForgeWorker.cpp\<close>, each on its own: the delays of
  \<^verbatim>\<open>backoff_with_jitter\<close>, the deduplication identifiers of retries, the temporary directory of a job, the
  attempts at a download, the names of inputs, and the document \<^verbatim>\<open>set_job_status\<close> writes.
\<close>

section \<open>Delays\<close>

text \<open>
  C26. The delay doubles with each attempt from the base, sixteen times at most, up to the limit, plus a
  jitter of at most half of it. With a base of at most 32767 milliseconds the shift stays in the range
  of \<^verbatim>\<open>int\<close>, so it does not overflow.
\<close>

theorem backoff_schedule:
  assumes "0 < base" and "base \<le> limit" and "base * 65536 \<le> int_max"
    and "backoff_with_jitter attempt base limit w = (Return d, w')"
  shows "(let step = base * 2 ^ nat (min 16 (max 0 (attempt - 1))); capped = min limit step
    in step \<le> int_max \<and> capped \<le> d \<and> d \<le> capped + capped div 2)"
proof -
  let ?k = "nat (min 16 (max 0 (attempt - 1)))"
  let ?c = "min limit (base * 2 ^ ?k)"
  have "(2 :: int) ^ ?k \<le> 2 ^ 16" by (intro power_increasing) auto
  then have up: "base * 2 ^ ?k \<le> base * 65536" using assms(1) by simp
  have "base * 1 \<le> base * 2 ^ ?k" using assms(1) by (intro mult_left_mono) simp_all
  with assms(1,2) have c: "0 < ?c" by simp
  have "d = ?c + int (rnd w (rnd_pos w)) mod (?c div 2 + 1)"
    using assms(4) by (simp add: backoff_run capped_delay_exact [OF assms(1,2)] Let_def)
  moreover have "0 < ?c div 2 + 1" using c by simp
  ultimately show ?thesis
    using up assms(3) pos_mod_bound [of "?c div 2 + 1" "int (rnd w (rnd_pos w))"]
      pos_mod_sign [of "?c div 2 + 1" "int (rnd w (rnd_pos w))"]
    unfolding Let_def by linarith
qed

theorem backoff_schedule_witness:
  "\<exists>w'. backoff_with_jitter 3 retry_base_delay_ms retry_max_delay_ms ref_world = (Return 4000, w') \<and>
     retry_base_delay_ms * 2 ^ 2 \<le> int_max \<and> (4000 :: int) \<le> 4000 + 4000 div 2"
proof -
  let ?w = "ref_world\<lparr>rnd_pos := Suc (rnd_pos ref_world)\<rparr>"
  have run: "backoff_with_jitter 3 1000 8000 ref_world = (Return 4000, ?w)"
    by (simp add: backoff_run capped_delay_exact ref_world_def)
  have "(let step = 1000 * 2 ^ nat (min 16 (max 0 (3 - 1))); capped = min 8000 step
      in step \<le> int_max \<and> capped \<le> 4000 \<and> (4000 :: int) \<le> capped + capped div 2)"
    by (rule backoff_schedule [OF _ _ _ run]) simp_all
  with run show ?thesis by (auto simp: retry_base_delay_ms_def retry_max_delay_ms_def)
qed

section \<open>Deduplication identifiers\<close>

lemma dedup_id_split:
  assumes "0 \<le> n"
  shows "rev (takeWhile is_digit (rev (dedup_id job n))) = show_int n"
    and "rev (dropWhile is_digit (rev (dedup_id job n))) = job @ ''-retry-''"
proof -
  have d: "c \<in> set (rev (show_int n)) \<Longrightarrow> is_digit c" for c using assms by (auto simp: show_int_def dest: show_nat_digits)
  have r: "rev (dedup_id job n) = rev (show_int n) @ CHR ''-'' # rev (job @ ''-retry'')"
    by (simp add: dedup_id_def)
  show "rev (takeWhile is_digit (rev (dedup_id job n))) = show_int n"
    "rev (dropWhile is_digit (rev (dedup_id job n))) = job @ ''-retry-''"
    unfolding r using d by (simp_all add: takeWhile_append2 dropWhile_append2 del: set_rev)
qed

text \<open>
  No two retries share a deduplication identifier, of one job or of two, as long as the numbers
  have not overflowed: the queue drops no retry as a duplicate of another.
\<close>

lemma dedup_id_unique:
  assumes "0 \<le> m" and "0 \<le> n" and "dedup_id j m = dedup_id k n"
  shows "j = k \<and> m = n"
  using dedup_id_split [OF assms(1), of j] dedup_id_split [OF assms(2), of k] assms(3) show_int_inj by simp

section \<open>Temporary directories\<close>

text \<open>
  C25. Nothing of a job stays in its temporary directory. However the work in it ends, by a return or by
  an exception, and whatever files it made there, none of them is left, as long as none is protected.
\<close>

theorem temp_dir_removed:
  assumes "with_temp_dir job body w = (r, w')" and "temp_root job (fs w) = Return root" and "\<forall>p. \<not> denied (fs w') p"
  shows "\<forall>(q, n) \<in> set (nodes (fs w')). \<not> below (strip_slash root) q"
  using assms
  by (auto simp: with_temp_dir_def bindE_def modify_def finallyE_def update_fs_def remove_all_def list_ex_iff split: prod.splits)

theorem temp_dir_removed_witness:
  "\<exists>w'. with_temp_dir ''j1'' (\<lambda>root. modify (update_fs (\<lambda>_. ref_fs3))) ref_world = (Return (), w') \<and>
     (''/tmp/taskforge/j1/outputs/a.txt'', Regular ''2'') \<in> set (nodes ref_fs3) \<and>
     (\<forall>(q, n) \<in> set (nodes (fs w')). \<not> below ''/tmp/taskforge/j1'' q)"
proof -
  have run: "with_temp_dir ''j1'' (\<lambda>root. modify (update_fs (\<lambda>_. ref_fs3))) ref_world = (Return (), ref_world\<lparr>fs := ref_fs4\<rparr>)"
    by (simp add: with_temp_dir_def comp_defs update_fs_def ref_world_def ref_files)
  have root: "temp_root ''j1'' (fs ref_world) = Return ''/tmp/taskforge/j1''"
    by (simp add: ref_world_def ref_files)
  from temp_dir_removed [OF run root] run show ?thesis
    by (simp add: ref_fs_defs strip_slash_def)
qed

text \<open>
  C24. Jobs do not share files. The directories of two jobs lie side by side, neither below the other,
  and each job has its own entry in the dead-letter queue, named after it.
\<close>

theorem jobs_isolated:
  assumes "is_valid_job_id i" and "is_valid_job_id j" and "i \<noteq> j"
    and "temp_root i f = Return r" and "temp_root j f = Return s"
  shows "\<not> below r s \<and> path_filename r = i \<and> entry_path dlq i \<noteq> entry_path dlq j \<and>
    path_filename (entry_path dlq i) = i @ ''.json''"
proof -
  have c: "path_component i" "path_component j" using assms(1,2) by (simp_all add: valid_job_id_component)
  obtain t where "r = path_append (path_append t ''taskforge'') i" "s = path_append (path_append t ''taskforge'') j"
    using assms(4,5) by (auto simp: temp_root_def split: option.splits)
  moreover have "path_append t ''taskforge'' \<noteq> []" "last (path_append t ''taskforge'') \<noteq> CHR ''/''"
    by (simp_all add: path_append_def)
  ultimately obtain d where d: "r = d @ ''/'' @ i" "s = d @ ''/'' @ j" "r = path_append d i" using plain_dir(1) c by metis
  have "CHR ''/'' \<notin> set (take (Suc (length i)) j)"
    using c(2) by (auto simp: path_component_def dest: in_set_takeD)
  then have "take (Suc (length i)) j \<noteq> i @ ''/''" by (metis in_set_conv_decomp)
  then have "\<not> below r s" unfolding below_def d(1,2) using assms(3) by auto
  then show ?thesis
    using c assms(3) d(3) by (simp add: path_append_inj path_filename_append entry_path_def entry_path_component)
qed

theorem jobs_isolated_witness:
  "\<not> below ''/tmp/taskforge/j1'' ''/tmp/taskforge/j2'' \<and>
   entry_path (task_dlq ref_worker) ''j1'' \<noteq> entry_path (task_dlq ref_worker) ''j2''"
  using jobs_isolated [of "''j1''" "''j2''" ref_fs "''/tmp/taskforge/j1''" "''/tmp/taskforge/j2''" "task_dlq ref_worker"]
  by (simp add: is_valid_job_id_def job_id_max_length_def job_id_char_def temp_root_def ref_fs_def path_defs)

section \<open>Downloads\<close>

lemma download_attempts_trace:
  assumes "download_attempts sv b k p as err w = (r, w')"
  shows "\<exists>es n. trace w' = trace w @ es \<and> filter (\<lambda>e. \<not> is_sleep e) es = replicate n (S3_downloaded b k p) \<and>
     n \<le> length as \<and> (r = Return (Inr ()) \<and> 1 \<le> n \<or> n = length as \<and> (\<exists>e. r = Return (Inl e)))"
  using assms
proof (induction as arbitrary: err w)
  case Nil
  then show ?case by (auto simp: ret_def)
next
  case (Cons a as)
  obtain res x f where call: "s3_download_file sv b k p (ext w) (fs w) = (res, x, f)" by (metis prod_cases3)
  show ?case
  proof (cases res)
    case (Inr u)
    with Cons.prems call show ?thesis
      by (intro exI [of _ "[S3_downloaded b k p]"] exI [of _ "Suc 0"])
        (auto simp: bindE_def call_s3_download_def ret_def emit_def)
  next
    case (Inl e)
    let ?c = "capped_delay a download_base_delay_ms download_max_delay_ms"
    define d where "d = ?c + int (rnd w (rnd_pos w)) mod (?c div 2 + 1)"
    let ?w = "w\<lparr>ext := x, fs := f, rnd_pos := Suc (rnd_pos w), trace := trace w @ [S3_downloaded b k p, Slept d]\<rparr>"
    have "download_attempts sv b k p as e ?w = (r, w')"
      using Inl Cons.prems call
      by (simp add: bindE_def call_s3_download_def emit_def backoff_run sleep_for_def modify_def Let_def d_def)
    from Cons.IH [OF this] obtain es n where "trace w' = trace w @ [S3_downloaded b k p, Slept d] @ es"
      "filter (\<lambda>e. \<not> is_sleep e) es = replicate n (S3_downloaded b k p)" "n \<le> length as"
      "r = Return (Inr ()) \<and> 1 \<le> n \<or> n = length as \<and> (\<exists>e. r = Return (Inl e))" by fastforce
    then show ?thesis by (intro exI [of _ "[S3_downloaded b k p, Slept d] @ es"] exI [of _ "Suc n"]) auto
  qed
qed

text \<open>
  An input is requested once, twice or three times, and nothing but sleeps happens in between. The
  download fails only after three requests.
\<close>

lemma download_tries:
  assumes "download_attempts sv b k p [1..s3_download_attempts] err w = (r, w')"
  shows "\<exists>n \<le> 3. filter (\<lambda>e. \<not> is_sleep e) (new_events w w') = replicate n (S3_downloaded b k p) \<and>
    (r = Return (Inr ()) \<and> 1 \<le> n \<or> n = 3 \<and> (\<exists>e. r = Return (Inl e)))"
  using download_attempts_trace [OF assms] by (fastforce simp: new_events_def s3_download_attempts_def)

section \<open>Names of inputs\<close>

text \<open>
  The file an input is written to is named by the last segment of its key: a key without a slash is
  the name itself, and the segments before the last slash do not matter. So two keys that end in the
  same segment are written to the same file, one over the other.
\<close>

theorem key_filename_last_segment:
  "key_filename key = name \<longleftrightarrow> CHR ''/'' \<notin> set name \<and> (key = name \<or> (\<exists>before. key = before @ ''/'' @ name))"
proof
  assume n: "key_filename key = name"
  let ?P = "\<lambda>c. c \<noteq> CHR ''/''"
  have split: "key = rev (dropWhile ?P (rev key)) @ name"
    using n unfolding key_filename_rev by (metis rev_append rev_rev_ident takeWhile_dropWhile_id)
  show "CHR ''/'' \<notin> set name \<and> (key = name \<or> (\<exists>before. key = before @ ''/'' @ name))"
  proof (cases "dropWhile ?P (rev key)")
    case Nil
    with split n key_filename_no_slash show ?thesis by auto
  next
    case (Cons c cs)
    then have "c = CHR ''/''" using hd_dropWhile [of ?P "rev key"] by simp
    with split Cons have "key = rev cs @ ''/'' @ name" by simp
    with n key_filename_no_slash show ?thesis by blast
  qed
next
  assume n: "CHR ''/'' \<notin> set name \<and> (key = name \<or> (\<exists>before. key = before @ ''/'' @ name))"
  then have d: "\<forall>c \<in> set (rev name). c \<noteq> CHR ''/''" by auto
  then have t: "takeWhile (\<lambda>c. c \<noteq> CHR ''/'') (rev name) = rev name" by (simp only: takeWhile_eq_all_conv)
  from n d show "key_filename key = name"
    unfolding key_filename_rev by (elim conjE disjE exE) (simp_all add: t takeWhile_rev_component)
qed

section \<open>Documents\<close>

text \<open>
  What a status write leaves in the document of a job: the time of the write, every update that is not
  null, no member whose update is null, the new status and the identifier, and every other member of the
  document before.
\<close>

lemma status_document_fields:
  assumes "obj_inv d" and "obj_inv us"
  shows "obj_find (status_document d job_id status us now) k =
    (if k = ''updated_at'' then Some (JString now)
     else case obj_find us k of
            Some v \<Rightarrow> if is_null v then None else Some v
          | None \<Rightarrow> if k = ''status'' then Some (JString status)
                    else if k = ''job_id'' then Some (JString job_id)
                    else obj_find d k)"
  using assms by (rule find_status_document)

end
