(* ===== verification/Lifecycle_Properties.thy ===== *)
theory Lifecycle_Properties
  imports Lifecycle_Runs Job_Steps
begin

text \<open>
  What holds of the life of the worker: what a successful start leaves, how the attempts to reach Redis are
  bounded, what the task catalogue says, and how runs of the program end, with and without signals.
\<close>

section \<open>A successful start\<close>

lemma checked_ok:
  "checked t m rest p = (Return (Inr ()), p') \<longleftrightarrow> (\<exists>p1. m p = (Return (Inr ()), p1) \<and> rest p1 = (Return (Inr ()), p'))"
  by (auto simp: checked_def bindE_def ret_def split: prod.splits outcome.splits sum.splits)

lemma create_thread_pool_ok:
  "create_thread_pool pl c p = (Return (Inr ()), p') \<Longrightarrow>
   members p' = (members p)\<lparr>thread_pool := Some (make_pool c)\<rparr> \<and> calls p' = calls p @ [Pool_started]"
  by (auto simp: create_thread_pool_def member_steps split: prod.splits)

lemma connect_redis_ok:
  "connect_redis pl c p = (Return (Inr ()), p') \<Longrightarrow>
   members p' = (members p)\<lparr>redis_client := Some \<lparr>rc_host = c_redis_host c, rc_port = c_redis_port c, rc_db_index = c_redis_db_index c\<rparr>\<rparr> \<and>
   calls p' = calls p"
  by (auto simp: connect_redis_def member_steps split: prod.splits)

lemma upload_task_catalog_ok:
  "upload_task_catalog pl c p = (Return (Inr ()), p') \<Longrightarrow> members p' = members p \<and> calls p' = calls p"
  by (auto simp: upload_task_catalog_def member_steps split: prod.splits outcome.splits option.splits)

lemma connect_aws_service_ok:
  "connect_aws_service pl c p = (Return (Inr ()), p') \<Longrightarrow>
   members p' = (members p)\<lparr>s3_client := Some (make_s3_client pl c), sqs_publisher := Some (make_publisher pl c),
      sqs_consumer := Some (make_consumer pl c)\<rparr> \<and>
   calls p' = calls p @ [Handler_registered, Consumer_started, Consuming_started]"
  by (auto simp: connect_aws_service_def member_steps split: prod.splits sum.splits)

lemma start_dlq_backlog_monitor_ok:
  "start_dlq_backlog_monitor pl p = (Return (Inr ()), p') \<Longrightarrow>
   \<exists>pool. thread_pool (members p) = Some pool \<and>
     members p' = (members p)\<lparr>thread_pool := Some (pool\<lparr>pool_jobs := pool_jobs pool @ [(LongTerm, ''dlq_backlog_monitor'')]\<rparr>)\<rparr> \<and>
     calls p' = calls p @ [Monitor_pushed]"
  by (auto simp: start_dlq_backlog_monitor_def member_steps Let_def split: prod.splits option.splits)

definition parts_of :: "configurations \<Rightarrow> worker" where
  "parts_of c = \<lparr>configurations = c,
     task_executor = \<lparr>whitelist = c_task_whitelist c, root_path = c_root_path c, default_timeout_sec = c_default_timeout_sec c\<rparr>,
     task_dlq = \<lparr>dlq_path = c_dlq_path c, max_retry_count = c_dlq_max_retry_count c\<rparr>\<rparr>"

lemma make_parts_ok:
  "make_parts c p = (r, p') \<Longrightarrow>
   r = Return () \<and> calls p' = calls p \<and>
   members p' = (members p)\<lparr>the_executor := Some (task_executor (parts_of c)), the_dlq := Some (task_dlq (parts_of c))\<rparr>"
  by (auto simp: make_parts_def member_steps lift_fs_def make_task_dlq_def parts_of_def split: prod.splits)

lemma make_pool_jobs: "pool_jobs (make_pool c) = []"
proof -
  have "pool_jobs (push_workers n ps pool) = pool_jobs pool" for n ps pool
    by (induction n ps pool rule: push_workers.induct) simp_all
  then show ?thesis by (simp add: make_pool_def)
qed

text \<open>The members after a successful start.\<close>

definition started_members :: "('r, 'e) platform \<Rightarrow> configurations \<Rightarrow> members" where
  "started_members pl c = \<lparr>running = True,
     thread_pool = Some ((make_pool c)\<lparr>pool_jobs := [(LongTerm, ''dlq_backlog_monitor'')]\<rparr>),
     redis_client = Some \<lparr>rc_host = c_redis_host c, rc_port = c_redis_port c, rc_db_index = c_redis_db_index c\<rparr>,
     s3_client = Some (make_s3_client pl c), sqs_consumer = Some (make_consumer pl c),
     sqs_publisher = Some (make_publisher pl c), the_executor = Some (task_executor (parts_of c)),
     the_dlq = Some (task_dlq (parts_of c)), promised = False\<rparr>"

lemma start_ok:
  assumes "start pl c p = (Return (Inr ()), p')" and "\<not> promised (members p)"
  shows "validate_required c = Inr ()" and "members p' = started_members pl c"
    and "calls p' = calls p @ [Pool_started, Handler_registered, Consumer_started, Consuming_started, Monitor_pushed]"
proof -
  obtain r p1 where parts: "make_parts c (p\<lparr>members := (members p)\<lparr>running := True\<rparr>\<rparr>) = (r, p1)" by fastforce
  with assms(1) obtain p2 p3 p4 p5 p6 where v: "validate_required c = Inr ()"
    and steps: "create_thread_pool pl c p1 = (Return (Inr ()), p2)" "connect_redis pl c p2 = (Return (Inr ()), p3)"
      "upload_task_catalog pl c p3 = (Return (Inr ()), p4)" "connect_aws_service pl c p4 = (Return (Inr ()), p5)"
      "start_dlq_backlog_monitor pl p5 = (Return (Inr ()), p')"
    by (auto simp: start_def checked_ok ret_def bindE_def set_members_def modify_def split: outcome.splits)
  note e = make_parts_ok [OF parts] create_thread_pool_ok [OF steps(1)] connect_redis_ok [OF steps(2)]
    upload_task_catalog_ok [OF steps(3)] connect_aws_service_ok [OF steps(4)] start_dlq_backlog_monitor_ok [OF steps(5)]
  show "validate_required c = Inr ()" by (rule v)
  show "members p' = started_members pl c"
    using e assms(2) by (cases "members p") (auto simp: started_members_def make_pool_jobs)
  show "calls p' = calls p @ [Pool_started, Handler_registered, Consumer_started, Consuming_started, Monitor_pushed]"
    using e by auto
qed

section \<open>Ends of runs\<close>

lemma run_stages_flags:
  "run_stages pl c st p = (r, p') \<Longrightarrow>
   promised (members p') = promised (members p) \<and> (running (members p) \<longrightarrow> running (members p'))"
proof (induction st arbitrary: p)
  case Nil
  then show ?case by (simp add: ret_def)
next
  case (Cons x xs)
  obtain r1 p1 where x: "run_stage pl c x p = (r1, p1)" by fastforce
  with run_stage_flags [OF x] Cons show ?case
    by (auto simp: bindE_def ret_def split: outcome.splits sum.splits)
qed

lemma start_failed_flags:
  assumes "start pl c (fresh w) = (Return (Inl e), p)"
  shows "\<not> promised (members p)" and "running (members p) \<or> p = fresh w"
proof -
  have run: "run_stages pl c start_stages (fresh w) = (Return (Inl e), p)" using assms by (simp add: start_by_stages)
  from run_stages_flags [OF run] show "\<not> promised (members p)" by (simp add: fresh_def new_members_def)
  show "running (members p) \<or> p = fresh w"
  proof (cases "validate_required c")
    case (Inl x)
    with run show ?thesis by (simp add: start_stages_def checked_def bindE_def ret_def)
  next
    case (Inr x)
    let ?p = "(fresh w)\<lparr>members := (members (fresh w))\<lparr>running := True\<rparr>\<rparr>"
    have "run_stages pl c (drop 2 start_stages) ?p = (Return (Inl e), p)"
      using run Inr by (simp add: start_stages_def checked_def bindE_def ret_def set_members_def modify_def del: run_stage.simps(3-8))
    from run_stages_flags [OF this] show ?thesis by simp
  qed
qed

text \<open>The main thread from the end of the wait, or of a failed start, to its exit.\<close>

lemma run_main_exit:
  assumes "at s = Leaving" and "\<not> running (members (proc s))"
  shows "run_main pl c (Suc (Suc (Suc n))) s = s\<lparr>worker_set := False, handlers := \<lambda>_. False, at := Exited,
     proc := (proc s)\<lparr>calls := calls (proc s) @ map Destroyed (still_set (members (proc s))), members := new_members\<rparr>\<rparr>"
proof -
  have "run_main pl c n t = t" if "at t = Exited" for t using that by (cases n) (simp_all add: main_next_def)
  with assms show ?thesis
    by (simp add: main_next_def on_worker_def destroy_worker_def bindE_def modify_def stop_idle deregister_signal_eq)
qed

lemma run_main_reach:
  assumes "\<And>s. allowed s Main" and "reach allowed pl c s0 s"
  shows "reach allowed pl c s0 (run_main pl c n s)"
  using assms(2)
proof (induction n arbitrary: s)
  case (Suc n)
  then show ?case using assms(1) by (auto split: option.split intro: reach.step step.main)
qed simp

lemma waiting_after_start:
  assumes "start pl c (fresh w) = (Return (Inr ()), p)"
  shows "run_main pl c 12 (boot w) =
    \<lparr>proc = p, handlers = (\<lambda>_. True), worker_set = True, exit_status = 0, at = Waiting\<rparr>"
proof -
  have n: "(12 :: nat) = Suc (Suc (Suc (Suc (length start_stages) + 0)))" by (simp add: start_stages_def)
  have "run_stages pl c start_stages (fresh w) = (Return (Inr ()), p)" using assms by (simp add: start_by_stages)
  then show ?thesis unfolding n run_main_boot by (subst run_main_started) simp_all
qed

section \<open>A concrete platform\<close>

definition ref_platform :: "(string \<rightharpoonup> string, unit) platform" where
  "ref_platform = \<lparr>pl_services = ref_services 0,
     pl_client_config = \<lparr>cfg_region = '''', cfg_endpoint_override = '''', cfg_scheme_http = False, cfg_verify_ssl = True\<rparr>,
     pl_pool_start = (\<lambda>p e. (Inr (), e)), pl_pool_push = (\<lambda>p e. (Inr (), e)), pl_register_handler = (\<lambda>p e. (Inr (), e)),
     pl_consumer_start = (\<lambda>p e. (Inr (), e)), pl_start_consume = (\<lambda>p e. (Inr (), e))\<rparr>"

definition ref_config :: configurations where
  "ref_config = configurations ref_worker"

lemma ref_start: "\<exists>p. start ref_platform ref_config (fresh w) = (Return (Inr ()), p)"
proof -
  have "fst (start ref_platform ref_config (fresh w)) = Return (Inr ())"
    by (simp add: start_def checked_def member_steps validate_required_def ref_config_def ref_worker_def make_parts_def
      create_thread_pool_def connect_redis_def upload_task_catalog_def connect_aws_service_def start_dlq_backlog_monitor_def
      redis_connect_attempts_def upto.simps ref_platform_def call_redis_connect_def call_redis_set_def ref_services_def
      current_utc_timestamp_def system_clock_now_def lift_fs_def Let_def make_task_dlq_def emit_def split: prod.splits)
  then show ?thesis by (metis prod.collapse)
qed

lemmas ref_eval = checked_def member_steps validate_required_def ref_config_def ref_worker_def make_parts_def
  create_thread_pool_def connect_redis_def upload_task_catalog_def connect_aws_service_def start_dlq_backlog_monitor_def
  redis_connect_attempts_def upto.simps ref_platform_def call_redis_connect_def call_redis_set_def ref_services_def
  current_utc_timestamp_def system_clock_now_def lift_fs_def Let_def make_task_dlq_def emit_def

text \<open>The start on this platform, stopped after the pool is made; and what follows once the pool is gone.\<close>

lemma ref_stopped_halfway:
  obtains p where "run_main ref_platform ref_config 7 (boot ref_world) =
      \<lparr>proc = p, handlers = (\<lambda>_. True), worker_set = True, exit_status = 0,
       at = Starting [Connect_redis, Upload_catalog, Connect_aws, Start_monitor]\<rparr>"
    "running (members p)" "\<not> promised (members p)"
proof -
  let ?s = "run_main ref_platform ref_config 7 (boot ref_world)"
  have n: "(7 :: nat) = Suc (Suc (Suc 4))" by simp
  obtain ok f where "create_directories (c_dlq_path ref_config) ref_fs = (ok, f)" by fastforce
  then have "at ?s = Starting [Connect_redis, Upload_catalog, Connect_aws, Start_monitor] \<and> handlers ?s = (\<lambda>_. True) \<and>
      worker_set ?s \<and> exit_status ?s = 0 \<and> running (members (proc ?s)) \<and> \<not> promised (members (proc ?s))"
    unfolding n run_main_boot
    by (simp add: eval_nat_numeral main_next_def start_stages_def ref_eval fresh_def new_members_def ref_world_def)
  then show ?thesis by (intro that [of "proc ?s"]) (auto intro: program.equality)
qed

lemma ref_second_half:
  assumes "thread_pool (members p) = None"
  shows "at (run_main ref_platform ref_config 4 \<lparr>proc = p, handlers = h, worker_set = b, exit_status = x,
       at = Starting [Connect_redis, Upload_catalog, Connect_aws, Start_monitor]\<rparr>) = Crashed (Null_pointer ''thread_pool_'')"
    and "calls (proc (run_main ref_platform ref_config 4 \<lparr>proc = p, handlers = h, worker_set = b, exit_status = x,
       at = Starting [Connect_redis, Upload_catalog, Connect_aws, Start_monitor]\<rparr>)) =
     calls p @ [Handler_registered, Consumer_started, Consuming_started]"
  using assms by (simp_all add: eval_nat_numeral main_next_def ref_eval)

section \<open>Properties\<close>



text \<open>
  C34. The stop promise is set at most once, whatever signals arrive and whenever they do: no run of the
  program ends in the exception of a promise that is set again.
\<close>

theorem promise_once:
  assumes "reach any_action pl c (boot w) s"
  shows "count_list (calls (proc s)) Promise_set \<le> 1 \<and> at s \<noteq> Crashed Future_error"
  using program_inv_reach [OF assms] by (simp add: program_inv_def promise_count_def)

theorem promise_once_witness:
  "let s = deliver_signal SIGTERM (run_main ref_platform ref_config 12 (boot ref_world))
   in count_list (calls (proc s)) Promise_set \<le> 1"
proof -
  let ?s = "run_main ref_platform ref_config 12 (boot ref_world)"
  have r: "reach any_action ref_platform ref_config (boot ref_world) ?s" by (rule run_main_reach) (simp_all add: reach.init)
  obtain p where "start ref_platform ref_config (fresh ref_world) = (Return (Inr ()), p)" using ref_start by blast
  from waiting_after_start [OF this] have "\<not> ended (at ?s)" by simp
  then have "step ref_platform ref_config ?s (Signal SIGTERM) (deliver_signal SIGTERM ?s)" by (rule step.signal)
  with r have "reach any_action ref_platform ref_config (boot ref_world) (deliver_signal SIGTERM ?s)"
    by (blast intro: reach.step)
  from promise_once [OF this] show ?thesis by (simp add: Let_def)
qed



text \<open>
  C38. A signal while the worker is being started can crash it. Stopping releases the thread pool and the
  start goes on: it connects the consumer, begins to consume messages, and then uses the pool that is gone.
\<close>

theorem signal_during_start_crashes:
  "\<exists>s. reach any_action ref_platform ref_config (boot ref_world) s \<and> at s = Crashed (Null_pointer ''thread_pool_'') \<and>
     Promise_set \<in> set (calls (proc s)) \<and> last (calls (proc s)) = Consuming_started"
proof -
  let ?s = "run_main ref_platform ref_config 7 (boot ref_world)"
  obtain p where s: "?s = \<lparr>proc = p, handlers = (\<lambda>_. True), worker_set = True, exit_status = 0,
      at = Starting [Connect_redis, Upload_catalog, Connect_aws, Start_monitor]\<rparr>"
    and p: "running (members p)" "\<not> promised (members p)" by (rule ref_stopped_halfway)
  let ?t = "run_main ref_platform ref_config 4 (deliver_signal SIGTERM ?s)"
  have r: "reach any_action ref_platform ref_config (boot ref_world) ?s" by (rule run_main_reach) (simp_all add: reach.init)
  have "step ref_platform ref_config ?s (Signal SIGTERM) (deliver_signal SIGTERM ?s)" unfolding s by (simp add: step.signal)
  with r have "reach any_action ref_platform ref_config (boot ref_world) (deliver_signal SIGTERM ?s)"
    by (blast intro: reach.step)
  then have "reach any_action ref_platform ref_config (boot ref_world) ?t" by (rule run_main_reach [rotated]) simp
  moreover have "at ?t = Crashed (Null_pointer ''thread_pool_'')" "Promise_set \<in> set (calls (proc ?t))"
    "last (calls (proc ?t)) = Consuming_started"
    unfolding s deliver_signal_def signal_callback_def deregister_signal_eq on_worker_def Let_def
    by (simp_all add: stop_running [OF p] ref_second_half)
  ultimately show ?thesis by blast
qed

text \<open>
  C39. A signal before the start marks the worker as running is lost. The program starts as if nothing had
  happened and waits for a stop that nobody asked for any more; the handlers are gone, so the next signal
  ends it at once, with the consumer, the pool and the Redis connection as they are.
\<close>

theorem early_signal_lost:
  assumes "start pl c (fresh w) = (Return (Inr ()), p)"
  shows "let s = run_main pl c 9 (deliver_signal sig (run_main pl c 3 (boot w)))
    in at s = Waiting \<and> main_next pl c s = None \<and> Promise_set \<notin> set (calls (proc s)) \<and>
       at (deliver_signal sig' s) = Killed \<and> calls (proc (deliver_signal sig' s)) = calls (proc s)"
proof -
  let ?b = "\<lparr>proc = fresh w, handlers = (\<lambda>_. False), worker_set = True, exit_status = 0, at = Starting start_stages\<rparr> :: ('a, 'b) program"
  have b: "deliver_signal sig (run_main pl c 3 (boot w)) = ?b"
    using run_main_boot [of pl c 0 w] stop_idle [of "fresh w"]
    by (simp add: numeral_3_eq_3 deliver_signal_def signal_callback_def deregister_signal_eq on_worker_def fresh_def new_members_def)
  have n: "(9 :: nat) = Suc (length start_stages) + 0" by (simp add: start_stages_def)
  have "run_stages pl c start_stages (proc ?b) = (Return (Inr ()), p)" using assms by (simp add: start_by_stages)
  then have s: "run_main pl c 9 ?b = ?b\<lparr>proc := p, at := Waiting\<rparr>" unfolding n by (subst run_main_started) simp_all
  have "\<not> promised (members (fresh w))" by (simp add: fresh_def new_members_def)
  from start_ok(2,3) [OF assms this] show ?thesis
    unfolding b s by (simp add: Let_def main_next_def deliver_signal_def started_members_def fresh_def)
qed

theorem early_signal_lost_witness:
  "let s = run_main ref_platform ref_config 9 (deliver_signal SIGTERM (run_main ref_platform ref_config 3 (boot ref_world)))
   in at s = Waiting \<and> at (deliver_signal SIGTERM s) = Killed"
proof -
  obtain p where "start ref_platform ref_config (fresh ref_world) = (Return (Inr ()), p)" using ref_start by blast
  from early_signal_lost [OF this, of SIGTERM SIGTERM] show ?thesis by (simp add: Let_def)
qed

text \<open>
  C35. Orderly shutdown. After a start that succeeds the program waits, and any of the handled signals makes
  it stop consuming, stop the consumer, then the pool, then leave Redis, in this order and each once, and
  exit with status 0.
\<close>

theorem graceful_shutdown:
  assumes "start pl c (fresh w) = (Return (Inr ()), p)"
  shows "let s = run_main pl c 12 (boot w); t = run_main pl c 4 (deliver_signal sig s)
    in at s = Waiting \<and> main_next pl c s = None \<and> at t = Exited \<and> exit_status t = 0 \<and>
       calls (proc t) = calls (proc s) @ [Consuming_stopped, Consumer_stopped, Pool_stopped, Redis_disconnected, Promise_set,
         Destroyed ''task_dlq_'', Destroyed ''task_executor_'']"
proof -
  have "\<not> promised (members (fresh w))" by (simp add: fresh_def new_members_def)
  note m = start_ok(2,3) [OF assms this]
  have run: "running (members p)" and np: "\<not> promised (members p)" using m by (simp_all add: started_members_def)
  let ?s = "\<lparr>proc = p, handlers = (\<lambda>_. True), worker_set = True, exit_status = 0, at = Waiting\<rparr> :: ('a, 'b) program"
  obtain q where stop: "stop p = (Return (), q)" and q: "calls q = calls p @ stop_calls (members p) @ [Promise_set]"
    "promised (members q)" "\<not> running (members q)" "still_set (members q) = [''task_dlq_'', ''task_executor_'']"
    using stop_running [OF run np] m by (simp add: still_set_def started_members_def)
  have "run_main pl c 4 (deliver_signal sig ?s) =
      run_main pl c 3 \<lparr>proc = q, handlers = (\<lambda>_. False), worker_set = True, exit_status = 0, at = Leaving\<rparr>"
    using stop q by (simp add: eval_nat_numeral deliver_signal_def signal_callback_def deregister_signal_eq on_worker_def main_next_def del: run_main.simps(1))
  with run_main_exit [of "\<lparr>proc = q, handlers = (\<lambda>_. False), worker_set = True, exit_status = 0, at = Leaving\<rparr>" pl c 0] q m np
  show ?thesis
    unfolding waiting_after_start [OF assms]
    by (simp add: numeral_3_eq_3 main_next_def stop_calls_def started_members_def)
qed

theorem graceful_shutdown_witness:
  "let t = run_main ref_platform ref_config 4 (deliver_signal SIGINT (run_main ref_platform ref_config 12 (boot ref_world)))
   in at t = Exited \<and> exit_status t = 0"
proof -
  obtain p where "start ref_platform ref_config (fresh ref_world) = (Return (Inr ()), p)" using ref_start by blast
  from graceful_shutdown [OF this, of SIGINT] show ?thesis by (simp add: Let_def)
qed

text \<open>
  C36. A start that fails ends the program with status 1, at the latest after sixteen steps of the main
  thread, and everything the start had made by then is stopped or disconnected on the way out.
\<close>

theorem failed_start_exits:
  assumes "start pl c (fresh w) = (Return (Inl e), p)"
  shows "let t = run_main pl c 16 (boot w)
    in at t = Exited \<and> exit_status t = 1 \<and> set (stop_calls (members p)) \<subseteq> set (calls (proc t)) \<and>
       members (proc t) = new_members"
proof -
  let ?b = "\<lparr>proc = fresh w, handlers = (\<lambda>_. True), worker_set = True, exit_status = 0, at = Starting start_stages\<rparr> :: ('a, 'b) program"
  have "run_stages pl c start_stages (proc ?b) = (Return (Inl e), p)" using assms by (simp add: start_by_stages)
  from run_main_start_failed [OF this] obtain k where "k \<le> length start_stages"
    and k2: "\<And>n. run_main pl c (k + n) ?b = run_main pl c n (?b\<lparr>proc := p, at := Start_failed\<rparr>)" by auto
  then have k1: "k \<le> 8" by (simp add: start_stages_def)
  have n: "(16 :: nat) = Suc (Suc (Suc (k + Suc (Suc (Suc (Suc (9 - k)))))))" using k1 by simp
  obtain q where q: "stop p = (Return (), q)" "\<not> running (members q)" "set (stop_calls (members p)) \<subseteq> set (calls q)"
  proof (cases "running (members p)")
    case True
    from stop_running [OF True start_failed_flags(1) [OF assms]] show ?thesis by (intro that) auto
  next
    case False
    with start_failed_flags(2) [OF assms] have "stop_calls (members p) = []" by (simp add: stop_calls_def fresh_def new_members_def)
    with stop_idle [OF False] False show ?thesis by (intro that) auto
  qed
  have "run_main pl c 16 (boot w) = run_main pl c (Suc (Suc (Suc (9 - k)))) (?b\<lparr>proc := q, exit_status := 1, at := Leaving\<rparr>)"
    unfolding n run_main_boot k2 using q(1) by (simp add: main_next_def on_worker_def)
  moreover have "run_main pl c (Suc (Suc (Suc (9 - k)))) (?b\<lparr>proc := q, exit_status := 1, at := Leaving\<rparr>) =
      (?b\<lparr>proc := q, exit_status := 1, at := Leaving\<rparr>)\<lparr>worker_set := False, handlers := \<lambda>_. False, at := Exited,
       proc := q\<lparr>calls := calls q @ map Destroyed (still_set (members q)), members := new_members\<rparr>\<rparr>"
    using q(2) by (subst run_main_exit) simp_all
  ultimately show ?thesis using q(3) by (auto simp: Let_def)
qed

theorem failed_start_exits_witness:
  "let t = run_main (ref_platform\<lparr>pl_start_consume := \<lambda>s e. (Inl ''denied'', e)\<rparr>) ref_config 16 (boot ref_world)
   in at t = Exited \<and> exit_status t = 1 \<and> Consumer_stopped \<in> set (calls (proc t)) \<and> Redis_disconnected \<in> set (calls (proc t))"
proof -
  let ?pl = "ref_platform\<lparr>pl_start_consume := \<lambda>s e. (Inl ''denied'', e)\<rparr>"
  let ?r = "start ?pl ref_config (fresh ref_world)"
  have "fst ?r = Return (Inl ''cannot connect aws service: denied'')"
    "sqs_consumer (members (snd ?r)) \<noteq> None" "redis_client (members (snd ?r)) \<noteq> None"
    by (simp_all add: start_def ref_eval split: prod.splits)
  then obtain p where run: "?r = (Return (Inl ''cannot connect aws service: denied''), p)"
    and "sqs_consumer (members p) \<noteq> None" "redis_client (members p) \<noteq> None" by (cases ?r) simp
  then have "Consumer_stopped \<in> set (stop_calls (members p))" "Redis_disconnected \<in> set (stop_calls (members p))"
    by (simp_all add: stop_calls_def)
  with failed_start_exits [OF run] show ?thesis unfolding Let_def by blast
qed

text \<open>
  Redis is tried at most five times. A connection counts only once the health check has been stored;
  every attempt that fails is followed by a sleep, and nothing else is stored meanwhile.
\<close>

lemma connect_redis_bounded:
  assumes "connect_redis pl c p = (r, p')"
  shows "let es = new_events (world p) (world p'); check = Redis_stored ''taskforge:healthcheck'' ''ok'' (Some 5)
    in (\<forall>e \<in> set es. is_sleep e \<or> e = check) \<and>
       (r = Return (Inr ()) \<and> length (filter is_sleep es) < 5 \<and> es \<noteq> [] \<and> last es = check \<or>
        (\<exists>e. r = Return (Inl e)) \<and> length (filter is_sleep es) = 5)"
proof -
  obtain w where "connect_attempts (pl_services pl) [1..redis_connect_attempts] [] (world p) = (r, w)" "world p' = w"
    using assms by (auto simp: connect_redis_def member_steps split: prod.splits)
  from connect_attempts_trace [OF this(1)] this(2) show ?thesis
    by (auto simp: Let_def new_events_def redis_connect_attempts_def)
qed

section \<open>The task catalogue\<close>

lemma catalog_entry_members:
  "catalog_entry d = JObject [(''name'', JString (task_name d)), (''description'', JString (description d))]"
  by (simp add: catalog_entry_def obj_set.simps)

lemma catalog_document_ok:
  assumes "\<forall>d \<in> set ds. utf8_valid (task_name d) \<and> utf8_valid (description d)" and "utf8_valid now"
  shows "json_doc_ok (JObject (catalog_document ds now))"
proof -
  have "json_ok (catalog_entry d)" "json_depth (catalog_entry d) = 1" if "d \<in> set ds" for d
    using assms(1) that by (simp_all add: catalog_entry_members)
  then have "member_ok (JArray (map catalog_entry ds))"
    using json_depth_array [of "map catalog_entry ds" 30] by (auto simp: member_ok_def json_ok_array simp del: json_ok.simps json_depth.simps)
  then show ?thesis unfolding catalog_document_def using assms(2) by (intro json_doc_ok_set) simp_all
qed

text \<open>
  The catalogue that the worker stores is a document that parses, and its tasks are exactly the
  names and descriptions of the whitelist, in order.
\<close>

lemma catalog_readable:
  assumes "json_toolkit (pl_services pl)"
    and "\<forall>d \<in> set (c_task_whitelist c). utf8_valid (task_name d) \<and> utf8_valid (description d)"
    and "upload_task_catalog pl c p = (Return (Inr ()), p')"
  shows "\<exists>content ms. new_events (world p) (world p') = [Redis_stored ''task_catalog'' content None] \<and>
    json_parse (pl_services pl) content = Inr (JObject ms) \<and>
    obj_find ms ''tasks'' = Some (JArray (map catalog_entry (c_task_whitelist c)))"
proof -
  let ?sv = "pl_services pl"
  let ?now = "utc_timestamp (clock (world p) (clock_pos (world p)))"
  let ?doc = "catalog_document (c_task_whitelist c) ?now"
  have ev: "new_events (world p) (world p') = [Redis_stored ''task_catalog'' (json_serialize ?sv (JObject ?doc)) None]"
    using assms(3)
    by (auto simp: upload_task_catalog_def member_steps current_utc_timestamp_def system_clock_now_def call_redis_set_def emit_def
        new_events_def split: prod.splits option.splits)
  have "json_doc_ok (JObject ?doc)"
    using assms(2) by (intro catalog_document_ok) (simp_all add: utf8_valid_ascii ascii_utc_timestamp)
  then obtain v where v: "json_parse ?sv (json_serialize ?sv (JObject ?doc)) = Inr v" "forget_doubles v = forget_doubles (JObject ?doc)"
    using json_codec.parse_serialize [of "json_parse ?sv" "json_serialize ?sv"] assms(1) unfolding json_toolkit_def by blast
  have "no_doubles (JObject ?doc)"
    by (auto simp: catalog_document_def obj_set.simps catalog_entry_members list_all_iff)
  from forget_doubles_exact [OF this v(2)] v(1) ev show ?thesis by (auto simp: catalog_document_def)
qed

section \<open>The backlog monitor\<close>

lemma count_entries_throws: "count_entries es n f = (Throw x, f') \<Longrightarrow> \<exists>p. x = Filesystem_error p"
  by (induction es arbitrary: n) (auto simp: ret_def bindE_def entry_is_regular_def split: prod.splits outcome.splits if_splits)

lemma monitor_rounds:
  assumes "backlog_monitor c q (replicate n True @ False # readings) before w = (r, w')"
  shows "(\<exists>alerts. r = Return (Some (before @ alerts)) \<and> length alerts \<le> n \<and> (\<forall>b \<in> set alerts. backlog_alert c b)) \<or>
    (\<exists>p. r = Throw (Filesystem_error p))"
  using assms
proof (induction n arbitrary: before w)
  case 0
  then show ?case by (simp add: ret_def)
next
  case (Suc n)
  obtain x f where count: "pending_count q (fs w) = (x, f)" by fastforce
  show ?case
  proof (cases x)
    case (Throw e)
    then have "\<exists>p. e = Filesystem_error p"
      using count by (auto simp: pending_count_def dest: count_entries_throws split: if_splits sum.splits)
    with Suc.prems count Throw show ?thesis by (auto simp: bindE_def lift_fs_def)
  next
    case (Return b)
    let ?w = "emit (Slept 5000) (w\<lparr>fs := f\<rparr>)"
    have "backlog_monitor c q (replicate n True @ False # readings) (if backlog_alert c b then before @ [b] else before) ?w = (r, w')"
      using Suc.prems count Return by (simp add: bindE_def lift_fs_def sleep_for_def modify_def)
    from Suc.IH [OF this] show ?thesis
      by (cases "backlog_alert c b") (fastforce intro: le_SucI)+
  qed
qed

text \<open>
  The backlog monitor ends with the worker. After any number of rounds, the first reading that finds the
  worker stopped ends the job; until then it has raised at most one alert per round, only for counts at
  or above the threshold. What else can end it is a file system error while counting.
\<close>

lemma backlog_monitor_ends:
  assumes "backlog_monitor c q (replicate n True @ False # readings) [] w = (r, w')"
  shows "(\<exists>alerts. r = Return (Some alerts) \<and> length alerts \<le> n \<and> (\<forall>b \<in> set alerts. c_dlq_backlog_alert_count c \<le> cast_int (int b)))
    \<or> (\<exists>p. r = Throw (Filesystem_error p))"
  using monitor_rounds [OF assms] by (simp add: backlog_alert_def)

end
