(* ===== verification/Interface_World.thy ===== *)
theory Interface_World
  imports Job_Status Message_Validation
begin

text \<open>
  What the three web interfaces (\<^verbatim>\<open>src/Interface\<close>) share: their back end, and the shapes of requests and
  responses. The object store, the queue, Redis, the JSON encoders, the UUID generator and the clock are
  code outside the repository and parameters in \<open>backend\<close>, on an opaque state. What a service does to the
  outside is appended to \<open>journal\<close>, in order.
\<close>

section \<open>Back end\<close>

record 'a backend =
  be_marshal :: "json \<Rightarrow> string"
  be_unmarshal :: "string \<Rightarrow> json option"
  be_bucket :: string
  be_presign_put :: "string \<Rightarrow> int \<Rightarrow> 'a \<Rightarrow> string expected \<times> 'a"
  be_enqueue :: "string \<Rightarrow> string \<Rightarrow> 'a \<Rightarrow> unit expected \<times> 'a"
  be_set :: "string \<Rightarrow> string \<Rightarrow> int \<Rightarrow> 'a \<Rightarrow> unit expected \<times> 'a"
  be_get :: "string \<Rightarrow> 'a \<Rightarrow> string option expected \<times> 'a"
  be_new_uuid :: "'a \<Rightarrow> string \<times> 'a"
  be_now :: "'a \<Rightarrow> int \<times> 'a"

datatype entry = Presigned string | Status_set string string int | Message_sent string string | Key_read string

record 'a desk =
  behind :: 'a
  journal :: "entry list"

definition ask_back :: "('a \<Rightarrow> 'b \<times> 'a) \<Rightarrow> ('a desk, 'b) comp" where
  "ask_back f d = (case f (behind d) of (r, b) \<Rightarrow> (Return r, d\<lparr>behind := b\<rparr>))"

definition jot :: "entry \<Rightarrow> ('a desk, unit) comp" where
  "jot e = modify (\<lambda>d. d\<lparr>journal := journal d @ [e]\<rparr>)"

definition presign_put :: "'a backend \<Rightarrow> string \<Rightarrow> int \<Rightarrow> ('a desk, string expected) comp" where
  "presign_put be key ttl = bindE (jot (Presigned key)) (\<lambda>_. ask_back (be_presign_put be key ttl))"

definition store_set :: "'a backend \<Rightarrow> string \<Rightarrow> string \<Rightarrow> int \<Rightarrow> ('a desk, unit expected) comp" where
  "store_set be key text ttl = bindE (jot (Status_set key text ttl)) (\<lambda>_. ask_back (be_set be key text ttl))"

definition store_get :: "'a backend \<Rightarrow> string \<Rightarrow> ('a desk, string option expected) comp" where
  "store_get be key = bindE (jot (Key_read key)) (\<lambda>_. ask_back (be_get be key))"

definition enqueue :: "'a backend \<Rightarrow> string \<Rightarrow> string \<Rightarrow> ('a desk, unit expected) comp" where
  "enqueue be body gid = bindE (jot (Message_sent body gid)) (\<lambda>_. ask_back (be_enqueue be body gid))"

section \<open>Requests and responses\<close>

record job_service =
  js_presign_ttl :: int
  js_status_ttl :: int
  js_group_id :: string

record upload_url =
  up_filename :: string
  up_url :: string
  up_method :: string

record create_job_result =
  cr_job_id :: string
  cr_upload_urls :: "upload_url list"

text \<open>The envelope of every response: a status with data, or with an error code and a message.\<close>

datatype 'd response = Success int 'd | Failure int string string

text \<open>The number of characters of a UTF-8 text, as \<^verbatim>\<open>utf8.RuneCountInString\<close> and Python's \<^verbatim>\<open>len\<close> count them.\<close>

definition char_count :: "string \<Rightarrow> nat" where
  "char_count s = length (filter (\<lambda>c. \<not> (0x80 \<le> byte c \<and> byte c < 0xC0)) s)"

fun has_dotdot :: "string \<Rightarrow> bool" where
  "has_dotdot (a # b # r) = (a = CHR ''.'' \<and> b = CHR ''.'' \<or> has_dotdot (b # r))"
| "has_dotdot _ = False"

definition has_separator :: "string \<Rightarrow> bool" where
  "has_separator s \<longleftrightarrow> CHR ''/'' \<in> set s \<or> CHR 0x5C \<in> set s"

text \<open>Groups of hexadecimal digits of the given lengths, joined by hyphens.\<close>

definition is_hex :: "char \<Rightarrow> bool" where
  "is_hex c \<longleftrightarrow> is_digit c \<or> (byte CHR ''a'' \<le> byte c \<and> byte c \<le> byte CHR ''f'') \<or>
     (byte CHR ''A'' \<le> byte c \<and> byte c \<le> byte CHR ''F'')"

fun hex_groups :: "nat list \<Rightarrow> string \<Rightarrow> bool" where
  "hex_groups [] s = (s = [])"
| "hex_groups [n] s = (length s = n \<and> list_all is_hex s)"
| "hex_groups (n # m # ns) s =
     (length (take n s) = n \<and> list_all is_hex (take n s) \<and>
      (case drop n s of [] \<Rightarrow> False | c # r \<Rightarrow> c = CHR ''-'' \<and> hex_groups (m # ns) r))"

section \<open>Facts\<close>

lemma is_hex_job_char: "is_hex c \<Longrightarrow> job_id_char c"
  by (auto simp: is_hex_def job_id_char_def is_digit_def)

lemma hex_groups_chars: "hex_groups ns s \<Longrightarrow> list_all job_id_char s"
proof (induction ns s rule: hex_groups.induct)
  case (3 n m ns s)
  from 3(2) obtain r where r: "drop n s = CHR ''-'' # r" "hex_groups (m # ns) r" "list_all is_hex (take n s)"
    by (auto split: list.splits)
  with 3(1) have "list_all job_id_char r" by blast
  moreover have "list_all job_id_char (take n s)" using r(3) by (auto simp: list_all_iff is_hex_job_char)
  ultimately have "list_all job_id_char (take n s @ CHR ''-'' # r)" by (simp add: job_id_char_def)
  then show ?case using r(1) append_take_drop_id [of n s] by metis
qed (auto simp: list_all_iff is_hex_job_char)

lemma hex_groups_length: "hex_groups ns s \<Longrightarrow> ns \<noteq> [] \<Longrightarrow> length s = sum_list ns + length ns - 1"
proof (induction ns s rule: hex_groups.induct)
  case (3 n m ns s)
  from 3(2) obtain r where r: "drop n s = CHR ''-'' # r" "hex_groups (m # ns) r" "length (take n s) = n"
    by (auto split: list.splits)
  then have "length r = sum_list (m # ns) + length (m # ns) - 1" using 3(1) by blast
  moreover have "length s = n + Suc (length r)" using r(1,3) append_take_drop_id [of n s] by (metis length_Cons length_append)
  ultimately show ?case by simp
qed simp_all

text \<open>The form of the identifiers that the interfaces issue and accept.\<close>

definition uuid_form :: "string \<Rightarrow> bool" where
  "uuid_form s \<longleftrightarrow> hex_groups [8, 4, 4, 4, 12] s"

lemma uuid_form_job_id:
  assumes "uuid_form s"
  shows "is_valid_job_id s" and "length s = 36"
proof -
  show l: "length s = 36" using hex_groups_length [of "[8, 4, 4, 4, 12]" s] assms by (simp add: uuid_form_def)
  have "list_all job_id_char s" using hex_groups_chars assms unfolding uuid_form_def by blast
  with l show "is_valid_job_id s" by (auto simp: is_valid_job_id_def job_id_max_length_def)
qed

end
