(* ===== verification/Interface_Go.thy ===== *)
theory Interface_Go
  imports Interface_World
begin

text \<open>
  The Go interface: \<^verbatim>\<open>src/Interface/golang/internal/service/job.go\<close> and the handlers in
  \<^verbatim>\<open>src/Interface/golang/internal/http/handlers\<close>. A Go error is \<open>Inl\<close>; encoding the structs of the service
  cannot fail, so \<^verbatim>\<open>json.Marshal\<close> is a function. The decoding of a body into the request structure is done by
  the binding library: its result is an argument, \<open>None\<close> where it fails; the tags that the source puts on the
  structure are \<open>go_binding\<close>.
\<close>

section \<open>The service\<close>

record go_input =
  gi_task_name :: string
  gi_arguments :: "string list option"
  gi_input_files :: "string list"
  gi_timeout_sec :: int

definition go_download :: "string \<Rightarrow> string \<Rightarrow> json" where
  "go_download bucket key = JObject [(''bucket'', JString bucket), (''key'', JString key), (''method'', JString ''GET'')]"

definition empty_if_nil :: "string list option \<Rightarrow> string list" where
  "empty_if_nil values = (case values of None \<Rightarrow> [] | Some vs \<Rightarrow> vs)"

definition go_status :: "string \<Rightarrow> string \<Rightarrow> string \<Rightarrow> json" where
  "go_status job_id name now =
     JObject [(''job_id'', JString job_id), (''task_name'', JString name), (''status'', JString ''queued''),
       (''enqueued_at'', JString now), (''updated_at'', JString now)]"

text \<open>The tag \<^verbatim>\<open>omitempty\<close> drops a time limit of zero.\<close>

definition go_task :: "go_input \<Rightarrow> json" where
  "go_task i =
     JObject ([(''name'', JString (gi_task_name i)), (''arguments'', JArray (map JString (empty_if_nil (gi_arguments i))))] @
       (if gi_timeout_sec i = 0 then [] else [(''timeout_sec'', JInt64 (gi_timeout_sec i))]))"

definition go_message :: "string \<Rightarrow> go_input \<Rightarrow> json list \<Rightarrow> string \<Rightarrow> json" where
  "go_message job_id i downloads now =
     JObject [(''job_id'', JString job_id), (''mode'', JString ''execute''), (''task'', go_task i),
       (''download_s3'', JArray downloads), (''output_prefix'', JString (''jobs/'' @ job_id @ ''/outputs/'')),
       (''enqueued_at'', JString now)]"

fun go_inputs ::
  "'a backend \<Rightarrow> job_service \<Rightarrow> string \<Rightarrow> string list \<Rightarrow> upload_url list \<Rightarrow> json list \<Rightarrow>
   ('a desk, (upload_url list \<times> json list) expected) comp" where
  "go_inputs be s job_id [] upload_urls downloads = ret (Inr (upload_urls, downloads))"
| "go_inputs be s job_id (filename # rest) upload_urls downloads =
     (let key = ''jobs/'' @ job_id @ ''/inputs/'' @ filename
      in bindE (presign_put be key (js_presign_ttl s)) (\<lambda>presigned.
         case presigned of
           Inl e \<Rightarrow> ret (Inl (''presign input '' @ filename @ '': '' @ e))
         | Inr url \<Rightarrow>
             go_inputs be s job_id rest
               (upload_urls @ [\<lparr>up_filename = filename, up_url = url, up_method = ''PUT''\<rparr>])
               (downloads @ [go_download (be_bucket be) key])))"

definition go_create_job :: "'a backend \<Rightarrow> job_service \<Rightarrow> go_input \<Rightarrow> ('a desk, create_job_result expected) comp" where
  "go_create_job be s i =
     bindE (ask_back (be_new_uuid be)) (\<lambda>job_id.
     bindE (ask_back (be_now be)) (\<lambda>seconds.
     let now = utc_timestamp seconds
     in bindE (go_inputs be s job_id (gi_input_files i) [] []) (\<lambda>inputs.
        case inputs of
          Inl e \<Rightarrow> ret (Inl e)
        | Inr (upload_urls, downloads) \<Rightarrow>
            bindE (store_set be job_id (be_marshal be (go_status job_id (gi_task_name i) now)) (js_status_ttl s)) (\<lambda>saved.
            case saved of
              Inl e \<Rightarrow> ret (Inl (''record queued status: '' @ e))
            | Inr _ \<Rightarrow>
                bindE (enqueue be (be_marshal be (go_message job_id i downloads now)) (js_group_id s)) (\<lambda>sent.
                case sent of
                  Inl e \<Rightarrow> ret (Inl (''enqueue job: '' @ e))
                | Inr _ \<Rightarrow> ret (Inr \<lparr>cr_job_id = job_id, cr_upload_urls = upload_urls\<rparr>))))))"

datatype go_error = Err_not_found | Err_other string

definition go_get_job :: "'a backend \<Rightarrow> string \<Rightarrow> ('a desk, go_error + string) comp" where
  "go_get_job be job_id =
     bindE (store_get be job_id) (\<lambda>found.
     ret (case found of
            Inl e \<Rightarrow> Inl (Err_other e)
          | Inr None \<Rightarrow> Inl Err_not_found
          | Inr (Some text) \<Rightarrow>
              if be_unmarshal be text = None
              then Inl (Err_other (''job '' @ job_id @ '' status document is not valid JSON''))
              else Inr text))"

definition go_get_task_catalog :: "'a backend \<Rightarrow> ('a desk, go_error + string) comp" where
  "go_get_task_catalog be =
     bindE (store_get be ''task_catalog'') (\<lambda>found.
     ret (case found of
            Inl e \<Rightarrow> Inl (Err_other e)
          | Inr None \<Rightarrow> Inl Err_not_found
          | Inr (Some text) \<Rightarrow>
              if be_unmarshal be text = None
              then Inl (Err_other ''task catalog document is not valid JSON'')
              else Inr text))"

section \<open>The handlers\<close>

definition go_valid_filename :: "string \<Rightarrow> bool" where
  "go_valid_filename filename =
     (if filename = [] \<or> length filename > 255 then False
      else if has_separator filename then False
      else if has_dotdot filename then False
      else True)"

definition go_binding :: "go_input \<Rightarrow> bool" where
  "go_binding dto \<longleftrightarrow> gi_task_name dto \<noteq> [] \<and> char_count (gi_task_name dto) \<le> 128 \<and>
     (gi_timeout_sec dto = 0 \<or> 1 \<le> gi_timeout_sec dto \<and> gi_timeout_sec dto \<le> 3600)"

definition go_create :: "'a backend \<Rightarrow> job_service \<Rightarrow> go_input option \<Rightarrow> ('a desk, create_job_result response) comp" where
  "go_create be s body =
     (case body of
        None \<Rightarrow> ret (Failure 400 ''invalid_request'' ''request body is invalid'')
      | Some dto \<Rightarrow>
          if \<not> go_binding dto then ret (Failure 400 ''invalid_request'' ''request body is invalid'')
          else if \<not> list_all go_valid_filename (gi_input_files dto)
          then ret (Failure 400 ''invalid_filename'' ''filename must not be empty or contain path separators'')
          else bindE (go_create_job be s dto) (\<lambda>created.
               ret (case created of
                      Inl e \<Rightarrow> Failure 500 ''create_failed'' ''cannot enqueue job''
                    | Inr result \<Rightarrow> Success 202 result)))"

text \<open>\<open>parses\<close> is \<^verbatim>\<open>uuid.Parse\<close> of the UUID library.\<close>

definition go_get :: "'a backend \<Rightarrow> (string \<Rightarrow> bool) \<Rightarrow> string \<Rightarrow> ('a desk, string response) comp" where
  "go_get be parses job_id =
     (if \<not> parses job_id then ret (Failure 404 ''job_not_found'' ''job not found'')
      else bindE (go_get_job be job_id) (\<lambda>found.
           ret (case found of
                  Inl Err_not_found \<Rightarrow> Failure 404 ''job_not_found'' ''job not found''
                | Inl (Err_other e) \<Rightarrow> Failure 500 ''get_failed'' ''cannot read job status''
                | Inr document \<Rightarrow> Success 200 document)))"

definition go_list :: "'a backend \<Rightarrow> ('a desk, string response) comp" where
  "go_list be =
     bindE (go_get_task_catalog be) (\<lambda>found.
     ret (case found of
            Inl Err_not_found \<Rightarrow> Failure 404 ''catalog_not_found'' ''task catalog is not published yet (worker not started?)''
          | Inl (Err_other e) \<Rightarrow> Failure 500 ''catalog_failed'' ''cannot read task catalog''
          | Inr document \<Rightarrow> Success 200 document))"

end
