(* ===== verification/Interface_Python.thy ===== *)
theory Interface_Python
  imports Interface_World
begin

text \<open>
  The Python interface: \<^verbatim>\<open>src/Interface/python/src/app/services/job_service.py\<close>, the request models in
  \<^verbatim>\<open>schemas/jobs.py\<close>, the routes, and the conversion of exceptions to responses in \<^verbatim>\<open>main.py\<close>. An exception of the
  service is \<open>Inl\<close>, one of the back end \<open>Py_infra\<close>.
\<close>

section \<open>The service\<close>

datatype py_error = Py_infra string | Enqueue_error string | Job_not_found string | Catalog_not_found string

record py_request =
  pr_task_name :: string
  pr_arguments :: "string list"
  pr_input_files :: "string list"
  pr_timeout_sec :: "int option"

definition py_download :: "string \<Rightarrow> string \<Rightarrow> json" where
  "py_download bucket key = JObject [(''bucket'', JString bucket), (''key'', JString key), (''method'', JString ''GET'')]"

fun py_inputs ::
  "'a backend \<Rightarrow> job_service \<Rightarrow> string \<Rightarrow> string list \<Rightarrow> upload_url list \<Rightarrow> json list \<Rightarrow>
   ('a desk, py_error + upload_url list \<times> json list) comp" where
  "py_inputs be s job_id [] upload_urls downloads = ret (Inr (upload_urls, downloads))"
| "py_inputs be s job_id (filename # rest) upload_urls downloads =
     (let key = ''jobs/'' @ job_id @ ''/inputs/'' @ filename
      in bindE (presign_put be key (js_presign_ttl s)) (\<lambda>presigned.
         case presigned of
           Inl e \<Rightarrow> ret (Inl (Py_infra e))
         | Inr url \<Rightarrow>
             py_inputs be s job_id rest
               (upload_urls @ [\<lparr>up_filename = filename, up_url = url, up_method = ''PUT''\<rparr>])
               (downloads @ [py_download (be_bucket be) key])))"

definition py_status :: "string \<Rightarrow> py_request \<Rightarrow> string \<Rightarrow> json" where
  "py_status job_id request now =
     JObject [(''job_id'', JString job_id), (''task_name'', JString (pr_task_name request)), (''status'', JString ''queued''),
       (''enqueued_at'', JString now), (''updated_at'', JString now)]"

definition py_task :: "py_request \<Rightarrow> jobject" where
  "py_task request =
     (let task = [(''name'', JString (pr_task_name request)), (''arguments'', JArray (map JString (pr_arguments request)))]
      in case pr_timeout_sec request of None \<Rightarrow> task | Some t \<Rightarrow> obj_set ''timeout_sec'' (JInt64 t) task)"

definition py_message :: "string \<Rightarrow> py_request \<Rightarrow> json list \<Rightarrow> string \<Rightarrow> json" where
  "py_message job_id request downloads now =
     JObject [(''job_id'', JString job_id), (''mode'', JString ''execute''), (''task'', JObject (py_task request)),
       (''download_s3'', JArray downloads), (''output_prefix'', JString (''jobs/'' @ job_id @ ''/outputs/'')),
       (''enqueued_at'', JString now)]"

definition py_create_job ::
  "'a backend \<Rightarrow> job_service \<Rightarrow> py_request \<Rightarrow> ('a desk, py_error + create_job_result) comp" where
  "py_create_job be s request =
     bindE (ask_back (be_new_uuid be)) (\<lambda>job_id.
     bindE (ask_back (be_now be)) (\<lambda>seconds.
     let now = utc_timestamp seconds
     in bindE (py_inputs be s job_id (pr_input_files request) [] []) (\<lambda>inputs.
        case inputs of
          Inl e \<Rightarrow> ret (Inl e)
        | Inr (upload_urls, downloads) \<Rightarrow>
            bindE (store_set be job_id (be_marshal be (py_status job_id request now)) (js_status_ttl s)) (\<lambda>saved.
            case saved of
              Inl e \<Rightarrow> ret (Inl (Py_infra e))
            | Inr _ \<Rightarrow>
                bindE (enqueue be (be_marshal be (py_message job_id request downloads now)) (js_group_id s)) (\<lambda>sent.
                case sent of
                  Inl e \<Rightarrow> ret (Inl (Enqueue_error (''cannot enqueue job: '' @ e)))
                | Inr _ \<Rightarrow> ret (Inr \<lparr>cr_job_id = job_id, cr_upload_urls = upload_urls\<rparr>))))))"

definition py_loads :: "'a backend \<Rightarrow> string \<Rightarrow> py_error + json" where
  "py_loads be text = (case be_unmarshal be text of None \<Rightarrow> Inl (Py_infra ''JSONDecodeError'') | Some v \<Rightarrow> Inr v)"

definition py_get_job :: "'a backend \<Rightarrow> string \<Rightarrow> ('a desk, py_error + json) comp" where
  "py_get_job be job_id =
     bindE (store_get be job_id) (\<lambda>found.
     ret (case found of
            Inl e \<Rightarrow> Inl (Py_infra e)
          | Inr None \<Rightarrow> Inl (Job_not_found (''job not found: '' @ job_id))
          | Inr (Some text) \<Rightarrow> py_loads be text))"

definition py_get_task_catalog :: "'a backend \<Rightarrow> ('a desk, py_error + json) comp" where
  "py_get_task_catalog be =
     bindE (store_get be ''task_catalog'') (\<lambda>found.
     ret (case found of
            Inl e \<Rightarrow> Inl (Py_infra e)
          | Inr None \<Rightarrow> Inl (Catalog_not_found ''task catalog is not published yet (worker not started?)'')
          | Inr (Some text) \<Rightarrow> py_loads be text))"

section \<open>Routes\<close>

definition py_valid_filename :: "string \<Rightarrow> bool" where
  "py_valid_filename filename \<longleftrightarrow> 1 \<le> char_count filename \<and> char_count filename \<le> 255 \<and>
     \<not> (has_separator filename \<or> has_dotdot filename)"

definition py_valid_request :: "py_request \<Rightarrow> bool" where
  "py_valid_request request \<longleftrightarrow>
     1 \<le> char_count (pr_task_name request) \<and> char_count (pr_task_name request) \<le> 128 \<and>
     list_all py_valid_filename (pr_input_files request) \<and>
     (case pr_timeout_sec request of None \<Rightarrow> True | Some t \<Rightarrow> 1 \<le> t \<and> t \<le> 3600)"

fun py_failure :: "py_error \<Rightarrow> 'd response" where
  "py_failure (Job_not_found message) = Failure 404 ''job_not_found'' message"
| "py_failure (Catalog_not_found message) = Failure 404 ''catalog_not_found'' message"
| "py_failure (Enqueue_error message) = Failure 500 ''create_failed'' ''cannot enqueue job''"
| "py_failure (Py_infra message) = Failure 500 ''internal_error'' ''internal error''"

definition py_respond :: "int \<Rightarrow> py_error + 'd \<Rightarrow> 'd response" where
  "py_respond status r = (case r of Inl e \<Rightarrow> py_failure e | Inr d \<Rightarrow> Success status d)"

text \<open>
  A body that does not decode is \<open>Inl\<close>, with whether an error that the library lists is located at a file name;
  the handler of validation errors looks for the same in the errors of the constraints.
\<close>

definition py_invalid :: "bool \<Rightarrow> 'd response" where
  "py_invalid at_filename =
     (if at_filename then Failure 422 ''invalid_filename'' ''input_files[].filename is invalid''
      else Failure 422 ''invalid_request'' ''invalid request'')"

definition py_create :: "'a backend \<Rightarrow> job_service \<Rightarrow> bool + py_request \<Rightarrow> ('a desk, create_job_result response) comp" where
  "py_create be s body =
     (case body of
        Inl at_filename \<Rightarrow> ret (py_invalid at_filename)
      | Inr request \<Rightarrow>
          if \<not> py_valid_request request then ret (py_invalid (\<not> list_all py_valid_filename (pr_input_files request)))
          else bindE (py_create_job be s request) (\<lambda>r. ret (py_respond 202 r)))"

definition py_job_id_pattern :: "string \<Rightarrow> bool" where
  "py_job_id_pattern job_id \<longleftrightarrow> hex_groups [8, 4, 4, 4, 12] job_id"

definition py_get :: "'a backend \<Rightarrow> string \<Rightarrow> ('a desk, json response) comp" where
  "py_get be job_id =
     (if \<not> py_job_id_pattern job_id then ret (py_invalid False)
      else bindE (py_get_job be job_id) (\<lambda>r. ret (py_respond 200 r)))"

definition py_tasks :: "'a backend \<Rightarrow> ('a desk, json response) comp" where
  "py_tasks be = bindE (py_get_task_catalog be) (\<lambda>r. ret (py_respond 200 r))"

end
