(* ===== verification/Interface_Js.thy ===== *)
theory Interface_Js
  imports Interface_World
begin

text \<open>
  The JavaScript interface: \<^verbatim>\<open>src/Interface/js/src/jobs\<close> (service, controller and request class) and the
  conversion of exceptions to responses in \<^verbatim>\<open>src/Interface/js/src/common/domain-exception.filter.ts\<close>. An optional
  member of a request may be absent or null, and \<^verbatim>\<open>@IsOptional\<close> skips the other checks in both cases. The time to live
  of a presigned URL, which the S3 adapter takes from the settings, is an argument here, as in the other two.
\<close>

section \<open>The service\<close>

datatype 'v optional = Undefined | Null | Value 'v

datatype js_error = Js_infra string | Js_enqueue string | Js_job_not_found string | Js_catalog_not_found

record create_job_dto =
  jd_task_name :: string
  jd_arguments :: "string list optional"
  jd_input_files :: "string list optional"
  jd_timeout_sec :: "int optional"

fun if_nullish :: "'v optional \<Rightarrow> 'v \<Rightarrow> 'v" where
  "if_nullish (Value v) fallback = v"
| "if_nullish _ fallback = fallback"

definition js_download :: "string \<Rightarrow> string \<Rightarrow> json" where
  "js_download bucket key = JObject [(''bucket'', JString bucket), (''key'', JString key), (''method'', JString ''GET'')]"

fun js_inputs ::
  "'a backend \<Rightarrow> job_service \<Rightarrow> string \<Rightarrow> string list \<Rightarrow> upload_url list \<Rightarrow> json list \<Rightarrow>
   ('a desk, js_error + upload_url list \<times> json list) comp" where
  "js_inputs be s job_id [] upload_urls downloads = ret (Inr (upload_urls, downloads))"
| "js_inputs be s job_id (filename # rest) upload_urls downloads =
     (let key = ''jobs/'' @ job_id @ ''/inputs/'' @ filename
      in bindE (presign_put be key (js_presign_ttl s)) (\<lambda>presigned.
         case presigned of
           Inl e \<Rightarrow> ret (Inl (Js_infra e))
         | Inr url \<Rightarrow>
             js_inputs be s job_id rest
               (upload_urls @ [\<lparr>up_filename = filename, up_url = url, up_method = ''PUT''\<rparr>])
               (downloads @ [js_download (be_bucket be) key])))"

definition js_status :: "string \<Rightarrow> create_job_dto \<Rightarrow> string \<Rightarrow> json" where
  "js_status job_id dto now =
     JObject [(''job_id'', JString job_id), (''task_name'', JString (jd_task_name dto)), (''status'', JString ''queued''),
       (''enqueued_at'', JString now), (''updated_at'', JString now)]"

definition js_task :: "create_job_dto \<Rightarrow> json" where
  "js_task dto =
     JObject ([(''name'', JString (jd_task_name dto)), (''arguments'', JArray (map JString (if_nullish (jd_arguments dto) [])))] @
       (case jd_timeout_sec dto of
          Undefined \<Rightarrow> []
        | Null \<Rightarrow> [(''timeout_sec'', JNull)]
        | Value t \<Rightarrow> [(''timeout_sec'', JInt64 t)]))"

definition js_message :: "string \<Rightarrow> create_job_dto \<Rightarrow> json list \<Rightarrow> string \<Rightarrow> json" where
  "js_message job_id dto downloads now =
     JObject [(''job_id'', JString job_id), (''mode'', JString ''execute''), (''task'', js_task dto),
       (''download_s3'', JArray downloads), (''output_prefix'', JString (''jobs/'' @ job_id @ ''/outputs/'')),
       (''enqueued_at'', JString now)]"

definition js_create_job ::
  "'a backend \<Rightarrow> job_service \<Rightarrow> create_job_dto \<Rightarrow> ('a desk, js_error + create_job_result) comp" where
  "js_create_job be s dto =
     bindE (ask_back (be_new_uuid be)) (\<lambda>job_id.
     bindE (ask_back (be_now be)) (\<lambda>seconds.
     let now = utc_timestamp seconds
     in bindE (js_inputs be s job_id (if_nullish (jd_input_files dto) []) [] []) (\<lambda>inputs.
        case inputs of
          Inl e \<Rightarrow> ret (Inl e)
        | Inr (upload_urls, downloads) \<Rightarrow>
            bindE (store_set be job_id (be_marshal be (js_status job_id dto now)) (js_status_ttl s)) (\<lambda>saved.
            case saved of
              Inl e \<Rightarrow> ret (Inl (Js_infra e))
            | Inr _ \<Rightarrow>
                bindE (enqueue be (be_marshal be (js_message job_id dto downloads now)) (js_group_id s)) (\<lambda>sent.
                case sent of
                  Inl e \<Rightarrow> ret (Inl (Js_enqueue (''cannot enqueue job: '' @ e)))
                | Inr _ \<Rightarrow> ret (Inr \<lparr>cr_job_id = job_id, cr_upload_urls = upload_urls\<rparr>))))))"

definition js_is_job_id :: "string \<Rightarrow> bool" where
  "js_is_job_id v \<longleftrightarrow> hex_groups [8, 4, 4, 4, 12] v"

definition js_parse :: "'a backend \<Rightarrow> string \<Rightarrow> js_error + json" where
  "js_parse be text = (case be_unmarshal be text of None \<Rightarrow> Inl (Js_infra ''SyntaxError'') | Some v \<Rightarrow> Inr v)"

definition js_get_job :: "'a backend \<Rightarrow> string \<Rightarrow> ('a desk, js_error + json) comp" where
  "js_get_job be job_id =
     (if \<not> js_is_job_id job_id then ret (Inl (Js_job_not_found job_id))
      else bindE (store_get be job_id) (\<lambda>found.
           ret (case found of
                  Inl e \<Rightarrow> Inl (Js_infra e)
                | Inr None \<Rightarrow> Inl (Js_job_not_found job_id)
                | Inr (Some text) \<Rightarrow> js_parse be text)))"

definition js_get_task_catalog :: "'a backend \<Rightarrow> ('a desk, js_error + json) comp" where
  "js_get_task_catalog be =
     bindE (store_get be ''task_catalog'') (\<lambda>found.
     ret (case found of
            Inl e \<Rightarrow> Inl (Js_infra e)
          | Inr None \<Rightarrow> Inl Js_catalog_not_found
          | Inr (Some text) \<Rightarrow> js_parse be text))"

section \<open>The controller\<close>

text \<open>\<open>len\<close> is the length of a text in the validation library.\<close>

definition js_valid_filename :: "(string \<Rightarrow> nat) \<Rightarrow> string \<Rightarrow> bool" where
  "js_valid_filename len filename \<longleftrightarrow> 1 \<le> len filename \<and> len filename \<le> 255 \<and>
     \<not> has_dotdot filename \<and> filename \<noteq> [] \<and> \<not> has_separator filename"

definition js_valid_dto :: "(string \<Rightarrow> nat) \<Rightarrow> create_job_dto \<Rightarrow> bool" where
  "js_valid_dto len dto \<longleftrightarrow> 1 \<le> len (jd_task_name dto) \<and> len (jd_task_name dto) \<le> 128 \<and>
     (case jd_arguments dto of Value vs \<Rightarrow> length vs \<le> 64 | _ \<Rightarrow> True) \<and>
     (case jd_input_files dto of Value files \<Rightarrow> list_all (js_valid_filename len) files \<and> length files \<le> 32 | _ \<Rightarrow> True) \<and>
     (case jd_timeout_sec dto of Value t \<Rightarrow> 1 \<le> t \<and> t \<le> 3600 | _ \<Rightarrow> True)"

fun js_failure :: "js_error \<Rightarrow> 'd response" where
  "js_failure (Js_job_not_found job_id) = Failure 404 ''job_not_found'' (''job not found: '' @ job_id)"
| "js_failure Js_catalog_not_found = Failure 404 ''catalog_not_found'' ''task catalog is not published yet (worker not started?)''"
| "js_failure (Js_enqueue message) = Failure 500 ''create_failed'' ''internal error''"
| "js_failure (Js_infra message) = Failure 500 ''internal_error'' ''internal error''"

definition js_respond :: "int \<Rightarrow> js_error + 'd \<Rightarrow> 'd response" where
  "js_respond status r = (case r of Inl e \<Rightarrow> js_failure e | Inr d \<Rightarrow> Success status d)"

text \<open>\<open>problem\<close> is the text of the validation library for a request that it refuses.\<close>

definition js_create ::
  "'a backend \<Rightarrow> job_service \<Rightarrow> (string \<Rightarrow> nat) \<Rightarrow> string \<Rightarrow> create_job_dto option \<Rightarrow> ('a desk, create_job_result response) comp" where
  "js_create be s len problem body =
     (case body of
        None \<Rightarrow> ret (Failure 400 ''invalid_request'' problem)
      | Some dto \<Rightarrow>
          if \<not> js_valid_dto len dto then ret (Failure 400 ''invalid_request'' problem)
          else bindE (js_create_job be s dto) (\<lambda>r. ret (js_respond 202 r)))"

definition js_get :: "'a backend \<Rightarrow> string \<Rightarrow> ('a desk, json response) comp" where
  "js_get be job_id = bindE (js_get_job be job_id) (\<lambda>r. ret (js_respond 200 r))"

definition js_tasks :: "'a backend \<Rightarrow> ('a desk, json response) comp" where
  "js_tasks be = bindE (js_get_task_catalog be) (\<lambda>r. ret (js_respond 200 r))"

end
