(* ===== verification/Interface_Properties.thy ===== *)
theory Interface_Properties
  imports Interface_Go Interface_Python Interface_Js Reference_World
begin

text \<open>
  The three web interfaces against each other and against the worker: they do the same things for the same
  request, what they send is what the worker accepts, and what they read are status documents of jobs.
\<close>

section \<open>One request, three interfaces\<close>

datatype implementation = Go | Python | Js

definition go_of :: "py_request \<Rightarrow> go_input" where
  "go_of r = \<lparr>gi_task_name = pr_task_name r, gi_arguments = Some (pr_arguments r), gi_input_files = pr_input_files r,
     gi_timeout_sec = (case pr_timeout_sec r of None \<Rightarrow> 0 | Some t \<Rightarrow> t)\<rparr>"

definition js_of :: "py_request \<Rightarrow> create_job_dto" where
  "js_of r = \<lparr>jd_task_name = pr_task_name r, jd_arguments = Value (pr_arguments r), jd_input_files = Value (pr_input_files r),
     jd_timeout_sec = (case pr_timeout_sec r of None \<Rightarrow> Undefined | Some t \<Rightarrow> Value t)\<rparr>"

definition outcome_of :: "'e + 'd \<Rightarrow> 'd option" where
  "outcome_of r = (case r of Inl e \<Rightarrow> None | Inr d \<Rightarrow> Some d)"

text \<open>The service call of an interface, its errors forgotten.\<close>

definition create_job ::
  "implementation \<Rightarrow> 'a backend \<Rightarrow> job_service \<Rightarrow> py_request \<Rightarrow> ('a desk, create_job_result option) comp" where
  "create_job i be s r =
     (case i of
        Go \<Rightarrow> bindE (go_create_job be s (go_of r)) (\<lambda>x. ret (outcome_of x))
      | Python \<Rightarrow> bindE (py_create_job be s r) (\<lambda>x. ret (outcome_of x))
      | Js \<Rightarrow> bindE (js_create_job be s (js_of r)) (\<lambda>x. ret (outcome_of x)))"

text \<open>What the contract says that a request turns into.\<close>

definition input_key :: "string \<Rightarrow> string \<Rightarrow> string" where
  "input_key job_id filename = ''jobs/'' @ job_id @ ''/inputs/'' @ filename"

definition contract_download :: "string \<Rightarrow> string \<Rightarrow> string \<Rightarrow> json" where
  "contract_download bucket job_id filename =
     JObject [(''bucket'', JString bucket), (''key'', JString (input_key job_id filename)), (''method'', JString ''GET'')]"

definition contract_task :: "py_request \<Rightarrow> jobject" where
  "contract_task r =
     [(''name'', JString (pr_task_name r)), (''arguments'', JArray (map JString (pr_arguments r)))] @
     (case pr_timeout_sec r of None \<Rightarrow> [] | Some t \<Rightarrow> [(''timeout_sec'', JInt64 t)])"

definition contract_message :: "string \<Rightarrow> py_request \<Rightarrow> json list \<Rightarrow> string \<Rightarrow> jobject" where
  "contract_message job_id r downloads now =
     [(''job_id'', JString job_id), (''mode'', JString ''execute''), (''task'', JObject (contract_task r)),
      (''download_s3'', JArray downloads), (''output_prefix'', JString (''jobs/'' @ job_id @ ''/outputs/'')),
      (''enqueued_at'', JString now)]"

definition contract_status :: "string \<Rightarrow> py_request \<Rightarrow> string \<Rightarrow> jobject" where
  "contract_status job_id r now =
     [(''job_id'', JString job_id), (''task_name'', JString (pr_task_name r)), (''status'', JString ''queued''),
      (''enqueued_at'', JString now), (''updated_at'', JString now)]"

text \<open>The texts of that message, at whatever time.\<close>

definition contract_body :: "'a backend \<Rightarrow> string \<Rightarrow> py_request \<Rightarrow> string \<Rightarrow> bool" where
  "contract_body be job_id r body \<longleftrightarrow> (\<exists>now. ascii now \<and> body = be_marshal be (JObject (contract_message job_id r
     (map (contract_download (be_bucket be) job_id) (pr_input_files r)) now)))"

lemma contract_body_now:
  "contract_body be job_id r (be_marshal be (JObject (contract_message job_id r
     (map (contract_download (be_bucket be) job_id) (pr_input_files r)) (utc_timestamp t))))"
  unfolding contract_body_def using ascii_utc_timestamp by blast

lemma messages_agree:
  "py_message job_id r ds now = JObject (contract_message job_id r ds now)"
  "js_message job_id (js_of r) ds now = JObject (contract_message job_id r ds now)"
  "pr_timeout_sec r \<noteq> Some 0 \<Longrightarrow> go_message job_id (go_of r) ds now = JObject (contract_message job_id r ds now)"
  by (auto simp: py_message_def py_task_def js_message_def js_task_def js_of_def go_message_def go_task_def go_of_def
      contract_message_def contract_task_def empty_if_nil_def obj_set.simps split: option.split)

lemma statuses_agree:
  "py_status job_id r now = JObject (contract_status job_id r now)"
  "js_status job_id (js_of r) now = JObject (contract_status job_id r now)"
  "go_status job_id (gi_task_name (go_of r)) now = JObject (contract_status job_id r now)"
  by (simp_all add: py_status_def js_status_def js_of_def go_status_def go_of_def contract_status_def)

lemmas desk_steps = bindE_def ret_def ask_back_def jot_def modify_def presign_put_def store_set_def store_get_def enqueue_def

definition or_error :: "'e \<Rightarrow> 'd option \<Rightarrow> 'e + 'd" where
  "or_error e x = (case x of None \<Rightarrow> Inl e | Some d \<Rightarrow> Inr d)"

lemma or_error_simps [simp]: "or_error e None = Inl e" "or_error e (Some d) = Inr d" "outcome_of (Inl e) = None" "outcome_of (Inr d) = Some d"
  by (simp_all add: or_error_def outcome_of_def)

text \<open>The loops over the inputs do the same, and say the same but for the error.\<close>

lemma inputs_agree:
  "\<exists>x d' e1 e2 e3.
     go_inputs be s job_id files us ds d = (Return (or_error e1 x), d') \<and>
     py_inputs be s job_id files us ds d = (Return (or_error e2 x), d') \<and>
     js_inputs be s job_id files us ds d = (Return (or_error e3 x), d') \<and>
     (\<exists>n. journal d' = journal d @ map (\<lambda>f. Presigned (input_key job_id f)) (take n files)) \<and>
     (\<forall>us' ds'. x = Some (us', ds') \<longrightarrow>
        ds' = ds @ map (contract_download (be_bucket be) job_id) files \<and> map up_filename us' = map up_filename us @ files \<and>
        journal d' = journal d @ map (\<lambda>f. Presigned (input_key job_id f)) files)"
proof (induction files arbitrary: us ds d)
  case Nil
  show ?case by (intro exI [of _ "Some (us, ds)"] exI [of _ d]) (simp add: ret_def)
next
  case (Cons f files)
  let ?key = "input_key job_id f"
  obtain r b where p: "be_presign_put be ?key (js_presign_ttl s) (behind d) = (r, b)" by fastforce
  let ?d = "d\<lparr>journal := journal d @ [Presigned ?key], behind := b\<rparr>"
  show ?case
  proof (cases r)
    case (Inl e)
    with p show ?thesis
      by (intro exI [of _ None] exI [of _ ?d] exI [of _ "''presign input '' @ f @ '': '' @ e"] exI [of _ "Py_infra e"] exI [of _ "Js_infra e"])
        (auto simp: desk_steps input_key_def Let_def intro!: exI [of _ "Suc 0"])
  next
    case (Inr url)
    let ?us = "us @ [\<lparr>up_filename = f, up_url = url, up_method = ''PUT''\<rparr>]" and ?ds = "ds @ [contract_download (be_bucket be) job_id f]"
    have step: "go_inputs be s job_id (f # files) us ds d = go_inputs be s job_id files ?us ?ds ?d"
      "py_inputs be s job_id (f # files) us ds d = py_inputs be s job_id files ?us ?ds ?d"
      "js_inputs be s job_id (f # files) us ds d = js_inputs be s job_id files ?us ?ds ?d"
      using p Inr by (simp_all add: desk_steps input_key_def Let_def contract_download_def go_download_def py_download_def js_download_def)
    from Cons.IH [of ?us ?ds ?d] obtain x d' e1 e2 e3 n where
      runs: "go_inputs be s job_id files ?us ?ds ?d = (Return (or_error e1 x), d')"
        "py_inputs be s job_id files ?us ?ds ?d = (Return (or_error e2 x), d')"
        "js_inputs be s job_id files ?us ?ds ?d = (Return (or_error e3 x), d')"
      and n: "journal d' = journal ?d @ map (\<lambda>f. Presigned (input_key job_id f)) (take n files)"
      and x: "\<And>us' ds'. x = Some (us', ds') \<Longrightarrow> ds' = ?ds @ map (contract_download (be_bucket be) job_id) files \<and>
        map up_filename us' = map up_filename ?us @ files \<and> journal d' = journal ?d @ map (\<lambda>f. Presigned (input_key job_id f)) files"
      by blast
    have "journal d' = journal d @ map (\<lambda>f. Presigned (input_key job_id f)) (take (Suc n) (f # files))" using n by simp
    moreover have "x = Some (us', ds') \<Longrightarrow> ds' = ds @ map (contract_download (be_bucket be) job_id) (f # files) \<and>
        map up_filename us' = map up_filename us @ f # files \<and>
        journal d' = journal d @ map (\<lambda>f. Presigned (input_key job_id f)) (f # files)" for us' ds' using x by simp
    ultimately show ?thesis unfolding step using runs by blast
  qed
qed

text \<open>A request that goes through, step by step.\<close>

lemma create_job_cases:
  assumes "pr_timeout_sec r \<noteq> Some 0"
  shows "create_job i be s r d = create_job Python be s r d"
    and "create_job Python be s r d = (y, d') \<Longrightarrow>
      \<exists>es. journal d' = journal d @ es \<and> (\<forall>b g. Message_sent b g \<in> set es \<longrightarrow> contract_body be (fst (be_new_uuid be (behind d))) r b)"
    and "create_job Python be s r d = (Return (Some res), d') \<Longrightarrow>
      \<exists>now. cr_job_id res = fst (be_new_uuid be (behind d)) \<and> map up_filename (cr_upload_urls res) = pr_input_files r \<and>
        ascii now \<and>
        journal d' = journal d @ map (\<lambda>f. Presigned (input_key (cr_job_id res) f)) (pr_input_files r) @
          [Status_set (cr_job_id res) (be_marshal be (JObject (contract_status (cr_job_id res) r now))) (js_status_ttl s),
           Message_sent (be_marshal be (JObject (contract_message (cr_job_id res) r
              (map (contract_download (be_bucket be) (cr_job_id res)) (pr_input_files r)) now))) (js_group_id s)]"
proof -
  obtain job_id b where u: "be_new_uuid be (behind d) = (job_id, b)" by fastforce
  obtain t b' where t: "be_now be b = (t, b')" by fastforce
  let ?d = "d\<lparr>behind := b'\<rparr>" and ?now = "utc_timestamp t"
  have base: "journal ?d = journal d" by simp
  obtain x d1 e1 e2 e3 where inputs:
    "go_inputs be s job_id (pr_input_files r) [] [] ?d = (Return (or_error e1 x), d1)"
    "py_inputs be s job_id (pr_input_files r) [] [] ?d = (Return (or_error e2 x), d1)"
    "js_inputs be s job_id (pr_input_files r) [] [] ?d = (Return (or_error e3 x), d1)"
    and n: "\<exists>n. journal d1 = journal d @ map (\<lambda>f. Presigned (input_key job_id f)) (take n (pr_input_files r))"
    and x: "\<And>us ds. x = Some (us, ds) \<Longrightarrow> ds = map (contract_download (be_bucket be) job_id) (pr_input_files r) \<and>
      map up_filename us = pr_input_files r \<and> journal d1 = journal d @ map (\<lambda>f. Presigned (input_key job_id f)) (pr_input_files r)"
    using inputs_agree [of be s job_id "pr_input_files r" "[]" "[]" ?d] unfolding base list.map(1) append_Nil by blast
  have sel: "gi_input_files (go_of r) = pr_input_files r" "if_nullish (jd_input_files (js_of r)) [] = pr_input_files r"
    by (simp_all add: go_of_def js_of_def)
  note run = go_create_job_def py_create_job_def js_create_job_def desk_steps u t Let_def inputs sel statuses_agree
    messages_agree(1,2) messages_agree(3) [OF assms]
  show "create_job i be s r d = create_job Python be s r d"
    by (cases i; cases x) (auto simp: create_job_def run split: prod.split sum.split)
  show "\<exists>es. journal d' = journal d @ es \<and> (\<forall>b g. Message_sent b g \<in> set es \<longrightarrow> contract_body be (fst (be_new_uuid be (behind d))) r b)"
    if "create_job Python be s r d = (y, d')"
    using that n x by (cases x) (auto simp: create_job_def run contract_body_now split: prod.splits sum.splits)
  assume "create_job Python be s r d = (Return (Some res), d')"
  then show "\<exists>now. cr_job_id res = fst (be_new_uuid be (behind d)) \<and> map up_filename (cr_upload_urls res) = pr_input_files r \<and>
        ascii now \<and>
        journal d' = journal d @ map (\<lambda>f. Presigned (input_key (cr_job_id res) f)) (pr_input_files r) @
          [Status_set (cr_job_id res) (be_marshal be (JObject (contract_status (cr_job_id res) r now))) (js_status_ttl s),
           Message_sent (be_marshal be (JObject (contract_message (cr_job_id res) r
              (map (contract_download (be_bucket be) (cr_job_id res)) (pr_input_files r)) now))) (js_group_id s)]"
    using x by (cases x) (auto simp: create_job_def run ascii_utc_timestamp intro!: exI [of _ ?now] split: prod.splits sum.splits)
qed

section \<open>What the worker makes of it\<close>

text \<open>The texts of a request, as they arrive in a JSON body.\<close>

definition request_utf8 :: "py_request \<Rightarrow> bool" where
  "request_utf8 r \<longleftrightarrow> utf8_valid (pr_task_name r) \<and> list_all utf8_valid (pr_arguments r) \<and> list_all utf8_valid (pr_input_files r)"

lemma char_count_Nil [simp]: "char_count [] = 0"
  by (simp add: char_count_def)

text \<open>What the checks of all three interfaces ensure.\<close>

definition request_ok :: "py_request \<Rightarrow> bool" where
  "request_ok r \<longleftrightarrow> pr_task_name r \<noteq> [] \<and> (case pr_timeout_sec r of None \<Rightarrow> True | Some t \<Rightarrow> 1 \<le> t \<and> t \<le> 3600)"

lemma py_request_ok: "py_valid_request r \<Longrightarrow> request_ok r"
  by (auto simp: py_valid_request_def request_ok_def)

lemma request_ok_facts:
  assumes "request_ok r"
  shows "pr_task_name r \<noteq> []" and "pr_timeout_sec r \<noteq> Some 0"
    and "pr_timeout_sec r = Some t \<Longrightarrow> 1 \<le> t \<and> t \<le> 3600"
  using assms by (auto simp: request_ok_def split: option.splits)

lemma contract_download_ok:
  assumes "utf8_valid bucket" and "utf8_valid job_id" and "utf8_valid f"
  shows "json_ok (contract_download bucket job_id f)" and "json_depth (contract_download bucket job_id f) = 1"
    and "no_doubles (contract_download bucket job_id f)"
  using assms by (simp_all add: contract_download_def input_key_def utf8_valid_append)

lemma contract_download_schema: "bucket \<noteq> [] \<Longrightarrow> download_schema (contract_download bucket job_id f)"
  by (simp add: download_schema_def contract_download_def input_key_def obj_find_def)

lemma strings_array:
  "json_ok (JArray (map JString ss)) \<longleftrightarrow> list_all utf8_valid ss"
  "json_depth (JArray (map JString ss)) = 1"
  "no_doubles (JArray (map JString ss))"
proof -
  have "fold max (map (json_depth \<circ> JString) ss) 0 = 0" by (induction ss) simp_all
  then show "json_depth (JArray (map JString ss)) = 1" by simp
qed (simp_all add: list_all_iff)

lemma contract_task_ok:
  assumes "request_ok r" and "request_utf8 r"
  shows "json_ok (JObject (contract_task r))" and "json_depth (JObject (contract_task r)) \<le> 2"
    and "no_doubles (JObject (contract_task r))" and "task_schema (contract_task r)"
    and "obj_find (contract_task r) ''name'' = Some (JString (pr_task_name r))"
proof -
  note args = strings_array [of "pr_arguments r"]
  show "json_ok (JObject (contract_task r))" "json_depth (JObject (contract_task r)) \<le> 2" "no_doubles (JObject (contract_task r))"
    using args assms(2) request_ok_facts(3) [OF assms(1)]
    by (auto simp: contract_task_def request_utf8_def simp del: json_ok.simps(7) json_depth.simps(7) no_doubles.simps(7)
        split: option.split)
  show "task_schema (contract_task r)" "obj_find (contract_task r) ''name'' = Some (JString (pr_task_name r))"
    using request_ok_facts(1) [OF assms(1)]
    by (auto simp: contract_task_def task_schema_def obj_find_def split: option.splits)
qed

lemma contract_message_ok:
  assumes "request_ok r" and "request_utf8 r" and "is_valid_job_id j" and "utf8_valid bucket" and "ascii now"
  shows "json_doc_ok (JObject (contract_message j r (map (contract_download bucket j) (pr_input_files r)) now))"
    and "no_doubles (JObject (contract_message j r (map (contract_download bucket j) (pr_input_files r)) now))"
proof -
  let ?ds = "map (contract_download bucket j) (pr_input_files r)"
  note j = valid_job_id_utf8 [OF assms(3)] and now = utf8_valid_ascii [OF assms(5)] and task = contract_task_ok [OF assms(1,2)]
  have ds: "json_ok (JArray ?ds)" "json_depth (JArray ?ds) \<le> 2" "no_doubles (JArray ?ds)"
    using contract_download_ok [OF assms(4) j] assms(2) by (auto simp: request_utf8_def list_all_iff fold_max_le)
  show "json_doc_ok (JObject (contract_message j r ?ds now))"
    using j now task(1,2) ds(1,2)
    by (simp add: json_doc_ok_object contract_message_def obj_inv_def member_ok_def utf8_valid_append
        del: json_ok.simps(7,8) json_depth.simps(7,8))
  show "no_doubles (JObject (contract_message j r ?ds now))"
    using task(3) ds(3) by (simp add: contract_message_def del: no_doubles.simps(7))
qed

definition contract_request :: "string \<Rightarrow> string \<Rightarrow> py_request \<Rightarrow> request" where
  "contract_request bucket job_id r =
     \<lparr>req_job = job_id, req_task = contract_task r, req_name = c_str (pr_task_name r),
      req_downloads = map (contract_download bucket job_id) (pr_input_files r),
      req_prefix = ''jobs/'' @ job_id @ ''/outputs/''\<rparr>"

lemma contract_message_accepted:
  assumes "json_codec (json_parse sv) marshal" and "request_ok r" and "request_utf8 r" and "is_valid_job_id j"
    and "utf8_valid bucket" and "bucket \<noteq> []" and "ascii now"
  shows "accepted sv (marshal (JObject (contract_message j r (map (contract_download bucket j) (pr_input_files r)) now)))
    (contract_message j r (map (contract_download bucket j) (pr_input_files r)) now) (contract_request bucket j r)"
proof -
  let ?m = "contract_message j r (map (contract_download bucket j) (pr_input_files r)) now"
  note ok = contract_message_ok [OF assms(2-5,7)] and task = contract_task_ok [OF assms(2,3)]
  have parse: "json_parse sv (marshal (JObject ?m)) = Inr (JObject ?m)"
    using json_codec.parse_serialize [OF assms(1) ok(1)] forget_doubles_exact [OF ok(2)] by metis
  have find: "obj_find ?m ''job_id'' = Some (JString j)" "obj_find ?m ''mode'' = Some (JString ''execute'')"
    "obj_find ?m ''task'' = Some (JObject (contract_task r))"
    "obj_find ?m ''download_s3'' = Some (JArray (map (contract_download bucket j) (pr_input_files r)))"
    "obj_find ?m ''output_prefix'' = Some (JString (''jobs/'' @ j @ ''/outputs/''))"
    by (simp_all add: contract_message_def obj_find_def)
  have ds: "list_all download_schema (map (contract_download bucket j) (pr_input_files r))"
    using contract_download_schema [OF assms(6)] by (simp add: list_all_iff)
  have "request_schema ?m" unfolding request_schema_def using find assms(4) task(4) ds by fastforce
  moreover have "c_str (''jobs/'' @ j @ ''/outputs/'') = ''jobs/'' @ j @ ''/outputs/''"
    using assms(4) by (intro c_str_id) (auto simp: is_valid_job_id_def list_all_iff job_id_char_def is_digit_def split: if_splits)
  then have "reads_request ?m (contract_request bucket j r)"
    using find assms(4) task(4) ds at_string_find [OF find(1)] at_object_find [OF find(3)] at_array_find [OF find(4)]
      at_string_find [OF find(5)] at_string_find [OF task(5)] valid_job_id_c_str [OF assms(4)]
    by (simp add: reads_request_def contract_request_def)
  ultimately show ?thesis using parse by (simp add: accepted_def validate_request_ok)
qed

lemma contract_status_read:
  assumes "json_codec (json_parse sv) marshal" and "request_utf8 r" and "is_valid_job_id j" and "ascii now"
  shows "json_parse sv (marshal (JObject (contract_status j r now))) = Inr (JObject (contract_status j r now))"
proof -
  let ?m = "contract_status j r now"
  have "json_doc_ok (JObject ?m)" "no_doubles (JObject ?m)"
    using valid_job_id_utf8 [OF assms(3)] utf8_valid_ascii [OF assms(4)] assms(2)
    by (simp_all add: json_doc_ok_object contract_status_def obj_inv_def request_utf8_def)
  then show ?thesis using json_codec.parse_serialize [OF assms(1)] forget_doubles_exact by metis
qed

lemma contract_status_open:
  assumes "json_codec (json_parse sv) marshal" and "request_utf8 r" and "is_valid_job_id j" and "ascii now"
  shows "\<not> terminal_document sv (marshal (JObject (contract_status j r now)))"
  using contract_status_read [OF assms] by (simp add: terminal_document_def contract_status_def get_string_def obj_find_def)

section \<open>Reading a status\<close>

text \<open>The status route of an interface, its response forgotten.\<close>

definition read_status :: "implementation \<Rightarrow> 'a backend \<Rightarrow> (string \<Rightarrow> bool) \<Rightarrow> string \<Rightarrow> ('a desk, unit) comp" where
  "read_status i be parses job_id =
     (case i of
        Go \<Rightarrow> bindE (go_get be parses job_id) (\<lambda>_. ret ())
      | Python \<Rightarrow> bindE (py_get be job_id) (\<lambda>_. ret ())
      | Js \<Rightarrow> bindE (js_get be job_id) (\<lambda>_. ret ()))"

text \<open>Which path segments a status route looks up.\<close>

definition looks_up :: "implementation \<Rightarrow> (string \<Rightarrow> bool) \<Rightarrow> string \<Rightarrow> bool" where
  "looks_up i parses job_id = (case i of Go \<Rightarrow> parses job_id | Python \<Rightarrow> uuid_form job_id | Js \<Rightarrow> uuid_form job_id)"

lemma read_status_run:
  "\<exists>d'. read_status i be parses job_id d = (Return (), d') \<and>
     journal d' = journal d @ (if looks_up i parses job_id then [Key_read job_id] else [])"
  by (cases i)
    (auto simp: read_status_def looks_up_def go_get_def go_get_job_def py_get_def py_get_job_def js_get_def js_get_job_def
      py_job_id_pattern_def js_is_job_id_def uuid_form_def desk_steps split: prod.split)

section \<open>A back end\<close>

definition sample_back :: "unit backend" where
  "sample_back = \<lparr>be_marshal = print_json, be_unmarshal = (\<lambda>s. case parse_json s of Inl e \<Rightarrow> None | Inr v \<Rightarrow> Some v),
     be_bucket = ''b'', be_presign_put = (\<lambda>k t u. (Inr (''http://s3/'' @ k), u)), be_enqueue = (\<lambda>b g u. (Inr (), u)),
     be_set = (\<lambda>k v t u. (Inr (), u)), be_get = (\<lambda>k u. (Inr None, u)),
     be_new_uuid = (\<lambda>u. (''0f8fad5b-d9cd-469f-a165-70867728950e'', u)), be_now = (\<lambda>u. (0, u))\<rparr>"

definition sample_service :: job_service where
  "sample_service = \<lparr>js_presign_ttl = 900, js_status_ttl = 86400, js_group_id = ''jobs''\<rparr>"

definition sample_job :: py_request where
  "sample_job = \<lparr>pr_task_name = ''wc'', pr_arguments = [''-l''], pr_input_files = [''x.txt''], pr_timeout_sec = Some 30\<rparr>"

definition sample_desk :: "unit desk" where
  "sample_desk = \<lparr>behind = (), journal = []\<rparr>"

definition sample_created :: create_job_result where
  "sample_created = \<lparr>cr_job_id = ''0f8fad5b-d9cd-469f-a165-70867728950e'',
     cr_upload_urls = [\<lparr>up_filename = ''x.txt'',
       up_url = ''http://s3/jobs/0f8fad5b-d9cd-469f-a165-70867728950e/inputs/x.txt'', up_method = ''PUT''\<rparr>]\<rparr>"

lemma sample_runs: "\<exists>d. create_job Python sample_back sample_service sample_job sample_desk = (Return (Some sample_created), d)"
  by (simp add: create_job_def py_create_job_def desk_steps sample_back_def sample_job_def sample_desk_def sample_created_def Let_def)

lemma sample_facts:
  "uuid_form (fst (be_new_uuid sample_back (behind sample_desk)))" "request_ok sample_job" "request_utf8 sample_job"
  "utf8_valid (be_bucket sample_back)" "be_bucket sample_back \<noteq> []" "be_marshal sample_back = print_json"
  by (simp_all add: sample_back_def sample_job_def uuid_form_def is_hex_def is_digit_def request_ok_def request_utf8_def utf8_valid_ascii)

section \<open>Properties\<close>

text \<open>
  The three interfaces are interchangeable. On the same back end, JSON encoder included, the Go, the Python
  and the JavaScript service do the same to the outside for the same request, in the same order, and return the
  same result, failing exactly together; only a time limit of zero is excepted.
\<close>

lemma interfaces_agree:
  assumes "pr_timeout_sec r \<noteq> Some 0"
  shows "create_job i be s r d = create_job j be s r d"
  using create_job_cases(1) [OF assms, of i] create_job_cases(1) [OF assms, of j] by metis



text \<open>
  C19. A null time limit is lost work in the JavaScript interface. The request class lets \<^verbatim>\<open>"timeout_sec": null\<close>
  through, the service copies it into the message, and the worker refuses every such message.
\<close>

theorem js_null_timeout_rejected:
  assumes "jd_timeout_sec dto = Null" and "js_valid_dto len dto" and "len [] = 0" and "is_valid_job_id job_id"
  shows "\<exists>message. js_message job_id dto downloads now = JObject message \<and>
    validate_request message = Inl ''task.timeout_sec must be an integer''"
proof -
  have "jd_task_name dto \<noteq> []" using assms(2,3) by (auto simp: js_valid_dto_def)
  moreover have "check_arguments (map JString ss) = Inr ()" for ss by (induction ss) simp_all
  moreover have "job_id \<noteq> []" using assms(4) by (auto simp: is_valid_job_id_def)
  ultimately show ?thesis using assms(1,4)
    by (simp add: js_message_def js_task_def validate_request_def check_task_def get_string_def get_object_def get_array_def
        obj_find_def obj_contains_def nonempty_string_def)
qed

theorem js_null_timeout_rejected_witness:
  "js_valid_dto length \<lparr>jd_task_name = ''wc'', jd_arguments = Undefined, jd_input_files = Undefined, jd_timeout_sec = Null\<rparr> \<and>
   (\<exists>message. js_message ''j1'' \<lparr>jd_task_name = ''wc'', jd_arguments = Undefined, jd_input_files = Undefined, jd_timeout_sec = Null\<rparr> [] ''t'' =
      JObject message \<and> validate_request message = Inl ''task.timeout_sec must be an integer'')"
proof
  show v: "js_valid_dto length \<lparr>jd_task_name = ''wc'', jd_arguments = Undefined, jd_input_files = Undefined, jd_timeout_sec = Null\<rparr>"
    by (simp add: js_valid_dto_def)
  show "\<exists>message. js_message ''j1'' \<lparr>jd_task_name = ''wc'', jd_arguments = Undefined, jd_input_files = Undefined, jd_timeout_sec = Null\<rparr> [] ''t'' =
      JObject message \<and> validate_request message = Inl ''task.timeout_sec must be an integer''"
    by (rule js_null_timeout_rejected [OF _ v])
      (simp_all add: is_valid_job_id_def job_id_max_length_def job_id_char_def is_digit_def)
qed

text \<open>
  C18. A status route reads no other key. Whatever the path segment, the routes read at most the key of that name,
  and never the task catalog or the health check, which share the key space of Redis: where the UUID
  library accepts texts of the lengths 32, 36, 38 and 45 only, as it documents.
\<close>

theorem status_reads_confined:
  assumes "\<And>k. parses k \<Longrightarrow> length k \<in> {32, 36, 38, 45}"
    and "read_status i be parses job_id d = (r, d')"
  shows "\<exists>es. journal d' = journal d @ es \<and>
    (\<forall>e \<in> set es. e = Key_read job_id \<and> job_id \<noteq> ''task_catalog'' \<and> job_id \<noteq> ''taskforge:healthcheck'')"
proof -
  from read_status_run [of i be parses job_id d] assms(2)
  have "journal d' = journal d @ (if looks_up i parses job_id then [Key_read job_id] else [])" by auto
  moreover have "looks_up i parses job_id \<Longrightarrow> length job_id \<in> {32, 36, 38, 45}"
    using assms(1) uuid_form_job_id(2) by (cases i) (auto simp: looks_up_def)
  ultimately show ?thesis by (intro exI [of _ "if looks_up i parses job_id then [Key_read job_id] else []"]) auto
qed

theorem status_reads_confined_witness:
  "\<exists>d. read_status Go sample_back uuid_form ''task_catalog'' sample_desk = (Return (), d) \<and> journal d = []"
proof -
  obtain d where run: "read_status Go sample_back uuid_form ''task_catalog'' sample_desk = (Return (), d)"
    using read_status_run by blast
  from status_reads_confined [OF _ this] have "journal d = journal sample_desk"
    using uuid_form_job_id(2) by (metis append_Nil2 insert_iff last_in_set)
  with run show ?thesis by (simp add: sample_desk_def)
qed

text \<open>A time limit of zero: the Go interface takes it and leaves it out, the others refuse it.\<close>

lemma zero_timeout_differs:
  assumes "pr_timeout_sec r = Some 0"
  shows "gi_timeout_sec (go_of r) = 0" and "\<not> py_valid_request r" and "\<not> js_valid_dto len (js_of r)"
    and "go_task (go_of r) = JObject (contract_task (r\<lparr>pr_timeout_sec := None\<rparr>))"
  using assms by (simp_all add: go_of_def js_of_def py_valid_request_def js_valid_dto_def go_task_def contract_task_def empty_if_nil_def)

end
