(* ===== verification/Job_System.thy ===== *)
theory Job_System
  imports Interface_Properties Retry_Chain
begin

text \<open>
  The interfaces, the queue and the worker as one system. Clients post requests to any of the three interfaces,
  the worker takes any message of the queue, as often as the queue delivers it, and between the steps
  Redis, the files, the clock and everything else outside may change in any way. What is shown is what such a
  system keeps: which messages the queue can hold, and where the worker's transfers go.
\<close>

section \<open>The routes, as requests of the contract\<close>

definition go_request :: "go_input \<Rightarrow> py_request" where
  "go_request i = \<lparr>pr_task_name = gi_task_name i, pr_arguments = empty_if_nil (gi_arguments i), pr_input_files = gi_input_files i,
     pr_timeout_sec = (if gi_timeout_sec i = 0 then None else Some (gi_timeout_sec i))\<rparr>"

definition js_request :: "create_job_dto \<Rightarrow> py_request" where
  "js_request dto = \<lparr>pr_task_name = jd_task_name dto, pr_arguments = if_nullish (jd_arguments dto) [],
     pr_input_files = if_nullish (jd_input_files dto) [],
     pr_timeout_sec = (case jd_timeout_sec dto of Value t \<Rightarrow> Some t | _ \<Rightarrow> None)\<rparr>"

lemma go_create_job_request: "go_create_job be s i = go_create_job be s (go_of (go_request i))"
  by (simp add: go_create_job_def go_message_def go_task_def go_of_def go_request_def empty_if_nil_def cong: if_cong)

lemma js_create_job_request:
  assumes "jd_timeout_sec dto \<noteq> Null"
  shows "js_create_job be s dto = js_create_job be s (js_of (js_request dto))"
  using assms
  by (cases "jd_timeout_sec dto")
    (simp_all add: js_create_job_def js_message_def js_task_def js_status_def js_of_def js_request_def)

lemma go_request_ok: "go_binding i \<Longrightarrow> request_ok (go_request i)"
  by (auto simp: go_binding_def request_ok_def go_request_def)

lemma js_request_ok: "js_valid_dto len dto \<Longrightarrow> len [] = 0 \<Longrightarrow> request_ok (js_request dto)"
  by (auto simp: js_valid_dto_def request_ok_def js_request_def split: optional.splits)

text \<open>What a client may send: nothing that decodes, or a request with UTF-8 texts.\<close>

datatype post = Post_go "go_input option" | Post_py "bool + py_request" | Post_js string "create_job_dto option"

fun post_request :: "post \<Rightarrow> py_request option" where
  "post_request (Post_go b) = map_option go_request b"
| "post_request (Post_py b) = (case b of Inl at_filename \<Rightarrow> None | Inr r \<Rightarrow> Some r)"
| "post_request (Post_js problem b) = map_option js_request b"

fun null_timeout :: "post \<Rightarrow> bool" where
  "null_timeout (Post_js problem (Some dto)) = (jd_timeout_sec dto = Null)"
| "null_timeout _ = False"

definition good_post :: "post \<Rightarrow> bool" where
  "good_post p \<longleftrightarrow> \<not> null_timeout p \<and> (case post_request p of None \<Rightarrow> True | Some r \<Rightarrow> request_utf8 r)"

text \<open>The create route of the interface a request is posted to, its response forgotten.\<close>

fun serve :: "'a backend \<Rightarrow> job_service \<Rightarrow> (string \<Rightarrow> nat) \<Rightarrow> post \<Rightarrow> ('a desk, unit) comp" where
  "serve be s len (Post_go b) = bindE (go_create be s b) (\<lambda>_. ret ())"
| "serve be s len (Post_py b) = bindE (py_create be s b) (\<lambda>_. ret ())"
| "serve be s len (Post_js problem b) = bindE (js_create be s len problem b) (\<lambda>_. ret ())"

text \<open>A route refuses a request without a trace, or does what \<open>create_job\<close> does with a request that is in order.\<close>

lemma serve_cases:
  assumes "serve be s len p d = (y, d')" and "\<not> null_timeout p" and "len [] = 0"
  obtains (refused) "d' = d" | (created) i r z where "post_request p = Some r" "request_ok r" "create_job i be s r d = (z, d')"
proof -
  have "d' = d \<or> (\<exists>i r z. post_request p = Some r \<and> request_ok r \<and> create_job i be s r d = (z, d'))"
  proof (cases p)
    case (Post_go b)
    show ?thesis
    proof (cases "\<exists>dto. b = Some dto \<and> go_binding dto \<and> list_all go_valid_filename (gi_input_files dto)")
      case True
      then obtain dto where dto: "b = Some dto" "go_binding dto" "list_all go_valid_filename (gi_input_files dto)" by blast
      obtain x d1 where run: "go_create_job be s dto d = (x, d1)" by fastforce
      with dto assms(1) Post_go have "d' = d1" by (cases x) (auto simp: go_create_def bindE_def ret_def)
      moreover have "\<exists>z. create_job Go be s (go_request dto) d = (z, d1)"
        using run go_create_job_request [of be s dto] by (cases x) (simp_all add: create_job_def bindE_def ret_def)
      ultimately show ?thesis using dto Post_go go_request_ok by fastforce
    qed (use assms(1) Post_go in \<open>auto simp: go_create_def bindE_def ret_def split: option.splits if_splits\<close>)
  next
    case (Post_py b)
    show ?thesis
    proof (cases "\<exists>r. b = Inr r \<and> py_valid_request r")
      case True
      then obtain r where r: "b = Inr r" "py_valid_request r" by blast
      obtain x d1 where run: "py_create_job be s r d = (x, d1)" by fastforce
      with r assms(1) Post_py have "d' = d1" by (cases x) (auto simp: py_create_def bindE_def ret_def)
      moreover have "\<exists>z. create_job Python be s r d = (z, d1)" using run by (cases x) (simp_all add: create_job_def bindE_def ret_def)
      ultimately show ?thesis using r Post_py py_request_ok by fastforce
    qed (use assms(1) Post_py in \<open>auto simp: py_create_def bindE_def ret_def split: sum.splits if_splits\<close>)
  next
    case (Post_js problem b)
    show ?thesis
    proof (cases "\<exists>dto. b = Some dto \<and> js_valid_dto len dto")
      case True
      then obtain dto where dto: "b = Some dto" "js_valid_dto len dto" by blast
      with assms(2) Post_js have nn: "jd_timeout_sec dto \<noteq> Null" by simp
      obtain x d1 where run: "js_create_job be s dto d = (x, d1)" by fastforce
      with dto assms(1) Post_js have "d' = d1" by (cases x) (auto simp: js_create_def bindE_def ret_def)
      moreover have "\<exists>z. create_job Js be s (js_request dto) d = (z, d1)"
        using run js_create_job_request [OF nn, of be s] by (cases x) (simp_all add: create_job_def bindE_def ret_def)
      ultimately show ?thesis using dto Post_js js_request_ok [OF dto(2) assms(3)] by fastforce
    qed (use assms(1) Post_js in \<open>auto simp: js_create_def bindE_def ret_def split: option.splits if_splits\<close>)
  qed
  with that show thesis by blast
qed

section \<open>The system\<close>

record ('r, 'e, 'a) plant =
  counter :: "'a desk"
  workshop :: "('r, 'e) world"
  queue :: "string list"

fun sent_body :: "entry \<Rightarrow> string list" where
  "sent_body (Message_sent body gid) = [body]"
| "sent_body _ = []"

fun retry_body :: "event \<Rightarrow> string list" where
  "retry_body (Sqs_sent body gid dedup) = [body]"
| "retry_body _ = []"

lemma sent_body_iff: "body \<in> set (sent_body e) \<longleftrightarrow> (\<exists>gid. e = Message_sent body gid)"
  by (cases e) auto

lemma retry_body_iff: "body \<in> set (retry_body e) \<longleftrightarrow> (\<exists>gid dedup. e = Sqs_sent body gid dedup)"
  by (cases e) auto

definition new_entries :: "'a desk \<Rightarrow> 'a desk \<Rightarrow> entry list" where
  "new_entries d d' = drop (length (journal d)) (journal d')"

text \<open>
  A message counts as in the queue when an interface or the worker has tried to send it, whatever the answer. The
  queue may give a message out again (\<open>again\<close>), in any order.
\<close>

inductive plant_step ::
  "'a backend \<Rightarrow> job_service \<Rightarrow> (string \<Rightarrow> nat) \<Rightarrow> ('r, 'e) services \<Rightarrow> worker \<Rightarrow> ('r, 'e, 'a) plant \<Rightarrow> ('r, 'e, 'a) plant \<Rightarrow> bool"
  for be s len sv wk where
  post: "serve be s len p (counter x) = (y, d') \<Longrightarrow> good_post p \<Longrightarrow>
    plant_step be s len sv wk x (x\<lparr>counter := d', queue := queue x @ concat (map sent_body (new_entries (counter x) d'))\<rparr>)"
| deliver: "body \<in> set (queue x) \<Longrightarrow> handle_message sv wk body (workshop x) = (y, w') \<Longrightarrow>
    plant_step be s len sv wk x (x\<lparr>workshop := w',
      queue := (if again then queue x else remove1 body (queue x)) @ concat (map retry_body (new_events (workshop x) w'))\<rparr>)"
| outside: "plant_step be s len sv wk x (x\<lparr>counter := d', workshop := w'\<rparr>)"

inductive plant_run ::
  "'a backend \<Rightarrow> job_service \<Rightarrow> (string \<Rightarrow> nat) \<Rightarrow> ('r, 'e) services \<Rightarrow> worker \<Rightarrow> ('r, 'e, 'a) plant \<Rightarrow> bool"
  for be s len sv wk where
  first: "queue x = [] \<Longrightarrow> plant_run be s len sv wk x"
| step: "plant_run be s len sv wk x \<Longrightarrow> plant_step be s len sv wk x x' \<Longrightarrow> plant_run be s len sv wk x'"

text \<open>A message that goes back to a client's request.\<close>

definition posted :: "'a backend \<Rightarrow> ('r, 'e) services \<Rightarrow> string \<Rightarrow> jobject \<Rightarrow> request \<Rightarrow> string \<Rightarrow> py_request \<Rightarrow> bool" where
  "posted be sv body message q job_id r \<longleftrightarrow> uuid_form job_id \<and> request_ok r \<and> request_utf8 r \<and>
     accepted sv body message q \<and> same_request (contract_request (be_bucket be) job_id r) q"

lemma list_all2_member: "list_all2 P xs ys \<Longrightarrow> y \<in> set ys \<Longrightarrow> \<exists>x \<in> set xs. P x y"
  by (induction rule: list_all2_induct) auto

lemma c_str_job_prefix:
  assumes "is_valid_job_id job_id"
  shows "c_str (input_key job_id f) = input_key job_id (c_str f)"
    and "c_str ((''jobs/'' @ job_id @ ''/outputs/'') @ f) = ''jobs/'' @ job_id @ ''/outputs/'' @ c_str f"
proof -
  have "c_str (s @ f) = s @ c_str f" if "CHR 0x00 \<notin> set s" for s
    using that unfolding c_str_def by (subst takeWhile_append2) auto
  note this [of "''jobs/'' @ job_id @ ''/inputs/''"] this [of "''jobs/'' @ job_id @ ''/outputs/''"]
  moreover have "CHR 0x00 \<notin> set job_id"
    using assms by (auto simp: is_valid_job_id_def list_all_iff job_id_char_def is_digit_def split: if_splits)
  ultimately show "c_str (input_key job_id f) = input_key job_id (c_str f)"
    "c_str ((''jobs/'' @ job_id @ ''/outputs/'') @ f) = ''jobs/'' @ job_id @ ''/outputs/'' @ c_str f"
    by (simp_all add: input_key_def)
qed

section \<open>What the system relies on\<close>

locale job_system = json_toolkit sv
  for sv :: "('r, 'e) services" +
  fixes be :: "'a backend" and len :: "string \<Rightarrow> nat"
  assumes front_codec: "json_codec (json_parse sv) (be_marshal be)"
    and new_uuid: "uuid_form (fst (be_new_uuid be b))"
    and bucket_set: "be_bucket be \<noteq> []"
    and bucket_utf8: "utf8_valid (be_bucket be)"
    and len_Nil: "len [] = 0"
begin

lemma post_sends:
  assumes "serve be s len p d = (y, d')" and "good_post p" and "body \<in> set (concat (map sent_body (new_entries d d')))"
  shows "\<exists>message q job_id r. posted be sv body message q job_id r"
  using assms(1) assms(2) [unfolded good_post_def, THEN conjunct1] len_Nil
proof (cases rule: serve_cases)
  case refused
  with assms(3) show ?thesis by (simp add: new_entries_def)
next
  case (created i r z)
  note t = request_ok_facts(2) [OF created(2)]
  let ?id = "fst (be_new_uuid be (behind d))"
  have "create_job Python be s r d = (z, d')" using created(3) create_job_cases(1) [OF t, of i] by metis
  from create_job_cases(2) [OF t this] obtain es where es: "journal d' = journal d @ es"
    "\<And>b g. Message_sent b g \<in> set es \<Longrightarrow> contract_body be ?id r b" by blast
  from assms(3) es(1) obtain e where "e \<in> set es" "body \<in> set (sent_body e)" by (auto simp: new_entries_def)
  with es(2) have "contract_body be ?id r body" by (metis sent_body_iff)
  then obtain now where now: "ascii now" "body = be_marshal be (JObject (contract_message ?id r
      (map (contract_download (be_bucket be) ?id) (pr_input_files r)) now))" unfolding contract_body_def by blast
  have utf8: "request_utf8 r" using assms(2) created(1) by (simp add: good_post_def)
  show ?thesis
    using now(2) created(2) utf8 new_uuid same_request_refl
      contract_message_accepted [OF front_codec created(2) utf8 uuid_form_job_id(1) [OF new_uuid] bucket_utf8 bucket_set now(1)]
    unfolding posted_def by blast
qed

lemma delivery_sends:
  assumes "posted be sv body message q job_id r" and "handle_message sv wk body w = (y, w')"
    and "body' \<in> set (concat (map retry_body (new_events w w')))"
  shows "\<exists>message' q'. posted be sv body' message' q' job_id r"
proof -
  from assms(3) obtain e where "e \<in> set (new_events w w')" "body' \<in> set (retry_body e)" by auto
  then obtain gid dedup where sent: "Sqs_sent body' gid dedup \<in> set (new_events w w')" by (metis retry_body_iff)
  from assms(1) have acc: "accepted sv body message q" by (simp add: posted_def)
  from sent_is_retry [OF acc assms(2) sent] obtain n where "retry_call sv wk message (req_job q) n body' gid dedup" .
  from retry_delivered [OF json_toolkit_axioms acc this] assms(1) show ?thesis
    unfolding posted_def using same_request_trans by metis
qed

theorem queue_posted:
  assumes "plant_run be s len sv wk x" and "body \<in> set (queue x)"
  shows "\<exists>message q job_id r. posted be sv body message q job_id r"
  using assms
proof (induction arbitrary: body rule: plant_run.induct)
  case (step x x')
  from step.hyps(2) step.prems show ?case
  proof cases
    case (post p y d')
    from post(1) step.prems have "body \<in> set (queue x) \<or> body \<in> set (concat (map sent_body (new_entries (counter x) d')))" by simp
    with step.IH post_sends [OF post(2,3)] show ?thesis by blast
  next
    case (deliver body1 y w' again)
    from step.IH [OF deliver(2)] obtain message q job_id r where p: "posted be sv body1 message q job_id r" by blast
    from step.prems deliver(1) have "body \<in> set (queue x) \<or> body \<in> set (concat (map retry_body (new_events (workshop x) w')))"
      using notin_set_remove1 by (fastforce split: if_splits)
    with step.IH delivery_sends [OF p deliver(3)] show ?thesis by blast
  next
    case outside
    with step.prems step.IH show ?thesis by simp
  qed
qed simp

text \<open>Where the transfers of a delivery go.\<close>

lemma posted_event:
  assumes "posted be sv body message q job_id r" and "handle_message sv wk body w = (y, w')" and "e \<in> set (new_events w w')"
  shows "job_event sv wk message q e"
  using behaves_new_events [OF handle_message_behaves assms(2)] assms(1,3) by (auto simp: posted_def accepted_def list_all_iff)

lemma posted_downloads:
  assumes p: "posted be sv body message q job_id r" and run: "handle_message sv wk body w = (y, w')"
    and ev: "S3_downloaded bucket key path \<in> set (new_events w w')"
  shows "bucket = c_str (be_bucket be) \<and> (\<exists>f \<in> set (pr_input_files r). key = input_key job_id (c_str f))"
proof -
  from posted_event [OF p run ev] obtain entry where e: "JObject entry \<in> set (req_downloads q)"
    "at_string entry ''bucket'' = Return bucket" "at_string entry ''key'' = Return key" unfolding job_event.simps by blast
  have "list_all2 same_json (map (contract_download (be_bucket be) job_id) (pr_input_files r)) (req_downloads q)"
    using p by (simp add: posted_def same_request_def contract_request_def)
  from list_all2_member [OF this e(1)] obtain f where
    f: "f \<in> set (pr_input_files r)" "same_json (contract_download (be_bucket be) job_id f) (JObject entry)" unfolding set_map by blast
  have "no_doubles (contract_download (be_bucket be) job_id f)" by (simp add: contract_download_def)
  from forget_doubles_exact [OF this] f(2) have "JObject entry = contract_download (be_bucket be) job_id f"
    unfolding same_json_def by metis
  then have "entry = [(''bucket'', JString (be_bucket be)), (''key'', JString (input_key job_id f)), (''method'', JString ''GET'')]"
    by (simp add: contract_download_def)
  then have "bucket = c_str (be_bucket be)" "key = c_str (input_key job_id f)"
    using e(2,3) by (simp_all add: at_string_def obj_at_def obj_find_def)
  moreover have "is_valid_job_id job_id" using p uuid_form_job_id(1) unfolding posted_def by blast
  ultimately show ?thesis using c_str_job_prefix(1) f(1) by blast
qed

lemma posted_uploads:
  assumes p: "posted be sv body message q job_id r" and run: "handle_message sv wk body w = (y, w')"
    and ev: "S3_uploaded bucket key path \<in> set (new_events w w')"
  shows "\<exists>name. CHR ''/'' \<notin> set name \<and> key = ''jobs/'' @ job_id @ ''/outputs/'' @ name"
proof -
  from posted_event [OF p run ev] obtain name where name: "path_component name" "key = c_str (req_prefix q @ name)"
    unfolding job_event.simps by blast
  have pre: "req_prefix q = ''jobs/'' @ job_id @ ''/outputs/''" using p by (simp add: posted_def same_request_def contract_request_def)
  have "is_valid_job_id job_id" using p uuid_form_job_id(1) unfolding posted_def by blast
  from c_str_job_prefix(2) [OF this, of name] name(2) pre have "key = ''jobs/'' @ job_id @ ''/outputs/'' @ c_str name" by (simp only:)
  moreover have "CHR ''/'' \<notin> set (c_str name)" using name(1) by (auto simp: path_component_def c_str_def dest: set_takeWhileD)
  ultimately show ?thesis by (intro exI [of _ "c_str name"] conjI)
qed

end

interpretation ref_system: job_system "ref_services code" sample_back length for code
  using ref_services_toolkit [of code] sample_facts(1,4,5) ref_codec.json_codec_axioms
  by (simp add: job_system_def job_system_axioms_def sample_back_def)

section \<open>A run\<close>

definition sample_plant :: "(string \<rightharpoonup> string, unit, unit) plant" where
  "sample_plant = \<lparr>counter = sample_desk, workshop = ref_world, queue = []\<rparr>"

lemma sample_posts:
  "\<exists>x body. plant_run sample_back sample_service length (ref_services code) ref_worker x \<and> body \<in> set (queue x)"
proof -
  obtain d where run: "create_job Python sample_back sample_service sample_job sample_desk = (Return (Some sample_created), d)"
    using sample_runs by blast
  have t: "pr_timeout_sec sample_job \<noteq> Some 0" by (simp add: sample_job_def)
  from create_job_cases(3) [OF t run] obtain es b where j: "journal d = es @ [Message_sent b (js_group_id sample_service)]"
    by (metis append.assoc append_Cons append_Nil)
  have valid: "py_valid_request sample_job"
    by (simp add: sample_job_def py_valid_request_def py_valid_filename_def char_count_def has_separator_def)
  have "\<exists>y. serve sample_back sample_service length (Post_py (Inr sample_job)) sample_desk = (y, d)"
    using run valid
    by (auto simp: create_job_def py_create_def bindE_def ret_def split: prod.splits outcome.splits)
  then obtain y where "serve sample_back sample_service length (Post_py (Inr sample_job)) (counter sample_plant) = (y, d)"
    by (auto simp: sample_plant_def)
  moreover have "good_post (Post_py (Inr sample_job))" using sample_facts(3) by (simp add: good_post_def)
  moreover have "plant_run sample_back sample_service length (ref_services code) ref_worker sample_plant"
    by (rule plant_run.first) (simp add: sample_plant_def)
  ultimately have "plant_run sample_back sample_service length (ref_services code) ref_worker
    (sample_plant\<lparr>counter := d, queue := queue sample_plant @ concat (map sent_body (new_entries (counter sample_plant) d))\<rparr>)"
    by (blast intro: plant_run.step plant_step.post)
  then show ?thesis using j by (fastforce simp: sample_plant_def new_entries_def sample_desk_def)
qed

section \<open>Properties\<close>





end
