(* ===== verification/Job_Journey.thy ===== *)
theory Job_Journey
  imports Job_System
begin

text \<open>
  A job as its client sees it: posted to one interface, looked up at any other, before and after the worker has
  handled it. What an interface relies on in its store is the locale \<open>back_store\<close>.
\<close>

section \<open>The store of the interfaces\<close>

text \<open>\<open>shown\<close> is the text a key holds, \<open>ready\<close> that the store answers. Only a write changes what is held.\<close>

locale back_store =
  fixes be :: "'a backend"
    and shown :: "'a \<Rightarrow> string \<Rightarrow> string option"
    and ready :: "'a \<Rightarrow> bool"
  assumes uuid_shown: "shown (snd (be_new_uuid be b)) = shown b"
    and now_shown: "shown (snd (be_now be b)) = shown b"
    and presign_shown: "shown (snd (be_presign_put be k ttl b)) = shown b"
    and enqueue_shown: "shown (snd (be_enqueue be body gid b)) = shown b"
    and set_shown: "be_set be k v ttl b = (Inr (), b') \<Longrightarrow> shown b' = (shown b)(k \<mapsto> v)"
    and get_ready: "ready b \<Longrightarrow> fst (be_get be k b) = Inr (shown b k)"

text \<open>The status route of an interface: the HTTP status, and the status of the job in the document it returns.\<close>

definition document_status :: "json \<Rightarrow> string option" where
  "document_status v = (case v of JObject members \<Rightarrow> get_string members ''status'' | _ \<Rightarrow> None)"

fun seen :: "('d \<Rightarrow> string option) \<Rightarrow> 'd response \<Rightarrow> int \<times> string option" where
  "seen f (Success code d) = (code, f d)"
| "seen f (Failure code error message) = (code, None)"

definition status_route ::
  "implementation \<Rightarrow> 'a backend \<Rightarrow> (string \<Rightarrow> bool) \<Rightarrow> string \<Rightarrow> ('a desk, int \<times> string option) comp" where
  "status_route i be parses job_id =
     (case i of
        Go \<Rightarrow> bindE (go_get be parses job_id) (\<lambda>x.
          ret (seen (\<lambda>t. case be_unmarshal be t of None \<Rightarrow> None | Some v \<Rightarrow> document_status v) x))
      | Python \<Rightarrow> bindE (py_get be job_id) (\<lambda>x. ret (seen document_status x))
      | Js \<Rightarrow> bindE (js_get be job_id) (\<lambda>x. ret (seen document_status x)))"

context back_store
begin

lemma inputs_shown: "py_inputs be s job_id files us ds d = (y, d') \<Longrightarrow> shown (behind d') = shown (behind d)"
proof (induction files arbitrary: us ds d)
  case (Cons f files)
  let ?key = "''jobs/'' @ job_id @ ''/inputs/'' @ f"
  obtain p b where p: "be_presign_put be ?key (js_presign_ttl s) (behind d) = (p, b)" by fastforce
  with presign_shown [of ?key "js_presign_ttl s" "behind d"] have b: "shown b = shown (behind d)" by simp
  show ?case
  proof (cases p)
    case (Inl e)
    with Cons.prems p b show ?thesis by (auto simp: desk_steps Let_def)
  next
    case (Inr url)
    with Cons.prems p have "py_inputs be s job_id files (us @ [\<lparr>up_filename = f, up_url = url, up_method = ''PUT''\<rparr>])
        (ds @ [py_download (be_bucket be) ?key]) (d\<lparr>journal := journal d @ [Presigned ?key], behind := b\<rparr>) = (y, d')"
      by (simp add: desk_steps Let_def)
    from Cons.IH [OF this] b show ?thesis by simp
  qed
qed (simp add: ret_def)

lemma created_shown:
  assumes "create_job Python be s r d = (Return (Some res), d')"
  shows "\<exists>t. shown (behind d') (cr_job_id res) = Some (be_marshal be (JObject (contract_status (cr_job_id res) r (utc_timestamp t))))"
proof -
  obtain job_id b where u: "be_new_uuid be (behind d) = (job_id, b)" by fastforce
  obtain t b' where t: "be_now be b = (t, b')" by fastforce
  obtain x d1 where inputs: "py_inputs be s job_id (pr_input_files r) [] [] (d\<lparr>behind := b'\<rparr>) = (x, d1)" by fastforce
  let ?text = "be_marshal be (JObject (contract_status job_id r (utc_timestamp t)))"
  have "shown (behind d') job_id = Some ?text \<and> cr_job_id res = job_id"
    using assms u t inputs set_shown [of job_id ?text "js_status_ttl s" "behind d1"] enqueue_shown
    by (auto simp: create_job_def py_create_job_def desk_steps Let_def statuses_agree split: prod.splits sum.splits outcome.splits)
      (metis fun_upd_same snd_conv)+
  then show ?thesis by blast
qed

lemma route_reads:
  assumes "ready (behind d)" and "looks_up i parses job_id" and "shown (behind d) job_id = Some content"
    and "be_unmarshal be content = Some v"
  shows "fst (status_route i be parses job_id d) = Return (200, document_status v)"
proof -
  obtain b where "be_get be job_id (behind d) = (Inr (Some content), b)"
    using get_ready [OF assms(1), of job_id] assms(3) by (cases "be_get be job_id (behind d)") simp
  with assms(2,4) show ?thesis
    by (cases i)
      (simp_all add: status_route_def looks_up_def go_get_def go_get_job_def py_get_def py_get_job_def py_loads_def py_respond_def
        py_job_id_pattern_def js_get_def js_get_job_def js_parse_def js_respond_def js_is_job_id_def uuid_form_def desk_steps)
qed

end

section \<open>A back end with a store\<close>

definition store_back :: "(string \<rightharpoonup> string) backend" where
  "store_back = \<lparr>be_marshal = print_json, be_unmarshal = (\<lambda>s. case parse_json s of Inl e \<Rightarrow> None | Inr v \<Rightarrow> Some v),
     be_bucket = ''b'', be_presign_put = (\<lambda>k t m. (Inr (''http://s3/'' @ k), m)), be_enqueue = (\<lambda>b g m. (Inr (), m)),
     be_set = (\<lambda>k v t m. (Inr (), m(k \<mapsto> v))), be_get = (\<lambda>k m. (Inr (m k), m)),
     be_new_uuid = (\<lambda>m. (''0f8fad5b-d9cd-469f-a165-70867728950e'', m)), be_now = (\<lambda>m. (0, m))\<rparr>"

definition store_desk :: "(string \<rightharpoonup> string) desk" where
  "store_desk = \<lparr>behind = Map.empty, journal = []\<rparr>"

interpretation store: back_store store_back "\<lambda>m. m" "\<lambda>_. True"
  by unfold_locales (auto simp: store_back_def)

interpretation store_system: job_system "ref_services code" store_back length for code
  using ref_services_toolkit [of code] ref_codec.json_codec_axioms sample_facts(1,4)
  by (simp add: job_system_def job_system_axioms_def store_back_def sample_back_def)

lemma store_reads: "json_parse (ref_services code) t = Inr v \<Longrightarrow> be_unmarshal store_back t = Some v"
  by (simp add: store_back_def)

lemma store_runs: "\<exists>d. create_job Go store_back sample_service sample_job store_desk = (Return (Some sample_created), d)"
proof -
  have t: "pr_timeout_sec sample_job \<noteq> Some 0" by (simp add: sample_job_def)
  have "\<exists>d. create_job Python store_back sample_service sample_job store_desk = (Return (Some sample_created), d)"
    by (simp add: create_job_def py_create_job_def desk_steps store_back_def sample_job_def store_desk_def sample_created_def Let_def)
  with create_job_cases(1) [OF t, of Go] show ?thesis by metis
qed

lemma store_sends:
  assumes "create_job Go store_back sample_service sample_job store_desk = (Return (Some sample_created), d)"
  shows "\<exists>body message. Message_sent body ''jobs'' \<in> set (new_entries store_desk d) \<and>
    accepted (ref_services code) body message (contract_request ''b'' (cr_job_id sample_created) sample_job)"
proof -
  have t: "pr_timeout_sec sample_job \<noteq> Some 0" by (simp add: sample_job_def)
  have b: "be_bucket store_back = ''b''" "js_group_id sample_service = ''jobs''" by (simp_all add: store_back_def sample_service_def)
  have "create_job Python store_back sample_service sample_job store_desk = (Return (Some sample_created), d)"
    using assms create_job_cases(1) [OF t, of Go] by metis
  from create_job_cases(3) [OF t this] obtain now es e where id: "cr_job_id sample_created = fst (be_new_uuid store_back (behind store_desk))"
    and now: "ascii now" and j: "journal d = journal store_desk @ es @ [e, Message_sent (be_marshal store_back (JObject
      (contract_message (cr_job_id sample_created) sample_job
        (map (contract_download (be_bucket store_back) (cr_job_id sample_created)) (pr_input_files sample_job)) now))) ''jobs'']"
    unfolding b(2) by blast
  have valid: "is_valid_job_id (cr_job_id sample_created)"
    unfolding id using uuid_form_job_id(1) [OF store_system.new_uuid] .
  from contract_message_accepted [OF store_system.front_codec sample_facts(2,3) valid store_system.bucket_utf8 store_system.bucket_set now] j
  show ?thesis unfolding new_entries_def b(1) by fastforce
qed

text \<open>A worker without tasks, for which every request fails at once.\<close>

definition idle_worker :: worker where
  "idle_worker = ref_worker\<lparr>task_executor := \<lparr>whitelist = [], root_path = ''/app'', default_timeout_sec = 30\<rparr>\<rparr>"

lemma idle_fails:
  assumes "accepted (ref_services 0) body message q" and "ascii (req_name q)"
  shows "\<exists>w' e us. handle_message (ref_services 0) idle_worker body ref_world = (Return (Inr ()), w') \<and>
    new_events ref_world w' = [e] \<and> stores (ref_services 0) idle_worker (req_job q) ''failed'' us e \<and> good_updates us"
proof -
  let ?reason = "''task ['' @ req_name q @ ''] is not registered in the whitelist''"
  let ?us = "obj_set ''failure_reason'' (JString ?reason) (contract_fields message)"
  from assms(1) have "json_doc_ok (JObject message)"
    using ref_codec.parse_ok [of body "JObject message"] by (simp add: accepted_def)
  moreover have "utf8_valid ?reason" using assms(2) by (intro utf8_valid_ascii) simp
  ultimately have "good_updates ?us" by (intro good_updates_set good_updates_contract) (simp_all add: utf8_valid_ascii)
  moreover have "find_task (task_executor idle_worker) (req_name q) = None" by (simp add: idle_worker_def find_task_def)
  moreover have "redis_get (ref_services 0) (req_job q) (redis ref_world) = (Inl ''nil'', redis ref_world)" by (simp add: ref_world_def)
  ultimately show ?thesis using unregistered_events [OF assms(1)] by blast
qed

section \<open>Properties\<close>

text \<open>
  C17. A created job can be looked up at once, at any interface. After one interface has answered a create request, the
  status route of each of the three answers 200 with a document that says \<open>queued\<close>, as long as the
  key of the job still holds what was written and the store answers.
\<close>

theorem created_job_queued:
  assumes "job_system sv be len" and "back_store be shown ready"
    and "\<And>t v. json_parse sv t = Inr v \<Longrightarrow> be_unmarshal be t = Some v" and "\<And>k. uuid_form k \<Longrightarrow> parses k"
    and "create_job i be s r d = (Return (Some res), d')" and "request_ok r" and "request_utf8 r"
    and "ready (behind d1)" and "shown (behind d1) (cr_job_id res) = shown (behind d') (cr_job_id res)"
  shows "fst (status_route j be parses (cr_job_id res) d1) = Return (200, Some ''queued'')"
proof -
  note t = request_ok_facts(2) [OF assms(6)]
  have run: "create_job Python be s r d = (Return (Some res), d')" using assms(5) create_job_cases(1) [OF t, of i] by metis
  from create_job_cases(3) [OF t run] job_system.new_uuid [OF assms(1)] have id: "uuid_form (cr_job_id res)" by metis
  from back_store.created_shown [OF assms(2) run] obtain n where
    shown: "shown (behind d1) (cr_job_id res) = Some (be_marshal be (JObject (contract_status (cr_job_id res) r (utc_timestamp n))))"
    using assms(9) by metis
  have "json_parse sv (be_marshal be (JObject (contract_status (cr_job_id res) r (utc_timestamp n)))) =
      Inr (JObject (contract_status (cr_job_id res) r (utc_timestamp n)))"
    using contract_status_read [OF job_system.front_codec [OF assms(1)] assms(7) uuid_form_job_id(1) [OF id] ascii_utc_timestamp] .
  from back_store.route_reads [OF assms(2,8) _ shown assms(3) [OF this], of j parses] id assms(4) show ?thesis
    by (cases j) (simp_all add: looks_up_def document_status_def contract_status_def get_string_def obj_find_def)
qed

theorem created_job_queued_witness:
  "\<exists>d. create_job Go store_back sample_service sample_job store_desk = (Return (Some sample_created), d) \<and>
     fst (status_route Js store_back uuid_form (cr_job_id sample_created) d) = Return (200, Some ''queued'')"
proof -
  obtain d where run: "create_job Go store_back sample_service sample_job store_desk = (Return (Some sample_created), d)"
    using store_runs by blast
  have "fst (status_route Js store_back uuid_form (cr_job_id sample_created) d) = Return (200, Some ''queued'')"
    by (rule created_job_queued [OF store_system.job_system_axioms store.back_store_axioms store_reads _ run sample_facts(2,3)]) simp_all
  with run show ?thesis by blast
qed

text \<open>
  C13. What the worker writes is what clients see. An interface creates a job and sends its message; the worker handles it, in
  whatever state of the world in which Redis answers; afterwards the status route of every interface
  on the same Redis answers 200 with the status the worker wrote last.
\<close>

theorem worker_status_served:
  assumes "job_system sv be len" and "back_store be shown ready" and "redis_store sv view up"
    and "\<And>t v. json_parse sv t = Inr v \<Longrightarrow> be_unmarshal be t = Some v" and "\<And>k. uuid_form k \<Longrightarrow> parses k"
    and "create_job i be s r d = (Return (Some res), d')" and "request_ok r" and "request_utf8 r"
    and "Message_sent body gid \<in> set (new_entries d d')" and "up (redis w)" and "handle_message sv wk body w = (y, w')"
    and "new_events w w' = es @ [e]" and "stores sv wk (cr_job_id res) status us e" and "utf8_valid status" and "good_updates us"
    and "ready (behind d1)" and "shown (behind d1) = view (redis w')"
  shows "fst (status_route j be parses (cr_job_id res) d1) = Return (200, Some status)"
proof -
  note t = request_ok_facts(2) [OF assms(7)] and codec = job_system.front_codec [OF assms(1)]
  let ?id = "cr_job_id res"
  have run: "create_job Python be s r d = (Return (Some res), d')" using assms(6) create_job_cases(1) [OF t, of i] by metis
  from create_job_cases(3) [OF t run] have res: "?id = fst (be_new_uuid be (behind d))" by blast
  with job_system.new_uuid [OF assms(1)] have id: "uuid_form ?id" by metis
  from create_job_cases(2) [OF t run] obtain es' where "journal d' = journal d @ es'"
    "\<And>b g. Message_sent b g \<in> set es' \<Longrightarrow> contract_body be ?id r b" unfolding res by blast
  with assms(9) have "contract_body be ?id r body" by (simp add: new_entries_def)
  then obtain message where "accepted sv body message (contract_request (be_bucket be) ?id r)"
    using contract_message_accepted [OF codec assms(7,8) uuid_form_job_id(1) [OF id]] job_system.bucket_utf8 [OF assms(1)]
      job_system.bucket_set [OF assms(1)] unfolding contract_body_def by blast
  from redis_store.handled_status [OF assms(3,10) this assms(11,12) _ assms(14,15)] assms(13)
  have "status_in sv (view (redis w')) ?id = Some status" by (simp add: contract_request_def)
  then obtain content document where c: "view (redis w') ?id = Some content" "json_parse sv content = Inr (JObject document)"
    "get_string document ''status'' = Some status"
    by (auto simp: status_in_def split: option.splits sum.splits json.splits)
  have "shown (behind d1) ?id = Some content" using c(1) assms(17) by simp
  from back_store.route_reads [OF assms(2,16) _ this assms(4) [OF c(2)], of j parses] id assms(5) c(3) show ?thesis
    by (cases j) (simp_all add: looks_up_def document_status_def)
qed

theorem worker_status_served_witness:
  "\<exists>d body w'. create_job Go store_back sample_service sample_job store_desk = (Return (Some sample_created), d) \<and>
     Message_sent body ''jobs'' \<in> set (new_entries store_desk d) \<and>
     handle_message (ref_services 0) idle_worker body ref_world = (Return (Inr ()), w') \<and>
     fst (status_route Python store_back uuid_form (cr_job_id sample_created) (d\<lparr>behind := redis w'\<rparr>)) = Return (200, Some ''failed'')"
proof -
  obtain d where run: "create_job Go store_back sample_service sample_job store_desk = (Return (Some sample_created), d)"
    using store_runs by blast
  from store_sends [OF this] obtain body message where sent: "Message_sent body ''jobs'' \<in> set (new_entries store_desk d)"
    and acc: "accepted (ref_services 0) body message (contract_request ''b'' (cr_job_id sample_created) sample_job)" by blast
  have name: "ascii (req_name (contract_request ''b'' (cr_job_id sample_created) sample_job))"
    by (simp add: contract_request_def sample_job_def c_str_def)
  from idle_fails [OF acc name] obtain w' e us where fails: "handle_message (ref_services 0) idle_worker body ref_world = (Return (Inr ()), w')"
    "new_events ref_world w' = [] @ [e]" "stores (ref_services 0) idle_worker (cr_job_id sample_created) ''failed'' us e" "good_updates us"
    by (auto simp: contract_request_def)
  have utf8: "utf8_valid ''failed''" by (rule utf8_valid_ascii) (simp add: ascii_def)
  have "fst (status_route Python store_back uuid_form (cr_job_id sample_created) (d\<lparr>behind := redis w'\<rparr>)) = Return (200, Some ''failed'')"
    by (rule worker_status_served [OF store_system.job_system_axioms store.back_store_axioms ref_board.redis_store_axioms store_reads _
          run sample_facts(2,3) sent TrueI fails(1-3) utf8 fails(4)]) simp_all
  with run sent fails(1) show ?thesis by blast
qed

end
