(* ===== verification/Interface_Settings.thy ===== *)
theory Interface_Settings
  imports Interface_World
begin

text \<open>
  The settings of the interfaces: \<^verbatim>\<open>golang/internal/config/config.go\<close>, \<^verbatim>\<open>python/src/app/core/config.py\<close> and
  \<^verbatim>\<open>js/src/config/configuration.ts\<close> below \<^verbatim>\<open>src/Interface\<close>. The environment is a function from names to texts;
  a setting that is read as text falls back to a default, and the required ones are checked before anything starts.
\<close>

section \<open>Reading the environment\<close>

type_synonym environment = "string \<Rightarrow> string option"

definition os_getenv :: "environment \<Rightarrow> string \<Rightarrow> string" where
  "os_getenv env key = (case env key of None \<Rightarrow> [] | Some v \<Rightarrow> v)"

definition get_env :: "environment \<Rightarrow> string \<Rightarrow> string \<Rightarrow> string" where
  "get_env env key fallback = (let v = os_getenv env key in if v \<noteq> [] then v else fallback)"

text \<open>Go's \<^verbatim>\<open>strconv.Atoi\<close>: an optional sign and decimal digits, in the range of a 64-bit integer.\<close>

definition atoi :: "string \<Rightarrow> int option" where
  "atoi s =
     (let (negative, digits) = (case s of [] \<Rightarrow> (False, [])
             | c # r \<Rightarrow> if c = CHR ''-'' then (True, r) else if c = CHR ''+'' then (False, r) else (False, s));
          i = (if negative then - int (read_nat digits) else int (read_nat digits))
      in if digits = [] \<or> \<not> list_all is_digit digits then None
         else if - (2 ^ 63) \<le> i \<and> i < 2 ^ 63 then Some i else None)"

text \<open>An integer setting; the error is the name of the variable that does not parse.\<close>

definition get_int :: "environment \<Rightarrow> string \<Rightarrow> int \<Rightarrow> string + int" where
  "get_int env key fallback =
     (let v = os_getenv env key
      in if v = [] then Inr fallback
         else case atoi v of None \<Rightarrow> Inl key | Some i \<Rightarrow> Inr i)"

section \<open>Settings\<close>

record settings =
  st_http_addr :: string
  st_aws_region :: string
  st_aws_endpoint_url :: string
  st_bucket :: string
  st_queue_url :: string
  st_group_id :: string
  st_redis_password :: string
  st_log_level :: string

text \<open>The text settings of Go. The Redis address is one text, or made of host and port.\<close>

definition go_settings :: "environment \<Rightarrow> settings" where
  "go_settings env = \<lparr>st_http_addr = get_env env ''HTTP_ADDR'' '':8080'',
     st_aws_region = get_env env ''AWS_REGION'' ''us-east-1'',
     st_aws_endpoint_url = os_getenv env ''AWS_ENDPOINT_URL'',
     st_bucket = get_env env ''S3_BUCKET'' ''taskforge-jobs'',
     st_queue_url = os_getenv env ''SQS_REQUEST_QUEUE_URL'',
     st_group_id = get_env env ''SQS_MESSAGE_GROUP_ID'' ''request'',
     st_redis_password = os_getenv env ''REDIS_PASSWORD'',
     st_log_level = get_env env ''LOG_LEVEL'' ''info''\<rparr>"

definition go_redis_addr :: "environment \<Rightarrow> string" where
  "go_redis_addr env =
     (let addr = os_getenv env ''REDIS_ADDR''
      in if addr = [] then get_env env ''REDIS_HOST'' ''127.0.0.1'' @ '':'' @ get_env env ''REDIS_PORT'' ''6379'' else addr)"

definition nullish :: "string option \<Rightarrow> string \<Rightarrow> string" where
  "nullish v fallback = (case v of None \<Rightarrow> fallback | Some s \<Rightarrow> s)"

definition go_validate :: "string \<Rightarrow> string \<Rightarrow> unit expected" where
  "go_validate queue_url bucket =
     (if queue_url = [] then Inl ''SQS_REQUEST_QUEUE_URL is required''
      else if bucket = [] then Inl ''S3_BUCKET is required''
      else Inr ())"

definition py_validate_required :: "string \<Rightarrow> string \<Rightarrow> unit expected" where
  "py_validate_required queue_url bucket =
     (if queue_url = [] then Inl ''SQS_REQUEST_QUEUE_URL is required''
      else if bucket = [] then Inl ''S3_BUCKET is required''
      else Inr ())"

definition js_validate_required :: "string \<Rightarrow> string \<Rightarrow> unit expected" where
  "js_validate_required queue_url bucket =
     (if queue_url = [] then Inl ''SQS_REQUEST_QUEUE_URL is required''
      else if bucket = [] then Inl ''S3_BUCKET is required''
      else Inr ())"

section \<open>Durations of Go\<close>

text \<open>
  \<^verbatim>\<open>time.ParseDuration\<close>, in nanoseconds: an optional sign and terms of a number, perhaps with a fraction, and a unit.
  \<open>fraction f unit scale\<close> is \<open>f * (unit / scale)\<close> in floating point, cut to an integer.
\<close>

fun leading_int :: "string \<Rightarrow> nat \<Rightarrow> (nat \<times> string) option" where
  "leading_int [] x = Some (x, [])"
| "leading_int (c # s) x =
     (if \<not> is_digit c then Some (x, c # s)
      else if x > 2 ^ 63 div 10 then None
      else let y = 10 * x + (of_char c - 48) in if y > 2 ^ 63 then None else leading_int s y)"

fun leading_fraction :: "string \<Rightarrow> nat \<Rightarrow> nat \<Rightarrow> bool \<Rightarrow> nat \<times> nat \<times> string" where
  "leading_fraction [] x scale overflow = (x, scale, [])"
| "leading_fraction (c # s) x scale overflow =
     (if \<not> is_digit c then (x, scale, c # s)
      else if overflow \<or> x > (2 ^ 63 - 1) div 10 then leading_fraction s x scale True
      else let y = 10 * x + (of_char c - 48)
           in if y > 2 ^ 63 then leading_fraction s x scale True else leading_fraction s y (10 * scale) False)"

definition unit_map :: "string \<Rightarrow> nat option" where
  "unit_map = map_of [(''ns'', 1), (''us'', 10 ^ 3), ([char_of (0xC2 :: nat), char_of (0xB5 :: nat), CHR ''s''], 10 ^ 3),
     ([char_of (0xCE :: nat), char_of (0xBC :: nat), CHR ''s''], 10 ^ 3), (''ms'', 10 ^ 6), (''s'', 10 ^ 9), (''m'', 60 * 10 ^ 9), (''h'', 3600 * 10 ^ 9)]"

definition in_number :: "char \<Rightarrow> bool" where
  "in_number c \<longleftrightarrow> c = CHR ''.'' \<or> is_digit c"

text \<open>One term: its length in nanoseconds and the rest of the text.\<close>

definition duration_term :: "(nat \<Rightarrow> nat \<Rightarrow> nat \<Rightarrow> nat) \<Rightarrow> string \<Rightarrow> (nat \<times> string) option" where
  "duration_term fraction s =
     (if s = [] \<or> \<not> in_number (hd s) then None
      else case leading_int s 0 of
             None \<Rightarrow> None
           | Some (v, s1) \<Rightarrow>
               (let pre = (length s1 \<noteq> length s);
                    (f, scale, s2) = (if s1 \<noteq> [] \<and> hd s1 = CHR ''.'' then leading_fraction (tl s1) 0 1 False else (0, 1, s1));
                    post = (s1 \<noteq> [] \<and> hd s1 = CHR ''.'' \<and> length s2 \<noteq> length (tl s1));
                    u = takeWhile (\<lambda>c. \<not> in_number c) s2; s3 = dropWhile (\<lambda>c. \<not> in_number c) s2
                in if \<not> pre \<and> \<not> post then None
                   else if u = [] then None
                   else case unit_map u of
                          None \<Rightarrow> None
                        | Some unit \<Rightarrow>
                            if v > 2 ^ 63 div unit then None
                            else let v' = v * unit + (if f > 0 then fraction f unit scale else 0)
                                 in if v' > 2 ^ 63 then None else Some (v', s3)))"

lemma leading_int_length: "leading_int s x = Some (v, r) \<Longrightarrow> length r \<le> length s"
  by (induction s x rule: leading_int.induct) (auto simp: Let_def split: if_splits)

lemma leading_fraction_length: "leading_fraction s x scale overflow = (f, sc, r) \<Longrightarrow> length r \<le> length s"
  by (induction s arbitrary: x scale overflow) (fastforce simp: Let_def split: if_splits intro: le_SucI)+

lemma duration_term_length: "duration_term fraction s = Some (v, r) \<Longrightarrow> length r < length s"
proof -
  assume eq: "duration_term fraction s = Some (v, r)"
  have s: "s \<noteq> []" "in_number (hd s)" using eq unfolding duration_term_def by (metis option.distinct(1))+
  obtain v1 s1 where i: "leading_int s 0 = Some (v1, s1)"
    using eq s by (cases "leading_int s 0") (auto simp: duration_term_def)
  let ?dot = "s1 \<noteq> [] \<and> hd s1 = CHR ''.''"
  obtain f scale s2 where fr: "(if ?dot then leading_fraction (tl s1) 0 1 False else (0, 1, s1)) = (f, scale, s2)"
    by (metis prod_cases3)
  have "length s2 \<le> length s1"
  proof (cases ?dot)
    case True
    with fr leading_fraction_length [of "tl s1" 0 1 False f scale s2] show ?thesis by simp
  next
    case False
    with fr show ?thesis by (simp only: if_False) simp
  qed
  with leading_int_length [OF i] have "length s2 \<le> length s" by linarith
  moreover have "takeWhile (\<lambda>c. \<not> in_number c) s2 \<noteq> [] \<and> r = dropWhile (\<lambda>c. \<not> in_number c) s2"
    using eq unfolding duration_term_def i option.case prod.case fr Let_def
    by (simp only: s split: if_split_asm option.split_asm) simp_all
  moreover have "length s2 = length (takeWhile (\<lambda>c. \<not> in_number c) s2) + length (dropWhile (\<lambda>c. \<not> in_number c) s2)"
    by (metis length_append takeWhile_dropWhile_id)
  ultimately show ?thesis by (cases "takeWhile (\<lambda>c. \<not> in_number c) s2") auto
qed

text \<open>The sum of the terms, in 64 bits.\<close>

function duration_terms :: "(nat \<Rightarrow> nat \<Rightarrow> nat \<Rightarrow> nat) \<Rightarrow> string \<Rightarrow> nat \<Rightarrow> nat option" where
  "duration_terms fraction s d =
     (if s = [] then Some d
      else case duration_term fraction s of
             None \<Rightarrow> None
           | Some (v, r) \<Rightarrow> let d' = (d + v) mod 2 ^ 64 in if d' > 2 ^ 63 then None else duration_terms fraction r d')"
  by pat_completeness auto
termination
  by (relation "measure (\<lambda>(fraction, s, d). length s)") (auto dest: duration_term_length)

declare duration_terms.simps [simp del]

definition parse_duration :: "(nat \<Rightarrow> nat \<Rightarrow> nat \<Rightarrow> nat) \<Rightarrow> string \<Rightarrow> int option" where
  "parse_duration fraction s =
     (let negative = (s \<noteq> [] \<and> hd s = CHR ''-'');
          t = (if s \<noteq> [] \<and> (hd s = CHR ''-'' \<or> hd s = CHR ''+'') then tl s else s)
      in if t = ''0'' then Some 0
         else if t = [] then None
         else case duration_terms fraction t 0 of
                None \<Rightarrow> None
              | Some d \<Rightarrow> if negative then Some (- int d) else if d > 2 ^ 63 - 1 then None else Some (int d))"

definition get_duration :: "(nat \<Rightarrow> nat \<Rightarrow> nat \<Rightarrow> nat) \<Rightarrow> environment \<Rightarrow> string \<Rightarrow> int \<Rightarrow> string + int" where
  "get_duration fraction env key fallback =
     (let v = os_getenv env key
      in if v = [] then Inr fallback
         else case parse_duration fraction v of None \<Rightarrow> Inl key | Some d \<Rightarrow> Inr d)"

text \<open>\<^verbatim>\<open>Load\<close>: the text settings, then the durations and the number of the database.\<close>

record go_config =
  go_texts :: settings
  go_presign_ttl :: int
  go_redis_ttl :: int
  go_address :: string
  go_redis_db :: int

definition go_load :: "(nat \<Rightarrow> nat \<Rightarrow> nat \<Rightarrow> nat) \<Rightarrow> environment \<Rightarrow> string + go_config" where
  "go_load fraction env =
     (case get_duration fraction env ''S3_PRESIGN_TTL'' (600 * 10 ^ 9) of Inl e \<Rightarrow> Inl e | Inr presign_ttl \<Rightarrow>
      case get_duration fraction env ''REDIS_TTL'' (3600 * 10 ^ 9) of Inl e \<Rightarrow> Inl e | Inr redis_ttl \<Rightarrow>
      case get_int env ''REDIS_DB'' 0 of Inl e \<Rightarrow> Inl e | Inr redis_db \<Rightarrow>
        Inr \<lparr>go_texts = go_settings env, go_presign_ttl = presign_ttl, go_redis_ttl = redis_ttl,
          go_address = go_redis_addr env, go_redis_db = redis_db\<rparr>)"

section \<open>Python\<close>

text \<open>
  The fields of \<^verbatim>\<open>Settings\<close> with their defaults. Finding the variable of a field and reading an integer is code of the
  library: \<open>lookup\<close> and \<open>parse_int\<close>. All fields are read, and the error lists those that do not parse.
\<close>

record py_settings =
  ps_http_host :: string
  ps_http_port :: int
  ps_aws_region :: string
  ps_aws_endpoint_url :: string
  ps_s3_bucket :: string
  ps_s3_presign_ttl_sec :: int
  ps_sqs_request_queue_url :: string
  ps_sqs_message_group_id :: string
  ps_redis_host :: string
  ps_redis_port :: int
  ps_redis_db :: int
  ps_redis_password :: string
  ps_redis_ttl_sec :: int
  ps_log_level :: string

definition py_int_fields :: "(string \<times> int) list" where
  "py_int_fields = [(''http_port'', 8081), (''s3_presign_ttl_sec'', 600), (''redis_port'', 6379), (''redis_db'', 0), (''redis_ttl_sec'', 3600)]"

definition py_int :: "(string \<Rightarrow> int option) \<Rightarrow> environment \<Rightarrow> string \<Rightarrow> int option" where
  "py_int parse_int lookup field =
     (case lookup field of None \<Rightarrow> map_of py_int_fields field | Some raw \<Rightarrow> parse_int raw)"

definition py_get_settings :: "(string \<Rightarrow> int option) \<Rightarrow> environment \<Rightarrow> string list + py_settings" where
  "py_get_settings parse_int lookup =
     (let number = (\<lambda>field. the (py_int parse_int lookup field));
          bad = filter (\<lambda>field. py_int parse_int lookup field = None) (map fst py_int_fields)
      in if bad \<noteq> [] then Inl bad
         else Inr \<lparr>ps_http_host = nullish (lookup ''http_host'') ''0.0.0.0'', ps_http_port = number ''http_port'',
           ps_aws_region = nullish (lookup ''aws_region'') ''us-east-1'', ps_aws_endpoint_url = nullish (lookup ''aws_endpoint_url'') [],
           ps_s3_bucket = nullish (lookup ''s3_bucket'') ''taskforge-jobs'', ps_s3_presign_ttl_sec = number ''s3_presign_ttl_sec'',
           ps_sqs_request_queue_url = nullish (lookup ''sqs_request_queue_url'') [],
           ps_sqs_message_group_id = nullish (lookup ''sqs_message_group_id'') ''request'',
           ps_redis_host = nullish (lookup ''redis_host'') ''127.0.0.1'', ps_redis_port = number ''redis_port'',
           ps_redis_db = number ''redis_db'', ps_redis_password = nullish (lookup ''redis_password'') [],
           ps_redis_ttl_sec = number ''redis_ttl_sec'', ps_log_level = nullish (lookup ''log_level'') ''info''\<rparr>)"

section \<open>JavaScript\<close>

text \<open>
  \<^verbatim>\<open>Number.parseInt(s, 10)\<close>: white space is skipped, in the encodings of all the characters that the language
  counts as such; after a sign, the digits up to the first other character are the number, and without any there is
  none (\<^verbatim>\<open>NaN\<close>). \<open>nearest\<close> rounds to a number of the language, where integers are exact up to \<open>2 ^ 53\<close>.
\<close>

definition js_spaces :: "string list" where
  "js_spaces = map (map char_of)
     ([[0x09], [0x0A], [0x0B], [0x0C], [0x0D], [0x20], [0xC2, 0xA0], [0xE1, 0x9A, 0x80], [0xE2, 0x80, 0xA8], [0xE2, 0x80, 0xA9],
       [0xE2, 0x80, 0xAF], [0xE2, 0x81, 0x9F], [0xE3, 0x80, 0x80], [0xEF, 0xBB, 0xBF :: nat]] @
      map (\<lambda>n. [0xE2, 0x80, 0x80 + n]) [0..<11])"

function js_trim_start :: "string \<Rightarrow> string" where
  "js_trim_start s =
     (case find (\<lambda>w. take (length w) s = w) js_spaces of None \<Rightarrow> s | Some w \<Rightarrow> js_trim_start (drop (length w) s))"
  by pat_completeness auto
termination
proof (relation "measure length")
  fix s w assume "find (\<lambda>w. take (length w) s = w) js_spaces = Some w"
  then have "w \<in> set js_spaces" "take (length w) s = w" by (auto simp: find_Some_iff)
  moreover from this(1) have "w \<noteq> []" by (auto simp: js_spaces_def)
  ultimately show "(drop (length w) s, s) \<in> measure length" by (cases s) auto
qed simp

declare js_trim_start.simps [simp del]

definition js_parse_int :: "(int \<Rightarrow> int) \<Rightarrow> string \<Rightarrow> int option" where
  "js_parse_int nearest s =
     (let t = js_trim_start s;
          (negative, r) = (case t of [] \<Rightarrow> (False, [])
             | c # r \<Rightarrow> if c = CHR ''-'' then (True, r) else if c = CHR ''+'' then (False, r) else (False, t));
          digits = takeWhile is_digit r; n = int (read_nat digits)
      in if digits = [] then None else Some (nearest (if negative then - n else n)))"

definition parse_int_env :: "(int \<Rightarrow> int) \<Rightarrow> environment \<Rightarrow> string \<Rightarrow> int \<Rightarrow> int expected" where
  "parse_int_env nearest env key fallback =
     (case env key of
        None \<Rightarrow> Inr fallback
      | Some raw \<Rightarrow>
          if raw = [] then Inr fallback
          else case js_parse_int nearest raw of
                 None \<Rightarrow> Inl (''invalid integer for '' @ key @ '': '' @ raw)
               | Some parsed \<Rightarrow> Inr parsed)"

record app_config =
  ac_http_port :: int
  ac_aws_region :: string
  ac_aws_endpoint_url :: string
  ac_s3_bucket :: string
  ac_s3_presign_ttl_sec :: int
  ac_sqs_request_queue_url :: string
  ac_sqs_message_group_id :: string
  ac_redis_host :: string
  ac_redis_port :: int
  ac_redis_db :: int
  ac_redis_password :: string
  ac_redis_ttl_sec :: int

definition load_configuration :: "(int \<Rightarrow> int) \<Rightarrow> environment \<Rightarrow> app_config expected" where
  "load_configuration nearest env =
     (case parse_int_env nearest env ''HTTP_PORT'' 8082 of Inl e \<Rightarrow> Inl e | Inr http_port \<Rightarrow>
      case parse_int_env nearest env ''S3_PRESIGN_TTL_SEC'' 600 of Inl e \<Rightarrow> Inl e | Inr presign_ttl \<Rightarrow>
      case parse_int_env nearest env ''REDIS_PORT'' 6379 of Inl e \<Rightarrow> Inl e | Inr redis_port \<Rightarrow>
      case parse_int_env nearest env ''REDIS_DB'' 0 of Inl e \<Rightarrow> Inl e | Inr redis_db \<Rightarrow>
      case parse_int_env nearest env ''REDIS_TTL_SEC'' 3600 of Inl e \<Rightarrow> Inl e | Inr redis_ttl \<Rightarrow>
        Inr \<lparr>ac_http_port = http_port, ac_aws_region = nullish (env ''AWS_REGION'') ''us-east-1'',
          ac_aws_endpoint_url = nullish (env ''AWS_ENDPOINT_URL'') [], ac_s3_bucket = nullish (env ''S3_BUCKET'') ''taskforge-jobs'',
          ac_s3_presign_ttl_sec = presign_ttl, ac_sqs_request_queue_url = nullish (env ''SQS_REQUEST_QUEUE_URL'') [],
          ac_sqs_message_group_id = nullish (env ''SQS_MESSAGE_GROUP_ID'') ''request'',
          ac_redis_host = nullish (env ''REDIS_HOST'') ''127.0.0.1'', ac_redis_port = redis_port, ac_redis_db = redis_db,
          ac_redis_password = nullish (env ''REDIS_PASSWORD'') [], ac_redis_ttl_sec = redis_ttl\<rparr>)"

section \<open>Facts\<close>

text \<open>An interface that starts has a queue and a bucket, which the messages it sends must name.\<close>

lemma validated_settings:
  "go_validate q b = Inr () \<longleftrightarrow> q \<noteq> [] \<and> b \<noteq> []"
  "py_validate_required q b = Inr () \<longleftrightarrow> q \<noteq> [] \<and> b \<noteq> []"
  "js_validate_required q b = Inr () \<longleftrightarrow> q \<noteq> [] \<and> b \<noteq> []"
  by (simp_all add: go_validate_def py_validate_required_def js_validate_required_def)

text \<open>
  An empty \<^verbatim>\<open>S3_BUCKET\<close> is the default in Go, where the check of the bucket never fails, and an error in JavaScript.
\<close>

lemma go_bucket_set: "st_bucket (go_settings env) \<noteq> []"
  by (simp add: go_settings_def get_env_def Let_def)

lemma empty_bucket_differs:
  assumes "env ''S3_BUCKET'' = Some []" and "env ''SQS_REQUEST_QUEUE_URL'' = Some q" and "q \<noteq> []"
  shows "go_validate (st_queue_url (go_settings env)) (st_bucket (go_settings env)) = Inr ()"
    and "js_validate_required (nullish (env ''SQS_REQUEST_QUEUE_URL'') []) (nullish (env ''S3_BUCKET'') ''taskforge-jobs'') =
      Inl ''S3_BUCKET is required''"
  using assms by (simp_all add: go_validate_def js_validate_required_def go_settings_def get_env_def os_getenv_def nullish_def)

text \<open>An integer setting reads back what the decimal printer writes, over the whole range of the type and no further.\<close>

lemma atoi_show_nat: "atoi (show_nat n) = (if int n < 2 ^ 63 then Some (int n) else None)"
proof (cases "show_nat n")
  case (Cons c r)
  have digits: "list_all is_digit (show_nat n)" using show_nat_digits by (auto simp: list_all_iff)
  with Cons have "c \<noteq> CHR ''-''" "c \<noteq> CHR ''+''" by (auto simp: is_digit_def)
  with digits Cons read_show_nat [of n] show ?thesis by (simp add: atoi_def)
qed simp

lemma atoi_show_int: "atoi (show_int i) = (if - (2 ^ 63) \<le> i \<and> i < 2 ^ 63 then Some i else None)"
proof (cases "i < 0")
  case True
  have "list_all is_digit (show_nat (nat (- i)))" using show_nat_digits by (auto simp: list_all_iff)
  with True show ?thesis by (simp add: atoi_def show_int_def)
next
  case False
  then show ?thesis using atoi_show_nat [of "nat i"] by (simp add: show_int_def)
qed

lemma get_int_show:
  assumes "- (2 ^ 63) \<le> i" and "i < 2 ^ 63" and "env key = Some (show_int i)"
  shows "get_int env key fallback = Inr i"
proof -
  have "show_int i \<noteq> []" by (simp add: show_int_def)
  with assms atoi_show_int [of i] show ?thesis by (simp add: get_int_def os_getenv_def)
qed

text \<open>
  The integers of the JavaScript interface read back as those of Go do, up to the largest exact number. Unlike Go, it
  takes a text that only begins with a number, \<open>10x\<close> as 10.
\<close>

lemma js_no_space: "is_digit c \<or> c = CHR ''-'' \<Longrightarrow> js_trim_start (c # s) = c # s"
proof -
  assume c: "is_digit c \<or> c = CHR ''-''"
  have "list_all (\<lambda>w. w \<noteq> [] \<and> \<not> is_digit (hd w) \<and> hd w \<noteq> CHR ''-'') js_spaces" by code_simp
  moreover have "hd w = c" if "take (length w) (c # s) = w" "w \<noteq> []" for w using that by (cases w) auto
  ultimately have "find (\<lambda>w. take (length w) (c # s) = w) js_spaces = None"
    using c unfolding find_None_iff list_all_iff by metis
  then show ?thesis by (simp add: js_trim_start.simps)
qed

lemma takeWhile_digits: "takeWhile is_digit (show_nat n) = show_nat n"
  using show_nat_digits by (simp add: takeWhile_eq_all_conv)

lemma js_parse_show_int: "js_parse_int nearest (show_int i) = Some (nearest i)"
proof (cases "i < 0")
  case True
  then show ?thesis by (simp add: js_parse_int_def show_int_def js_no_space takeWhile_digits)
next
  case False
  then obtain n where i: "i = int n" by (metis nonneg_int_cases not_less)
  obtain c r where cr: "show_nat n = c # r" by (cases "show_nat n") auto
  then have "is_digit c" using show_nat_digits [of c n] by simp
  then have "c \<noteq> CHR ''-''" "c \<noteq> CHR ''+''" "js_trim_start (c # r) = c # r" by (auto simp: is_digit_def js_no_space)
  with i cr takeWhile_digits [of n] read_show_nat [of n] show ?thesis by (simp add: js_parse_int_def show_int_def)
qed

lemma integer_settings_agree:
  assumes "\<And>n. \<bar>n\<bar> \<le> 2 ^ 53 \<Longrightarrow> nearest n = n" and "\<bar>i\<bar> \<le> 2 ^ 53" and "env key = Some (show_int i)"
  shows "parse_int_env nearest env key fallback = Inr i \<and> get_int env key fallback' = Inr i"
proof -
  have "show_int i \<noteq> []" by (simp add: show_int_def)
  moreover have "- (2 ^ 63) \<le> i" "i < 2 ^ 63" using assms(2) by auto
  ultimately show ?thesis using assms get_int_show [of i env key] by (simp add: parse_int_env_def js_parse_show_int)
qed

lemma trailing_text_differs:
  assumes "env key = Some ''10x''"
  shows "parse_int_env id env key fallback = Inr 10" and "get_int env key fallback' = Inl key"
proof -
  have "js_parse_int id ''10x'' = Some 10" "atoi ''10x'' = None" by code_simp+
  with assms show "parse_int_env id env key fallback = Inr 10" "get_int env key fallback' = Inl key"
    by (simp_all add: parse_int_env_def get_int_def os_getenv_def)
qed

text \<open>What a JavaScript interface that starts has: with every variable unset, the documented defaults; in any case a queue and a bucket.\<close>

lemma load_defaults:
  assumes "\<And>key. env key = None"
  shows "\<exists>c. load_configuration nearest env = Inr c \<and> ac_http_port c = 8082 \<and> ac_s3_bucket c = ''taskforge-jobs'' \<and>
    ac_s3_presign_ttl_sec c = 600 \<and> ac_redis_ttl_sec c = 3600 \<and>
    js_validate_required (ac_sqs_request_queue_url c) (ac_s3_bucket c) = Inl ''SQS_REQUEST_QUEUE_URL is required''"
  using assms by (simp add: load_configuration_def parse_int_env_def nullish_def js_validate_required_def)

lemma load_error_named:
  assumes "load_configuration nearest env = Inl e"
  shows "\<exists>key raw. env key = Some raw \<and> js_parse_int nearest raw = None \<and> e = ''invalid integer for '' @ key @ '': '' @ raw"
proof -
  have "\<exists>raw. env key = Some raw \<and> js_parse_int nearest raw = None \<and> e = ''invalid integer for '' @ key @ '': '' @ raw"
    if "parse_int_env nearest env key fallback = Inl e" for key fallback
    using that by (auto simp: parse_int_env_def split: option.splits if_splits)
  moreover have "\<exists>key fallback. parse_int_env nearest env key fallback = Inl e"
    using assms unfolding load_configuration_def by (simp split: sum.splits) blast+
  ultimately show ?thesis by blast
qed

text \<open>
  A duration of whole seconds is read exactly, as long as it fits into 64 bits; a number without a unit, which the other
  interfaces take as seconds, is refused.
\<close>

lemma foldl_digits_le: "x \<le> foldl (\<lambda>n c. 10 * n + (of_char c - 48)) (x :: nat) ds"
proof (induction ds arbitrary: x)
  case (Cons c ds)
  have "x \<le> 10 * x + (of_char c - 48)" by simp
  also have "\<dots> \<le> foldl (\<lambda>n c. 10 * n + (of_char c - 48)) (10 * x + (of_char c - 48)) ds" by (rule Cons.IH)
  finally show ?case by simp
qed simp

lemma leading_int_digits:
  assumes "list_all is_digit ds" and "r = [] \<or> \<not> is_digit (hd r)" and "foldl (\<lambda>n c. 10 * n + (of_char c - 48)) x ds \<le> 2 ^ 63"
  shows "leading_int (ds @ r) x = Some (foldl (\<lambda>n c. 10 * n + (of_char c - 48)) x ds, r)"
  using assms(1,3)
proof (induction ds arbitrary: x)
  case Nil
  then show ?case using assms(2) by (cases r) auto
next
  case (Cons c ds)
  let ?y = "10 * x + (of_char c - 48)"
  have y: "?y \<le> 2 ^ 63" using Cons.prems(2) foldl_digits_le [of ?y ds] by simp
  then have "x \<le> 2 ^ 63 div 10" by linarith
  with y Cons show ?case by (simp add: Let_def)
qed

lemma leading_int_show: "n \<le> 2 ^ 63 \<Longrightarrow> r = [] \<or> \<not> is_digit (hd r) \<Longrightarrow> leading_int (show_nat n @ r) 0 = Some (n, r)"
  using leading_int_digits [of "show_nat n" r 0] show_nat_digits [of _ n] read_show_nat [of n] by (simp add: read_nat_def list_all_iff)

lemma show_nat_in_number: "in_number (hd (show_nat n @ r))"
  using show_nat_hd_digit [of n] by (cases "show_nat n") (auto simp: in_number_def)

lemma duration_term_seconds:
  assumes "n * 10 ^ 9 \<le> 2 ^ 63"
  shows "duration_term fraction (show_nat n @ ''s'') = Some (n * 10 ^ 9, [])"
proof -
  have li: "leading_int (show_nat n @ ''s'') 0 = Some (n, ''s'')" using assms by (intro leading_int_show) (auto simp: is_digit_def)
  have u: "unit_map ''s'' = Some (10 ^ 9)" "\<not> in_number (CHR ''s'')" by (simp_all add: unit_map_def in_number_def is_digit_def)
  have "n \<le> 2 ^ 63 div 10 ^ 9" using assms by (simp add: less_eq_div_iff_mult_less_eq)
  with assms show ?thesis using show_nat_in_number [of n "''s''"] by (simp add: duration_term_def li u Let_def)
qed

lemma parse_duration_seconds:
  assumes "n * 10 ^ 9 < 2 ^ 63"
  shows "parse_duration fraction (show_nat n @ ''s'') = Some (int n * 10 ^ 9)"
proof -
  obtain c r where cr: "show_nat n = c # r" "is_digit c" using show_nat_hd_digit [of n] by (cases "show_nat n") auto
  have "duration_terms fraction (show_nat n @ ''s'') 0 = Some (n * 10 ^ 9)"
    using assms duration_term_seconds [of n fraction] by (simp add: duration_terms.simps [of fraction "show_nat n @ ''s''"] duration_terms.simps [of fraction "[]"] Let_def)
  moreover have "c \<noteq> CHR ''-''" "c \<noteq> CHR ''+''" using cr(2) by (auto simp: is_digit_def)
  ultimately show ?thesis using assms cr by (simp add: parse_duration_def Let_def)
qed

lemma plain_number_refused:
  assumes "0 < n" and "n \<le> 2 ^ 63"
  shows "parse_duration fraction (show_nat n) = None"
proof -
  obtain c r where cr: "show_nat n = c # r" "is_digit c" using show_nat_hd_digit [of n] by (cases "show_nat n") auto
  have "duration_term fraction (show_nat n) = None"
    using leading_int_show [OF assms(2), of "[]"] show_nat_in_number [of n "[]"] by (simp add: duration_term_def Let_def)
  moreover have "show_nat n \<noteq> ''0''" using read_show_nat [of n] assms(1) by (auto simp: read_nat_def)
  moreover have "c \<noteq> CHR ''-''" "c \<noteq> CHR ''+''" using cr(2) by (auto simp: is_digit_def)
  moreover have "duration_terms fraction (show_nat n) 0 = None"
    using calculation(1) by (subst duration_terms.simps) simp
  ultimately show ?thesis using cr by (simp add: parse_duration_def Let_def)
qed

text \<open>The settings of Go with every variable unset.\<close>

lemma go_load_defaults:
  assumes "\<And>key. env key = None"
  shows "\<exists>c. go_load fraction env = Inr c \<and> go_presign_ttl c = 600 * 10 ^ 9 \<and> go_redis_ttl c = 3600 * 10 ^ 9 \<and> go_redis_db c = 0 \<and>
    go_address c = ''127.0.0.1:6379'' \<and>
    go_validate (st_queue_url (go_texts c)) (st_bucket (go_texts c)) = Inl ''SQS_REQUEST_QUEUE_URL is required''"
  using assms by (simp add: go_load_def get_duration_def get_int_def os_getenv_def go_settings_def go_redis_addr_def get_env_def
      go_validate_def)

lemma go_load_error_named:
  assumes "go_load fraction env = Inl key"
  shows "key \<in> {''S3_PRESIGN_TTL'', ''REDIS_TTL'', ''REDIS_DB''} \<and> os_getenv env key \<noteq> []"
  using assms by (auto simp: go_load_def get_duration_def get_int_def Let_def split: sum.splits if_splits option.splits)

end
