(* ===== verification/Interface_Health.thy ===== *)
theory Interface_Health
  imports Interface_World
begin

text \<open>
  The readiness routes of the three interfaces: \<^verbatim>\<open>Readiness\<close> in \<^verbatim>\<open>golang/internal/http/handlers/health.go\<close>, \<^verbatim>\<open>readyz\<close> in
  \<^verbatim>\<open>python/src/app/api/routes.py\<close> and \<^verbatim>\<open>readiness\<close> in \<^verbatim>\<open>js/src/health/health.controller.ts\<close>, with the time they take, in
  milliseconds. What a client library does is a parameter: for Go a function of the time the context leaves, for
  Python and JavaScript, where the route cuts the call off, the error and the time of the call when left alone.
\<close>

section \<open>The routes\<close>

record readiness =
  rd_status :: int
  rd_state :: string
  rd_checks :: "(string \<times> string) list"

definition readiness_of :: "bool \<Rightarrow> (string \<times> string) list \<Rightarrow> readiness" where
  "readiness_of ready checks =
     (if ready then \<lparr>rd_status = 200, rd_state = ''ready'', rd_checks = checks\<rparr>
      else \<lparr>rd_status = 503, rd_state = ''not_ready'', rd_checks = checks\<rparr>)"

type_synonym pinger = "int \<Rightarrow> string option \<times> int"
type_synonym probe = "string option \<times> int"
type_synonym py_probe = "(string \<times> string) option \<times> int"

text \<open>
  The probes of Go share one deadline, and the Redis and the SQS adapter shorten it for their own call. The order is
  that of the iteration over the map, any order.
\<close>

definition go_readiness_timeout :: int where "go_readiness_timeout = 3000"

definition go_redis_ping :: "pinger \<Rightarrow> pinger" where
  "go_redis_ping client remaining =
     (case client (min 2000 remaining) of (e, t) \<Rightarrow> (map_option (\<lambda>m. ''redis ping: '' @ m) e, t))"

definition go_sqs_ping :: "pinger \<Rightarrow> pinger" where
  "go_sqs_ping client remaining =
     (case client (min 5000 remaining) of (e, t) \<Rightarrow> (map_option (\<lambda>m. ''get queue attributes: '' @ m) e, t))"

definition go_s3_ping :: "string \<Rightarrow> pinger \<Rightarrow> pinger" where
  "go_s3_ping bucket client remaining =
     (case client remaining of (e, t) \<Rightarrow> (map_option (\<lambda>m. ''head bucket '' @ bucket @ '': '' @ m) e, t))"

fun go_probes :: "(string \<times> pinger) list \<Rightarrow> int \<Rightarrow> bool \<Rightarrow> (string \<times> string) list \<Rightarrow> readiness \<times> int" where
  "go_probes [] elapsed ready checks = (readiness_of ready checks, elapsed)"
| "go_probes ((name, ping) # rest) elapsed ready checks =
     (case ping (go_readiness_timeout - elapsed) of
        (Some e, t) \<Rightarrow> go_probes rest (elapsed + t) False (checks @ [(name, e)])
      | (None, t) \<Rightarrow> go_probes rest (elapsed + t) ready (checks @ [(name, ''ok'')]))"

definition go_readiness :: "(string \<times> pinger) list \<Rightarrow> readiness \<times> int" where
  "go_readiness probes = go_probes probes 0 True []"

text \<open>JavaScript: a race of the probe and a timer.\<close>

definition js_readiness_timeout :: int where "js_readiness_timeout = 3000"

definition with_timeout :: "probe \<Rightarrow> int \<Rightarrow> probe" where
  "with_timeout p limit = (case p of (e, t) \<Rightarrow> if t < limit then (e, t) else (Some ''probe timeout'', limit))"

fun js_probes :: "(string \<times> probe) list \<Rightarrow> int \<Rightarrow> bool \<Rightarrow> (string \<times> string) list \<Rightarrow> readiness \<times> int" where
  "js_probes [] elapsed ready checks = (readiness_of ready checks, elapsed)"
| "js_probes ((name, p) # rest) elapsed ready checks =
     (case with_timeout p js_readiness_timeout of
        (None, t) \<Rightarrow> js_probes rest (elapsed + t) ready (checks @ [(name, ''ok'')])
      | (Some e, t) \<Rightarrow> js_probes rest (elapsed + t) False (checks @ [(name, e)]))"

definition js_readiness :: "probe \<Rightarrow> probe \<Rightarrow> probe \<Rightarrow> readiness \<times> int" where
  "js_readiness redis_probe sqs_probe s3_probe = js_probes [(''redis'', redis_probe), (''sqs'', sqs_probe), (''s3'', s3_probe)] 0 True []"

text \<open>Python: a cancel scope around each probe; an exception without a text is reported by the name of its type.\<close>

definition py_fail_after :: "int \<Rightarrow> py_probe \<Rightarrow> py_probe" where
  "py_fail_after limit p = (case p of (e, t) \<Rightarrow> if t < limit then (e, t) else (Some ([], ''TimeoutError''), limit))"

definition py_check :: "string \<Rightarrow> py_probe \<Rightarrow> (string \<times> string) \<times> bool \<times> int" where
  "py_check name p =
     (case py_fail_after 3000 p of
        (None, t) \<Rightarrow> ((name, ''ok''), True, t)
      | (Some (message, type_name), t) \<Rightarrow> ((name, if message = [] then type_name else message), False, t))"

definition py_readyz :: "py_probe \<Rightarrow> py_probe \<Rightarrow> py_probe \<Rightarrow> readiness \<times> int" where
  "py_readyz redis_probe sqs_probe s3_probe =
     (case py_check ''redis'' redis_probe of (c1, r1, t1) \<Rightarrow>
      case py_check ''sqs'' sqs_probe of (c2, r2, t2) \<Rightarrow>
      case py_check ''s3'' s3_probe of (c3, r3, t3) \<Rightarrow>
        (readiness_of (r1 \<and> r2 \<and> r3) [c1, c2, c3], t1 + t2 + t3))"

section \<open>Facts\<close>

lemma readiness_of_status [simp]: "rd_status (readiness_of ready checks) = 200 \<longleftrightarrow> ready"
  by (simp add: readiness_of_def)

text \<open>A probe that answers without an error, in time.\<close>

definition answers :: "'e option \<times> int \<Rightarrow> bool" where
  "answers p \<longleftrightarrow> fst p = None \<and> snd p < 3000"

lemma with_timeout_facts:
  "with_timeout p js_readiness_timeout = (e, t) \<Longrightarrow> (e = None \<longleftrightarrow> answers p) \<and> t \<le> 3000 \<and> (3000 \<le> snd p \<longrightarrow> t = 3000)"
  by (cases p) (auto simp: answers_def with_timeout_def js_readiness_timeout_def split: if_splits)

lemma js_probes_status:
  "rd_status (fst (js_probes ps elapsed ready checks)) = 200 \<longleftrightarrow> ready \<and> (\<forall>x \<in> set ps. answers (snd x))"
proof (induction ps arbitrary: elapsed ready checks)
  case (Cons x ps)
  obtain name p where x: "x = (name, p)" by (cases x)
  obtain e t where wt: "with_timeout p js_readiness_timeout = (e, t)" by (cases "with_timeout p js_readiness_timeout")
  from with_timeout_facts [OF wt] show ?case by (cases e) (simp_all add: x wt Cons.IH)
qed simp

lemma js_probes_time:
  "snd (js_probes ps elapsed ready checks) \<le> elapsed + 3000 * int (length ps) \<and>
   ((\<forall>x \<in> set ps. 3000 \<le> snd (snd x)) \<longrightarrow> snd (js_probes ps elapsed ready checks) = elapsed + 3000 * int (length ps))"
proof (induction ps arbitrary: elapsed ready checks)
  case (Cons x ps)
  obtain name p where x: "x = (name, p)" by (cases x)
  obtain e t where wt: "with_timeout p js_readiness_timeout = (e, t)" by (cases "with_timeout p js_readiness_timeout")
  obtain ready' checks' where step: "js_probes (x # ps) elapsed ready checks = js_probes ps (elapsed + t) ready' checks'"
    by (cases e) (simp_all add: x wt)
  from with_timeout_facts [OF wt] Cons.IH [of "elapsed + t" ready' checks'] show ?case
    unfolding step by (auto simp: x simp del: js_probes.simps)
qed simp

lemma py_check_facts:
  "py_check name p = (c, r, t) \<Longrightarrow> (r \<longleftrightarrow> answers p) \<and> t \<le> 3000 \<and> (3000 \<le> snd p \<longrightarrow> t = 3000)"
  by (cases p) (auto simp: answers_def py_check_def py_fail_after_def split: if_splits option.splits prod.splits)

lemma py_readyz_run:
  assumes "py_check ''redis'' x = (c1, r1, t1)" and "py_check ''sqs'' y = (c2, r2, t2)" and "py_check ''s3'' z = (c3, r3, t3)"
  shows "py_readyz x y z = (readiness_of (r1 \<and> r2 \<and> r3) [c1, c2, c3], t1 + t2 + t3)"
  by (simp add: py_readyz_def assms)

text \<open>Ready means that every probe answers, in JavaScript and in Python alike.\<close>

lemma js_ready_exact: "rd_status (fst (js_readiness a b c)) = 200 \<longleftrightarrow> answers a \<and> answers b \<and> answers c"
  unfolding js_readiness_def js_probes_status by simp

lemma py_ready_exact: "rd_status (fst (py_readyz x y z)) = 200 \<longleftrightarrow> answers x \<and> answers y \<and> answers z"
proof -
  obtain c1 r1 t1 c2 r2 t2 c3 r3 t3 where c: "py_check ''redis'' x = (c1, r1, t1)" "py_check ''sqs'' y = (c2, r2, t2)"
    "py_check ''s3'' z = (c3, r3, t3)" by (metis prod_cases3)
  show ?thesis using py_check_facts [OF c(1)] py_check_facts [OF c(2)] py_check_facts [OF c(3)] by (simp add: py_readyz_run [OF c])
qed

text \<open>
  Go answers within three seconds in all, whatever the order of the probes, when the clients honour the
  deadline of their context. The other two bound each probe, so the route takes up to nine seconds.
\<close>

definition honours :: "pinger \<Rightarrow> bool" where
  "honours ping \<longleftrightarrow> (\<forall>remaining \<ge> 0. 0 \<le> snd (ping remaining) \<and> snd (ping remaining) \<le> remaining)"

lemma honours_cut:
  assumes "honours client" and "0 \<le> l" and "0 \<le> remaining"
  shows "0 \<le> snd (client (min l remaining)) \<and> snd (client (min l remaining)) \<le> remaining"
proof -
  have "0 \<le> min l remaining" using assms(2,3) by simp
  with assms(1) have "0 \<le> snd (client (min l remaining)) \<and> snd (client (min l remaining)) \<le> min l remaining"
    unfolding honours_def by blast
  then show ?thesis by linarith
qed

lemma adapters_honour:
  assumes "honours client"
  shows "honours (go_redis_ping client)" and "honours (go_sqs_ping client)" and "honours (go_s3_ping bucket client)"
  using assms honours_cut [OF assms, of 2000] honours_cut [OF assms, of 5000]
  by (simp_all add: honours_def go_redis_ping_def go_sqs_ping_def go_s3_ping_def split_beta)

lemma go_probes_time:
  assumes "\<forall>(name, ping) \<in> set probes. honours ping" and "0 \<le> elapsed" and "elapsed \<le> go_readiness_timeout"
  shows "snd (go_probes probes elapsed ready checks) \<le> go_readiness_timeout"
  using assms
proof (induction probes arbitrary: elapsed ready checks)
  case (Cons x probes)
  obtain name ping where x: "x = (name, ping)" by fastforce
  obtain e t where p: "ping (go_readiness_timeout - elapsed) = (e, t)" by fastforce
  have time: "0 \<le> t \<and> t \<le> go_readiness_timeout - elapsed"
    using Cons.prems p honours_def [THEN iffD1, rule_format, of ping "go_readiness_timeout - elapsed"] by (simp add: x)
  have "0 \<le> t" "elapsed + t \<le> go_readiness_timeout"
    using Cons.prems(2,3) time by simp_all
  then show ?case using Cons x p by (cases e) simp_all
qed simp

lemma go_readiness_time:
  "\<forall>(name, ping) \<in> set probes. honours ping \<Longrightarrow> snd (go_readiness probes) \<le> 3000"
  using go_probes_time [of probes 0 True "[]"] by (simp add: go_readiness_def go_readiness_timeout_def)

lemma js_ready_time:
  "snd (js_readiness a b c) \<le> 9000"
  "3000 \<le> snd a \<Longrightarrow> 3000 \<le> snd b \<Longrightarrow> 3000 \<le> snd c \<Longrightarrow> snd (js_readiness a b c) = 9000"
  using js_probes_time [of "[(''redis'', a), (''sqs'', b), (''s3'', c)]" 0 True "[]"]
  unfolding js_readiness_def by (simp_all del: js_probes.simps)

lemma py_ready_time:
  "snd (py_readyz x y z) \<le> 9000"
  "3000 \<le> snd x \<Longrightarrow> 3000 \<le> snd y \<Longrightarrow> 3000 \<le> snd z \<Longrightarrow> snd (py_readyz x y z) = 9000"
proof -
  obtain c1 r1 t1 c2 r2 t2 c3 r3 t3 where c: "py_check ''redis'' x = (c1, r1, t1)" "py_check ''sqs'' y = (c2, r2, t2)"
    "py_check ''s3'' z = (c3, r3, t3)" by (metis prod_cases3)
  show "snd (py_readyz x y z) \<le> 9000"
    "3000 \<le> snd x \<Longrightarrow> 3000 \<le> snd y \<Longrightarrow> 3000 \<le> snd z \<Longrightarrow> snd (py_readyz x y z) = 9000"
    using py_check_facts [OF c(1)] py_check_facts [OF c(2)] py_check_facts [OF c(3)] by (simp_all add: py_readyz_run [OF c])
qed

end
