(* ===== verification/Task_Scripts.thy ===== *)
theory Task_Scripts
  imports Task_Executor
begin

text \<open>
  The tasks that come with the worker: \<^verbatim>\<open>src/Main/tasks/wordcount.sh\<close> and \<^verbatim>\<open>src/Main/tasks/checksum.sh\<close>. What the
  scripts use of bash is modelled: the expansion of a pattern, command substitution, \<^verbatim>\<open>echo\<close>, redirection,
  and that \<^verbatim>\<open>set -e\<close> with \<^verbatim>\<open>pipefail\<close> ends the script with status 1 at the first command that fails. The programs they
  call are parameters: what \<^verbatim>\<open>wc | tr\<close> and \<^verbatim>\<open>sha256sum | awk\<close> print, and the order of a directory listing, which
  depends on the locale.
\<close>

section \<open>The shell\<close>

record shell =
  sh_files :: filesys
  sh_out :: string
  sh_err :: string

definition newline :: char where "newline = CHR 0x0A"

text \<open>Command substitution drops the newlines at the end.\<close>

definition chomp :: "string \<Rightarrow> string" where
  "chomp s = rev (dropWhile (\<lambda>c. c = newline) (rev s))"

text \<open>The builtin with one argument: a word made of the letters of its options is taken as options.\<close>

definition echo_options :: "string \<Rightarrow> bool" where
  "echo_options s \<longleftrightarrow> (case s of c # r \<Rightarrow> c = CHR ''-'' \<and> r \<noteq> [] \<and> list_all (\<lambda>x. x \<in> set ''neE'') r | [] \<Rightarrow> False)"

definition echo :: "string \<Rightarrow> string" where
  "echo s = (if echo_options s then (if CHR ''n'' \<in> set s then [] else [newline]) else s @ [newline])"

text \<open>The pattern \<^verbatim>\<open>dir/*\<close>: the names that do not begin with a period, or the pattern itself if there are none.\<close>

definition visible :: "string \<Rightarrow> bool" where
  "visible n \<longleftrightarrow> n \<noteq> [] \<and> hd n \<noteq> CHR ''.''"

definition glob_all :: "(string list \<Rightarrow> string list) \<Rightarrow> string \<Rightarrow> filesys \<Rightarrow> string list" where
  "glob_all collate d f =
     (let ns = filter visible (if denied f d then [] else dir_names d f)
      in if ns = [] then [d @ ''/*''] else map (\<lambda>n. d @ ''/'' @ n) (collate ns))"

definition basename :: "string \<Rightarrow> string" where
  "basename p = path_filename (strip_slash p)"

section \<open>The scripts\<close>

text \<open>
  One round of the loop, with whether all its commands succeeded: read the file through the program, write the result
  to a file named after it, and report it.
\<close>

definition process_file ::
  "(string \<Rightarrow> string \<Rightarrow> string) \<Rightarrow> string \<Rightarrow> (string \<Rightarrow> string \<Rightarrow> string) \<Rightarrow> string \<Rightarrow> string \<Rightarrow> shell \<Rightarrow> bool \<times> shell" where
  "process_file program extn report outputs_dir input_file sh =
     (let base_name = chomp (basename input_file)
      in case read_file input_file (sh_files sh) of
           None \<Rightarrow> (False, sh)
         | Some content \<Rightarrow>
             (let value = chomp (program input_file content); out = outputs_dir @ ''/'' @ base_name @ extn
              in if \<not> can_write out (sh_files sh) then (False, sh)
                 else (True, sh\<lparr>sh_files := write_file out (echo value) (sh_files sh),
                                sh_out := sh_out sh @ echo (report base_name value)\<rparr>)))"

text \<open>The loop: \<open>None\<close> when a command failed, otherwise whether a file was found.\<close>

fun for_files :: "(string \<Rightarrow> shell \<Rightarrow> bool \<times> shell) \<Rightarrow> string list \<Rightarrow> bool \<Rightarrow> shell \<Rightarrow> bool option \<times> shell" where
  "for_files body [] found sh = (Some found, sh)"
| "for_files body (input_file # rest) found sh =
     (if \<not> fs_is_regular_ec input_file (sh_files sh) then for_files body rest found sh
      else case body input_file sh of
             (True, sh') \<Rightarrow> for_files body rest True sh'
           | (False, sh') \<Rightarrow> (None, sh'))"

text \<open>
  The script around its loop. Under \<^verbatim>\<open>set -u\<close> a script without its two arguments ends with status 1; arguments
  after them are not looked at. What bash and the programs print on an error is not modelled.
\<close>

definition script ::
  "(string \<Rightarrow> string \<Rightarrow> shell \<Rightarrow> bool \<times> shell) \<Rightarrow> string \<Rightarrow> (string list \<Rightarrow> string list) \<Rightarrow> string list \<Rightarrow> filesys \<Rightarrow> int \<times> shell" where
  "script body name collate args f =
     (let sh = \<lparr>sh_files = f, sh_out = [], sh_err = []\<rparr>
      in case args of
           inputs_dir # outputs_dir # extra \<Rightarrow>
             (case for_files (body outputs_dir) (glob_all collate inputs_dir f) False sh of
                (None, sh') \<Rightarrow> (1, sh')
              | (Some found, sh') \<Rightarrow>
                  if \<not> found then (1, sh'\<lparr>sh_err := sh_err sh' @ echo (name @ '': no input files'')\<rparr>) else (0, sh'))
         | _ \<Rightarrow> (1, sh))"

definition wordcount_file :: "(string \<Rightarrow> string) \<Rightarrow> string \<Rightarrow> string \<Rightarrow> shell \<Rightarrow> bool \<times> shell" where
  "wordcount_file count_words =
     process_file (\<lambda>p content. count_words content) ''.wordcount.txt''
       (\<lambda>b v. ''wordcount: '' @ b @ '' -> '' @ v @ '' words'')"

definition wordcount ::
  "(string list \<Rightarrow> string list) \<Rightarrow> (string \<Rightarrow> string) \<Rightarrow> string list \<Rightarrow> filesys \<Rightarrow> int \<times> shell" where
  "wordcount collate count_words args f = script (wordcount_file count_words) ''wordcount'' collate args f"

definition checksum_file :: "(string \<Rightarrow> string \<Rightarrow> string) \<Rightarrow> string \<Rightarrow> string \<Rightarrow> shell \<Rightarrow> bool \<times> shell" where
  "checksum_file hash_command = process_file hash_command ''.sha256.txt'' (\<lambda>b v. ''checksum: '' @ b @ '' -> '' @ v)"

definition checksum ::
  "(string list \<Rightarrow> string list) \<Rightarrow> (string \<Rightarrow> string \<Rightarrow> string) \<Rightarrow> string list \<Rightarrow> filesys \<Rightarrow> int \<times> shell" where
  "checksum collate hash_command args f = script (checksum_file hash_command) ''checksum'' collate args f"

section \<open>Paths of the scripts\<close>

definition plain_dir :: "string \<Rightarrow> bool" where
  "plain_dir d \<longleftrightarrow> d \<noteq> [] \<and> last d \<noteq> CHR ''/''"

lemma strip_plain: "plain_dir d \<Longrightarrow> strip_slash d = d"
  by (cases d rule: rev_cases) (auto simp: plain_dir_def strip_slash_def)

lemma strip_in_dir: "path_component n \<Longrightarrow> strip_slash (d @ ''/'' @ n) = d @ ''/'' @ n"
  using strip_slash_component [of n "d @ ''/''"] by simp

lemma filename_in_dir: "path_component n \<Longrightarrow> path_filename (d @ ''/'' @ n) = n"
  using path_filename_append [of n "d @ ''/''"] path_append_component [of n "d @ ''/''"] by simp

lemma parent_in_dir: "path_component n \<Longrightarrow> path_parent (d @ ''/'' @ n) = d"
  unfolding path_parent_def path_component_def by (simp add: dropWhile_append)

lemma in_dir_inj:
  assumes "path_component m" and "path_component n" and "d @ ''/'' @ m = e @ ''/'' @ n"
  shows "d = e \<and> m = n"
  using parent_in_dir [OF assms(1), of d] parent_in_dir [OF assms(2), of e] filename_in_dir [OF assms(1), of d]
    filename_in_dir [OF assms(2), of e] assms(3) by simp

lemma basename_in_dir: "path_component n \<Longrightarrow> basename (d @ ''/'' @ n) = n"
  by (simp only: basename_def strip_in_dir filename_in_dir)

section \<open>The loop\<close>

text \<open>The result of one input, and the files a script takes from a list of names, with their contents.\<close>

definition result_path :: "string \<Rightarrow> string \<Rightarrow> string \<Rightarrow> string" where
  "result_path extn outputs_dir n = outputs_dir @ ''/'' @ n @ extn"

definition inputs_of :: "string \<Rightarrow> string list \<Rightarrow> filesys \<Rightarrow> (string \<times> string) list" where
  "inputs_of d ns f = List.map_filter (\<lambda>n. map_option (Pair n) (read_file (d @ ''/'' @ n) f)) ns"

lemma set_inputs_of: "(n, c) \<in> set (inputs_of d ns f) \<longleftrightarrow> n \<in> set ns \<and> read_file (d @ ''/'' @ n) f = Some c"
  by (auto simp: inputs_of_def set_map_filter)

lemma inputs_of_simps [simp]:
  "inputs_of d [] f = []"
  "inputs_of d (n # ns) f =
     (case read_file (d @ ''/'' @ n) f of None \<Rightarrow> inputs_of d ns f | Some c \<Rightarrow> (n, c) # inputs_of d ns f)"
  by (simp_all add: inputs_of_def List.map_filter_simps split: option.split)

lemma inputs_of_cong:
  "(\<And>n. n \<in> set ns \<Longrightarrow> read_file (d @ ''/'' @ n) f = read_file (d @ ''/'' @ n) g) \<Longrightarrow> inputs_of d ns f = inputs_of d ns g"
  by (induction ns) (simp_all split: option.split)

definition write_results ::
  "(string \<Rightarrow> string \<Rightarrow> string) \<Rightarrow> string \<Rightarrow> string \<Rightarrow> string \<Rightarrow> (string \<times> string) list \<Rightarrow> filesys \<Rightarrow> filesys" where
  "write_results program extn d e = fold (\<lambda>(n, c). write_file (result_path extn e n) (echo (chomp (program (d @ ''/'' @ n) c))))"

definition reports ::
  "(string \<Rightarrow> string \<Rightarrow> string) \<Rightarrow> (string \<Rightarrow> string \<Rightarrow> string) \<Rightarrow> string \<Rightarrow> (string \<times> string) list \<Rightarrow> string" where
  "reports program report d xs = concat (map (\<lambda>(n, c). echo (report n (chomp (program (d @ ''/'' @ n) c)))) xs)"

text \<open>
  What a script needs: two directories that differ, the second one there, no newline at the end of an input's name, and
  nothing but a file in the place of a result.
\<close>

definition writable_node :: "node option \<Rightarrow> bool" where
  "writable_node r \<longleftrightarrow> (case r of None \<Rightarrow> True | Some (Regular s) \<Rightarrow> True | _ \<Rightarrow> False)"

definition script_ready :: "string \<Rightarrow> string \<Rightarrow> string \<Rightarrow> filesys \<Rightarrow> string list \<Rightarrow> bool" where
  "script_ready extn d e f ns \<longleftrightarrow>
     CHR ''/'' \<notin> set extn \<and> plain_dir d \<and> plain_dir e \<and> d \<noteq> e \<and> fs_status e f = Some Directory \<and>
     list_all (\<lambda>n. path_component n \<and> chomp n = n \<and> writable_node (fs_status (result_path extn e n) f)) ns"

lemma result_facts:
  assumes "CHR ''/'' \<notin> set extn" and "path_component n"
  shows "path_component (n @ extn)" and "strip_slash (result_path extn e n) = result_path extn e n"
    and "result_path extn e n \<noteq> []" and "path_parent (result_path extn e n) = e"
proof -
  show comp: "path_component (n @ extn)" using assms by (simp add: path_component_def)
  show "strip_slash (result_path extn e n) = result_path extn e n" "path_parent (result_path extn e n) = e"
    unfolding result_path_def by (rule strip_in_dir [OF comp], rule parent_in_dir [OF comp])
qed (simp add: result_path_def)

lemma read_file_regular: "fs_is_regular_ec p f \<longleftrightarrow> (\<exists>c. read_file p f = Some c)"
  by (auto simp: fs_is_regular_ec_def read_file_def split: option.splits node.splits)

lemma denied_write_file [simp]: "denied (write_file p s f) = denied f"
  by (simp add: write_file_def)

lemma status_result:
  assumes "CHR ''/'' \<notin> set extn" and "path_component n"
  shows "fs_status q (write_file (result_path extn e n) s f) =
     (if q \<noteq> [] \<and> strip_slash q = result_path extn e n then Some (Regular s) else fs_status q f)"
  using result_facts [OF assms] by (simp add: fs_status_write_file)

lemma input_not_result:
  assumes "script_ready extn d e f ns" and "path_component m" and "path_component n"
  shows "strip_slash (d @ ''/'' @ m) \<noteq> result_path extn e n"
proof
  assume "strip_slash (d @ ''/'' @ m) = result_path extn e n"
  then have "d @ ''/'' @ m = e @ ''/'' @ (n @ extn)" using strip_in_dir [OF assms(2)] by (simp add: result_path_def)
  from in_dir_inj [OF assms(2) result_facts(1) [OF _ assms(3)] this] assms(1) show False
    by (simp add: script_ready_def)
qed

lemma ready_after:
  assumes "script_ready extn d e f ns" and "path_component n"
  shows "script_ready extn d e (write_file (result_path extn e n) s f) ns"
    and "path_component m \<Longrightarrow> (\<forall>p. \<not> denied f p) \<Longrightarrow>
      read_file (d @ ''/'' @ m) (write_file (result_path extn e n) s f) = read_file (d @ ''/'' @ m) f"
proof -
  have x: "CHR ''/'' \<notin> set extn" "plain_dir e" using assms(1) by (simp_all add: script_ready_def)
  have "strip_slash e \<noteq> result_path extn e n" using strip_plain [OF x(2)] by (simp add: result_path_def)
  then show "script_ready extn d e (write_file (result_path extn e n) s f) ns"
    using assms(1) unfolding script_ready_def by (simp add: status_result [OF x(1) assms(2)] list_all_iff writable_node_def)
  show "read_file (d @ ''/'' @ m) (write_file (result_path extn e n) s f) = read_file (d @ ''/'' @ m) f"
    if "path_component m" "\<forall>p. \<not> denied f p"
    using input_not_result [OF assms(1) that(1) assms(2)] by (simp add: read_file_def status_result [OF x(1) assms(2)])
qed

lemma process_round:
  assumes "script_ready extn d e (sh_files sh) (n # ns)" and "\<forall>p. \<not> denied (sh_files sh) p"
    and "read_file (d @ ''/'' @ n) (sh_files sh) = Some c"
  shows "process_file program extn report e (d @ ''/'' @ n) sh =
    (True, sh\<lparr>sh_files := write_results program extn d e [(n, c)] (sh_files sh),
              sh_out := sh_out sh @ reports program report d [(n, c)]\<rparr>)"
proof -
  have n: "path_component n" "chomp n = n" "writable_node (fs_status (result_path extn e n) (sh_files sh))"
    and e: "CHR ''/'' \<notin> set extn" "fs_status e (sh_files sh) = Some Directory"
    using assms(1) by (simp_all add: script_ready_def)
  from n(3) have "can_write (result_path extn e n) (sh_files sh)"
    unfolding can_write_def writable_node_def result_facts(4) [OF e(1) n(1)] using assms(2) e(2) result_facts(3) [OF e(1) n(1)]
    by (auto split: option.splits node.splits)
  with assms(3) n basename_in_dir [OF n(1), of d] show ?thesis
    by (simp add: process_file_def write_results_def reports_def result_path_def Let_def)
qed

lemma for_files_result:
  assumes "script_ready extn d e (sh_files sh) ns" and "\<forall>p. \<not> denied (sh_files sh) p"
  shows "for_files (process_file program extn report e) (map (\<lambda>n. d @ ''/'' @ n) ns) found sh =
    (Some (found \<or> inputs_of d ns (sh_files sh) \<noteq> []),
     sh\<lparr>sh_files := write_results program extn d e (inputs_of d ns (sh_files sh)) (sh_files sh),
        sh_out := sh_out sh @ reports program report d (inputs_of d ns (sh_files sh))\<rparr>)"
  using assms
proof (induction ns arbitrary: found sh)
  case (Cons n ns)
  have ns: "script_ready extn d e (sh_files sh) ns" using Cons.prems(1) by (simp add: script_ready_def)
  show ?case
  proof (cases "read_file (d @ ''/'' @ n) (sh_files sh)")
    case None
    with Cons.IH [OF ns Cons.prems(2)] show ?thesis by (simp add: read_file_regular)
  next
    case (Some c)
    let ?sh = "sh\<lparr>sh_files := write_results program extn d e [(n, c)] (sh_files sh),
                   sh_out := sh_out sh @ reports program report d [(n, c)]\<rparr>"
    have n: "path_component n" and all: "m \<in> set ns \<Longrightarrow> path_component m" for m
      using Cons.prems(1) by (auto simp: script_ready_def list_all_iff)
    have ready: "script_ready extn d e (sh_files ?sh) ns" "\<forall>p. \<not> denied (sh_files ?sh) p"
      using ready_after(1) [OF ns n] Cons.prems(2) by (simp_all add: write_results_def)
    have "inputs_of d ns (sh_files ?sh) = inputs_of d ns (sh_files sh)"
      by (rule inputs_of_cong) (use ready_after(2) [OF ns n all Cons.prems(2)] in \<open>simp add: write_results_def\<close>)
    with Cons.IH [OF ready, of True] Some process_round [OF Cons.prems Some] show ?thesis
      by (simp add: read_file_regular write_results_def reports_def)
  qed
qed (simp add: write_results_def reports_def)

section \<open>The whole script\<close>

text \<open>A file the script takes: a visible name in the input directory, a regular file.\<close>

definition task_input :: "string \<Rightarrow> filesys \<Rightarrow> string \<Rightarrow> string \<Rightarrow> bool" where
  "task_input d f n c \<longleftrightarrow> n \<in> set (dir_names d f) \<and> visible n \<and> read_file (d @ ''/'' @ n) f = Some c"

definition script_names :: "string \<Rightarrow> filesys \<Rightarrow> string list" where
  "script_names d f = filter visible (dir_names d f)"

lemma status_in_dir:
  assumes "plain_dir d" and "path_component n" and "fs_status (d @ ''/'' @ n) f = Some x"
  shows "n \<in> set (dir_names d f)"
proof -
  have "map_of (nodes f) (d @ ''/'' @ n) = Some x"
    using assms strip_in_dir [OF assms(2), of d] by (simp add: fs_status_def split: if_splits)
  from map_of_SomeD [OF this] show ?thesis
    using assms strip_plain [OF assms(1)] by (force simp: set_dir_names)
qed

lemma glob_literal:
  assumes "plain_dir d" and "script_names d f = []"
  shows "\<not> fs_is_regular_ec (d @ ''/*'') f"
proof
  assume "fs_is_regular_ec (d @ ''/*'') f"
  then obtain c where "fs_status (d @ ''/'' @ ''*'') f = Some (Regular c)" by (auto simp: fs_is_regular_ec_def)
  from status_in_dir [OF assms(1) _ this] have "''*'' \<in> set (script_names d f)"
    by (simp add: script_names_def path_component_def visible_def)
  with assms(2) show False by simp
qed

lemma glob_inputs:
  "set ns = set (script_names d f) \<Longrightarrow> task_input d f n c \<longleftrightarrow> (n, c) \<in> set (inputs_of d ns f)"
  by (auto simp: task_input_def set_inputs_of script_names_def)

lemma write_results_other:
  assumes "CHR ''/'' \<notin> set extn" and "\<forall>(n, c) \<in> set xs. path_component n \<and> strip_slash q \<noteq> result_path extn e n"
  shows "fs_status q (write_results program extn d e xs f) = fs_status q f"
  using assms(2) by (induction xs arbitrary: f) (auto simp: write_results_def status_result [OF assms(1)])

lemma write_results_status:
  assumes "CHR ''/'' \<notin> set extn" and "\<forall>(n, c) \<in> set xs. path_component n \<and> content n = Some c"
    and "(n, c) \<in> set xs"
  shows "fs_status (result_path extn e n) (write_results program extn d e xs f) =
      Some (Regular (echo (chomp (program (d @ ''/'' @ n) c))))"
  using assms(2,3)
proof (induction xs rule: rev_induct)
  case (snoc x xs)
  obtain m b where x: "x = (m, b)" by (cases x)
  have comps: "path_component m" "path_component n" and val: "content m = Some b" "content n = Some c"
    using snoc.prems x by auto
  have eq: "result_path extn e n = result_path extn e m \<longleftrightarrow> n = m" by (simp add: result_path_def)
  have step: "fs_status (result_path extn e n) (write_results program extn d e (xs @ [x]) f) =
      (if n = m then Some (Regular (echo (chomp (program (d @ ''/'' @ m) b))))
       else fs_status (result_path extn e n) (write_results program extn d e xs f))"
    using result_facts(2,3) [OF assms(1) comps(2)] by (simp add: write_results_def x status_result [OF assms(1) comps(1)] eq)
  from snoc x val show ?case unfolding step by auto
qed simp

lemma script_run:
  fixes collate program report extn d e f
  assumes allowed: "\<forall>p. \<not> denied f p" and order: "set (collate (script_names d f)) = set (script_names d f)"
    and ready: "script_ready extn d e f (script_names d f)"
  defines "xs \<equiv> inputs_of d (collate (script_names d f)) f"
  shows "script (process_file program extn report) name collate (d # e # extra) f =
    (if xs = [] then (1, \<lparr>sh_files = f, sh_out = [], sh_err = echo (name @ '': no input files'')\<rparr>)
     else (0, \<lparr>sh_files = write_results program extn d e xs f, sh_out = reports program report d xs, sh_err = []\<rparr>))"
proof (cases "script_names d f = []")
  case True
  have "plain_dir d" using ready by (simp add: script_ready_def)
  from glob_literal [OF this True] True order show ?thesis
    by (simp add: script_def glob_all_def script_names_def [symmetric] allowed xs_def)
next
  case False
  let ?sh = "\<lparr>sh_files = f, sh_out = [], sh_err = []\<rparr>"
  have "script_ready extn d e f (collate (script_names d f))"
    using ready order by (simp add: script_ready_def list_all_iff)
  from for_files_result [of extn d e ?sh "collate (script_names d f)" program report False] this allowed False show ?thesis
    by (simp add: script_def glob_all_def script_names_def [symmetric] xs_def write_results_def reports_def)
qed

text \<open>
  What a script promises: status 0 exactly when it found a file, the result of every file it takes, and every other
  path as it was.
\<close>

definition leaves_results ::
  "(string \<Rightarrow> string \<Rightarrow> string) \<Rightarrow> string \<Rightarrow> string \<Rightarrow> string \<Rightarrow> filesys \<Rightarrow> int \<Rightarrow> filesys \<Rightarrow> bool" where
  "leaves_results program extn d e f status f' \<longleftrightarrow>
     status = (if \<exists>n c. task_input d f n c then 0 else 1) \<and>
     (\<forall>n c. task_input d f n c \<longrightarrow>
        fs_status (result_path extn e n) f' = Some (Regular (echo (chomp (program (d @ ''/'' @ n) c))))) \<and>
     (\<forall>q. (\<forall>n c. task_input d f n c \<longrightarrow> strip_slash q \<noteq> result_path extn e n) \<longrightarrow> fs_status q f' = fs_status q f)"

lemma script_leaves_results:
  fixes collate program report extn d e f
  assumes allowed: "\<forall>p. \<not> denied f p" and order: "set (collate (script_names d f)) = set (script_names d f)"
    and ready: "script_ready extn d e f (script_names d f)"
    and run: "script (process_file program extn report) name collate (d # e # extra) f = (status, sh)"
  shows "leaves_results program extn d e f status (sh_files sh)"
proof -
  let ?xs = "inputs_of d (collate (script_names d f)) f"
  note inputs = glob_inputs [OF order]
  have extn: "CHR ''/'' \<notin> set extn" using ready by (simp add: script_ready_def)
  have content: "\<forall>(n, c) \<in> set ?xs. path_component n \<and> read_file (d @ ''/'' @ n) f = Some c"
    using inputs by (auto simp: task_input_def set_dir_names)
  have "status = (if ?xs = [] then 1 else 0)" and files: "sh_files sh = write_results program extn d e ?xs f"
    using run unfolding script_run [where collate = collate, OF allowed order ready] by (auto split: if_splits simp: write_results_def)
  then have "status = (if \<exists>n c. task_input d f n c then 0 else 1)" unfolding inputs by (cases ?xs) auto
  moreover have "fs_status (result_path extn e n) (sh_files sh) =
      Some (Regular (echo (chomp (program (d @ ''/'' @ n) c))))" if "task_input d f n c" for n c
    using write_results_status [OF extn content] that unfolding files inputs by blast
  moreover have "fs_status q (sh_files sh) = fs_status q f"
    if "\<forall>n c. task_input d f n c \<longrightarrow> strip_slash q \<noteq> result_path extn e n" for q
    unfolding files by (rule write_results_other [OF extn]) (use that content in \<open>auto simp: inputs\<close>)
  ultimately show ?thesis by (simp add: leaves_results_def)
qed

section \<open>Properties\<close>

lemma echo_plain: "v = [] \<or> hd v \<noteq> CHR ''-'' \<Longrightarrow> echo v = v @ [newline]"
  by (cases v) (simp_all add: echo_def echo_options_def)

text \<open>
  C30. What the two tasks of the worker produce. With access to its directories, whatever order the shell lists them in
  and whatever arguments follow, \<^verbatim>\<open>wordcount.sh\<close> ends with status 0 exactly when the input directory
  holds a regular file with a name that does not begin with a period, and with status 1 otherwise. Each such file has its
  word count in the output directory under its own name with \<^verbatim>\<open>.wordcount.txt\<close>, and every other path, the inputs
  included, is as it was. The same holds of \<^verbatim>\<open>checksum.sh\<close> with the digest and \<^verbatim>\<open>.sha256.txt\<close>.
\<close>

theorem task_scripts_outputs:
  assumes "\<forall>p. \<not> denied f p" and "set (collate (script_names d f)) = set (script_names d f)"
    and "script_ready ''.wordcount.txt'' d e f (script_names d f)" and "script_ready ''.sha256.txt'' d e f (script_names d f)"
    and "wordcount collate count_words (d # e # extra) f = (status, sh)"
    and "checksum collate hash_command (d # e # extra) f = (status', sh')"
  shows "leaves_results (\<lambda>p. count_words) ''.wordcount.txt'' d e f status (sh_files sh) \<and>
    leaves_results hash_command ''.sha256.txt'' d e f status' (sh_files sh')"
  using script_leaves_results [where collate = collate, OF assms(1,2,3)] script_leaves_results [where collate = collate, OF assms(1,2,4)] assms(5,6)
  unfolding wordcount_def wordcount_file_def checksum_def checksum_file_def by blast

text \<open>A directory with two files, one of them hidden.\<close>

definition sample_files :: filesys where
  "sample_files = \<lparr>nodes = [(''/in'', Directory), (''/in/a'', Regular ''x y''), (''/in/.b'', Regular ''z''), (''/out'', Directory)],
     tmp_dir = None, denied = (\<lambda>p. False)\<rparr>"

lemma sample_names: "script_names ''/in'' sample_files = [''a'']" "dir_names ''/in'' sample_files = [''a'', ''.b'']"
  by code_simp+

theorem task_scripts_outputs_witness:
  "\<exists>status sh. wordcount id (\<lambda>c. ''2'') [''/in'', ''/out'', ''-x''] sample_files = (status, sh) \<and> status = 0 \<and>
     fs_status ''/out/a.wordcount.txt'' (sh_files sh) = Some (Regular (''2'' @ [newline])) \<and>
     fs_status ''/out/.b.wordcount.txt'' (sh_files sh) = None \<and> fs_status ''/in/a'' (sh_files sh) = Some (Regular ''x y'')"
proof -
  obtain status sh where run: "wordcount id (\<lambda>c. ''2'') [''/in'', ''/out'', ''-x''] sample_files = (status, sh)" by fastforce
  obtain status' sh' where run': "checksum id (\<lambda>p c. ''00'') [''/in'', ''/out'', ''-x''] sample_files = (status', sh')" by fastforce
  have ready: "script_ready ''.wordcount.txt'' ''/in'' ''/out'' sample_files (script_names ''/in'' sample_files)"
    "script_ready ''.sha256.txt'' ''/in'' ''/out'' sample_files (script_names ''/in'' sample_files)" by code_simp+
  have inputs: "task_input ''/in'' sample_files n c \<longleftrightarrow> n = ''a'' \<and> c = ''x y''" for n c
    using sample_names(1) by (auto simp: glob_inputs [of "[''a'']"] file_defs path_defs sample_files_def)
  have "leaves_results (\<lambda>p c. ''2'') ''.wordcount.txt'' ''/in'' ''/out'' sample_files status (sh_files sh)"
    using task_scripts_outputs [OF _ _ ready run run'] by (simp add: sample_files_def)
  then have status: "status = 0"
    and result: "fs_status (result_path ''.wordcount.txt'' ''/out'' ''a'') (sh_files sh) = Some (Regular (echo (chomp ''2'')))"
    and other: "\<And>q. strip_slash q \<noteq> result_path ''.wordcount.txt'' ''/out'' ''a'' \<Longrightarrow>
      fs_status q (sh_files sh) = fs_status q sample_files"
    unfolding leaves_results_def inputs by auto
  have "result_path ''.wordcount.txt'' ''/out'' ''a'' = ''/out/a.wordcount.txt''" "echo (chomp ''2'') = ''2'' @ [newline]"
    "strip_slash ''/out/.b.wordcount.txt'' = ''/out/.b.wordcount.txt''" "strip_slash ''/in/a'' = ''/in/a''"
    "fs_status ''/out/.b.wordcount.txt'' sample_files = None" "fs_status ''/in/a'' sample_files = Some (Regular ''x y'')"
    by code_simp+
  with status result other [of "''/out/.b.wordcount.txt''"] other [of "''/in/a''"] run show ?thesis by simp
qed

end
