(* ===== verification/Script_Runs.thy ===== *)
theory Script_Runs
  imports Task_Scripts Reference_World
begin

text \<open>
  The tasks inside the worker: \<open>execute\<close> with a launcher that runs one of the scripts, followed by the upload of what the
  script left in the output directory.
\<close>

section \<open>What is in the output directory\<close>

lemma dir_names_status:
  assumes "plain_dir e"
  shows "n \<in> set (dir_names e f) \<longleftrightarrow> path_component n \<and> fs_status (e @ ''/'' @ n) f \<noteq> None"
proof
  assume "n \<in> set (dir_names e f)"
  then have n: "path_component n" and "e @ ''/'' @ n \<in> fst ` set (nodes f)"
    using strip_plain [OF assms] by (auto simp: set_dir_names)
  then have "map_of (nodes f) (e @ ''/'' @ n) \<noteq> None" by (simp add: map_of_eq_None_iff)
  then show "path_component n \<and> fs_status (e @ ''/'' @ n) f \<noteq> None"
    using n strip_in_dir [OF n, of e] by (simp add: fs_status_def)
qed (use status_in_dir [OF assms] in blast)

lemma results_listed:
  assumes "leaves_results program extn d e f status g" and "CHR ''/'' \<notin> set extn" and "plain_dir e" and "dir_names e f = []"
  shows "set (dir_names e g) = {n @ extn | n. \<exists>c. task_input d f n c}"
proof -
  have none: "fs_status (e @ ''/'' @ m) f = None" if "path_component m" for m
    using dir_names_status [OF assms(3), of m f] assms(4) that by auto
  have comp: "path_component n" if "task_input d f n c" for n c using that by (simp add: task_input_def set_dir_names)
  show ?thesis
  proof (intro set_eqI iffI)
    fix m assume "m \<in> set (dir_names e g)"
    then have m: "path_component m" "fs_status (e @ ''/'' @ m) g \<noteq> None" using dir_names_status [OF assms(3)] by auto
    have "fs_status (e @ ''/'' @ m) g = fs_status (e @ ''/'' @ m) f"
      if "\<forall>n c. task_input d f n c \<longrightarrow> strip_slash (e @ ''/'' @ m) \<noteq> result_path extn e n"
      using assms(1) that unfolding leaves_results_def by blast
    with m none [OF m(1)] have "\<exists>n c. task_input d f n c \<and> strip_slash (e @ ''/'' @ m) = result_path extn e n" by metis
    then show "m \<in> {n @ extn | n. \<exists>c. task_input d f n c}" using strip_in_dir [OF m(1), of e] by (auto simp: result_path_def)
  next
    fix m assume "m \<in> {n @ extn | n. \<exists>c. task_input d f n c}"
    then obtain n c where m: "m = n @ extn" and n: "task_input d f n c" by blast
    then have "fs_status (e @ ''/'' @ m) g \<noteq> None" using assms(1) by (auto simp: leaves_results_def result_path_def)
    with result_facts(1) [OF assms(2) comp [OF n]] m show "m \<in> set (dir_names e g)" using dir_names_status [OF assms(3)] by simp
  qed
qed

lemma script_fs_inv:
  assumes "fs_inv f"
  shows "fs_inv (write_results program extn d e xs f)"
  using assms by (induction xs arbitrary: f) (auto simp: write_results_def fs_inv_write_file)

section \<open>Uploads that all succeed\<close>

definition s3_accepts :: "('r, 'e) services \<Rightarrow> bool" where
  "s3_accepts sv \<longleftrightarrow> (\<forall>b k p x f. \<exists>x'. s3_upload_file sv b k p x f = (Inr (), x')) \<and>
     (\<forall>b k t x. \<exists>url x'. s3_presign sv b k t x = (Inr url, x'))"

lemma upload_entries_all:
  assumes "s3_accepts sv" and "\<forall>p. \<not> denied (fs w) p" and "\<forall>p \<in> set ps. fs_is_regular_ec p (fs w)"
  shows "\<exists>urls w'. upload_entries sv c output_prefix ps results w =
      (Return (Inr (results @ map2 result_object (map path_filename ps) urls)), w') \<and> length urls = length ps \<and>
    fs w' = fs w \<and> trace w' = trace w @
      map (\<lambda>p. S3_uploaded (c_str (c_s3_bucket c)) (c_str (output_prefix @ path_filename p)) (c_str p)) ps"
  using assms(2,3)
proof (induction ps arbitrary: results w)
  case (Cons p ps)
  let ?k = "c_str (output_prefix @ path_filename p)"
  obtain x where up: "s3_upload_file sv (c_str (c_s3_bucket c)) ?k (c_str p) (ext w) (fs w) = (Inr (), x)"
    using assms(1) by (metis s3_accepts_def)
  obtain url y where pre: "s3_presign sv (c_str (c_s3_bucket c)) ?k (c_presign_ttl_sec c) x = (Inr url, y)"
    using assms(1) by (metis s3_accepts_def)
  let ?w = "w\<lparr>trace := trace w @ [S3_uploaded (c_str (c_s3_bucket c)) ?k (c_str p)], ext := y\<rparr>"
  have reg: "entry_is_regular p (fs w) = (Return True, fs w)"
    using Cons.prems by (auto simp: entry_is_regular_def fs_is_regular_ec_def)
  from Cons.IH [of ?w "results @ [result_object (path_filename p) url]"] Cons.prems obtain urls w' where
    "upload_entries sv c output_prefix ps (results @ [result_object (path_filename p) url]) ?w =
      (Return (Inr ((results @ [result_object (path_filename p) url]) @ map2 result_object (map path_filename ps) urls)), w')"
    "length urls = length ps" "fs w' = fs w" "trace w' = (trace w @ [S3_uploaded (c_str (c_s3_bucket c)) ?k (c_str p)]) @
      map (\<lambda>p. S3_uploaded (c_str (c_s3_bucket c)) (c_str (output_prefix @ path_filename p)) (c_str p)) ps" by auto
  with up pre reg show ?case
    by (intro exI [of _ "url # urls"] exI [of _ w'])
      (simp add: bindE_def lift_fs_def Let_def call_s3_upload_def call_s3_presign_def emit_def)
qed (simp add: ret_def)

lemma upload_outputs_all:
  assumes "s3_accepts sv" and "\<forall>p. \<not> denied (fs w) p" and "plain_dir e" and "fs_status e (fs w) = Some Directory"
    and "\<forall>n \<in> set (dir_names e (fs w)). fs_is_regular_ec (e @ ''/'' @ n) (fs w)"
  shows "\<exists>urls w'. upload_outputs sv c output_prefix e w =
      (Return (Inr (map2 result_object (dir_names e (fs w)) urls)), w') \<and> length urls = length (dir_names e (fs w)) \<and>
    fs w' = fs w \<and> trace w' = trace w @ map (\<lambda>n. S3_uploaded (c_str (c_s3_bucket c)) (c_str (output_prefix @ n))
      (c_str (e @ ''/'' @ n))) (dir_names e (fs w))"
proof -
  let ?ns = "dir_names e (fs w)"
  let ?ps = "map (\<lambda>n. e @ ''/'' @ n) ?ns"
  have comp: "path_component n" if "n \<in> set ?ns" for n using that by (simp add: set_dir_names)
  have "path_append e n = e @ ''/'' @ n" if "n \<in> set ?ns" for n
    using comp [OF that] assms(3) by (cases n) (auto simp: path_append_def plain_dir_def path_component_def)
  then have paths: "map (path_append e) ?ns = ?ps" by simp
  have names: "map path_filename ?ps = ?ns" using filename_in_dir comp by (auto intro: map_idI)
  have "directory_iterator e (fs w) = Inr ?ps" using assms(2,4) paths by (simp add: directory_iterator_def)
  moreover have "map (\<lambda>p. S3_uploaded (c_str (c_s3_bucket c)) (c_str (output_prefix @ path_filename p)) (c_str p)) ?ps =
      map (\<lambda>n. S3_uploaded (c_str (c_s3_bucket c)) (c_str (output_prefix @ n)) (c_str (e @ ''/'' @ n))) ?ns"
    using filename_in_dir comp by simp
  ultimately show ?thesis
    using upload_entries_all [OF assms(1,2), of ?ps c output_prefix "[]"] assms(5) unfolding names
    by (auto simp: upload_outputs_def bindE_def gets_def)
qed

section \<open>A script as the task\<close>

lemma execute_in_time:
  assumes "fs_is_regular_ec (resolve_executable ex (executable task)) (fs w)" and "can_write out (fs w)"
    and "process_run sv (resolve_executable ex (executable task)) (d # e # arguments) out
      (effective_timeout (default_timeout_sec ex) timeout_sec) (ext w) (write_file out '''' (fs w)) =
      (Inr ([Wait_done None, Timer_done True], status), x, g)"
  shows "execute sv ex task arguments d e out timeout_sec w =
    (Return (Inr \<lparr>exit_code = status, timed_out = False, stdout_tail = read_stdout_tail out g\<rparr>),
     w\<lparr>fs := g, ext := x, trace := trace w @ [Launched (resolve_executable ex (executable task)) (d # e # arguments)
        (effective_timeout (default_timeout_sec ex) timeout_sec)]\<rparr>)"
  using assms by (auto simp: execute_def Let_def bindE_def gets_def ret_def modify_def update_fs_def call_process_run_def
      emit_def run_io_timed_out io_start_def fs_exists_ec_def fs_is_regular_ec_def)

lemma capture_elsewhere:
  assumes "plain_dir out" and "f = write_file out '''' f0" and "plain_dir e" and "dir_names e f = []" and "path_component m"
  shows "fs_status (e @ ''/'' @ m) (write_file out s g) = fs_status (e @ ''/'' @ m) g"
proof -
  have out: "out \<noteq> []" "strip_slash out = out" using assms(1) strip_plain by (auto simp: plain_dir_def)
  have "fs_status (e @ ''/'' @ m) f = None" using dir_names_status [OF assms(3), of m f] assms(4,5) by auto
  with out strip_in_dir [OF assms(5), of e] show ?thesis
    by (auto simp: assms(2) fs_status_write_file split: if_splits)
qed

lemma script_keeps:
  fixes collate program report extn d e f
  assumes "\<forall>p. \<not> denied f p" and "set (collate (script_names d f)) = set (script_names d f)"
    and "script_ready extn d e f (script_names d f)"
    and "script (process_file program extn report) name collate (d # e # extra) f = (status, sh)"
  shows "denied (sh_files sh) = denied f" and "fs_inv f \<Longrightarrow> fs_inv (sh_files sh)"
proof -
  have files: "sh_files sh = write_results program extn d e (inputs_of d (collate (script_names d f)) f) f"
    using assms(4) unfolding script_run [where collate = collate, OF assms(1-3)] by (auto split: if_splits simp: write_results_def)
  have "denied (write_results program extn d e xs f) = denied f" for xs f
    by (induction xs arbitrary: f) (auto simp: write_results_def)
  with files show "denied (sh_files sh) = denied f" by simp
  show "fs_inv (sh_files sh)" if "fs_inv f" unfolding files by (rule script_fs_inv [OF that])
qed

text \<open>The launcher: it runs the script with its output and its errors captured, within the time limit.\<close>

definition launches ::
  "('r, 'e) services \<Rightarrow> (string list \<Rightarrow> filesys \<Rightarrow> int \<times> shell) \<Rightarrow> string \<Rightarrow> string list \<Rightarrow> string \<Rightarrow> int \<Rightarrow> 'e \<Rightarrow> filesys \<Rightarrow> bool" where
  "launches sv run exe args out limit x f \<longleftrightarrow>
     (\<exists>x'. process_run sv exe args out limit x f =
        (Inr ([Wait_done None, Timer_done True], fst (run args f)), x',
         write_file out (sh_out (snd (run args f)) @ sh_err (snd (run args f))) (sh_files (snd (run args f)))))"

text \<open>The directories of a job before its task starts: the output directory is empty, the capture file lies outside it.\<close>

definition job_ready :: "string \<Rightarrow> string \<Rightarrow> string \<Rightarrow> string \<Rightarrow> string \<Rightarrow> filesys \<Rightarrow> bool" where
  "job_ready extn exe d e out f \<longleftrightarrow>
     fs_inv f \<and> fs_is_regular_ec exe f \<and> plain_dir out \<and> can_write out f \<and> dir_names e (write_file out '''' f) = [] \<and>
     script_ready extn d e (write_file out '''' f) (script_names d (write_file out '''' f))"

lemma script_job_files:
  fixes collate program report extn d e out f0 sh
  defines "f \<equiv> write_file out '''' f0"
  assumes ready: "job_ready extn exe d e out f0" and allowed: "\<forall>p. \<not> denied f0 p"
    and order: "set (collate (script_names d f)) = set (script_names d f)"
    and run: "script (process_file program extn report) name collate (d # e # extra) f = (status, sh)"
  defines "g \<equiv> write_file out (sh_out sh @ sh_err sh) (sh_files sh)"
  shows "status = (if \<exists>n c. task_input d f n c then 0 else 1)"
    and "task_input d f n c \<Longrightarrow> fs_status (result_path extn e n) g = Some (Regular (echo (chomp (program (d @ ''/'' @ n) c))))"
    and "set (dir_names e g) = {n @ extn | n. \<exists>c. task_input d f n c}" and "distinct (dir_names e g)"
    and "fs_status e g = Some Directory" and "\<not> denied g p"
    and "read_stdout_tail out g = tail_of (sh_out sh @ sh_err sh)"
proof -
  have allowed': "\<forall>p. \<not> denied f p" using allowed by (simp add: f_def)
  have sr: "script_ready extn d e f (script_names d f)" and empty: "dir_names e f = []" and out: "plain_dir out"
    using ready by (simp_all add: job_ready_def f_def)
  then have ex: "CHR ''/'' \<notin> set extn" and e: "plain_dir e" "fs_status e f = Some Directory" by (simp_all add: script_ready_def)
  have out': "out \<noteq> []" "strip_slash out = out" using out strip_plain by (auto simp: plain_dir_def)
  note lr = script_leaves_results [where collate = collate, OF allowed' order sr run]
  note keeps = script_keeps [where collate = collate, OF allowed' order sr run]
  have same: "fs_status (e @ ''/'' @ m) g = fs_status (e @ ''/'' @ m) (sh_files sh)" if "path_component m" for m
    unfolding g_def by (rule capture_elsewhere [OF out meta_eq_to_obj_eq [OF f_def] e(1) empty that])
  show "status = (if \<exists>n c. task_input d f n c then 0 else 1)" using lr unfolding leaves_results_def by blast
  show "fs_status (result_path extn e n) g = Some (Regular (echo (chomp (program (d @ ''/'' @ n) c))))" if n: "task_input d f n c"
  proof -
    have "path_component n" using n by (simp add: task_input_def set_dir_names)
    from same [OF result_facts(1) [OF ex this]] lr n show ?thesis by (simp add: leaves_results_def result_path_def)
  qed
  have "set (dir_names e g) = set (dir_names e (sh_files sh))" using same dir_names_status [OF e(1)] by auto
  with results_listed [OF lr ex e(1) empty] show "set (dir_names e g) = {n @ extn | n. \<exists>c. task_input d f n c}" by simp
  have "fs_inv f" using ready by (simp add: job_ready_def f_def fs_inv_write_file)
  with keeps(2) show "distinct (dir_names e g)" by (simp add: g_def fs_inv_write_file distinct_dir_names)
  have "strip_slash e \<noteq> out" using e out' by (auto simp: f_def fs_status_write_file plain_dir_def split: if_splits)
  moreover have "fs_status e (sh_files sh) = fs_status e f"
    using lr strip_plain [OF e(1)] by (auto simp: leaves_results_def result_path_def)
  ultimately show "fs_status e g = Some Directory" using e(2) out' by (simp add: g_def fs_status_write_file)
  show denied: "\<not> denied g p" for p using keeps(1) allowed' by (simp add: g_def)
  have "fs_status out g = Some (Regular (sh_out sh @ sh_err sh))" using out' by (simp add: g_def fs_status_write_file)
  with denied show "read_stdout_tail out g = tail_of (sh_out sh @ sh_err sh)" by (simp add: read_stdout_tail_def read_file_def)
qed

lemma script_job:
  fixes collate program report extn d e out w
  defines "f \<equiv> write_file out '''' (fs w)"
  assumes s3: "s3_accepts sv" and allowed: "\<forall>p. \<not> denied (fs w) p"
    and ready: "job_ready extn (resolve_executable ex (executable task)) d e out (fs w)"
    and order: "set (collate (script_names d f)) = set (script_names d f)"
    and run: "launches sv (script (process_file program extn report) name collate) (resolve_executable ex (executable task))
      (d # e # arguments) out (effective_timeout (default_timeout_sec ex) timeout_sec) (ext w) f"
  shows "\<exists>result w1 names urls w2.
     execute sv ex task arguments d e out timeout_sec w = (Return (Inr result), w1) \<and>
     exit_code result = (if \<exists>n c. task_input d f n c then 0 else 1) \<and>
     upload_outputs sv c output_prefix e w1 = (Return (Inr (map2 result_object names urls)), w2) \<and>
     length urls = length names \<and> distinct names \<and> set names = {n @ extn | n. \<exists>c. task_input d f n c} \<and>
     trace w2 = trace w @ Launched (resolve_executable ex (executable task)) (d # e # arguments)
         (effective_timeout (default_timeout_sec ex) timeout_sec) #
       map (\<lambda>n. S3_uploaded (c_str (c_s3_bucket c)) (c_str (output_prefix @ n)) (c_str (e @ ''/'' @ n))) names \<and>
     (\<forall>n c. task_input d f n c \<longrightarrow>
        fs_status (result_path extn e n) (fs w2) = Some (Regular (echo (chomp (program (d @ ''/'' @ n) c)))))"
proof -
  obtain status sh where go: "script (process_file program extn report) name collate (d # e # arguments) f = (status, sh)" by fastforce
  define g where "g = write_file out (sh_out sh @ sh_err sh) (sh_files sh)"
  from run go obtain x where
    pr: "process_run sv (resolve_executable ex (executable task)) (d # e # arguments) out
      (effective_timeout (default_timeout_sec ex) timeout_sec) (ext w) f = (Inr ([Wait_done None, Timer_done True], status), x, g)"
    by (auto simp: launches_def g_def)
  note files = script_job_files [where collate = collate, OF ready allowed order [unfolded f_def] go [unfolded f_def], folded f_def g_def]
  have exe: "fs_is_regular_ec (resolve_executable ex (executable task)) (fs w)" "can_write out (fs w)" "plain_dir e"
    using ready by (simp_all add: job_ready_def script_ready_def)
  note run1 = execute_in_time [OF exe(1,2) pr [unfolded f_def]]
  let ?w1 = "w\<lparr>fs := g, ext := x, trace := trace w @ [Launched (resolve_executable ex (executable task)) (d # e # arguments)
        (effective_timeout (default_timeout_sec ex) timeout_sec)]\<rparr>"
  have "fs_is_regular_ec (e @ ''/'' @ m) g" if "m \<in> set (dir_names e g)" for m
    using that files(2,6) unfolding files(3) by (auto simp: fs_is_regular_ec_def result_path_def)
  with upload_outputs_all [OF s3, of ?w1 e c output_prefix] files(5,6) exe(3) obtain urls w2 where
    "upload_outputs sv c output_prefix e ?w1 = (Return (Inr (map2 result_object (dir_names e g) urls)), w2)"
    "length urls = length (dir_names e g)" "fs w2 = g" "trace w2 = trace ?w1 @
      map (\<lambda>n. S3_uploaded (c_str (c_s3_bucket c)) (c_str (output_prefix @ n)) (c_str (e @ ''/'' @ n))) (dir_names e g)" by auto
  with run1 files(1-4) show ?thesis
    by (intro exI [of _ "\<lparr>exit_code = status, timed_out = False, stdout_tail = read_stdout_tail out g\<rparr>"] exI [of _ ?w1]
        exI [of _ "dir_names e g"] exI [of _ urls] exI [of _ w2]) simp
qed

section \<open>Properties\<close>

text \<open>
  C29. A word count job inside the worker. When the launcher runs \<^verbatim>\<open>wordcount.sh\<close> within the time limit on the
  directories of a job, \<^verbatim>\<open>execute\<close> returns with exit code 0 exactly when there is a visible input file, and with 1
  otherwise. With an S3 that accepts uploads, \<^verbatim>\<open>upload_outputs\<close> then uploads one object per visible input
  and nothing else: each once, under the output prefix, the name of the input and \<^verbatim>\<open>.wordcount.txt\<close>, with the word
  count of that input as its text, and the result list has one entry for each of them.
\<close>

theorem wordcount_job_uploads:
  fixes collate d e out w
  defines "f \<equiv> write_file out '''' (fs w)"
  assumes "s3_accepts sv" and "\<forall>p. \<not> denied (fs w) p"
    and "job_ready ''.wordcount.txt'' (resolve_executable ex (executable task)) d e out (fs w)"
    and "set (collate (script_names d f)) = set (script_names d f)"
    and "launches sv (wordcount collate count_words) (resolve_executable ex (executable task))
      (d # e # arguments) out (effective_timeout (default_timeout_sec ex) timeout_sec) (ext w) f"
  shows "\<exists>result w1 names urls w2.
     execute sv ex task arguments d e out timeout_sec w = (Return (Inr result), w1) \<and>
     exit_code result = (if \<exists>n c. task_input d f n c then 0 else 1) \<and>
     upload_outputs sv c output_prefix e w1 = (Return (Inr (map2 result_object names urls)), w2) \<and>
     length urls = length names \<and> distinct names \<and> set names = {n @ ''.wordcount.txt'' | n. \<exists>c. task_input d f n c} \<and>
     trace w2 = trace w @ Launched (resolve_executable ex (executable task)) (d # e # arguments)
         (effective_timeout (default_timeout_sec ex) timeout_sec) #
       map (\<lambda>n. S3_uploaded (c_str (c_s3_bucket c)) (c_str (output_prefix @ n)) (c_str (e @ ''/'' @ n))) names \<and>
     (\<forall>n c. task_input d f n c \<longrightarrow>
        fs_status (result_path ''.wordcount.txt'' e n) (fs w2) = Some (Regular (echo (chomp (count_words c)))))"
proof -
  have eq: "wordcount collate count_words =
    script (process_file (\<lambda>p. count_words) ''.wordcount.txt'' (\<lambda>b v. ''wordcount: '' @ b @ '' -> '' @ v @ '' words'')) ''wordcount'' collate"
    by (simp add: fun_eq_iff wordcount_def wordcount_file_def)
  show ?thesis
    by (rule script_job [where collate = collate and program = "\<lambda>p. count_words",
        OF assms(2-4) assms(5) [unfolded f_def] assms(6) [unfolded f_def eq], folded f_def])
qed

text \<open>The reference worker with a launcher that runs the script, on the files of its job after the download.\<close>

definition script_services :: "(string \<rightharpoonup> string, unit) services" where
  "script_services = (ref_services 0)
     \<lparr>process_run := (\<lambda>exe args out limit x f.
        let r = wordcount id (\<lambda>c. ''2'') args f
        in (Inr ([Wait_done None, Timer_done True], fst r), x, write_file out (sh_out (snd r) @ sh_err (snd r)) (sh_files (snd r))))\<rparr>"

lemma script_services_launch: "launches script_services (wordcount id (\<lambda>c. ''2'')) exe args out limit x f"
  by (simp add: launches_def script_services_def Let_def)

lemma script_services_accepts: "s3_accepts script_services"
  by (simp add: s3_accepts_def script_services_def ref_services_def)

lemma ref_job_ready:
  "job_ready ''.wordcount.txt'' (resolve_executable (task_executor ref_worker) (executable ref_task))
     ''/tmp/taskforge/j1/inputs'' ''/tmp/taskforge/j1/outputs'' ''/tmp/taskforge/j1/stdout.log'' ref_fs2"
proof -
  have exe: "resolve_executable (task_executor ref_worker) (executable ref_task) = ''/app/wc.sh''"
    by (simp add: resolve_executable_def ref_worker_def ref_task_def path_defs)
  show ?thesis unfolding exe by code_simp
qed

lemma ref_job_names:
  "script_names ''/tmp/taskforge/j1/inputs'' (write_file ''/tmp/taskforge/j1/stdout.log'' '''' ref_fs2) = [''x.txt'']"
  "inputs_of ''/tmp/taskforge/j1/inputs'' [''x.txt''] (write_file ''/tmp/taskforge/j1/stdout.log'' '''' ref_fs2) =
     [(''x.txt'', ''hello world'')]"
  by code_simp+

lemma distinct_singleton: "distinct xs \<Longrightarrow> set xs = {x} \<Longrightarrow> xs = [x]"
  by (cases xs) (force simp: subset_singleton_iff)+

theorem wordcount_job_uploads_witness:
  "\<exists>result w1 urls w2.
     execute script_services (task_executor ref_worker) ref_task [] ''/tmp/taskforge/j1/inputs'' ''/tmp/taskforge/j1/outputs''
       ''/tmp/taskforge/j1/stdout.log'' 0 (ref_world\<lparr>fs := ref_fs2\<rparr>) = (Return (Inr result), w1) \<and> exit_code result = 0 \<and>
     upload_outputs script_services (configurations ref_worker) ''out/'' ''/tmp/taskforge/j1/outputs'' w1 =
       (Return (Inr (map2 result_object [''x.txt.wordcount.txt''] urls)), w2) \<and>
     fs_status ''/tmp/taskforge/j1/outputs/x.txt.wordcount.txt'' (fs w2) = Some (Regular (''2'' @ [newline]))"
proof -
  let ?d = "''/tmp/taskforge/j1/inputs''" and ?e = "''/tmp/taskforge/j1/outputs''" and ?o = "''/tmp/taskforge/j1/stdout.log''"
  let ?w = "ref_world\<lparr>fs := ref_fs2\<rparr>"
  have inputs: "task_input ?d (write_file ?o '''' ref_fs2) n c \<longleftrightarrow> n = ''x.txt'' \<and> c = ''hello world''" for n c
    using glob_inputs [of "[''x.txt'']" ?d "write_file ?o '''' ref_fs2" n c] by (simp only: ref_job_names) auto
  have ok: "\<forall>p. \<not> denied (fs ?w) p" "job_ready ''.wordcount.txt'' (resolve_executable (task_executor ref_worker) (executable ref_task)) ?d ?e ?o (fs ?w)"
    "set (id (script_names ?d (write_file ?o '''' (fs ?w)))) = set (script_names ?d (write_file ?o '''' (fs ?w)))"
    using ref_job_ready by (simp_all add: ref_fs_defs)
  note job = wordcount_job_uploads [where collate = id and arguments = "[]" and timeout_sec = 0 and
      c = "configurations ref_worker" and output_prefix = "''out/''", OF script_services_accepts ok script_services_launch]
  obtain result w1 names urls w2 where run:
    "execute script_services (task_executor ref_worker) ref_task [] ?d ?e ?o 0 ?w = (Return (Inr result), w1)"
    "exit_code result = (if \<exists>n c. task_input ?d (write_file ?o '''' (fs ?w)) n c then 0 else 1)"
    "upload_outputs script_services (configurations ref_worker) ''out/'' ?e w1 = (Return (Inr (map2 result_object names urls)), w2)"
    "distinct names" "set names = {n @ ''.wordcount.txt'' | n. \<exists>c. task_input ?d (write_file ?o '''' (fs ?w)) n c}"
    "\<forall>n c. task_input ?d (write_file ?o '''' (fs ?w)) n c \<longrightarrow>
      fs_status (result_path ''.wordcount.txt'' ?e n) (fs w2) = Some (Regular (echo (chomp ''2'')))"
    using job by (elim exE conjE)
  have fs: "fs ?w = ref_fs2" by simp
  have "set names = {''x.txt.wordcount.txt''}" using run(5) unfolding fs inputs by simp
  then have "names = [''x.txt.wordcount.txt'']" by (rule distinct_singleton [OF run(4)])
  moreover have "result_path ''.wordcount.txt'' ?e ''x.txt'' = ''/tmp/taskforge/j1/outputs/x.txt.wordcount.txt''"
    "echo (chomp ''2'') = ''2'' @ [newline]" by code_simp+
  moreover have "exit_code result = 0" using run(2) unfolding fs inputs by simp
  moreover have "fs_status (result_path ''.wordcount.txt'' ?e ''x.txt'') (fs w2) = Some (Regular (echo (chomp ''2'')))"
    using run(6) unfolding fs inputs by simp
  ultimately show ?thesis using run(1,3)
    by (intro exI [of _ result] exI [of _ w1] exI [of _ urls] exI [of _ w2] conjI) (simp_all only:)
qed

end
