(* ===== verification/Interface_Adapters.thy ===== *)
theory Interface_Adapters
  imports Job_Journey Interface_Settings
begin

text \<open>
  The adapters of the interfaces to Redis, S3 and SQS (\<^verbatim>\<open>golang/internal/repository\<close>, \<^verbatim>\<open>python/src/app/repositories\<close>,
  \<^verbatim>\<open>js/src/infra\<close> below \<^verbatim>\<open>src/Interface\<close>) and how the services are put together from them. The client libraries are
  parameters. A call has the time limit, in milliseconds, that the adapter puts on it, or none where the adapter
  leaves it to the configuration of the client.
\<close>

section \<open>Client libraries\<close>

datatype reply = Found string | Absent | Broken string

record 'a clients =
  cl_marshal :: "json \<Rightarrow> string"
  cl_unmarshal :: "string \<Rightarrow> json option"
  cl_new_uuid :: "'a \<Rightarrow> string \<times> 'a"
  cl_now :: "'a \<Rightarrow> int \<times> 'a"
  cl_get :: "int option \<Rightarrow> string \<Rightarrow> 'a \<Rightarrow> reply \<times> 'a"
  cl_presign :: "string \<Rightarrow> string \<Rightarrow> int \<Rightarrow> 'a \<Rightarrow> string expected \<times> 'a"
  cl_send :: "int option \<Rightarrow> string \<Rightarrow> string \<Rightarrow> string \<Rightarrow> 'a \<Rightarrow> unit expected \<times> 'a"

text \<open>The libraries differ in how an expiry is given: a number, an optional number, two forms of the call.\<close>

record 'a go_clients = "'a clients" +
  gc_set :: "int option \<Rightarrow> string \<Rightarrow> string \<Rightarrow> int \<Rightarrow> 'a \<Rightarrow> unit expected \<times> 'a"

record 'a py_clients = "'a clients" +
  pc_set :: "int option \<Rightarrow> string \<Rightarrow> string \<Rightarrow> int option \<Rightarrow> 'a \<Rightarrow> unit expected \<times> 'a"

record 'a js_clients = "'a clients" +
  jc_set :: "int option \<Rightarrow> string \<Rightarrow> string \<Rightarrow> 'a \<Rightarrow> unit expected \<times> 'a"
  jc_set_ex :: "int option \<Rightarrow> string \<Rightarrow> string \<Rightarrow> int \<Rightarrow> 'a \<Rightarrow> unit expected \<times> 'a"

text \<open>The settings that the services are made of. Times to live are in seconds.\<close>

record wiring =
  wi_bucket :: string
  wi_queue_url :: string
  wi_group_id :: string
  wi_presign_ttl :: int
  wi_redis_ttl :: int

text \<open>A Go duration of whole seconds is that number of seconds.\<close>

definition go_wiring :: "go_config \<Rightarrow> wiring \<Rightarrow> bool" where
  "go_wiring cfg wi \<longleftrightarrow> wi_bucket wi = st_bucket (go_texts cfg) \<and> wi_queue_url wi = st_queue_url (go_texts cfg) \<and>
     wi_group_id wi = st_group_id (go_texts cfg) \<and> go_presign_ttl cfg = wi_presign_ttl wi * 10 ^ 9 \<and> go_redis_ttl cfg = wi_redis_ttl wi * 10 ^ 9"

definition py_wiring :: "py_settings \<Rightarrow> wiring" where
  "py_wiring settings = \<lparr>wi_bucket = ps_s3_bucket settings, wi_queue_url = ps_sqs_request_queue_url settings,
     wi_group_id = ps_sqs_message_group_id settings, wi_presign_ttl = ps_s3_presign_ttl_sec settings, wi_redis_ttl = ps_redis_ttl_sec settings\<rparr>"

definition js_wiring :: "app_config \<Rightarrow> wiring" where
  "js_wiring config = \<lparr>wi_bucket = ac_s3_bucket config, wi_queue_url = ac_sqs_request_queue_url config,
     wi_group_id = ac_sqs_message_group_id config, wi_presign_ttl = ac_s3_presign_ttl_sec config, wi_redis_ttl = ac_redis_ttl_sec config\<rparr>"

definition wrap_error :: "string \<Rightarrow> 'b expected \<times> 'a \<Rightarrow> 'b expected \<times> 'a" where
  "wrap_error what r = (case r of (Inl e, b) \<Rightarrow> (Inl (what @ '': '' @ e), b) | (Inr x, b) \<Rightarrow> (Inr x, b))"

section \<open>Go\<close>

definition go_redis_timeout :: int where "go_redis_timeout = 2000"
definition go_sqs_timeout :: int where "go_sqs_timeout = 5000"

text \<open>A missing key is \<^verbatim>\<open>ErrNotFound\<close>, here \<open>Inr None\<close>.\<close>

definition go_redis_get :: "'a go_clients \<Rightarrow> string \<Rightarrow> 'a \<Rightarrow> string option expected \<times> 'a" where
  "go_redis_get cl key b =
     (case cl_get cl (Some go_redis_timeout) key b of
        (Absent, b') \<Rightarrow> (Inr None, b')
      | (Broken e, b') \<Rightarrow> (Inl (''redis get '' @ key @ '': '' @ e), b')
      | (Found value, b') \<Rightarrow> (Inr (Some value), b'))"

definition go_redis_set :: "'a go_clients \<Rightarrow> string \<Rightarrow> string \<Rightarrow> int \<Rightarrow> 'a \<Rightarrow> unit expected \<times> 'a" where
  "go_redis_set cl key value ttl b = wrap_error (''redis set '' @ key) (gc_set cl (Some go_redis_timeout) key value ttl b)"

definition go_presign_put :: "'a go_clients \<Rightarrow> string \<Rightarrow> string \<Rightarrow> int \<Rightarrow> 'a \<Rightarrow> string expected \<times> 'a" where
  "go_presign_put cl bucket key ttl b = wrap_error (''presign put '' @ key) (cl_presign cl bucket key ttl b)"

definition go_enqueue :: "'a go_clients \<Rightarrow> string \<Rightarrow> string \<Rightarrow> string \<Rightarrow> 'a \<Rightarrow> unit expected \<times> 'a" where
  "go_enqueue cl queue_url body gid b = wrap_error ''send message'' (cl_send cl (Some go_sqs_timeout) queue_url body gid b)"

definition go_backend :: "'a go_clients \<Rightarrow> wiring \<Rightarrow> 'a backend" where
  "go_backend cl cfg = \<lparr>be_marshal = cl_marshal cl, be_unmarshal = cl_unmarshal cl, be_bucket = wi_bucket cfg,
     be_presign_put = go_presign_put cl (wi_bucket cfg), be_enqueue = go_enqueue cl (wi_queue_url cfg),
     be_set = go_redis_set cl, be_get = go_redis_get cl, be_new_uuid = cl_new_uuid cl, be_now = cl_now cl\<rparr>"

definition new_job_service :: "wiring \<Rightarrow> job_service" where
  "new_job_service cfg = \<lparr>js_presign_ttl = wi_presign_ttl cfg, js_status_ttl = wi_redis_ttl cfg, js_group_id = wi_group_id cfg\<rparr>"

section \<open>Python\<close>

definition py_operation_timeout :: int where "py_operation_timeout = 2000"

text \<open>\<^verbatim>\<open>None\<close> is the reply to a missing key; errors are exceptions of the library.\<close>

definition py_redis_get :: "'a py_clients \<Rightarrow> string \<Rightarrow> 'a \<Rightarrow> string option expected \<times> 'a" where
  "py_redis_get cl key b =
     (case cl_get cl (Some py_operation_timeout) key b of
        (Found value, b') \<Rightarrow> (Inr (Some value), b') | (Absent, b') \<Rightarrow> (Inr None, b') | (Broken e, b') \<Rightarrow> (Inl e, b'))"

definition py_redis_set :: "'a py_clients \<Rightarrow> string \<Rightarrow> string \<Rightarrow> int \<Rightarrow> 'a \<Rightarrow> unit expected \<times> 'a" where
  "py_redis_set cl key value ttl_sec b =
     pc_set cl (Some py_operation_timeout) key value (if ttl_sec > 0 then Some ttl_sec else None) b"

definition py_presign_put :: "'a py_clients \<Rightarrow> string \<Rightarrow> string \<Rightarrow> int \<Rightarrow> 'a \<Rightarrow> string expected \<times> 'a" where
  "py_presign_put cl bucket key ttl_sec b = cl_presign cl bucket key ttl_sec b"

definition py_enqueue :: "'a py_clients \<Rightarrow> string \<Rightarrow> string \<Rightarrow> string \<Rightarrow> 'a \<Rightarrow> unit expected \<times> 'a" where
  "py_enqueue cl queue_url body gid b = cl_send cl None queue_url body gid b"

definition py_backend :: "'a py_clients \<Rightarrow> wiring \<Rightarrow> 'a backend" where
  "py_backend cl cfg = \<lparr>be_marshal = cl_marshal cl, be_unmarshal = cl_unmarshal cl, be_bucket = wi_bucket cfg,
     be_presign_put = py_presign_put cl (wi_bucket cfg), be_enqueue = py_enqueue cl (wi_queue_url cfg),
     be_set = py_redis_set cl, be_get = py_redis_get cl, be_new_uuid = cl_new_uuid cl, be_now = cl_now cl\<rparr>"

definition py_job_service :: "wiring \<Rightarrow> job_service" where
  "py_job_service cfg = \<lparr>js_presign_ttl = wi_presign_ttl cfg, js_status_ttl = wi_redis_ttl cfg, js_group_id = wi_group_id cfg\<rparr>"

section \<open>JavaScript\<close>

definition redis_command_timeout_ms :: int where "redis_command_timeout_ms = 2000"
definition aws_operation_timeout_ms :: int where "aws_operation_timeout_ms = 5000"

definition js_redis_get :: "'a js_clients \<Rightarrow> string \<Rightarrow> 'a \<Rightarrow> string option expected \<times> 'a" where
  "js_redis_get cl key b =
     (case cl_get cl (Some redis_command_timeout_ms) key b of
        (Found value, b') \<Rightarrow> (Inr (Some value), b') | (Absent, b') \<Rightarrow> (Inr None, b') | (Broken e, b') \<Rightarrow> (Inl e, b'))"

definition js_redis_set :: "'a js_clients \<Rightarrow> string \<Rightarrow> string \<Rightarrow> int \<Rightarrow> 'a \<Rightarrow> unit expected \<times> 'a" where
  "js_redis_set cl key value ttl_sec b =
     (if ttl_sec > 0 then jc_set_ex cl (Some redis_command_timeout_ms) key value ttl_sec b
      else jc_set cl (Some redis_command_timeout_ms) key value b)"

text \<open>The time to live of a presigned address is the one of the settings, not an argument.\<close>

definition js_presign_put :: "'a js_clients \<Rightarrow> wiring \<Rightarrow> string \<Rightarrow> 'a \<Rightarrow> string expected \<times> 'a" where
  "js_presign_put cl cfg key b = cl_presign cl (wi_bucket cfg) key (wi_presign_ttl cfg) b"

definition js_enqueue :: "'a js_clients \<Rightarrow> string \<Rightarrow> string \<Rightarrow> string \<Rightarrow> 'a \<Rightarrow> unit expected \<times> 'a" where
  "js_enqueue cl queue_url body gid b = cl_send cl (Some aws_operation_timeout_ms) queue_url body gid b"

definition js_backend :: "'a js_clients \<Rightarrow> wiring \<Rightarrow> 'a backend" where
  "js_backend cl cfg = \<lparr>be_marshal = cl_marshal cl, be_unmarshal = cl_unmarshal cl, be_bucket = wi_bucket cfg,
     be_presign_put = (\<lambda>key ttl. js_presign_put cl cfg key), be_enqueue = js_enqueue cl (wi_queue_url cfg),
     be_set = js_redis_set cl, be_get = js_redis_get cl, be_new_uuid = cl_new_uuid cl, be_now = cl_now cl\<rparr>"

definition js_job_service :: "wiring \<Rightarrow> job_service" where
  "js_job_service cfg = \<lparr>js_presign_ttl = wi_presign_ttl cfg, js_status_ttl = wi_redis_ttl cfg, js_group_id = wi_group_id cfg\<rparr>"

section \<open>Settings\<close>

text \<open>
  With the queue set and every other variable unset, the three interfaces start and their services are made of the same
  settings.
\<close>

lemma default_wirings:
  assumes "env ''SQS_REQUEST_QUEUE_URL'' = Some q" and "lookup ''sqs_request_queue_url'' = Some q" and "q \<noteq> []"
    and "\<And>key. key \<noteq> ''SQS_REQUEST_QUEUE_URL'' \<Longrightarrow> env key = None" and "\<And>key. key \<noteq> ''sqs_request_queue_url'' \<Longrightarrow> lookup key = None"
  shows "\<exists>g p j. go_load fraction env = Inr g \<and> py_get_settings parse_int lookup = Inr p \<and> load_configuration nearest env = Inr j \<and>
    go_validate (st_queue_url (go_texts g)) (st_bucket (go_texts g)) = Inr () \<and>
    py_validate_required (ps_sqs_request_queue_url p) (ps_s3_bucket p) = Inr () \<and>
    js_validate_required (ac_sqs_request_queue_url j) (ac_s3_bucket j) = Inr () \<and>
    go_wiring g (py_wiring p) \<and> js_wiring j = py_wiring p \<and> 0 < wi_redis_ttl (py_wiring p)"
  using assms by (simp add: go_load_def get_duration_def get_int_def os_getenv_def go_settings_def get_env_def
      py_get_settings_def py_int_def py_int_fields_def load_configuration_def parse_int_env_def nullish_def go_validate_def
      py_validate_required_def js_validate_required_def go_wiring_def py_wiring_def js_wiring_def)

section \<open>Client options\<close>

text \<open>
  The options of an S3 client: with an endpoint of its own, as LocalStack has one, addresses are in path style;
  without one the endpoint is left to the library.
\<close>

record s3_options =
  so_region :: string
  so_endpoint :: "string option"
  so_path_style :: bool

definition go_s3_options :: "string \<Rightarrow> string \<Rightarrow> s3_options" where
  "go_s3_options region endpoint =
     (let o1 = \<lparr>so_region = region, so_endpoint = None, so_path_style = False\<rparr>
      in if endpoint \<noteq> [] then o1\<lparr>so_endpoint := Some endpoint, so_path_style := True\<rparr> else o1)"

definition py_s3_options :: "string \<Rightarrow> string \<Rightarrow> s3_options" where
  "py_s3_options region endpoint_url =
     \<lparr>so_region = region, so_endpoint = (if endpoint_url = [] then None else Some endpoint_url), so_path_style = (endpoint_url \<noteq> [])\<rparr>"

definition js_s3_options :: "string \<Rightarrow> string \<Rightarrow> s3_options" where
  "js_s3_options region endpoint =
     (if endpoint \<noteq> [] then \<lparr>so_region = region, so_endpoint = Some endpoint, so_path_style = True\<rparr>
      else \<lparr>so_region = region, so_endpoint = None, so_path_style = False\<rparr>)"

lemma s3_options_agree: "go_s3_options region url = py_s3_options region url \<and> js_s3_options region url = py_s3_options region url"
  by (simp add: go_s3_options_def py_s3_options_def js_s3_options_def Let_def)

section \<open>Back ends that differ in error texts\<close>

definition no_text :: "'e + 'd \<Rightarrow> unit + 'd" where
  "no_text r = (case r of Inl e \<Rightarrow> Inl () | Inr x \<Rightarrow> Inr x)"

abbreviation (input) untold :: "('e + 'd) \<times> 'a \<Rightarrow> (unit + 'd) \<times> 'a" where
  "untold r \<equiv> apfst no_text r"

definition same_back :: "job_service \<Rightarrow> 'a backend \<Rightarrow> 'a backend \<Rightarrow> bool" where
  "same_back s be be' \<longleftrightarrow>
     be_marshal be = be_marshal be' \<and> be_unmarshal be = be_unmarshal be' \<and> be_bucket be = be_bucket be' \<and>
     be_new_uuid be = be_new_uuid be' \<and> be_now be = be_now be' \<and>
     (\<forall>k b. untold (be_presign_put be k (js_presign_ttl s) b) = untold (be_presign_put be' k (js_presign_ttl s) b)) \<and>
     (\<forall>m g b. untold (be_enqueue be m g b) = untold (be_enqueue be' m g b)) \<and>
     (\<forall>k v b. untold (be_set be k v (js_status_ttl s) b) = untold (be_set be' k v (js_status_ttl s) b)) \<and>
     (\<forall>k b. untold (be_get be k b) = untold (be_get be' k b))"

lemma untold_cases:
  assumes "untold r = untold r'"
  obtains (error) e e' b where "r = (Inl e, b)" "r' = (Inl e', b)" | (got) x b where "r = (Inr x, b)" "r' = (Inr x, b)"
  using assms by (cases r; cases r'; cases "fst r"; cases "fst r'") (auto simp: no_text_def)

lemma py_inputs_same:
  assumes "same_back s be be'"
  shows "\<exists>x d' e e'. py_inputs be s job_id files us ds d = (Return (or_error e x), d') \<and>
    py_inputs be' s job_id files us ds d = (Return (or_error e' x), d')"
proof (induction files arbitrary: us ds d)
  case Nil
  show ?case by (intro exI [of _ "Some (us, ds)"] exI [of _ d]) (simp add: ret_def)
next
  case (Cons f files)
  let ?key = "''jobs/'' @ job_id @ ''/inputs/'' @ f"
  have same: "untold (be_presign_put be ?key (js_presign_ttl s) (behind d)) = untold (be_presign_put be' ?key (js_presign_ttl s) (behind d))"
    "be_bucket be = be_bucket be'" using assms by (simp_all add: same_back_def)
  from same(1) show ?case
  proof (cases rule: untold_cases)
    case (error e e' b)
    then show ?thesis
      by (intro exI [of _ None] exI [of _ "d\<lparr>journal := journal d @ [Presigned ?key], behind := b\<rparr>"] exI [of _ "Py_infra e"]
          exI [of _ "Py_infra e'"]) (simp add: desk_steps Let_def)
  next
    case (got url b)
    with Cons.IH [of "us @ [\<lparr>up_filename = f, up_url = url, up_method = ''PUT''\<rparr>]" "ds @ [py_download (be_bucket be) ?key]"
        "d\<lparr>journal := journal d @ [Presigned ?key], behind := b\<rparr>"] same(2) show ?thesis
      by (simp add: desk_steps Let_def)
  qed
qed

lemma create_job_same:
  assumes "same_back s be be'"
  shows "create_job Python be s r d = create_job Python be' s r d"
proof -
  obtain id b1 where u: "be_new_uuid be (behind d) = (id, b1)" by fastforce
  obtain t b2 where n: "be_now be b1 = (t, b2)" by fastforce
  have eqs: "be_new_uuid be' = be_new_uuid be" "be_now be' = be_now be" "be_marshal be' = be_marshal be"
    using assms by (simp_all add: same_back_def)
  from py_inputs_same [OF assms, of id "pr_input_files r" "[]" "[]" "d\<lparr>behind := b2\<rparr>"] obtain x d' e e' where
    ins: "py_inputs be s id (pr_input_files r) [] [] (d\<lparr>behind := b2\<rparr>) = (Return (or_error e x), d')"
      "py_inputs be' s id (pr_input_files r) [] [] (d\<lparr>behind := b2\<rparr>) = (Return (or_error e' x), d')" by blast
  show ?thesis
  proof (cases x)
    case None
    with u n ins eqs show ?thesis by (simp add: create_job_def py_create_job_def bindE_def ret_def ask_back_def Let_def)
  next
    case (Some p)
    obtain us ds where p: "p = (us, ds)" by (cases p)
    let ?status = "be_marshal be (py_status id r (utc_timestamp t))" and ?body = "be_marshal be (py_message id r ds (utc_timestamp t))"
    have "untold (be_set be id ?status (js_status_ttl s) (behind d')) = untold (be_set be' id ?status (js_status_ttl s) (behind d'))"
      using assms by (simp add: same_back_def)
    then show ?thesis
    proof (cases rule: untold_cases)
      case error
      with u n ins eqs Some p show ?thesis by (simp add: create_job_def py_create_job_def desk_steps Let_def)
    next
      case (got y b)
      have "untold (be_enqueue be ?body (js_group_id s) b) = untold (be_enqueue be' ?body (js_group_id s) b)"
        using assms by (simp add: same_back_def)
      then show ?thesis
        by (cases rule: untold_cases) (use got u n ins eqs Some p in \<open>simp_all add: create_job_def py_create_job_def desk_steps Let_def\<close>)
    qed
  qed
qed

lemma status_route_same:
  assumes "same_back s be be'"
  shows "status_route i be parses job_id d = status_route i be' parses job_id d"
proof -
  have eqs: "be_unmarshal be' = be_unmarshal be" and "untold (be_get be job_id (behind d)) = untold (be_get be' job_id (behind d))"
    using assms by (simp_all add: same_back_def)
  from this(2) show ?thesis
    by (cases rule: untold_cases; cases i)
      (simp_all add: status_route_def go_get_def py_get_def js_get_def go_get_job_def py_get_job_def js_get_job_def desk_steps eqs
        py_loads_def js_parse_def py_respond_def js_respond_def split: option.split sum.split)
qed

section \<open>The same commands\<close>

text \<open>
  What the client libraries have to do with each other: each carries out the same commands of Redis, S3 and SQS, with
  error texts of its own, and the runtimes agree on JSON, identifiers and the clock. The Go client takes an expiry of
  zero as none.
\<close>

fun reply_of :: "reply \<Rightarrow> unit + string option" where
  "reply_of (Found v) = Inr (Some v)"
| "reply_of Absent = Inr None"
| "reply_of (Broken e) = Inl ()"

locale same_commands =
  fixes go :: "'a go_clients" and py :: "'a py_clients" and js :: "'a js_clients"
    and cmd_get :: "string \<Rightarrow> 'a \<Rightarrow> (unit + string option) \<times> 'a"
    and cmd_set :: "string \<Rightarrow> string \<Rightarrow> int option \<Rightarrow> 'a \<Rightarrow> (unit + unit) \<times> 'a"
    and cmd_presign :: "string \<Rightarrow> string \<Rightarrow> int \<Rightarrow> 'a \<Rightarrow> (unit + string) \<times> 'a"
    and cmd_send :: "string \<Rightarrow> string \<Rightarrow> string \<Rightarrow> 'a \<Rightarrow> (unit + unit) \<times> 'a"
  assumes runtime_go: "cl_marshal go = cl_marshal py" "cl_unmarshal go = cl_unmarshal py" "cl_new_uuid go = cl_new_uuid py" "cl_now go = cl_now py"
    and runtime_js: "cl_marshal js = cl_marshal py" "cl_unmarshal js = cl_unmarshal py" "cl_new_uuid js = cl_new_uuid py" "cl_now js = cl_now py"
    and get_go: "0 < t \<Longrightarrow> apfst reply_of (cl_get go (Some t) k b) = cmd_get k b"
    and get_py: "0 < t \<Longrightarrow> apfst reply_of (cl_get py (Some t) k b) = cmd_get k b"
    and get_js: "0 < t \<Longrightarrow> apfst reply_of (cl_get js (Some t) k b) = cmd_get k b"
    and set_go: "0 < t \<Longrightarrow> 0 \<le> ttl \<Longrightarrow> untold (gc_set go (Some t) k v ttl b) = cmd_set k v (if 0 < ttl then Some ttl else None) b"
    and set_py: "0 < t \<Longrightarrow> untold (pc_set py (Some t) k v expiry b) = cmd_set k v expiry b"
    and set_js: "0 < t \<Longrightarrow> untold (jc_set js (Some t) k v b) = cmd_set k v None b"
    and set_ex_js: "0 < t \<Longrightarrow> 0 < ttl \<Longrightarrow> untold (jc_set_ex js (Some t) k v ttl b) = cmd_set k v (Some ttl) b"
    and presign_go: "untold (cl_presign go bucket k ttl b) = cmd_presign bucket k ttl b"
    and presign_py: "untold (cl_presign py bucket k ttl b) = cmd_presign bucket k ttl b"
    and presign_js: "untold (cl_presign js bucket k ttl b) = cmd_presign bucket k ttl b"
    and send_go: "0 < t \<Longrightarrow> untold (cl_send go (Some t) url body gid b) = cmd_send url body gid b"
    and send_py: "untold (cl_send py None url body gid b) = cmd_send url body gid b"
    and send_js: "0 < t \<Longrightarrow> untold (cl_send js (Some t) url body gid b) = cmd_send url body gid b"
begin

lemma untold_wrap: "untold (wrap_error what r) = untold r"
  by (cases r; cases "fst r") (auto simp: wrap_error_def no_text_def)

lemma untold_get:
  "untold (go_redis_get go k b) = cmd_get k b" "untold (py_redis_get py k b) = cmd_get k b" "untold (js_redis_get js k b) = cmd_get k b"
  using get_go [of go_redis_timeout k b] get_py [of py_operation_timeout k b] get_js [of redis_command_timeout_ms k b]
  by (auto simp: go_redis_get_def py_redis_get_def js_redis_get_def no_text_def go_redis_timeout_def py_operation_timeout_def
      redis_command_timeout_ms_def apfst_def map_prod_def split: prod.splits reply.splits)

lemma go_same: "0 \<le> wi_redis_ttl cfg \<Longrightarrow> same_back (new_job_service cfg) (go_backend go cfg) (py_backend py cfg)"
  by (simp add: same_back_def go_backend_def py_backend_def new_job_service_def runtime_go untold_get go_presign_put_def
      py_presign_put_def go_enqueue_def py_enqueue_def go_redis_set_def py_redis_set_def untold_wrap presign_go presign_py
      send_go send_py set_go set_py go_sqs_timeout_def go_redis_timeout_def py_operation_timeout_def)

lemma js_same: "same_back (js_job_service cfg) (js_backend js cfg) (py_backend py cfg)"
  by (simp add: same_back_def js_backend_def py_backend_def js_job_service_def runtime_js untold_get js_presign_put_def
      py_presign_put_def js_enqueue_def py_enqueue_def js_redis_set_def py_redis_set_def presign_js presign_py
      send_js send_py set_js set_ex_js set_py aws_operation_timeout_ms_def redis_command_timeout_ms_def py_operation_timeout_def)

end

section \<open>Properties\<close>


text \<open>Clients of one store, each with a queue that refuses an empty body in its own words.\<close>

definition store_clients :: "string \<Rightarrow> (string \<rightharpoonup> string) clients" where
  "store_clients words = \<lparr>cl_marshal = print_json, cl_unmarshal = (\<lambda>s. case parse_json s of Inl e \<Rightarrow> None | Inr v \<Rightarrow> Some v),
     cl_new_uuid = (\<lambda>m. (''0f8fad5b-d9cd-469f-a165-70867728950e'', m)), cl_now = (\<lambda>m. (0, m)),
     cl_get = (\<lambda>limit k m. (case m k of None \<Rightarrow> Absent | Some v \<Rightarrow> Found v, m)),
     cl_presign = (\<lambda>bucket k t m. (Inr (''http://s3/'' @ k), m)),
     cl_send = (\<lambda>limit url body gid m. (if body = [] then Inl words else Inr (), m))\<rparr>"

definition go_store :: "(string \<rightharpoonup> string) go_clients" where
  "go_store = clients.extend (store_clients ''MissingParameter'') \<lparr>gc_set = (\<lambda>limit k v ttl m. (Inr (), m(k \<mapsto> v)))\<rparr>"

definition py_store :: "(string \<rightharpoonup> string) py_clients" where
  "py_store = clients.extend (store_clients ''InvalidParameterValue'') \<lparr>pc_set = (\<lambda>limit k v expiry m. (Inr (), m(k \<mapsto> v)))\<rparr>"

definition js_store :: "(string \<rightharpoonup> string) js_clients" where
  "js_store = clients.extend (store_clients ''empty body'')
     \<lparr>jc_set = (\<lambda>limit k v m. (Inr (), m(k \<mapsto> v))), jc_set_ex = (\<lambda>limit k v ttl m. (Inr (), m(k \<mapsto> v)))\<rparr>"

lemmas store_client_defs = go_store_def py_store_def js_store_def store_clients_def clients.defs

interpretation stores: same_commands go_store py_store js_store
  "\<lambda>k m. (Inr (m k), m)" "\<lambda>k v expiry m. (Inr (), m(k \<mapsto> v))" "\<lambda>bucket k ttl m. (Inr (''http://s3/'' @ k), m)"
  "\<lambda>url body gid m. (if body = [] then Inl () else Inr (), m)"
  by unfold_locales (auto simp: store_client_defs no_text_def split: option.split)

definition store_wiring :: wiring where
  "store_wiring = \<lparr>wi_bucket = ''b'', wi_queue_url = ''q'', wi_group_id = ''jobs'', wi_presign_ttl = 900, wi_redis_ttl = 86400\<rparr>"


end
