(* ===== verification/Catalog_Journey.thy ===== *)
theory Catalog_Journey
  imports Lifecycle_Properties Job_Journey
begin

text \<open>
  The task catalogue from the worker, which stores it at its start, to the clients of the interfaces, which read it at
  the route \<^verbatim>\<open>/tasks\<close>.
\<close>

text \<open>The route of an interface: the HTTP status and the list of tasks in the document it returns.\<close>

definition document_tasks :: "json \<Rightarrow> json option" where
  "document_tasks v = (case v of JObject ms \<Rightarrow> obj_find ms ''tasks'' | _ \<Rightarrow> None)"

fun listed :: "('d \<Rightarrow> json option) \<Rightarrow> 'd response \<Rightarrow> int \<times> json option" where
  "listed f (Success code d) = (code, f d)"
| "listed f (Failure code error message) = (code, None)"

definition tasks_route :: "implementation \<Rightarrow> 'a backend \<Rightarrow> ('a desk, int \<times> json option) comp" where
  "tasks_route i be =
     (case i of
        Go \<Rightarrow> bindE (go_list be) (\<lambda>x.
          ret (listed (\<lambda>t. case be_unmarshal be t of None \<Rightarrow> None | Some v \<Rightarrow> document_tasks v) x))
      | Python \<Rightarrow> bindE (py_tasks be) (\<lambda>x. ret (listed document_tasks x))
      | Js \<Rightarrow> bindE (js_tasks be) (\<lambda>x. ret (listed document_tasks x)))"

context back_store
begin

lemma tasks_reads:
  assumes "ready (behind d)" and "shown (behind d) ''task_catalog'' = Some content" and "be_unmarshal be content = Some v"
  shows "fst (tasks_route i be d) = Return (200, document_tasks v)"
proof -
  obtain b where "be_get be ''task_catalog'' (behind d) = (Inr (Some content), b)"
    using get_ready [OF assms(1), of "''task_catalog''"] assms(2) by (cases "be_get be ''task_catalog'' (behind d)") simp
  with assms(3) show ?thesis
    by (cases i)
      (simp_all add: tasks_route_def go_list_def go_get_task_catalog_def py_tasks_def py_get_task_catalog_def py_loads_def
        py_respond_def js_tasks_def js_get_task_catalog_def js_parse_def js_respond_def desk_steps)
qed

lemma tasks_absent:
  assumes "ready (behind d)" and "shown (behind d) ''task_catalog'' = None"
  shows "fst (tasks_route i be d) = Return (404, None)"
proof -
  obtain b where "be_get be ''task_catalog'' (behind d) = (Inr None, b)"
    using get_ready [OF assms(1), of "''task_catalog''"] assms(2) by (cases "be_get be ''task_catalog'' (behind d)") simp
  then show ?thesis
    by (cases i)
      (simp_all add: tasks_route_def go_list_def go_get_task_catalog_def py_tasks_def py_get_task_catalog_def
        py_respond_def js_tasks_def js_get_task_catalog_def js_respond_def desk_steps)
qed

end



end
