(* ===== verification/Spec2Isabelle.thy ===== *)
theory Spec2Isabelle
  imports Lifecycle_Properties Job_Journey Interface_Settings Interface_Health Script_Runs
    Interface_Adapters Catalog_Journey
begin

text \<open>
  A verification of yirang-taskforge: a worker that takes job requests from a queue (SQS), runs
  registered programs on input files from an object store (S3), uploads what they produce and keeps a
  status document per job in Redis; the program around it, with its settings, its start and its
  orderly end; and the three web interfaces, in Go, Python and JavaScript, through which clients create jobs
  and look up their status. An interface stores the queued status in Redis and sends the request to the queue; the
  worker takes it from there, and its status documents are what the interfaces serve.

  \<^bold>\<open>Parts and theories.\<close> Paths are below \<^verbatim>\<open>src/\<close>; a definition has the name of the function it models.

  \<^item> \<open>Taskforge_Prelude\<close>: results (\<^verbatim>\<open>std::expected\<close> as a sum, \<open>Inl\<close> the error text), exceptions, sequencing of
    stateful code (\<open>bindE\<close>, \<open>ret\<close>, \<open>finallyE\<close> for destructors at scope exit), C strings, casts to \<^verbatim>\<open>int\<close>,
    decimal printing.
  \<^item> \<open>Utf8_Text\<close>, \<open>Json_Values\<close>, \<open>Json_Text\<close>: UTF-8; the values of Boost.JSON with the operations the code uses;
    a parser and printer that satisfy the contract \<open>json_codec\<close>, so that every hypothesis about the
    library has an instance. The library itself is a parameter.
  \<^item> \<open>Std_Files\<close>: paths and the operations of \<^verbatim>\<open>std::filesystem\<close> and file streams on an explicit file system, where
    access to a path may be refused.
  \<^item> \<open>Message_Validation\<close>: \<^verbatim>\<open>Main/MessageValidation.cpp\<close>. \<open>Task_DLQ\<close>: \<^verbatim>\<open>Main/TaskDLQ.cpp\<close>, with the interface
    \<open>retry_ledger\<close> that the retry logic relies on. \<open>Configurations\<close>: \<^verbatim>\<open>Main/Configurations.cpp\<close>.
    \<open>Task_Executor\<close>: \<^verbatim>\<open>Main/TaskExecutor.cpp\<close>.
  \<^item> \<open>Worker_World\<close>: the world of the worker. Redis, S3, SQS and the process launcher are the parameters in
    \<open>services\<close>, on opaque states; every call that changes something outside is an event of the trace.
  \<^item> \<open>Job_Status\<close>, \<open>Job_Handler\<close>: the handler of \<^verbatim>\<open>Main/TaskForgeWorker.cpp\<close> from \<^verbatim>\<open>handle_message\<close> on, with
    \<^verbatim>\<open>set_job_status\<close>, the temporary directory, downloads, uploads, failure and retry.
  \<^item> \<open>Handler_Safety\<close>, \<open>Handler_Protocol\<close>: which events the handler can produce, and in which order (the
    inductive \<open>job_protocol\<close>). \<open>Job_Store\<close>, \<open>Handler_Store\<close>: what Redis shows, through the interface
    \<open>status_board\<close> that \<open>set_job_status\<close> implements under the contract \<open>redis_store\<close>. \<open>Retry_Chain\<close>: chains of
    retries. \<open>Job_Steps\<close>: single steps.
  \<^item> \<open>Task_Scripts\<close>: the tasks that come with the worker, \<^verbatim>\<open>Main/tasks/wordcount.sh\<close> and \<^verbatim>\<open>Main/tasks/checksum.sh\<close>.
    \<open>Script_Runs\<close>: such a script as the process of \<open>execute\<close>, and the upload of its results.
  \<^item> \<open>Worker_Lifecycle\<close>: \<^verbatim>\<open>start\<close>, \<^verbatim>\<open>stop\<close> and what they call, in \<^verbatim>\<open>Main/TaskForgeWorker.cpp\<close>.
    \<open>Lifecycle_Runs\<close>: \<^verbatim>\<open>Main/main.cpp\<close> as a step relation of the main thread, signals and other threads.
    \<open>Lifecycle_Properties\<close>: what holds of its runs.
  \<^item> \<open>Interface_World\<close>: what the interfaces share, their back end as the parameters in \<open>backend\<close>, and the journal of their
    calls. \<open>Interface_Go\<close>, \<open>Interface_Python\<close>, \<open>Interface_Js\<close>: the services, request checks, routes and error responses
    below \<^verbatim>\<open>Interface/golang\<close>, \<^verbatim>\<open>Interface/python\<close> and \<^verbatim>\<open>Interface/js\<close>. \<open>Interface_Settings\<close>, \<open>Interface_Health\<close>: how they load
    and check their settings, and their readiness routes. \<open>Interface_Properties\<close>: the three against one contract, and against the
    worker's validation.
  \<^item> \<open>Job_System\<close>: interfaces, queue and worker as one step relation (\<open>plant_step\<close>), under the hypotheses of the locale
    \<open>job_system\<close>. \<open>Job_Journey\<close>: a job as its client sees it, over the store contract \<open>back_store\<close>. \<open>Catalog_Journey\<close>: the
    task catalogue from the worker to the clients.
  \<^item> \<open>Interface_Adapters\<close>: the adapters of the interfaces to Redis, S3 and SQS, the back ends and services made of them, and
    the contract \<open>same_commands\<close> between the client libraries.
  \<^item> \<open>Reference_World\<close>: concrete services, files and messages, on which the hypotheses of the properties
    hold and the definitions run.

  \<^bold>\<open>What is shown.\<close> The handler makes its calls in the order of a small protocol, takes every message off the
  queue, launches only registered programs with a capped time limit, reads and writes only below
  the job's own directories and prefix, stores only under the job's identifier, leaves finished jobs alone, and
  ends with the status Redis then shows. A retry is the same request with the next number, no two
  retries share a deduplication identifier, and a chain of retries has at most the configured
  length. The dead-letter queue counts as its interface says. Settings are in range and decide what
  runs. A start that succeeds has everything in place; one that fails ends the program with status 1;
  a signal to a started worker ends it in order with status 0; the stop promise is set at most once. The tasks leave one
  result per visible input and change nothing else, and inside the worker exactly these results are uploaded. The three
  interfaces do the same for the same request; what they send, the worker accepts; in every run of interfaces, queue
  and worker, every message in the queue is a client's request, and a delivery touches only the objects of its own job;
  a client reads, at any interface, \<open>queued\<close> after the creation and then what the worker wrote last; and the list of
  tasks it reads is the worker's whitelist. The interfaces stay interchangeable with the adapters of each put in.

  \<^bold>\<open>Where the code falls short of its intent\<close>, as theorems: an invalid message overwrites the status of a finished
  job (\<open>rejected_message_marks_failed\<close>); a count at the largest \<^verbatim>\<open>int\<close> wraps (\<open>record_failure_overflow\<close>); a signal
  during the start can crash the worker, and one before it is lost (\<open>signal_during_start_crashes\<close>,
  \<open>early_signal_lost\<close>); the JavaScript interface takes a null time limit that the worker then refuses
  (\<open>js_null_timeout_rejected\<close>). The interfaces differ in a time limit of zero (\<open>zero_timeout_differs\<close>), in an empty bucket
  setting (\<open>empty_bucket_differs\<close>), in integer settings with text after the number (\<open>trailing_text_differs\<close>) and in how long a
  readiness check may take (\<open>go_readiness_time\<close>, \<open>js_ready_time\<close>). The task scripts leave out inputs whose name begins with a
  period (\<open>task_scripts_outputs\<close>).

  \<^bold>\<open>Bounds.\<close> No definition of the worker needs fuel: the loops run over lists (attempts, entries, arguments) and
  are structural. \<open>run_main\<close> takes a number of steps of the main thread, and the properties give numbers that
  are enough; the backlog monitor takes the list of readings of its flag. \<open>parse_json\<close> takes the depth limit of the
  library, 32. Integers that the code keeps in \<^verbatim>\<open>int\<close> are cut to 32 bits with \<open>cast_int\<close> where the code casts or
  can overflow; delays and sizes are integers, with a property that they stay in range.

  \<^bold>\<open>What is not modelled.\<close> Log lines (nothing reads them). The inside of Boost, the AWS SDK, the Redis client, the
  thread pool and the operating system, which are parameters. The message queue's own redelivery: a
  delivery is a call of the handler, in any state of the world. Concurrent handlers interleaving inside
  one call. Writes to a file that fail after it was opened. Of the interfaces: the decoding of request bodies by the web
  frameworks, the inside of the client libraries, routing tables and server loops; floating point, which scales a
  fraction of a Go duration and rounds a large number in JavaScript, and the reading of fields by pydantic, all of them
  parameters; the liveness routes, which only report clock readings. Of the task scripts: what
  \<^verbatim>\<open>wc\<close>, \<^verbatim>\<open>tr\<close>, \<^verbatim>\<open>sha256sum\<close> and \<^verbatim>\<open>awk\<close> print, which is a parameter. The deployment and build files, which have no
  behaviour of the program in them.
\<close>

section \<open>The message handler\<close>

lemma handled_events:
  assumes "handle_message sv wk body w = (r, w')" and "e \<in> set (new_events w w')"
  obtains (accepted) message q where "accepted sv body message q" "job_event sv wk message q e"
  | (rejected) message error job content where "json_parse sv body = Inr (JObject message)"
      "validate_request message = Inl error" "get_string message ''job_id'' = Some job" "is_valid_job_id job"
      "e = Redis_stored job content (Some (c_redis_ttl_sec (configurations wk)))"
proof (cases rule: message_cases [of sv body])
  case dropped
  with handle_message_drops assms(1) have "w' = w" by fastforce
  with assms(2) show ?thesis by (simp add: new_events_def)
next
  case (rejected message error)
  from behaves_new_events [OF handle_message_rejects [OF rejected] assms(1)] assms(2) rejected that(2)
  show ?thesis by (auto simp: list_all_iff)
next
  case (accepted message q)
  from behaves_new_events [OF handle_message_behaves [OF accepted] assms(1)] assms(2) accepted that(1)
  show ?thesis by (simp add: list_all_iff accepted_def)
qed

lemma reads_valid_job: "accepted sv body message q \<Longrightarrow> is_valid_job_id (req_job q)"
  by (simp add: accepted_def reads_request_def)

text \<open>
  C1. The life of a delivery. For every accepted message and every state of the world, the calls the
  handler makes, in order, are one of: none (a redelivery of a finished job); one \<open>failed\<close> document (a
  task that is not registered); \<open>running\<close>, downloads, one launch, uploads and a \<open>done\<close> document whose
  result entries are exactly the uploads, after exit code 0; \<open>running\<close>, work and a \<open>failed\<close> document;
  \<open>running\<close>, work, a sleep, one retry message and a \<open>queued\<close> (or \<open>failed\<close>) document with the number of the
  retry; or \<open>running\<close> and work, when a file system exception leaves the handler.
\<close>

theorem handler_protocol:
  assumes "accepted sv body message q" and "handle_message sv wk body w = (r, w')"
  shows "job_protocol sv wk message q r (new_events w w')"
proof -
  have "does (handle_message sv wk body) (job_protocol sv wk message q)"
    using assms(1) by (intro handle_message_does) (simp_all add: accepted_def)
  from does_run [OF this assms(2)] show ?thesis by (auto simp: new_events_def)
qed

theorem handler_protocol_witness:
  "\<exists>w' e. handle_message (ref_services 0) ref_worker ref_body ref_world = (Return (Inr ()), w') \<and>
     new_events ref_world w' =
       (ref_running 0 # ref_work @ [S3_uploaded ''b'' ''out/a.txt'' ''/tmp/taskforge/j1/outputs/a.txt'']) @ [e] \<and>
     job_protocol (ref_services 0) ref_worker ref_message ref_request (Return (Inr ())) (new_events ref_world w')"
  by (rule ref_done_events) (use handler_protocol [OF ref_accepted] in blast)

text \<open>
  C5. The handler takes every message off the queue. Whatever the body and the state of the world, it
  never returns an error to the consumer, and the only exceptions that leave it are file system errors.
\<close>

theorem handler_acknowledges:
  "fst (handle_message sv wk body w) = Return (Inr ()) \<or>
   (\<exists>p. fst (handle_message sv wk body w) = Throw (Filesystem_error p))"
proof -
  obtain r w' where run: "handle_message sv wk body w = (r, w')" by (cases "handle_message sv wk body w")
  have "r = Return (Inr ()) \<or> (\<exists>p. r = Throw (Filesystem_error p))"
  proof (cases rule: message_cases [of sv body])
    case dropped
    with run handle_message_drops show ?thesis by fastforce
  next
    case (rejected message e)
    note b = handle_message_rejects [OF rejected]
    show ?thesis using run behaves_returns [OF b] behaves_throws [OF b] by (cases r) blast+
  next
    case (accepted message q)
    note b = handle_message_behaves [OF accepted]
    show ?thesis using run behaves_returns [OF b] behaves_throws [OF b] by (cases r) (auto simp: is_fs_exn_def)
  qed
  with run show ?thesis by simp
qed

lemma effective_timeout_cap: "effective_timeout limit t \<le> limit"
  by (simp add: effective_timeout_def Let_def)

text \<open>A program the handler launches, with what the message and the whitelist say about it.\<close>

lemma launched_event:
  assumes "handle_message sv wk body w = (r, w')" and "Launched exe args timeout \<in> set (new_events w w')"
  shows "(\<exists>d \<in> set (whitelist (task_executor wk)). exe = resolve_executable (task_executor wk) (executable d)) \<and>
    (\<exists>t. timeout = effective_timeout (default_timeout_sec (task_executor wk)) t) \<and>
    (\<exists>message q root extra. accepted sv body message q \<and> job_root (req_job q) root \<and>
       args = temp_inputs root # temp_outputs root # extra)"
proof -
  from handled_events [OF assms] obtain message q where acc: "accepted sv body message q"
    and ev: "job_event sv wk message q (Launched exe args timeout)" by (cases; blast)
  from ev obtain root d extra t where e: "job_root (req_job q) root" "find_task (task_executor wk) (req_name q) = Some d"
    "exe = resolve_executable (task_executor wk) (executable d)" "args = temp_inputs root # temp_outputs root # extra"
    "timeout = effective_timeout (default_timeout_sec (task_executor wk)) t" by auto
  have "\<exists>d \<in> set (whitelist (task_executor wk)). exe = resolve_executable (task_executor wk) (executable d)"
    using e(2,3) find_in_Some unfolding find_task_def by blast
  with acc e(1,4,5) show ?thesis by blast
qed



text \<open>
  C10. Redis is written only under valid job identifiers, with the configured time to live. Whatever the
  message body, the key of a write is the job identifier of the message, and it is well formed.
\<close>

theorem redis_keys_are_job_ids:
  assumes "handle_message sv wk body w = (r, w')" and "Redis_stored key content ttl \<in> set (new_events w w')"
  shows "is_valid_job_id key \<and> ttl = Some (c_redis_ttl_sec (configurations wk)) \<and>
    (\<exists>message. json_parse sv body = Inr (JObject message) \<and> obj_find message ''job_id'' = Some (JString key))"
  using assms
proof (cases rule: handled_events)
  case (accepted message q)
  then show ?thesis by (auto simp: accepted_def reads_request_def)
next
  case (rejected message error job content)
  then show ?thesis by (auto simp: get_string_Some)
qed

theorem redis_keys_are_job_ids_witness:
  "\<exists>w' content. handle_message (ref_services 1) ref_worker ref_body ref_world = (Return (Inr ()), w') \<and>
     Redis_stored ''j1'' content (Some 3600) \<in> set (new_events ref_world w') \<and> is_valid_job_id ''j1''"
proof -
  obtain w' content where run: "handle_message (ref_services 1) ref_worker ref_body ref_world = (Return (Inr ()), w')"
    and t: "new_events ref_world w' = ref_running 1 # ref_work @
       [Slept 1000, Sqs_sent (print_json (JObject ref_retry)) ''request'' ''j1-retry-1'', Redis_stored ''j1'' content (Some 3600)]"
    by (rule ref_retry_events)
  have s: "Redis_stored ''j1'' content (Some 3600) \<in> set (new_events ref_world w')" by (simp add: t)
  from run s redis_keys_are_job_ids [OF run s] show ?thesis by blast
qed

text \<open>
  C11. Files stay in the job's directories. A download goes to a name without a slash in the input
  directory of the job's own temporary directory, and comes from a bucket and key that the message
  lists; an upload takes a file directly inside the output directory to the configured bucket, under
  the message's prefix followed by the file's name.
\<close>

theorem transfers_confined:
  assumes "accepted sv body message q" and "handle_message sv wk body w = (r, w')"
  shows "(S3_downloaded bucket key path \<in> set (new_events w w') \<longrightarrow>
      (\<exists>root name entry. job_root (req_job q) root \<and> path = path_append (temp_inputs root) name \<and> CHR ''/'' \<notin> set name \<and>
         JObject entry \<in> set (req_downloads q) \<and>
         at_string entry ''bucket'' = Return bucket \<and> at_string entry ''key'' = Return key)) \<and>
    (S3_uploaded bucket key path \<in> set (new_events w w') \<longrightarrow>
      (\<exists>root name. job_root (req_job q) root \<and> path_component name \<and>
         path = c_str (path_append (temp_outputs root) name) \<and>
         bucket = c_str (c_s3_bucket (configurations wk)) \<and> key = c_str (req_prefix q @ name)))"
proof -
  have "list_all (job_event sv wk message q) (new_events w w')"
    using assms(1) by (intro behaves_new_events [OF handle_message_behaves assms(2)]) (simp_all add: accepted_def)
  then have ev: "e \<in> set (new_events w w') \<Longrightarrow> job_event sv wk message q e" for e by (simp add: list_all_iff)
  show ?thesis
    using ev [of "S3_downloaded bucket key path"] ev [of "S3_uploaded bucket key path"] key_filename_no_slash by fastforce
qed

theorem transfers_confined_witness:
  "\<exists>w'. handle_message (ref_services 0) ref_worker ref_body ref_world = (Return (Inr ()), w') \<and>
     S3_downloaded ''b'' ''in/x.txt'' ''/tmp/taskforge/j1/inputs/x.txt'' \<in> set (new_events ref_world w') \<and>
     S3_uploaded ''b'' ''out/a.txt'' ''/tmp/taskforge/j1/outputs/a.txt'' \<in> set (new_events ref_world w') \<and>
     (\<exists>root name. job_root ''j1'' root \<and> ''/tmp/taskforge/j1/inputs/x.txt'' = path_append (temp_inputs root) name \<and>
        CHR ''/'' \<notin> set name) \<and>
     (\<exists>root name. job_root ''j1'' root \<and> path_component name \<and>
        ''/tmp/taskforge/j1/outputs/a.txt'' = c_str (path_append (temp_outputs root) name))"
proof -
  obtain w' e where run: "handle_message (ref_services 0) ref_worker ref_body ref_world = (Return (Inr ()), w')"
    and t: "new_events ref_world w' =
      (ref_running 0 # ref_work @ [S3_uploaded ''b'' ''out/a.txt'' ''/tmp/taskforge/j1/outputs/a.txt'']) @ [e]"
    by (rule ref_done_events)
  have d: "S3_downloaded ''b'' ''in/x.txt'' ''/tmp/taskforge/j1/inputs/x.txt'' \<in> set (new_events ref_world w')"
    and u: "S3_uploaded ''b'' ''out/a.txt'' ''/tmp/taskforge/j1/outputs/a.txt'' \<in> set (new_events ref_world w')"
    by (simp_all add: t ref_work_def)
  have j: "req_job ref_request = ''j1''" by (simp add: ref_request_def)
  show ?thesis
    using run d u transfers_confined [OF ref_accepted run, of "''b''" "''in/x.txt''" "''/tmp/taskforge/j1/inputs/x.txt''"]
      transfers_confined [OF ref_accepted run, of "''b''" "''out/a.txt''" "''/tmp/taskforge/j1/outputs/a.txt''"]
    unfolding j by blast
qed

section \<open>Status and redelivery\<close>

text \<open>
  C3. At-least-once delivery does not run a job twice. When the status document of a job says \<open>done\<close>
  or \<open>failed\<close>, another delivery of any accepted message of that job leaves the whole world as it is, but
  for the connection state of Redis after one read: nothing is stored, downloaded, launched, uploaded or
  published, and no file changes.
\<close>

theorem redelivery_has_no_effect:
  assumes "redis_store sv view up" and "up (redis w)" and "accepted sv body message q"
    and "terminal_status (status_in sv (view (redis w)) (req_job q))"
  shows "\<exists>r. handle_message sv wk body w = (Return (Inr ()), w\<lparr>redis := r\<rparr>) \<and> view r = view (redis w)"
  using redis_store.redelivery_skipped [OF assms] by blast

theorem redelivery_has_no_effect_witness:
  "\<exists>w'. handle_message (ref_services 0) ref_worker ref_body ref_world = (Return (Inr ()), w') \<and>
     handle_message (ref_services 0) ref_worker ref_body w' = (Return (Inr ()), w')"
proof -
  obtain w' e where run: "handle_message (ref_services 0) ref_worker ref_body ref_world = (Return (Inr ()), w')"
    and t: "new_events ref_world w' =
      (ref_running 0 # ref_work @ [S3_uploaded ''b'' ''out/a.txt'' ''/tmp/taskforge/j1/outputs/a.txt'']) @ [e]"
    and e: "stores (ref_services 0) ref_worker (req_job ref_request) ''done'' ref_done_updates e"
    by (rule ref_done_events)
  have "utf8_valid ''done''" by (rule utf8_valid_ascii) (simp add: ascii_def)
  then have "status_in (ref_services 0) (redis w') (req_job ref_request) = Some ''done''"
    using ref_board.handled_status [OF TrueI ref_accepted run t e _ ref_done_good] by simp
  then have "terminal_status (status_in (ref_services 0) (redis w') (req_job ref_request))" by (simp add: terminal_status_def)
  from redelivery_has_no_effect [OF ref_board.redis_store_axioms TrueI ref_accepted this, of ref_worker] run
  show ?thesis by auto
qed

text \<open>
  C7. After a delivery, Redis shows the status the handler wrote last, if Redis answers and the written
  fields are well formed (their strings are UTF-8).
\<close>

theorem handled_status_visible:
  assumes "redis_store sv view up" and "up (redis w)" and "accepted sv body message q"
    and "handle_message sv wk body w = (r, w')" and "new_events w w' = es @ [e]"
    and "stores sv wk (req_job q) s us e" and "utf8_valid s" and "good_updates us"
  shows "status_in sv (view (redis w')) (req_job q) = Some s"
  by (rule redis_store.handled_status [OF assms])

theorem handled_status_visible_witness:
  "\<exists>w'. handle_message (ref_services 0) ref_worker ref_body ref_world = (Return (Inr ()), w') \<and>
     status_in (ref_services 0) (redis w') ''j1'' = Some ''done''"
proof -
  obtain w' e where run: "handle_message (ref_services 0) ref_worker ref_body ref_world = (Return (Inr ()), w')"
    and t: "new_events ref_world w' =
      (ref_running 0 # ref_work @ [S3_uploaded ''b'' ''out/a.txt'' ''/tmp/taskforge/j1/outputs/a.txt'']) @ [e]"
    and e: "stores (ref_services 0) ref_worker (req_job ref_request) ''done'' ref_done_updates e"
    by (rule ref_done_events)
  have "utf8_valid ''done''" by (rule utf8_valid_ascii) (simp add: ascii_def)
  from handled_status_visible [OF ref_board.redis_store_axioms TrueI ref_accepted run t e this ref_done_good] run
  show ?thesis by (auto simp: ref_request_def)
qed

text \<open>
  C8. A task that is not in the whitelist fails at once. If the job has no terminal status, the handler
  writes one \<open>failed\<close> document that names the task, drops the job's dead letter, and does nothing else:
  no retry is published and nothing is launched.
\<close>

theorem unregistered_task_fails:
  assumes "accepted sv body message q" and "find_task (task_executor wk) (req_name q) = None"
    and "redis_get sv (req_job q) (redis w) = (res, r)"
    and "\<forall>content. res = Inr content \<longrightarrow> \<not> terminal_document sv content"
  shows "\<exists>w' e. handle_message sv wk body w = (Return (Inr ()), w') \<and> new_events w w' = [e] \<and>
    stores sv wk (req_job q) ''failed''
      (obj_set ''failure_reason'' (JString (''task ['' @ req_name q @ ''] is not registered in the whitelist''))
        (contract_fields message)) e \<and>
    fs w' = dlq_remove (task_dlq wk) (req_job q) (fs w)"
  by (rule unregistered_events [OF assms])

theorem unregistered_task_fails_witness:
  "\<exists>w' e. handle_message (ref_services 0) (ref_worker\<lparr>task_executor := \<lparr>whitelist = [], root_path = ''/app'', default_timeout_sec = 30\<rparr>\<rparr>)
       ref_body ref_world = (Return (Inr ()), w') \<and> new_events ref_world w' = [e]"
proof -
  let ?wk = "ref_worker\<lparr>task_executor := \<lparr>whitelist = [], root_path = ''/app'', default_timeout_sec = 30\<rparr>\<rparr>"
  have f: "find_task (task_executor ?wk) (req_name ref_request) = None" by (simp add: find_task_def)
  have g: "redis_get (ref_services 0) (req_job ref_request) (redis ref_world) = (Inl ''nil'', redis ref_world)"
    by (simp add: ref_world_def)
  from unregistered_task_fails [OF ref_accepted f g] show ?thesis by blast
qed

text \<open>
  C9. A message that fails validation is recorded under its job identifier. If the identifier is well
  formed and Redis answers, the document of the job says \<open>failed\<close> afterwards, whatever it said before,
  and nothing else happens; the check for a terminal status is not made on this path.
\<close>

theorem rejected_message_marks_failed:
  assumes "redis_store sv view up" and "up (redis w)" and "json_parse sv body = Inr (JObject message)"
    and "validate_request message = Inl error" and "obj_find message ''job_id'' = Some (JString job)"
    and "is_valid_job_id job" and "utf8_valid error"
  shows "\<exists>w' e. handle_message sv wk body w = (Return (Inr ()), w') \<and> new_events w w' = [e] \<and>
    fs w' = fs w \<and> status_in sv (view (redis w')) job = Some ''failed''"
proof -
  let ?us = "obj_set ''failure_reason'' (JString error) (contract_fields message)"
  obtain x w1 where set: "set_job_status sv (configurations wk) job ''failed'' ?us w = (x, w1)"
    by (cases "set_job_status sv (configurations wk) job ''failed'' ?us w")
  from does_run [OF does_set_job_status set] obtain e where
    e: "trace w1 = trace w @ [e]" "x = Return ()" "stores sv wk job ''failed'' ?us e" by auto
  have run: "handle_message sv wk body w = (Return (Inr ()), w1)"
    using assms(3-6) set e(2) valid_job_id_c_str [OF assms(6)]
    by (simp add: handle_message_def reject_message_def get_string_def bindE_def ret_def)
  have fs: "fs w1 = fs w"
    using set by (auto simp: set_job_status_def current_utc_timestamp_def bindE_def call_redis_get_def
        call_redis_set_def system_clock_now_def ret_def emit_def split: prod.splits)
  have "json_toolkit sv" using assms(1) by (simp add: redis_store_def)
  then have "json_doc_ok (JObject message)"
    using json_codec.parse_ok [of "json_parse sv" "json_serialize sv", OF _ assms(3)] by (simp add: json_toolkit_def)
  then have good: "good_updates ?us"
    using assms(7) by (intro good_updates_set good_updates_contract) (simp_all add: utf8_valid_ascii ascii_def)
  have t: "new_events w w1 = [] @ [e]" using e(1) by (simp add: new_events_def)
  have "utf8_valid ''failed''" by (rule utf8_valid_ascii) (simp add: ascii_def)
  from redis_store.written_status [OF assms(1,2) run t e(3) valid_job_id_utf8 [OF assms(6)] this good] run t fs
  show ?thesis by simp
qed

theorem rejected_message_marks_failed_witness:
  "\<exists>w' w'' e. handle_message (ref_services 0) ref_worker ref_body ref_world = (Return (Inr ()), w') \<and>
     status_in (ref_services 0) (redis w') ''j1'' = Some ''done'' \<and>
     handle_message (ref_services 0) ref_worker (print_json (JObject [(''job_id'', JString ''j1'')])) w' = (Return (Inr ()), w'') \<and>
     status_in (ref_services 0) (redis w'') ''j1'' = Some ''failed''"
proof -
  let ?m = "[(''job_id'', JString ''j1'')]"
  obtain w' e where run: "handle_message (ref_services 0) ref_worker ref_body ref_world = (Return (Inr ()), w')"
    and t: "new_events ref_world w' =
      (ref_running 0 # ref_work @ [S3_uploaded ''b'' ''out/a.txt'' ''/tmp/taskforge/j1/outputs/a.txt'']) @ [e]"
    and e: "stores (ref_services 0) ref_worker (req_job ref_request) ''done'' ref_done_updates e"
    by (rule ref_done_events)
  have u: "utf8_valid ''done''" by (rule utf8_valid_ascii) (simp add: ascii_def)
  have d: "status_in (ref_services 0) (redis w') ''j1'' = Some ''done''"
    using ref_board.handled_status [OF TrueI ref_accepted run t e u ref_done_good] by (simp add: ref_request_def)
  have p: "json_parse (ref_services 0) (print_json (JObject ?m)) = Inr (JObject ?m)"
    by (simp add: parse_print_json json_doc_ok_def)
  have v: "validate_request ?m = Inl ''mode is required and must be a string''" and j: "is_valid_job_id ''j1''"
    and f: "obj_find ?m ''job_id'' = Some (JString ''j1'')"
    by (simp_all add: validate_request_def get_string_def obj_find_def is_valid_job_id_def job_id_max_length_def job_id_char_def)
  have "utf8_valid ''mode is required and must be a string''" by (rule utf8_valid_ascii) (simp add: ascii_def)
  from rejected_message_marks_failed [where w = w' and wk = ref_worker, OF ref_board.redis_store_axioms TrueI p v f j this] run d
  show ?thesis by blast
qed

section \<open>Retries\<close>

text \<open>
  C6. A retry is the same request with the next number. The text of a published retry, delivered to a
  worker, is accepted; it asks for the same job, task, arguments, time limit, inputs and output prefix;
  its number is at most the configured maximum and greater than the number of the message it retries and
  than zero (or is the smallest \<^verbatim>\<open>int\<close>, after an overflow); the deduplication identifier is made of
  job and number.
\<close>

theorem retry_is_same_request:
  assumes "json_toolkit sv" and "accepted sv body message q" and "handle_message sv wk body w = (r, w')"
    and "Sqs_sent body' gid dedup \<in> set (new_events w w')"
  shows "\<exists>message' q' n. accepted sv body' message' q' \<and> same_request q q' \<and> inbound_try_count message' = n \<and>
    n \<le> max_retry_count (task_dlq wk) \<and> (max 0 (inbound_try_count message) < n \<or> n = int_min) \<and>
    dedup = c_str (dedup_id (req_job q) n)"
proof -
  from sent_is_retry [OF assms(2-4)] obtain n where call: "retry_call sv wk message (req_job q) n body' gid dedup" .
  then have "attempt_number (inbound_try_count message) n" "n \<le> max_retry_count (task_dlq wk)"
    "dedup = c_str (dedup_id (req_job q) n)"
    by (simp_all add: retry_call_def)
  with retry_delivered [OF assms(1,2) call] attempt_number_cases inbound_range(2) show ?thesis by metis
qed

theorem retry_is_same_request_witness:
  "\<exists>w' message' q'. handle_message (ref_services 1) ref_worker ref_body ref_world = (Return (Inr ()), w') \<and>
     Sqs_sent (print_json (JObject ref_retry)) ''request'' ''j1-retry-1'' \<in> set (new_events ref_world w') \<and>
     accepted (ref_services 1) (print_json (JObject ref_retry)) message' q' \<and> same_request ref_request q'"
proof -
  obtain w' content where run: "handle_message (ref_services 1) ref_worker ref_body ref_world = (Return (Inr ()), w')"
    and t: "new_events ref_world w' = ref_running 1 # ref_work @
       [Slept 1000, Sqs_sent (print_json (JObject ref_retry)) ''request'' ''j1-retry-1'', Redis_stored ''j1'' content (Some 3600)]"
    by (rule ref_retry_events)
  have s: "Sqs_sent (print_json (JObject ref_retry)) ''request'' ''j1-retry-1'' \<in> set (new_events ref_world w')" by (simp add: t)
  from run s retry_is_same_request [OF ref_services_toolkit ref_accepted run s] show ?thesis by blast
qed



section \<open>From the settings to the launched program\<close>

text \<open>
  C32. The settings decide what runs. Take any settings file and command line, a worker that was started with
  them, and any message it handles, in any state of the world: a program that it launches is the executable
  of an entry of the file's whitelist, and its time limit is positive and at most the configured one.
\<close>

theorem settings_decide_what_runs:
  assumes "c = make_configurations tk src args" and "start pl c p = (Return (Inr ()), p')" and "\<not> promised (members p)"
    and "worker_of c (members p') = Some wk" and "handle_message (pl_services pl) wk body w = (r, w')"
    and "Launched exe argv timeout \<in> set (new_events w w')"
  shows "\<exists>entries d. get_array (file_settings tk src (config_path_of args)) ''task_whitelist'' = Some entries \<and>
    d \<in> set (List.map_filter whitelist_entry entries) \<and> exe = resolve_executable (task_executor wk) (executable d) \<and>
    0 < timeout \<and> timeout \<le> c_default_timeout_sec c"
proof -
  have wk: "task_executor wk = \<lparr>whitelist = c_task_whitelist c, root_path = c_root_path c, default_timeout_sec = c_default_timeout_sec c\<rparr>"
    using start_ok(2) [OF assms(2,3)] assms(4) by (auto simp: started_members_def worker_of_def parts_of_def)
  from launched_event [OF assms(5,6)] obtain d t where d: "d \<in> set (c_task_whitelist c)"
    "exe = resolve_executable (task_executor wk) (executable d)" and t: "timeout = effective_timeout (c_default_timeout_sec c) t"
    by (auto simp: wk)
  have "0 < c_default_timeout_sec c" using make_configurations_in_range assms(1) by (auto simp: in_range_def)
  from effective_timeout_bounds [OF this] have "0 < timeout" "timeout \<le> c_default_timeout_sec c" by (simp_all add: t)
  moreover from d(1) obtain entries where "get_array (file_settings tk src (config_path_of args)) ''task_whitelist'' = Some entries"
    "d \<in> set (List.map_filter whitelist_entry entries)"
    unfolding assms(1) make_configurations_whitelist
    by (cases "get_array (file_settings tk src (config_path_of args)) ''task_whitelist''") auto
  ultimately show ?thesis using d(2) by blast
qed

text \<open>A settings file, its source and a command line that lead to the worker of the examples.\<close>

definition ref_settings :: jobject where
  "ref_settings =
     [(''s3_bucket'', JString ''b''), (''sqs_request_queue_url'', JString ''q''), (''dlq_path'', JString ''/dlq''),
      (''task_whitelist'', JArray [JObject [(''name'', JString ''wc''), (''executable'', JString ''wc.sh'')]])]"

definition ref_source :: config_source where
  "ref_source = \<lparr>file_opens = (\<lambda>p. p = ''/app/cfg.json''), file_bytes = (\<lambda>p. Inr (print_json (JObject ref_settings))),
     bytes_to_string = id, log_information = 4\<rparr>"

definition ref_args :: argument_parser where
  "ref_args = \<lparr>program_folder = ''/app'', arg_string = (\<lambda>n. if n = ''--config_path'' then Some ''/app/cfg.json'' else None),
     arg_int = (\<lambda>n. None)\<rparr>"

lemma ref_file_settings: "file_settings ref_toolkit ref_source (config_path_of ref_args) = ref_settings"
proof -
  have "json_doc_ok (JObject ref_settings)" by (simp add: json_doc_ok_def ref_settings_def)
  from parse_print_json [OF this] show ?thesis
    by (simp add: file_settings_def ref_source_def config_path_of_def ref_args_def ref_toolkit_def ref_settings_def)
qed

lemma ref_configuration: "make_configurations ref_toolkit ref_source ref_args = ref_config"
  unfolding make_configurations_settings ref_file_settings
  by (simp add: ref_args_def ref_source_def ref_config_def ref_worker_def parse_arguments_def apply_settings_def
      validate_configuration_def default_configurations_def config_path_of_def read_string_def read_int_def read_long_def
      get_string_def get_array_def obj_find_def ref_settings_def c_str_def override_def)

theorem settings_decide_what_runs_witness:
  "\<exists>w'. handle_message (ref_services 0) ref_worker ref_body ref_world = (Return (Inr ()), w') \<and>
     Launched ''/app/wc.sh'' [''/tmp/taskforge/j1/inputs'', ''/tmp/taskforge/j1/outputs''] 30 \<in> set (new_events ref_world w') \<and>
     (\<exists>entries d. get_array ref_settings ''task_whitelist'' = Some entries \<and>
        d \<in> set (List.map_filter whitelist_entry entries) \<and> ''/app/wc.sh'' = resolve_executable (task_executor ref_worker) (executable d))"
proof -
  obtain w' e where run: "handle_message (ref_services 0) ref_worker ref_body ref_world = (Return (Inr ()), w')"
    and t: "new_events ref_world w' =
      (ref_running 0 # ref_work @ [S3_uploaded ''b'' ''out/a.txt'' ''/tmp/taskforge/j1/outputs/a.txt'']) @ [e]"
    by (rule ref_done_events)
  have l: "Launched ''/app/wc.sh'' [''/tmp/taskforge/j1/inputs'', ''/tmp/taskforge/j1/outputs''] 30 \<in> set (new_events ref_world w')"
    by (simp add: t ref_work_def)
  obtain p' where st: "start ref_platform ref_config (fresh ref_world) = (Return (Inr ()), p')" using ref_start by blast
  have np: "\<not> promised (members (fresh ref_world))" by (simp add: fresh_def new_members_def)
  have wk: "worker_of ref_config (members p') = Some ref_worker"
    using start_ok(2) [OF st np]
    by (simp add: started_members_def worker_of_def parts_of_def ref_config_def ref_worker_def default_configurations_def)
  have sv: "handle_message (pl_services ref_platform) ref_worker ref_body ref_world = (Return (Inr ()), w')"
    using run by (simp add: ref_platform_def)
  from settings_decide_what_runs [OF ref_configuration [symmetric] st np wk sv l] run l
  show ?thesis unfolding ref_file_settings by blast
qed

end
